(* ===== verification/Prelude.thy ===== *)
theory Prelude
  imports Main "HOL-Library.Word" "HOL-Library.Char_ord" "HOL-Library.Sublist"
begin

text \<open>
  Shared ground of the development: the Go types the components use and the generic
  lemmas their proofs share.

  \<^item> A Go \<open>string\<close> is a sequence of bytes, here \<open>string\<close> (a list of 8-bit
    characters); the functions of the packages \<open>strings\<close> and \<open>strconv\<close> that the
    program calls are defined on it.  Case conversion is the ASCII one: the program applies it to
    identifiers, operators, header names and e-mail domains.
  \<^item> A \<open>time.Time\<close> is the number of nanoseconds since the Unix epoch, a
    \<open>time.Duration\<close> a number of nanoseconds; \<open>None\<close> stands for the zero
    \<open>time.Time\<close> where the code asks \<open>IsZero\<close>.  The clock is an argument of every
    operation that reads it.
  \<^item> A Go \<open>map\<close> is a partial function; an operation that ranges over one takes the
    order of its keys as an argument, since Go leaves it open.
\<close>

named_theorems go_simps
  \<open>evaluation rules of the Go library functions the components call\<close>

type_synonym gotime = int
type_synonym duration = int
type_synonym bytes = "8 word list"

subsection \<open>Durations\<close>

definition nanosecond :: duration where "nanosecond = 1"
definition millisecond :: duration where "millisecond = 1000000"
definition second :: duration where "second = 1000000000"
definition minute :: duration where "minute = 60 * second"
definition hour :: duration where "hour = 60 * minute"

lemmas duration_defs [go_simps] =
  nanosecond_def millisecond_def second_def minute_def hour_def

subsection \<open>Strings\<close>

text \<open>\<open>strings.HasPrefix\<close>, \<open>strings.HasSuffix\<close>, \<open>strings.Contains\<close>.\<close>

definition has_prefix :: "string \<Rightarrow> string \<Rightarrow> bool" where
  "has_prefix s p \<longleftrightarrow> take (length p) s = p"

definition has_suffix :: "string \<Rightarrow> string \<Rightarrow> bool" where
  "has_suffix s p \<longleftrightarrow> has_prefix (rev s) (rev p)"

fun str_contains :: "string \<Rightarrow> string \<Rightarrow> bool" where
  "str_contains [] p = (p = [])"
| "str_contains (c # cs) p = (has_prefix (c # cs) p \<or> str_contains cs p)"

lemma has_prefix_iff: "has_prefix s p \<longleftrightarrow> prefix p s"
  unfolding has_prefix_def prefix_def by (metis append_take_drop_id append_eq_conv_conj)

lemma has_suffix_iff: "has_suffix s p \<longleftrightarrow> suffix p s"
  by (simp add: has_suffix_def has_prefix_iff suffix_to_prefix)

lemma str_contains_iff: "str_contains s p \<longleftrightarrow> (\<exists>u v. s = u @ p @ v)"
proof (induction s)
  case Nil
  then show ?case by simp
next
  case (Cons c cs)
  have "(\<exists>u v. c # cs = u @ p @ v) \<longleftrightarrow> (\<exists>v. c # cs = p @ v) \<or> (\<exists>u v. cs = u @ p @ v)"
    by (metis append_Cons append_Nil list.exhaust list.sel(3))
  with Cons show ?case by (simp add: has_prefix_iff prefix_def)
qed

text \<open>\<open>strings.ToUpper\<close> and \<open>strings.ToLower\<close> on ASCII.\<close>

definition upper_char :: "char \<Rightarrow> char" where
  "upper_char c = (if 97 \<le> (of_char c :: nat) \<and> (of_char c :: nat) \<le> 122
     then char_of (of_char c - 32 :: nat) else c)"

definition lower_char :: "char \<Rightarrow> char" where
  "lower_char c = (if 65 \<le> (of_char c :: nat) \<and> (of_char c :: nat) \<le> 90
     then char_of (of_char c + 32 :: nat) else c)"

definition to_upper :: "string \<Rightarrow> string" where "to_upper s = map upper_char s"
definition to_lower :: "string \<Rightarrow> string" where "to_lower s = map lower_char s"

text \<open>\<open>strings.TrimSpace\<close>: the white space of Unicode, in its UTF-8 encoding.\<close>

definition space_runes :: "string list" where
  "space_runes =
     [[char_of (9::nat)], [char_of (10::nat)], [char_of (11::nat)], [char_of (12::nat)],
      [char_of (13::nat)], [char_of (32::nat)],
      [char_of (194::nat), char_of (133::nat)], [char_of (194::nat), char_of (160::nat)],
      [char_of (225::nat), char_of (154::nat), char_of (128::nat)]] @
     map (\<lambda>k. [char_of (226::nat), char_of (128::nat), char_of (k::nat)])
       [128, 129, 130, 131, 132, 133, 134, 135, 136, 137, 138, 168, 169, 175] @
     [[char_of (226::nat), char_of (129::nat), char_of (159::nat)],
      [char_of (227::nat), char_of (128::nat), char_of (128::nat)]]"

fun trim_left_with :: "string list \<Rightarrow> nat \<Rightarrow> string \<Rightarrow> string" where
  "trim_left_with rs 0 s = s"
| "trim_left_with rs (Suc n) s =
     (case find (has_prefix s) rs of
        None \<Rightarrow> s
      | Some r \<Rightarrow> trim_left_with rs n (drop (length r) s))"

definition trim_left :: "string \<Rightarrow> string" where
  "trim_left s = trim_left_with space_runes (length s) s"

definition trim_right :: "string \<Rightarrow> string" where
  "trim_right s = rev (trim_left_with (map rev space_runes) (length s) (rev s))"

definition trim_space :: "string \<Rightarrow> string" where
  "trim_space s = trim_right (trim_left s)"

text \<open>\<open>strings.Split\<close> with a one-byte separator.\<close>

fun split_on :: "char \<Rightarrow> string \<Rightarrow> string list" where
  "split_on d [] = [[]]"
| "split_on d (c # cs) =
     (if c = d then [] # split_on d cs
      else (case split_on d cs of [] \<Rightarrow> [[c]] | w # ws \<Rightarrow> (c # w) # ws))"

lemma split_on_nonempty [simp]: "split_on d s \<noteq> []"
  by (cases s) (auto split: list.splits)

lemma split_on_no_sep: "d \<notin> set s \<Longrightarrow> split_on d s = [s]"
  by (induction s) auto

text \<open>Decimal formatting, the verb \<open>%d\<close> of \<open>fmt\<close>.\<close>

fun nat_digits :: "nat \<Rightarrow> string" where
  "nat_digits n = (if n < 10 then [char_of (48 + n)]
     else nat_digits (n div 10) @ [char_of (48 + n mod 10)])"

declare nat_digits.simps [simp del]

definition itoa :: "int \<Rightarrow> string" where
  "itoa i = (if i < 0 then CHR ''-'' # nat_digits (nat (- i)) else nat_digits (nat i))"

definition is_digit :: "char \<Rightarrow> bool" where
  "is_digit c \<longleftrightarrow> 48 \<le> (of_char c :: nat) \<and> (of_char c :: nat) \<le> 57"

lemma is_digit_char_of: "n < 10 \<Longrightarrow> is_digit (char_of (48 + n :: nat))"
  by (simp add: is_digit_def)

lemma char_of_digit_inj:
  assumes "m < 10" "n < 10" "(char_of (48 + m) :: char) = char_of (48 + n :: nat)"
  shows "m = (n :: nat)"
proof -
  have "(of_char (char_of (48 + m :: nat)) :: nat) = of_char (char_of (48 + n :: nat))"
    using assms(3) by simp
  with assms(1,2) show ?thesis by simp
qed

lemma nat_digits_nonempty [simp]: "nat_digits n \<noteq> []"
  by (subst nat_digits.simps) simp

lemma nat_digits_digits: "c \<in> set (nat_digits n) \<Longrightarrow> is_digit c"
proof (induction n rule: nat_digits.induct)
  case (1 n)
  show ?case
  proof (cases "n < 10")
    case True
    with 1 show ?thesis by (simp add: nat_digits.simps [of n] is_digit_char_of)
  next
    case False
    with 1 show ?thesis
      by (auto simp: nat_digits.simps [of n] is_digit_char_of)
  qed
qed

lemma nat_digits_inj: "nat_digits m = nat_digits n \<Longrightarrow> m = n"
proof (induction m arbitrary: n rule: nat_digits.induct)
  case (1 m)
  show ?case
  proof (cases "m < 10")
    case True
    with 1(2) have "n < 10"
      using nat_digits_nonempty [of "n div 10"]
      by (cases "n < 10") (auto simp: nat_digits.simps [of m] nat_digits.simps [of n])
    with True 1(2) show ?thesis
      by (auto simp: nat_digits.simps [of m] nat_digits.simps [of n] dest: char_of_digit_inj)
  next
    case False
    have n: "\<not> n < 10"
    proof
      assume "n < 10"
      with False 1(2) show False
        using nat_digits_nonempty [of "m div 10"]
        by (auto simp: nat_digits.simps [of m] nat_digits.simps [of n])
    qed
    with False 1(2) have "nat_digits (m div 10) = nat_digits (n div 10)"
      and "(char_of (48 + m mod 10) :: char) = char_of (48 + n mod 10)"
      by (simp_all add: nat_digits.simps [of m] nat_digits.simps [of n])
    then have "m div 10 = n div 10" and "m mod 10 = n mod 10"
      using 1(1) [OF False] char_of_digit_inj [of "m mod 10" "n mod 10"] by simp_all
    then show ?thesis by (metis div_mult_mod_eq)
  qed
qed

lemma minus_not_digit: "\<not> is_digit (CHR ''-'')"
  by (simp add: is_digit_def)

lemma itoa_inj: "itoa i = itoa j \<Longrightarrow> i = j"
proof -
  assume eq: "itoa i = itoa j"
  have minus: "nat_digits n \<noteq> CHR ''-'' # s" "CHR ''-'' # s \<noteq> nat_digits n" for n s
    using nat_digits_digits [of "CHR ''-''" n] minus_not_digit list.set_intros(1)
    by metis+
  show ?thesis
  proof (cases "i < 0")
    case True
    with eq minus have "j < 0" by (auto simp: itoa_def split: if_splits)
    with True eq have "nat (- i) = nat (- j)" by (auto simp: itoa_def intro: nat_digits_inj)
    with True \<open>j < 0\<close> show ?thesis by simp
  next
    case False
    with eq minus have "\<not> j < 0"
      by (auto simp: itoa_def split: if_splits)
    with False eq have "nat i = nat j" by (auto simp: itoa_def intro: nat_digits_inj)
    with False \<open>\<not> j < 0\<close> show ?thesis by simp
  qed
qed

lemma itoa_chars: "c \<in> set (itoa i) \<Longrightarrow> c = CHR ''-'' \<or> is_digit c"
  by (auto simp: itoa_def split: if_splits dest: nat_digits_digits)

text \<open>Bytes of a string and the lower-case hexadecimal text of bytes (\<open>encoding/hex\<close>).\<close>

definition to_bytes :: "string \<Rightarrow> bytes" where
  "to_bytes s = map of_char s"

definition hex_digit :: "nat \<Rightarrow> char" where
  "hex_digit n = (if n < 10 then char_of (48 + n) else char_of (87 + n))"

definition hex_byte :: "8 word \<Rightarrow> string" where
  "hex_byte b = [hex_digit (unat b div 16), hex_digit (unat b mod 16)]"

definition hex_encode :: "bytes \<Rightarrow> string" where
  "hex_encode bs = concat (map hex_byte bs)"

lemma of_char_word_inj: "(of_char c :: 8 word) = of_char d \<Longrightarrow> c = d"
proof -
  assume eq: "(of_char c :: 8 word) = of_char d"
  have lt: "(of_char x :: nat) < 256" for x by simp
  have w: "(of_char x :: 8 word) = of_nat (of_char x)" for x :: char
    by (simp add: of_nat_of_char)
  have "unat (of_char x :: 8 word) = of_char x" for x :: char
    using lt [of x] by (simp add: w unat_of_nat)
  with eq have "(of_char c :: nat) = of_char d" by metis
  then show "c = d" by simp
qed

lemma to_bytes_inj: "to_bytes s = to_bytes t \<Longrightarrow> s = t"
  by (metis inj_onI inj_map_eq_map of_char_word_inj to_bytes_def)

lemma length_to_bytes [simp]: "length (to_bytes s) = length s"
  by (simp add: to_bytes_def)

lemma hex_digit_inj:
  assumes "m < 16" "n < 16" "hex_digit m = hex_digit n"
  shows "m = n"
proof -
  let ?v = "\<lambda>k. if k < 10 then 48 + k else 87 + k :: nat"
  have h: "hex_digit k = char_of (?v k)" for k by (simp add: hex_digit_def)
  have "?v m < 256" "?v n < 256" using assms(1,2) by auto
  moreover have "(of_char (char_of (?v m)) :: nat) = of_char (char_of (?v n))"
    using assms(3) unfolding h by simp
  ultimately have "?v m = ?v n" by simp
  with assms(1,2) show ?thesis by (auto split: if_splits)
qed

lemma hex_byte_inj: "hex_byte a = hex_byte b \<Longrightarrow> a = b"
proof -
  assume eq: "hex_byte a = hex_byte b"
  have lt: "unat x < 256" for x :: "8 word"
    using unsigned_less [of x] by simp
  have "unat a div 16 = unat b div 16" "unat a mod 16 = unat b mod 16"
    using eq lt [of a] lt [of b] by (auto simp: hex_byte_def intro!: hex_digit_inj)
  then have "unat a = unat b" by (metis div_mult_mod_eq)
  then show "a = b" by (rule unsigned_word_eqI)
qed

lemma length_hex_encode [simp]: "length (hex_encode bs) = 2 * length bs"
  by (induction bs) (simp_all add: hex_encode_def hex_byte_def)

lemma hex_encode_inj: "hex_encode a = hex_encode b \<Longrightarrow> a = b"
proof (induction a arbitrary: b)
  case Nil
  then show ?case by (cases b) (simp_all add: hex_encode_def hex_byte_def)
next
  case (Cons x xs)
  then obtain y ys where b: "b = y # ys"
    by (cases b) (simp_all add: hex_encode_def hex_byte_def)
  with Cons.prems have "hex_byte x = hex_byte y" "hex_encode xs = hex_encode ys"
    by (simp_all add: hex_encode_def hex_byte_def)
  with b Cons.IH show ?case by (auto dest: hex_byte_inj)
qed

lemma hex_encode_chars:
  "c \<in> set (hex_encode bs) \<Longrightarrow> c \<in> set ''0123456789abcdef''"
proof -
  have hd: "hex_digit n \<in> set ''0123456789abcdef''" if "n < 16" for n
  proof -
    have "\<forall>k \<in> set [0..<16]. hex_digit k \<in> set ''0123456789abcdef''"
      by code_simp
    with that show ?thesis by simp
  qed
  have lt: "unat x < 256" for x :: "8 word"
    using unsigned_less [of x] by simp
  assume "c \<in> set (hex_encode bs)"
  then obtain b where "c \<in> set (hex_byte b)" by (auto simp: hex_encode_def)
  then show ?thesis
    using hd [of "unat b div 16"] hd [of "unat b mod 16"] lt [of b]
    unfolding hex_byte_def by auto
qed

text \<open>The verb \<open>%v\<close> on a slice of strings, and the placeholder of an unused string.\<close>

fun join_with :: "string \<Rightarrow> string list \<Rightarrow> string" where
  "join_with d [] = []"
| "join_with d [s] = s"
| "join_with d (s # t # ss) = s @ d @ join_with d (t # ss)"

definition fmt_slice :: "string list \<Rightarrow> string" where
  "fmt_slice ss = ''['' @ join_with '' '' ss @ '']''"

subsection \<open>Integer division\<close>

text \<open>Go's \<open>/\<close> and \<open>%\<close> truncate towards zero.\<close>

definition go_div :: "int \<Rightarrow> int \<Rightarrow> int" where
  "go_div a b = sgn a * sgn b * (\<bar>a\<bar> div \<bar>b\<bar>)"

definition go_mod :: "int \<Rightarrow> int \<Rightarrow> int" where
  "go_mod a b = a - b * go_div a b"

lemma go_div_nonneg: "0 \<le> a \<Longrightarrow> 0 < b \<Longrightarrow> go_div a b = a div b"
  by (cases "a = 0") (simp_all add: go_div_def)

lemma go_mod_nonneg: "0 \<le> a \<Longrightarrow> 0 < b \<Longrightarrow> go_mod a b = a mod b"
  by (simp add: go_mod_def go_div_nonneg minus_mult_div_eq_mod)

subsection \<open>Bounded histories\<close>

text \<open>The last \<open>n\<close> elements of a list: the slice \<open>xs[len(xs)-n:]\<close> of the code.\<close>

definition last_n :: "nat \<Rightarrow> 'a list \<Rightarrow> 'a list" where
  "last_n n xs = drop (length xs - n) xs"

lemma length_last_n [simp]: "length (last_n n xs) = min n (length xs)"
  by (simp add: last_n_def)

lemma last_n_last_n_snoc: "last_n n (last_n n xs @ [x]) = last_n n (xs @ [x])"
  by (cases "n \<le> length xs") (auto simp: last_n_def Suc_diff_le)

lemma set_last_n_subset: "set (last_n n xs) \<subseteq> set xs"
  by (simp add: last_n_def set_drop_subset)

lemma last_n_all: "length xs \<le> n \<Longrightarrow> last_n n xs = xs"
  by (simp add: last_n_def)

lemma suffix_last_n: "suffix (last_n n xs) xs"
  by (simp add: last_n_def suffix_drop)

lemma last_n_snoc: "0 < n \<Longrightarrow> last (last_n n (xs @ [x])) = x"
  by (cases n) (auto simp: last_n_def)

end
