(* ===== verification/Bounded_History.thy ===== *)
theory Bounded_History
  imports Prelude
begin

text \<open>
  The contract of a bounded history: a component that records prepared entries and keeps the
  newest ones.  The audit log of the security layer and the incident list provide it; the
  clients' facts (the bound, the order, what is kept) are proved here once, for any run.
\<close>

locale bounded_history =
  fixes push :: "'e \<Rightarrow> 's \<Rightarrow> 's"
    and prep :: "'e \<Rightarrow> 'a"
    and items :: "'s \<Rightarrow> 'a list"
    and cap :: "'s \<Rightarrow> nat"
    and ok :: "'s \<Rightarrow> bool"
  assumes items_push: "ok s \<Longrightarrow> items (push e s) = last_n (cap s) (items s @ [prep e])"
    and cap_push: "ok s \<Longrightarrow> cap (push e s) = cap s"
    and ok_push: "ok s \<Longrightarrow> ok (push e s)"
    and ok_bound: "ok s \<Longrightarrow> 0 < cap s \<and> length (items s) \<le> cap s"
begin

lemma ok_pushes: "ok s \<Longrightarrow> ok (fold push es s)"
  by (induction es arbitrary: s) (simp_all add: ok_push)

lemma cap_pushes: "ok s \<Longrightarrow> cap (fold push es s) = cap s"
  by (induction es arbitrary: s) (simp_all add: ok_push cap_push)

lemma items_pushes: "ok s \<Longrightarrow> items (fold push es s) = last_n (cap s) (items s @ map prep es)"
proof (induction es rule: rev_induct)
  case Nil
  then show ?case using ok_bound [of s] by (simp add: last_n_all)
next
  case (snoc e es)
  then show ?case
    using items_push [OF ok_pushes [OF snoc.prems], of e es]
    by (simp add: cap_pushes last_n_last_n_snoc)
qed

lemma length_pushes: "ok s \<Longrightarrow> length (items (fold push es s)) \<le> cap s"
  using ok_bound [OF ok_pushes] cap_pushes by metis

lemma newest_kept: "ok s \<Longrightarrow> es \<noteq> [] \<Longrightarrow> last (items (fold push es s)) = prep (last es)"
  by (cases es rule: rev_cases)
    (use ok_bound [of s] in \<open>auto simp: items_push ok_pushes cap_pushes last_n_snoc\<close>)

lemma items_from:
  "ok s \<Longrightarrow> x \<in> set (items (fold push es s)) \<Longrightarrow> x \<in> set (items s) \<or> x \<in> prep ` set es"
  using set_last_n_subset [of "cap s" "items s @ map prep es"] by (auto simp: items_pushes)

end

end
