(* ===== verification/Alert_Manager.thy ===== *)
theory Alert_Manager
  imports Bounded_History "HOL-Library.Sublist"
begin

text \<open>
  Alerts, \<open>internal/riskengine/alert_manager.go\<close>: a bounded queue that drops when it is full, the worker that
  hands alerts to the sinks, and the sink that keeps recent alerts in memory.  A step of the worker takes
  one alert to all sinks; what a sink does with it does not change the manager.
\<close>

subsection \<open>Severities and alerts\<close>

datatype severity = SevInfo | SevWarning | SevHigh | SevCritical

fun severity_string :: "severity \<Rightarrow> string" where
  "severity_string SevInfo = ''INFO''" | "severity_string SevWarning = ''WARNING''"
| "severity_string SevHigh = ''HIGH''" | "severity_string SevCritical = ''CRITICAL''"

fun severity_rank :: "severity \<Rightarrow> nat" where
  "severity_rank SevInfo = 0" | "severity_rank SevWarning = 1" | "severity_rank SevHigh = 2" | "severity_rank SevCritical = 3"

instantiation severity :: linorder
begin

definition less_eq_severity :: "severity \<Rightarrow> severity \<Rightarrow> bool" where "less_eq_severity x y = (severity_rank x \<le> severity_rank y)"
definition less_severity :: "severity \<Rightarrow> severity \<Rightarrow> bool" where "less_severity x y = (severity_rank x < severity_rank y)"

instance
proof
  fix x y z :: severity
  show "x < y \<longleftrightarrow> x \<le> y \<and> \<not> y \<le> x" by (auto simp: less_eq_severity_def less_severity_def)
  show "x \<le> x" "x \<le> y \<or> y \<le> x" by (auto simp: less_eq_severity_def)
  show "x \<le> y \<Longrightarrow> y \<le> z \<Longrightarrow> x \<le> z" by (simp add: less_eq_severity_def)
  show "x \<le> y \<Longrightarrow> y \<le> x \<Longrightarrow> x = y" by (cases x; cases y) (simp_all add: less_eq_severity_def)
qed

end

record alert =
  al_alert_id :: string
  al_timestamp :: gotime
  al_severity :: severity
  al_title :: string
  al_message :: string
  al_incident_id :: string
  al_subsystem :: string
  al_correlation_id :: string

subsection \<open>The sink in memory\<close>

record alert_sink =
  as_alerts :: "alert list"
  as_max_size :: nat

definition new_alert_sink :: "int \<Rightarrow> alert_sink" where
  "new_alert_sink n = \<lparr>as_alerts = [], as_max_size = nat (if n \<le> 0 then 100 else n)\<rparr>"

definition sink_emit :: "alert \<Rightarrow> alert_sink \<Rightarrow> alert_sink" where
  "sink_emit a s =
     (let xs = as_alerts s @ [a] in
      s\<lparr>as_alerts := (if as_max_size s < length xs then drop (length xs - as_max_size s) xs else xs)\<rparr>)"

definition get_recent_alerts :: "alert_sink \<Rightarrow> alert list" where
  "get_recent_alerts s = rev (as_alerts s)"

definition sink_ok :: "alert_sink \<Rightarrow> bool" where
  "sink_ok s \<longleftrightarrow> 0 < as_max_size s \<and> length (as_alerts s) \<le> as_max_size s"

interpretation sink: bounded_history sink_emit "\<lambda>a. a" as_alerts as_max_size sink_ok
  by unfold_locales (auto simp: sink_emit_def sink_ok_def last_n_def Let_def)

subsection \<open>The manager\<close>

definition queue_size :: nat where "queue_size = 500"

text \<open>What the sinks were handed is kept in its order.\<close>

record alert_manager =
  am_queue :: "alert list"
  am_delivered :: "alert list"
  am_closed :: bool
  am_stopped :: bool
  am_worker_done :: bool

definition new_alert_manager :: alert_manager where
  "new_alert_manager = \<lparr>am_queue = [], am_delivered = [], am_closed = False, am_stopped = False, am_worker_done = False\<rparr>"

text \<open>\<open>Emit\<close> looks at the flag and, in a step of its own, sends without blocking.\<close>

definition am_send :: "alert \<Rightarrow> alert_manager \<Rightarrow> alert_manager" where
  "am_send a m = (if length (am_queue m) < queue_size then m\<lparr>am_queue := am_queue m @ [a]\<rparr> else m)"

definition am_emit :: "alert \<Rightarrow> alert_manager \<Rightarrow> alert_manager" where
  "am_emit a m = (if am_closed m then m else am_send a m)"

definition am_worker :: "alert_manager \<Rightarrow> alert_manager" where
  "am_worker m =
     (if am_worker_done m then m
      else (case am_queue m of
        [] \<Rightarrow> if am_stopped m then m\<lparr>am_worker_done := True\<rparr> else m
      | a # q \<Rightarrow> m\<lparr>am_queue := q, am_delivered := am_delivered m @ [a]\<rparr>))"

definition am_close :: "alert_manager \<Rightarrow> alert_manager" where
  "am_close m = (if am_closed m then m else m\<lparr>am_closed := True, am_stopped := True\<rparr>)"

datatype alert_step = AmEmit alert | AmWorker | AmClose

fun alert_run :: "alert_step \<Rightarrow> alert_manager \<Rightarrow> alert_manager" where
  "alert_run (AmEmit a) = am_emit a" | "alert_run AmWorker = am_worker" | "alert_run AmClose = am_close"

definition emitted :: "alert_step list \<Rightarrow> alert list" where
  "emitted sts = concat (map (\<lambda>st. case st of AmEmit a \<Rightarrow> [a] | _ \<Rightarrow> []) sts)"

lemma emitted_snoc: "emitted (sts @ [st]) = emitted sts @ (case st of AmEmit a \<Rightarrow> [a] | _ \<Rightarrow> [])"
  by (simp add: emitted_def)

text \<open>
  alerts are neither duplicated nor reordered.  In every interleaving of emissions, the worker and the
  shutdown, what was delivered and what is queued is a subsequence of what was emitted; nothing is lost
  as long as the manager is open and no more alerts than the queue holds were ever emitted.
\<close>

theorem alerts_in_order:
  "subseq (am_delivered (fold alert_run sts new_alert_manager) @ am_queue (fold alert_run sts new_alert_manager)) (emitted sts) \<and>
   length (am_queue (fold alert_run sts new_alert_manager)) \<le> queue_size \<and>
   (AmClose \<in> set sts \<or> queue_size < length (emitted sts) \<or>
    am_delivered (fold alert_run sts new_alert_manager) @ am_queue (fold alert_run sts new_alert_manager) = emitted sts)"
proof -
  define m where "m = (\<lambda>sts. fold alert_run sts new_alert_manager)"
  have order: "subseq (am_delivered (m sts) @ am_queue (m sts)) (emitted sts) \<and> length (am_queue (m sts)) \<le> queue_size" for sts
  proof (induction sts rule: rev_induct)
    case (snoc st sts)
    show ?case
    proof (cases st)
      case (AmEmit a)
      then show ?thesis
        using snoc list_emb_append_mono [of "(=)" "am_delivered (m sts) @ am_queue (m sts)" "emitted sts" "[a]" "[a]"]
        by (auto simp: m_def emitted_snoc am_emit_def am_send_def intro: subseq_rev_drop_many)
    qed (use snoc in \<open>auto simp: m_def emitted_snoc am_worker_def am_close_def split: list.split\<close>)
  qed (simp add: m_def emitted_def new_alert_manager_def)
  have "AmClose \<notin> set sts \<Longrightarrow> length (emitted sts) \<le> queue_size \<Longrightarrow>
      \<not> am_closed (m sts) \<and> am_delivered (m sts) @ am_queue (m sts) = emitted sts" for sts
  proof (induction sts rule: rev_induct)
    case (snoc st sts)
    then have "length (emitted sts) \<le> queue_size" by (cases st) (auto simp: emitted_snoc)
    with snoc have ih: "\<not> am_closed (m sts)" "am_delivered (m sts) @ am_queue (m sts) = emitted sts" by auto
    have "length (am_queue (m sts)) \<le> length (emitted sts)" using ih(2) by (metis length_append le_add2)
    then show ?case
      using ih snoc.prems
      by (cases st) (auto simp: m_def emitted_snoc am_emit_def am_send_def am_worker_def split: list.split)
  qed (simp add: m_def emitted_def new_alert_manager_def)
  then show ?thesis using order [of sts] by (fastforce simp: m_def not_le)
qed

end
