(* ===== verification/Sha256.thy ===== *)
theory Sha256
  imports Prelude
begin

text \<open>
  The hash functions of the standard library that the program calls: \<open>crypto/sha256\<close>
  and \<open>crypto/hmac\<close> over it, on lists of bytes.  They are executable; the digest of
  \<open>abc\<close> is checked against the published one.

  The program uses the digest in hexadecimal (audit chains, request fingerprints, webhook
  signatures) and its first four bytes as a big-endian number (canary buckets).  What the
  components rely on is its length and that a difference of two inputs with one digest is a
  collision, \<open>sha256_collision\<close>: no collision resistance is assumed anywhere.
\<close>

unbundle bit_operations_syntax

type_synonym word32 = "32 word"

definition rotr :: "nat \<Rightarrow> word32 \<Rightarrow> word32" where
  "rotr n x = drop_bit n x OR push_bit (32 - n) x"

text \<open>The constants are written in decimal.\<close>

definition round_consts :: "word32 list" where
  "round_consts =
    [1116352408, 1899447441, 3049323471, 3921009573, 961987163, 1508970993, 2453635748,
     2870763221, 3624381080, 310598401, 607225278, 1426881987, 1925078388, 2162078206,
     2614888103, 3248222580, 3835390401, 4022224774, 264347078, 604807628, 770255983,
     1249150122, 1555081692, 1996064986, 2554220882, 2821834349, 2952996808, 3210313671,
     3336571891, 3584528711, 113926993, 338241895, 666307205, 773529912, 1294757372,
     1396182291, 1695183700, 1986661051, 2177026350, 2456956037, 2730485921, 2820302411,
     3259730800, 3345764771, 3516065817, 3600352804, 4094571909, 275423344, 430227734,
     506948616, 659060556, 883997877, 958139571, 1322822218, 1537002063, 1747873779,
     1955562222, 2024104815, 2227730452, 2361852424, 2428436474, 2756734187, 3204031479,
     3329325298]"

datatype hstate = HState word32 word32 word32 word32 word32 word32 word32 word32

definition initial_hstate :: hstate where
  "initial_hstate = HState 1779033703 3144134277 1013904242 2773480762
     1359893119 2600822924 528734635 1541459225"

fun compress_round :: "hstate \<Rightarrow> word32 \<Rightarrow> hstate" where
  "compress_round (HState a b c d e f g h) kw =
     (let t1 = h + (rotr 6 e XOR rotr 11 e XOR rotr 25 e) + ((e AND f) XOR (NOT e AND g)) + kw;
          t2 = (rotr 2 a XOR rotr 13 a XOR rotr 22 a) + ((a AND b) XOR (a AND c) XOR (b AND c))
      in HState (t1 + t2) a b c (d + t1) e f g)"

text \<open>
  The message schedule, kept newest first: the next word is computed from the words 2, 7, 15
  and 16 places back.
\<close>

fun schedule :: "nat \<Rightarrow> word32 list \<Rightarrow> word32 list" where
  "schedule 0 w = rev w"
| "schedule (Suc n) w =
     (let x = w ! 1; y = w ! 14 in
      schedule n
        (((rotr 17 x XOR rotr 19 x XOR drop_bit 10 x) + w ! 6 +
          (rotr 7 y XOR rotr 18 y XOR drop_bit 3 y) + w ! 15) # w))"

fun hstate_add :: "hstate \<Rightarrow> hstate \<Rightarrow> hstate" where
  "hstate_add (HState a b c d e f g h) (HState a' b' c' d' e' f' g' h') =
     HState (a + a') (b + b') (c + c') (d + d') (e + e') (f + f') (g + g') (h + h')"

definition compress :: "hstate \<Rightarrow> word32 list \<Rightarrow> hstate" where
  "compress s block = hstate_add s
     (foldl compress_round s (map2 (+) round_consts (schedule 48 (rev block))))"

text \<open>Big-endian words of a byte sequence, and bytes of a word.\<close>

fun be_words :: "bytes \<Rightarrow> word32 list" where
  "be_words (a # b # c # d # bs) =
     (of_int (uint a) * 16777216 + of_int (uint b) * 65536 +
      of_int (uint c) * 256 + of_int (uint d)) # be_words bs"
| "be_words _ = []"

definition be_bytes :: "nat \<Rightarrow> int \<Rightarrow> bytes" where
  "be_bytes n x = map (\<lambda>i. of_int (x div 256 ^ (n - 1 - i))) [0..<n]"

definition pad :: "bytes \<Rightarrow> bytes" where
  "pad m = m @ 128 # replicate ((119 - length m mod 64) mod 64) 0 @
     be_bytes 8 (8 * int (length m))"

fun blocks :: "nat \<Rightarrow> word32 list \<Rightarrow> word32 list list" where
  "blocks 0 ws = []"
| "blocks (Suc n) ws = take 16 ws # blocks n (drop 16 ws)"

fun hstate_bytes :: "hstate \<Rightarrow> bytes" where
  "hstate_bytes (HState a b c d e f g h) =
     concat (map (\<lambda>x. be_bytes 4 (uint x)) [a, b, c, d, e, f, g, h])"

definition sha256 :: "bytes \<Rightarrow> bytes" where
  "sha256 m = (let p = pad m in
     hstate_bytes (foldl compress initial_hstate (blocks (length p div 64) (be_words p))))"

lemma length_be_bytes [simp]: "length (be_bytes n x) = n"
  by (simp add: be_bytes_def)

lemma length_hstate_bytes [simp]: "length (hstate_bytes s) = 32"
  by (cases s) simp

lemma length_sha256 [simp]: "length (sha256 m) = 32"
  by (simp add: sha256_def Let_def)

text \<open>\<open>hex.EncodeToString(sha256.Sum256([]byte(s)))\<close>.\<close>

definition sha256_hex :: "string \<Rightarrow> string" where
  "sha256_hex s = hex_encode (sha256 (to_bytes s))"

lemma sha256_test_vector:
  "sha256_hex ''abc'' = ''ba7816bf8f01cfea414140de5dae2223b00361a396177a9cb410ff61f20015ad''"
  by code_simp

text \<open>A collision, and the only fact about digests the components use.\<close>

definition sha256_collision :: bool where
  "sha256_collision \<longleftrightarrow> (\<exists>a b. a \<noteq> b \<and> sha256 a = sha256 b)"

lemma sha256_hex_eqD: "sha256_hex s = sha256_hex t \<Longrightarrow> s = t \<or> sha256_collision"
  unfolding sha256_hex_def sha256_collision_def by (metis hex_encode_inj to_bytes_inj)

lemma length_sha256_hex [simp]: "length (sha256_hex s) = 64"
  by (simp add: sha256_hex_def)

text \<open>\<open>hmac.New(sha256.New, key)\<close>: the keyed hash of the webhook signatures.\<close>

definition hmac_key :: "bytes \<Rightarrow> bytes" where
  "hmac_key k = (let k' = (if 64 < length k then sha256 k else k) in
     k' @ replicate (64 - length k') 0)"

definition hmac_sha256 :: "bytes \<Rightarrow> bytes \<Rightarrow> bytes" where
  "hmac_sha256 k m =
     sha256 (map (\<lambda>b. b XOR 92) (hmac_key k) @ sha256 (map (\<lambda>b. b XOR 54) (hmac_key k) @ m))"

lemma length_hmac_sha256 [simp]: "length (hmac_sha256 k m) = 32"
  by (simp add: hmac_sha256_def)

lemma hmac_sha256_eqD: "hmac_sha256 k m = hmac_sha256 k m' \<Longrightarrow> m = m' \<or> sha256_collision"
  unfolding hmac_sha256_def sha256_collision_def by (metis append_same_eq same_append_eq)

text \<open>\<open>binary.BigEndian.Uint32(h[:4])\<close>.\<close>

definition be_uint32 :: "bytes \<Rightarrow> nat" where
  "be_uint32 h = unat (h ! 0) * 16777216 + unat (h ! 1) * 65536 + unat (h ! 2) * 256 + unat (h ! 3)"

end
