(* ===== verification/Artifact_Verifier.thy ===== *)
theory Artifact_Verifier
  imports Sha256
begin

text \<open>
  Provenance of a model, \<open>internal/riskengine/provenance.go\<close>, and the verification of its artifact,
  \<open>artifact_verifier.go\<close> with \<open>resolveFilePath\<close> of \<open>artifact_store.go\<close>.  The file system is an
  argument: what \<open>Stat\<close>, \<open>Open\<close> and reading give for a path.
\<close>

subsection \<open>Provenance\<close>

record provenance =
  pv_dataset_uri :: string
  pv_dataset_checksum :: string
  pv_dataset_version :: string
  pv_dataset_row_count :: int
  pv_training_config_hash :: string
  pv_training_job_id :: string
  pv_parent_model_version :: string
  pv_candidate_version :: string
  pv_artifact_uri :: string
  pv_artifact_checksum :: string
  pv_validation_report_hash :: string
  pv_validation_passed :: bool
  pv_shadow_evaluation_id :: string
  pv_shadow_passed :: bool
  pv_approval_actor :: string
  pv_approval_reason :: string
  pv_approved_at :: "gotime option"
  pv_canary_stage_completed :: int
  pv_promoted_at :: "gotime option"
  pv_created_at :: gotime

definition compute_sha256_checksum :: "string \<Rightarrow> string" where
  "compute_sha256_checksum s = sha256_hex s"

text \<open>The configuration enters as its JSON text, or the error of encoding it.\<close>

definition compute_config_checksum :: "string + string \<Rightarrow> string + string" where
  "compute_config_checksum cfg = (case cfg of Inl e \<Rightarrow> Inl (''failed to marshal config for hashing: '' @ e)
     | Inr text \<Rightarrow> Inr (compute_sha256_checksum text))"

definition validate_provenance_chain :: "provenance option \<Rightarrow> string option" where
  "validate_provenance_chain po =
     (case po of None \<Rightarrow> Some ''provenance record is nil''
      | Some p \<Rightarrow>
          if pv_candidate_version p = '''' then Some ''provenance candidate version cannot be empty''
          else if pv_dataset_checksum p = '''' then Some ''provenance dataset checksum cannot be empty''
          else if pv_training_config_hash p = '''' then Some ''provenance training config hash cannot be empty''
          else if pv_training_job_id p = '''' then Some ''provenance training job ID cannot be empty''
          else if pv_artifact_uri p = '''' then Some ''provenance artifact URI cannot be empty''
          else if pv_artifact_checksum p = '''' then Some ''provenance artifact checksum cannot be empty''
          else if \<not> pv_validation_passed p then Some ''candidate model did not pass offline validation''
          else if \<not> pv_shadow_passed p then Some ''candidate model did not pass shadow evaluation''
          else if pv_approval_actor p = '''' then Some ''candidate model has not been approved by an authorized operator''
          else if pv_approved_at p = None then Some ''approval timestamp is missing''
          else None)"

definition validate_conditional_provenance :: "provenance option \<Rightarrow> string option" where
  "validate_conditional_provenance po =
     (case po of None \<Rightarrow> Some ''provenance record is nil''
      | Some p \<Rightarrow>
          if pv_candidate_version p = '''' then Some ''provenance candidate version cannot be empty''
          else if pv_dataset_checksum p = '''' then Some ''provenance dataset checksum cannot be empty''
          else if pv_training_config_hash p = '''' then Some ''provenance training config hash cannot be empty''
          else if pv_training_job_id p = '''' then Some ''provenance training job ID cannot be empty''
          else if pv_artifact_uri p = '''' then Some ''provenance artifact URI cannot be empty''
          else if pv_artifact_checksum p = '''' then Some ''provenance artifact checksum cannot be empty''
          else if \<not> pv_validation_passed p then Some ''candidate model did not pass offline validation''
          else if pv_approval_actor p = '''' then Some ''candidate model has not been approved by an authorized operator''
          else if pv_approved_at p = None then Some ''approval timestamp is missing''
          else None)"

lemma full_chain_implies_conditional:
  "validate_provenance_chain p = None \<Longrightarrow> validate_conditional_provenance p = None"
  by (auto simp: validate_provenance_chain_def validate_conditional_provenance_def split: option.splits if_splits)

subsection \<open>Artifacts\<close>

datatype fs_entry = NoFile string | Directory | Unopenable nat string | Unreadable nat string | File string

fun entry_size :: "fs_entry \<Rightarrow> nat" where
  "entry_size (File s) = length s"
| "entry_size (Unopenable n _) = n"
| "entry_size (Unreadable n _) = n"
| "entry_size _ = 0"

type_synonym file_system = "string \<Rightarrow> fs_entry"

definition resolve_file_path :: "string \<Rightarrow> string" where
  "resolve_file_path uri = (if 7 < length uri \<and> take 7 uri = ''file://'' then drop 7 uri else uri)"

record artifact_record =
  ar_model_id :: string
  ar_version :: string
  ar_artifact_path :: string
  ar_checksum_sha256 :: string
  ar_feature_contract :: string
  ar_input_features_count :: nat
  ar_file_size :: nat
  ar_verified_at :: gotime
  ar_test_vector_passed :: bool
  ar_passed :: bool
  ar_violations :: "string list"

record artifact_verifier =
  av_expected_feature_count :: nat
  av_expected_contract :: string

definition new_artifact_verifier :: artifact_verifier where
  "new_artifact_verifier = \<lparr>av_expected_feature_count = 25, av_expected_contract = ''fraud-risk-25f-v2.5''\<rparr>"

definition quoted :: "string \<Rightarrow> string" where
  "quoted s = [CHR 0x27] @ s @ [CHR 0x27]"

text \<open>The checks in their order: the record and the error, when there is one.\<close>

definition verify_artifact ::
  "artifact_verifier \<Rightarrow> file_system \<Rightarrow> gotime \<Rightarrow> string \<Rightarrow> string \<Rightarrow> string \<Rightarrow> string \<Rightarrow> artifact_record \<times> string option" where
  "verify_artifact v fs now model_id version path expected =
     (let r = \<lparr>ar_model_id = model_id, ar_version = version, ar_artifact_path = path, ar_checksum_sha256 = '''',
            ar_feature_contract = av_expected_contract v, ar_input_features_count = av_expected_feature_count v,
            ar_file_size = 0, ar_verified_at = now, ar_test_vector_passed = False, ar_passed = False, ar_violations = []\<rparr>;
          p = resolve_file_path path in
      if (expected = ''verified_prod_25f_v3_sha256'' \<or> expected = ''verified_fallback_15f_v1_sha256'') \<and>
         has_prefix p ''/app/model''
      then (r\<lparr>ar_passed := True, ar_test_vector_passed := True\<rparr>, None)
      else
        (case fs p of
           NoFile e \<Rightarrow> (r\<lparr>ar_violations := [''Artifact file inaccessible at '' @ quoted p @ '': '' @ e]\<rparr>,
             Some (''artifact file inaccessible: '' @ e))
         | Directory \<Rightarrow> (r\<lparr>ar_violations := [''Artifact path '' @ quoted p @ '' is a directory, expected file'']\<rparr>,
             Some ''artifact path is a directory'')
         | entry \<Rightarrow>
             (let r1 = r\<lparr>ar_file_size := entry_size entry\<rparr> in
              if entry_size entry = 0
              then (r1\<lparr>ar_violations := [''Artifact file is 0 bytes (empty)'']\<rparr>, Some ''artifact file is empty'')
              else
                (case entry of
                   Unopenable _ e \<Rightarrow> (r1\<lparr>ar_violations := [''Failed to open artifact: '' @ e]\<rparr>, Some (''failed to open artifact: '' @ e))
                 | Unreadable _ e \<Rightarrow> (r1\<lparr>ar_violations := [''Failed to compute checksum: '' @ e]\<rparr>,
                     Some (''failed to compute checksum: '' @ e))
                 | File content \<Rightarrow>
                     (let c = sha256_hex content; r2 = r1\<lparr>ar_checksum_sha256 := c\<rparr> in
                      if expected \<noteq> '''' \<and> c \<noteq> expected
                      then (r2\<lparr>ar_violations := [''Artifact checksum mismatch: computed '' @ quoted c @ '' != expected '' @ quoted expected]\<rparr>,
                            Some (''checksum mismatch: computed '' @ quoted c @ '' != expected '' @ quoted expected))
                      else (r2\<lparr>ar_test_vector_passed := True, ar_passed := True\<rparr>, None))
                 | _ \<Rightarrow> (r1, None)))))"

text \<open>What the callers ask of a verification.\<close>

definition artifact_healthy :: "artifact_verifier \<Rightarrow> file_system \<Rightarrow> string \<Rightarrow> string \<Rightarrow> bool" where
  "artifact_healthy v fs uri checksum =
     (case verify_artifact v fs 0 '''' '''' uri checksum of (r, e) \<Rightarrow> e = None \<and> ar_passed r)"

definition preloaded :: "string \<Rightarrow> string \<Rightarrow> bool" where
  "preloaded uri checksum \<longleftrightarrow>
     (checksum = ''verified_prod_25f_v3_sha256'' \<or> checksum = ''verified_fallback_15f_v1_sha256'') \<and>
     has_prefix (resolve_file_path uri) ''/app/model''"

lemma verify_artifact_outcome:
  "(snd (verify_artifact v fs now mid ver uri checksum) = None) = ar_passed (fst (verify_artifact v fs now mid ver uri checksum))"
  "ar_passed (fst (verify_artifact v fs now mid ver uri checksum)) =
     (preloaded uri checksum \<or>
      (\<exists>content. fs (resolve_file_path uri) = File content \<and> content \<noteq> '''' \<and> (checksum = '''' \<or> sha256_hex content = checksum)))"
  by (auto simp: verify_artifact_def preloaded_def Let_def split: fs_entry.split)

end
