(* ===== verification/Assoc_Lists.thy ===== *)
theory Assoc_Lists
  imports Prelude "HOL-Library.AList"
begin

text \<open>
  Association lists as the model of Go maps whose entries are counted, expire or are iterated over:
  what updates, deletions, changes of an entry and filters do to the lookup and to the length.
\<close>

lemma length_update: "length (AList.update k v xs) \<le> Suc (length xs)"
  by (induction xs) auto

lemma length_delete: "length (AList.delete k xs) \<le> length xs"
  by (simp add: AList.delete_eq)

lemma length_map_entry [simp]: "length (AList.map_entry k f xs) = length xs"
  by (induction xs) auto

lemma map_of_map_entry: "map_of (AList.map_entry k f xs) = (map_of xs)(k := map_option f (map_of xs k))"
  by (rule ext) (induction xs; auto)

lemma map_of_filter_key: "distinct (map fst xs) \<Longrightarrow> map_of xs k = Some v \<Longrightarrow> P (k, v) \<Longrightarrow> map_of (filter P xs) k = Some v"
proof (induction xs)
  case (Cons x xs)
  then have "x = (k, v) \<or> map_of (filter P xs) k = Some v \<and> fst x \<noteq> k" by (cases x) (auto split: if_splits)
  then show ?case using Cons.prems(3) by (cases x) auto
qed simp

lemma filtered_keys:
  "distinct (map fst ps) \<Longrightarrow> b \<in> fst ` set (filter (\<lambda>(k, t). P t) ps) \<longleftrightarrow> (\<exists>t. map_of ps b = Some t \<and> P t)"
  by (auto simp: image_iff map_of_eq_Some_iff)

lemma keys_map_entry [simp]: "map fst (AList.map_entry k f xs) = map fst xs"
  by (induction xs) auto

end
