(* ===== verification/Base64.thy ===== *)
theory Base64
  imports Prelude
begin

text \<open>
  Go's \<open>encoding/base64\<close> as the program uses it: the standard alphabet with padding and the URL alphabet
  without.  The decoder skips line breaks and does not look at the unused bits of the last quantum.
\<close>

subsection \<open>Alphabets\<close>

definition std_alphabet :: string where
  "std_alphabet = ''ABCDEFGHIJKLMNOPQRSTUVWXYZabcdefghijklmnopqrstuvwxyz0123456789+/''"

definition url_alphabet :: string where
  "url_alphabet = ''ABCDEFGHIJKLMNOPQRSTUVWXYZabcdefghijklmnopqrstuvwxyz0123456789-_''"

fun index_of :: "char \<Rightarrow> string \<Rightarrow> nat option" where
  "index_of c [] = None"
| "index_of c (d # ds) = (if c = d then Some 0 else map_option Suc (index_of c ds))"

definition line_breaks :: string where "line_breaks = [CHR 0x0A, CHR 0x0D]"

subsection \<open>Quanta\<close>

text \<open>Three bytes are four digits; \<open>sextets\<close> and \<open>octets\<close> work on numbers below 256 and 64.\<close>

fun sextets :: "nat list \<Rightarrow> nat list" where
  "sextets (x # y # z # bs) = x div 4 # ((x mod 4) * 16 + y div 16) # ((y mod 16) * 4 + z div 64) # z mod 64 # sextets bs"
| "sextets [x, y] = [x div 4, (x mod 4) * 16 + y div 16, (y mod 16) * 4]"
| "sextets [x] = [x div 4, (x mod 4) * 16]"
| "sextets [] = []"

fun octets :: "nat list \<Rightarrow> nat list option" where
  "octets (a # b # c # d # ss) =
     map_option (\<lambda>bs. (a * 4 + b div 16) # ((b mod 16) * 16 + c div 4) # ((c mod 4) * 64 + d) # bs) (octets ss)"
| "octets [a, b, c] = Some [a * 4 + b div 16, (b mod 16) * 16 + c div 4]"
| "octets [a, b] = Some [a * 4 + b div 16]"
| "octets [a] = None"
| "octets [] = Some []"

lemma octets_sextets: "\<forall>b \<in> set bs. b < 256 \<Longrightarrow> octets (sextets bs) = Some bs"
  by (induction bs rule: sextets.induct) auto

lemma sextets_below: "\<forall>b \<in> set bs. b < 256 \<Longrightarrow> s \<in> set (sextets bs) \<Longrightarrow> s < 64"
  by (induction bs rule: sextets.induct) auto

lemma length_sextets: "length (sextets bs) = (4 * length bs + 2) div 3"
  by (induction bs rule: sextets.induct) auto

subsection \<open>Encoding and decoding\<close>

definition b64_digits :: "string \<Rightarrow> bytes \<Rightarrow> string" where
  "b64_digits alpha bs = map (\<lambda>s. alpha ! s) (sextets (map unat bs))"

definition b64_values :: "string \<Rightarrow> string \<Rightarrow> bytes option" where
  "b64_values alpha cs =
     (if \<exists>c \<in> set cs. index_of c alpha = None then None
      else map_option (map of_nat) (octets (map (\<lambda>c. the (index_of c alpha)) cs)))"

definition padding :: "nat \<Rightarrow> string" where
  "padding n = replicate ((4 - n mod 4) mod 4) (CHR ''='')"

definition b64_encode :: "string \<Rightarrow> bytes \<Rightarrow> string" where
  "b64_encode alpha bs = (let ds = b64_digits alpha bs in ds @ padding (length ds))"

definition b64_decode :: "string \<Rightarrow> string \<Rightarrow> bytes option" where
  "b64_decode alpha s =
     (let cs = filter (\<lambda>c. c \<notin> set line_breaks) s; ds = takeWhile (\<lambda>c. c \<noteq> CHR ''='') cs in
      if drop (length ds) cs = padding (length ds) then b64_values alpha ds else None)"

definition b64_raw_encode :: "string \<Rightarrow> bytes \<Rightarrow> string" where
  "b64_raw_encode alpha bs = b64_digits alpha bs"

definition b64_raw_decode :: "string \<Rightarrow> string \<Rightarrow> bytes option" where
  "b64_raw_decode alpha s = b64_values alpha (filter (\<lambda>c. c \<notin> set line_breaks) s)"

subsection \<open>Round trips\<close>

lemma index_of_nth: "distinct ds \<Longrightarrow> n < length ds \<Longrightarrow> index_of (ds ! n) ds = Some n"
  by (induction ds arbitrary: n) (auto simp: nth_Cons split: nat.split)

lemma bytes_below: "\<forall>b \<in> set (map unat (bs :: bytes)). b < 256"
  by (auto intro: order_less_le_trans [OF unsigned_less])

locale base64_alphabet =
  fixes alpha :: string
  assumes distinct_alpha: "distinct alpha"
    and length_alpha: "length alpha = 64"
    and plain_alpha: "CHR ''='' \<notin> set alpha" "set line_breaks \<inter> set alpha = {}"
begin

lemma digit_values: "\<forall>s \<in> set ss. s < 64 \<Longrightarrow> map (\<lambda>c. the (index_of c alpha)) (map (\<lambda>s. alpha ! s) ss) = ss"
  by (induction ss) (simp_all add: index_of_nth distinct_alpha length_alpha)

lemma digits_plain: "c \<in> set (b64_digits alpha bs) \<Longrightarrow> c \<in> set alpha"
proof -
  assume "c \<in> set (b64_digits alpha bs)"
  then obtain s where s: "s \<in> set (sextets (map unat bs))" "c = alpha ! s" by (auto simp: b64_digits_def)
  note bytes_below [of bs]
  then have "s < 64" by (rule sextets_below) (rule s(1))
  then show "c \<in> set alpha" by (simp add: s(2) length_alpha)
qed

lemma values_digits: "b64_values alpha (b64_digits alpha bs) = Some bs"
proof -
  note bytes = bytes_below [of bs]
  have "\<forall>c \<in> set (b64_digits alpha bs). index_of c alpha \<noteq> None"
    using digits_plain by (metis distinct_alpha in_set_conv_nth index_of_nth option.distinct(1))
  moreover have "map (\<lambda>c. the (index_of c alpha)) (b64_digits alpha bs) = sextets (map unat bs)"
    unfolding b64_digits_def by (rule digit_values) (use sextets_below [OF bytes] in blast)
  ultimately show ?thesis
    by (simp add: b64_values_def octets_sextets [OF bytes] comp_def)
qed

lemma digits_untouched:
  "filter (\<lambda>c. c \<notin> set line_breaks) (b64_digits alpha bs) = b64_digits alpha bs"
  "takeWhile (\<lambda>c. c \<noteq> CHR ''='') (b64_digits alpha bs @ padding n) = b64_digits alpha bs"
proof -
  show "filter (\<lambda>c. c \<notin> set line_breaks) (b64_digits alpha bs) = b64_digits alpha bs"
    using digits_plain plain_alpha(2) by (auto simp: filter_id_conv)
  have "\<forall>c \<in> set (b64_digits alpha bs). c \<noteq> CHR ''=''" using digits_plain plain_alpha(1) by blast
  then have "takeWhile (\<lambda>c. c \<noteq> CHR ''='') (b64_digits alpha bs @ padding n) =
      b64_digits alpha bs @ takeWhile (\<lambda>c. c \<noteq> CHR ''='') (padding n)"
    by (simp add: takeWhile_append2)
  then show "takeWhile (\<lambda>c. c \<noteq> CHR ''='') (b64_digits alpha bs @ padding n) = b64_digits alpha bs"
    by (simp add: padding_def)
qed

lemma decode_encode: "b64_decode alpha (b64_encode alpha bs) = Some bs"
proof -
  have "filter (\<lambda>c. c \<notin> set line_breaks) (padding n) = padding n" for n
    by (simp add: padding_def line_breaks_def)
  then show ?thesis
    by (simp add: b64_decode_def b64_encode_def Let_def digits_untouched values_digits)
qed

lemma raw_decode_encode: "b64_raw_decode alpha (b64_raw_encode alpha bs) = Some bs"
  by (simp add: b64_raw_decode_def b64_raw_encode_def digits_untouched values_digits)

end

interpretation b64_std: base64_alphabet std_alphabet
  by unfold_locales (simp_all add: std_alphabet_def line_breaks_def)

interpretation b64_url: base64_alphabet url_alphabet
  by unfold_locales (simp_all add: url_alphabet_def line_breaks_def)

lemma base64_examples:
  "b64_encode std_alphabet (to_bytes ''foobar'') = ''Zm9vYmFy''" "b64_encode std_alphabet (to_bytes ''foob'') = ''Zm9vYg==''"
  "b64_encode std_alphabet (to_bytes ''fooba'') = ''Zm9vYmE=''" "b64_decode std_alphabet ''Zm9vYg='' = None"
  by code_simp+

end
