(* ===== verification/Go_Float.thy ===== *)
theory Go_Float
  imports Prelude Complex_Main
begin

text \<open>
  The Go type \<open>float64\<close>: IEEE 754 binary64 numbers with rounding to nearest, ties to
  even.  A value is \<open>NaN\<close>, an infinity or a rational number; every operation
  computes the exact rational result and rounds it with \<open>to_f64\<close>, to 53 significant
  bits, a least exponent of -1074 (so subnormal numbers are covered) and an overflow to the
  infinities from \<open>2 ^ 1024\<close>.  The two zeros are one value: the program neither divides
  by a negative zero nor prints one.

  The lemmas show what the components need of rounding: it is monotone, it fixes the numbers
  that are representable, and comparisons are exact.
\<close>

subsection \<open>Powers of two and the binary exponent of a rational\<close>

definition pow2 :: "int \<Rightarrow> rat" where
  "pow2 k = (if 0 \<le> k then 2 ^ nat k else 1 / 2 ^ nat (- k))"

fun blen :: "int \<Rightarrow> int" where
  "blen n = (if n \<le> 0 then 0 else 1 + blen (n div 2))"

declare blen.simps [simp del]

definition flog2 :: "rat \<Rightarrow> int" where
  "flog2 x = (if 1 \<le> x then blen \<lfloor>x\<rfloor> - 1 else - blen (\<lceil>1 / x\<rceil> - 1))"

lemma pow2_powi: "pow2 k = 2 powi k"
  by (simp add: pow2_def power_int_def field_simps)

lemma pow2_pos [simp]: "0 < pow2 k"
  by (simp add: pow2_def)

lemma pow2_nonzero [simp]: "pow2 k \<noteq> 0"
  using pow2_pos [of k] by linarith

lemma pow2_add: "pow2 (a + b) = pow2 a * pow2 b"
  by (simp add: pow2_powi power_int_add)

lemma pow2_strict_mono: "a < b \<Longrightarrow> pow2 a < pow2 b"
  by (simp add: pow2_powi power_int_strict_increasing)

lemma pow2_less_iff [simp]: "pow2 a < pow2 b \<longleftrightarrow> a < b"
  using pow2_strict_mono [of a b] pow2_strict_mono [of b a]
  by (cases a b rule: linorder_cases) auto

lemma pow2_le_iff [simp]: "pow2 a \<le> pow2 b \<longleftrightarrow> a \<le> b"
  by (simp flip: not_less)

lemma pow2_nat: "pow2 (int n) = 2 ^ n"
  by (simp add: pow2_def)

lemma pow2_neg_nat: "pow2 (- int n) = 1 / 2 ^ n"
  by (cases n) (simp_all add: pow2_def nat_add_distrib)

lemma pow2_0 [simp]: "pow2 0 = 1"
  by (simp add: pow2_def)

lemma pow2_diff: "pow2 (a - b) = pow2 a / pow2 b"
  using pow2_add [of "a - b" b] by (simp add: field_simps)

lemma pow2_int: "0 \<le> k \<Longrightarrow> pow2 k = of_int (2 ^ nat k)"
  by (simp add: pow2_def)

lemma blen_bounds: "0 < n \<Longrightarrow> pow2 (blen n - 1) \<le> of_int n \<and> of_int n + 1 \<le> pow2 (blen n)"
proof (induction n rule: blen.induct)
  case (1 n)
  have b: "blen n = 1 + blen (n div 2)" using 1(2) by (simp add: blen.simps [of n])
  show ?case
  proof (cases "n div 2 = 0")
    case True
    with 1(2) have "n = 1" by simp
    then show ?thesis by (simp add: blen.simps [of 1] blen.simps [of 0] pow2_def)
  next
    case False
    define k where "k = blen (n div 2)"
    from False 1(2) have "0 < n div 2" by linarith
    with 1 have ih: "pow2 (k - 1) \<le> of_int (n div 2)" "of_int (n div 2) + 1 \<le> pow2 k"
      unfolding k_def by simp_all
    have d: "2 * of_int (n div 2) \<le> (of_int n :: rat)"
        "(of_int n :: rat) + 1 \<le> 2 * (of_int (n div 2) + 1)"
    proof -
      have "2 * (n div 2) \<le> n" "n + 1 \<le> 2 * (n div 2 + 1)" by presburger+
      then have "(of_int (2 * (n div 2)) :: rat) \<le> of_int n"
        "(of_int (n + 1) :: rat) \<le> of_int (2 * (n div 2 + 1))" by (simp_all only: of_int_le_iff)
      then show "2 * of_int (n div 2) \<le> (of_int n :: rat)"
        "(of_int n :: rat) + 1 \<le> 2 * (of_int (n div 2) + 1)" by simp_all
    qed
    have p: "pow2 k = 2 * pow2 (k - 1)" "pow2 (1 + k) = 2 * pow2 k"
      using pow2_add [of 1 "k - 1"] pow2_add [of 1 k] by (simp_all add: pow2_def [of 1])
    show ?thesis unfolding b k_def [symmetric] using ih d p by simp
  qed
qed

lemma flog2_bounds:
  assumes "0 < x"
  shows "pow2 (flog2 x) \<le> x" and "x < pow2 (flog2 x + 1)"
proof -
  have "pow2 (flog2 x) \<le> x \<and> x < pow2 (flog2 x + 1)"
  proof (cases "1 \<le> x")
    case True
    then have "0 < \<lfloor>x\<rfloor>" by simp
    from blen_bounds [OF this] have "pow2 (blen \<lfloor>x\<rfloor> - 1) \<le> x" "x < pow2 (blen \<lfloor>x\<rfloor>)"
      using floor_correct [of x] by linarith+
    then show ?thesis using True by (simp add: flog2_def)
  next
    case False
    define m where "m = \<lceil>1 / x\<rceil> - 1"
    have "1 < 1 / x" using assms False by (simp add: field_simps)
    then have m0: "0 < m" unfolding m_def by linarith
    have mx: "of_int m < 1 / x" "1 / x \<le> of_int m + 1"
      using ceiling_correct [of "1 / x"] by (simp_all add: m_def)
    from blen_bounds [OF m0] mx have "pow2 (blen m - 1) < 1 / x" "1 / x \<le> pow2 (blen m)"
      by linarith+
    then have "x < 1 / pow2 (blen m - 1)" "1 / pow2 (blen m) \<le> x"
      using assms by (simp_all add: field_simps)
    moreover have "flog2 x = - blen m" using False by (simp add: flog2_def m_def)
    moreover have "1 / pow2 k = pow2 (- k)" for k using pow2_diff [of 0 k] by simp
    ultimately show ?thesis by (simp add: add.commute)
  qed
  then show "pow2 (flog2 x) \<le> x" and "x < pow2 (flog2 x + 1)" by simp_all
qed

lemma flog2_mono: "0 < x \<Longrightarrow> x \<le> y \<Longrightarrow> flog2 x \<le> flog2 y"
proof -
  assume a: "0 < x" "x \<le> y"
  then have "pow2 (flog2 x) < pow2 (flog2 y + 1)"
    using flog2_bounds(1) [of x] flog2_bounds(2) [of y] by linarith
  then show ?thesis by simp
qed

subsection \<open>Rounding to nearest, ties to even\<close>

definition round_even :: "rat \<Rightarrow> int" where
  "round_even y =
     (let f = \<lfloor>y\<rfloor>; d = y - of_int f in
      if d < 1 / 2 then f else if 1 / 2 < d then f + 1 else if even f then f else f + 1)"

lemma round_even_bounds: "\<lfloor>y\<rfloor> \<le> round_even y" "round_even y \<le> \<lfloor>y\<rfloor> + 1"
  by (simp_all add: round_even_def Let_def)

lemma round_even_of_int [simp]: "round_even (of_int n) = n"
  by (simp add: round_even_def)

lemma round_even_mono: "x \<le> y \<Longrightarrow> round_even x \<le> round_even y"
proof -
  assume le: "x \<le> y"
  then have f: "\<lfloor>x\<rfloor> \<le> \<lfloor>y\<rfloor>" by (rule floor_mono)
  show ?thesis
  proof (cases "\<lfloor>x\<rfloor> = \<lfloor>y\<rfloor>")
    case True
    with le show ?thesis by (auto simp: round_even_def Let_def)
  next
    case False
    with f have "\<lfloor>x\<rfloor> + 1 \<le> \<lfloor>y\<rfloor>" by simp
    then show ?thesis
      using round_even_bounds(2) [of x] round_even_bounds(1) [of y] by linarith
  qed
qed

definition exp_of :: "rat \<Rightarrow> int" where
  "exp_of x = max (flog2 x - 52) (- 1074)"

definition rnd_pos :: "rat \<Rightarrow> rat" where
  "rnd_pos x = of_int (round_even (x / pow2 (exp_of x))) * pow2 (exp_of x)"

definition rnd :: "rat \<Rightarrow> rat" where
  "rnd x = (if x = 0 then 0 else if 0 < x then rnd_pos x else - rnd_pos (- x))"

lemma round_even_le_int: "x \<le> of_int n \<Longrightarrow> round_even x \<le> n"
  using round_even_mono [of x "of_int n"] by simp

lemma round_even_ge_int: "of_int n \<le> x \<Longrightarrow> n \<le> round_even x"
  using round_even_mono [of "of_int n" x] by simp

lemma exp_of_mono: "0 < x \<Longrightarrow> x \<le> y \<Longrightarrow> exp_of x \<le> exp_of y"
  using flog2_mono [of x y] by (simp add: exp_of_def)

lemma rnd_pos_nonneg: "0 < x \<Longrightarrow> 0 \<le> rnd_pos x"
  using round_even_ge_int [of 0 "x / pow2 (exp_of x)"]
  by (simp add: rnd_pos_def less_imp_le)

text \<open>A power of two that bounds the argument, and is not below the grid, bounds the result.\<close>

lemma rnd_pos_le_pow2:
  assumes "0 < x" "x \<le> pow2 k" "exp_of x \<le> k"
  shows "rnd_pos x \<le> pow2 k"
proof -
  have k: "pow2 k = of_int (2 ^ nat (k - exp_of x)) * pow2 (exp_of x)"
    using pow2_add [of "k - exp_of x" "exp_of x"] pow2_int [of "k - exp_of x"] assms(3) by simp
  have "x / pow2 (exp_of x) \<le> of_int (2 ^ nat (k - exp_of x))"
    using assms(2) unfolding k by (simp add: pos_divide_le_eq)
  then have "round_even (x / pow2 (exp_of x)) \<le> 2 ^ nat (k - exp_of x)"
    by (rule round_even_le_int)
  then have "(of_int (round_even (x / pow2 (exp_of x))) :: rat)
      \<le> of_int (2 ^ nat (k - exp_of x))"
    by (simp only: of_int_le_iff)
  then show ?thesis unfolding k rnd_pos_def
    by (intro mult_right_mono) (simp_all add: less_imp_le)
qed

lemma rnd_pos_ge_pow2:
  assumes "0 < x" "pow2 k \<le> x" "exp_of x \<le> k"
  shows "pow2 k \<le> rnd_pos x"
proof -
  have k: "pow2 k = of_int (2 ^ nat (k - exp_of x)) * pow2 (exp_of x)"
    using pow2_add [of "k - exp_of x" "exp_of x"] pow2_int [of "k - exp_of x"] assms(3) by simp
  have "of_int (2 ^ nat (k - exp_of x)) \<le> x / pow2 (exp_of x)"
    using assms(2) unfolding k by (simp add: pos_le_divide_eq)
  then have "2 ^ nat (k - exp_of x) \<le> round_even (x / pow2 (exp_of x))"
    by (rule round_even_ge_int)
  then have "of_int (2 ^ nat (k - exp_of x))
      \<le> (of_int (round_even (x / pow2 (exp_of x))) :: rat)"
    by (simp only: of_int_le_iff)
  then show ?thesis unfolding k rnd_pos_def
    by (intro mult_right_mono) (simp_all add: less_imp_le)
qed

lemma rnd_pos_mono:
  assumes "0 < x" "x \<le> y"
  shows "rnd_pos x \<le> rnd_pos y"
proof (cases "exp_of x = exp_of y")
  case True
  have "x / pow2 (exp_of y) \<le> y / pow2 (exp_of y)"
    using assms(2) by (simp add: divide_right_mono less_imp_le)
  then have "round_even (x / pow2 (exp_of y)) \<le> round_even (y / pow2 (exp_of y))"
    by (rule round_even_mono)
  then show ?thesis unfolding rnd_pos_def True
    by (intro mult_right_mono) (simp_all add: less_imp_le)
next
  case False
  with exp_of_mono [OF assms] have lt: "exp_of x < exp_of y" by simp
  then have ey: "exp_of y = flog2 y - 52" unfolding exp_of_def by linarith
  have ex: "flog2 x - 52 \<le> exp_of x" by (simp add: exp_of_def)
  have y: "0 < y" using assms by simp
  have "x \<le> pow2 (flog2 y)"
  proof -
    have "pow2 (flog2 x + 1) \<le> pow2 (flog2 y)" using ey ex lt by simp
    then show ?thesis using flog2_bounds(2) [OF assms(1)] by linarith
  qed
  then have "rnd_pos x \<le> pow2 (flog2 y)"
    by (rule rnd_pos_le_pow2 [OF assms(1)]) (use ey lt in simp)
  also have "pow2 (flog2 y) \<le> rnd_pos y"
    by (rule rnd_pos_ge_pow2 [OF y flog2_bounds(1) [OF y]]) (use ey in simp)
  finally show ?thesis .
qed

lemma rnd_mono: "x \<le> y \<Longrightarrow> rnd x \<le> rnd y"
proof -
  assume le: "x \<le> y"
  consider "0 < x" | "x = 0" | "x < 0" "0 < y" | "x < 0" "y = 0" | "y < 0"
    using le by linarith
  then show ?thesis
  proof cases
    case 1
    with le show ?thesis using rnd_pos_mono [of x y] by (simp add: rnd_def)
  next
    case 2
    with le show ?thesis using rnd_pos_nonneg [of y] by (auto simp: rnd_def)
  next
    case 3
    with rnd_pos_nonneg [of "- x"] rnd_pos_nonneg [of y] show ?thesis by (simp add: rnd_def)
  next
    case 4
    with rnd_pos_nonneg [of "- x"] show ?thesis by (simp add: rnd_def)
  next
    case 5
    with le rnd_pos_mono [of "- y" "- x"] show ?thesis by (simp add: rnd_def)
  qed
qed

lemma rnd_0 [simp]: "rnd 0 = 0"
  by (simp add: rnd_def)

lemma rnd_neg: "rnd (- x) = - rnd x"
  by (simp add: rnd_def)

text \<open>The numbers \<open>m * 2 ^ k\<close> of the format are fixed points.\<close>

lemma rnd_pos_grid:
  assumes "x = of_int m * pow2 k" "0 < m" "m \<le> 2 ^ 53" "- 1074 \<le> k"
  shows "rnd_pos x = x"
proof -
  define e where "e = exp_of x"
  have x: "0 < x" using assms(1,2) by simp
  have "\<exists>n::int. x / pow2 e = of_int n"
  proof (cases "e \<le> k")
    case True
    then have "x / pow2 e = of_int (m * 2 ^ nat (k - e))"
      using pow2_diff [of k e] pow2_int [of "k - e"] by (simp add: assms(1))
    then show ?thesis by blast
  next
    case False
    with assms(4) have e: "e = flog2 x - 52" unfolding e_def exp_of_def by linarith
    have "pow2 (flog2 x) \<le> of_int m * pow2 k"
      using flog2_bounds(1) [OF x] assms(1) by simp
    also have "of_int m * pow2 k \<le> of_int (2 ^ 53) * pow2 k"
      using assms(3) by (intro mult_right_mono) (simp_all only: of_int_le_iff pow2_pos less_imp_le)
    also have "of_int (2 ^ 53) * pow2 k = pow2 (53 + k)"
      using pow2_add [of 53 k] pow2_int [of 53] by simp
    finally have "flog2 x \<le> 53 + k" by simp
    with False e have e1: "e = k + 1" and fl: "flog2 x = 53 + k" by linarith+
    have "of_int (2 ^ 53) * pow2 k \<le> of_int m * pow2 k"
      using flog2_bounds(1) [OF x] assms(1) fl pow2_add [of 53 k] pow2_int [of 53] by simp
    then have "(of_int (2 ^ 53) :: rat) \<le> of_int m" by (simp only: mult_le_cancel_right_pos pow2_pos)
    then have "2 ^ 53 \<le> m" by (simp only: of_int_le_iff)
    with assms(3) have "m = 2 ^ 53" by simp
    then have "x / pow2 e = of_int (2 ^ 52)"
      using pow2_add [of k 1] pow2_int [of 1] by (simp add: assms(1) e1)
    then show ?thesis by blast
  qed
  then obtain n where n: "x / pow2 e = of_int n" by blast
  then have "rnd_pos x = of_int n * pow2 e" by (simp add: rnd_pos_def e_def [symmetric])
  also have "\<dots> = x" using n by (simp add: field_simps)
  finally show ?thesis .
qed

lemma rnd_of_int: "\<bar>n\<bar> \<le> 2 ^ 53 \<Longrightarrow> rnd (of_int n) = of_int n"
proof -
  assume n: "\<bar>n\<bar> \<le> 2 ^ 53"
  consider "n = 0" | "0 < n" | "n < 0" by linarith
  then show ?thesis
  proof cases
    case 2
    with n rnd_pos_grid [of "of_int n" n 0] show ?thesis by (simp add: rnd_def)
  next
    case 3
    with n rnd_pos_grid [of "of_int (- n)" "- n" 0] show ?thesis by (simp add: rnd_def)
  qed simp
qed

lemma rnd_nonneg: "0 \<le> x \<Longrightarrow> 0 \<le> rnd x"
  using rnd_mono [of 0 x] by simp

lemma rnd_le_int: "x \<le> of_int n \<Longrightarrow> \<bar>n\<bar> \<le> 2 ^ 53 \<Longrightarrow> rnd x \<le> of_int n"
  using rnd_mono [of x "of_int n"] rnd_of_int [of n] by simp

lemma rnd_1 [simp]: "rnd 1 = 1"
  using rnd_of_int [of 1] by simp

text \<open>Rounding twice is rounding once: the result of rounding is a number of the format.\<close>

definition repr :: "rat \<Rightarrow> bool" where
  "repr x \<longleftrightarrow> rnd x = x"

lemma rnd_pos_idem: "0 < x \<Longrightarrow> rnd (rnd_pos x) = rnd_pos x"
proof -
  assume x: "0 < x"
  define e m where "e = exp_of x" and "m = round_even (x / pow2 e)"
  have r: "rnd_pos x = of_int m * pow2 e" by (simp add: rnd_pos_def e_def m_def)
  have e: "- 1074 \<le> e" "flog2 x - 52 \<le> e" by (simp_all add: e_def exp_of_def)
  have m0: "0 \<le> m" unfolding m_def
    using x by (intro round_even_ge_int) (simp add: less_imp_le)
  have "x < pow2 (flog2 x + 1)" using x by (rule flog2_bounds)
  also have "\<dots> \<le> pow2 (53 + e)" using e(2) by simp
  also have "\<dots> = of_int (2 ^ 53) * pow2 e" using pow2_add [of 53 e] pow2_int [of 53] by simp
  finally have "x / pow2 e \<le> of_int (2 ^ 53)" by (simp add: pos_divide_le_eq less_imp_le)
  then have m: "m \<le> 2 ^ 53" unfolding m_def by (rule round_even_le_int)
  show ?thesis
  proof (cases "m = 0")
    case False
    with m0 have "0 < m" by simp
    then have "rnd_pos (rnd_pos x) = rnd_pos x" using r m e(1) by (intro rnd_pos_grid) simp_all
    moreover have "0 < rnd_pos x" using r \<open>0 < m\<close> by simp
    ultimately show ?thesis by (simp add: rnd_def)
  qed (simp add: r)
qed

lemma rnd_idem [simp]: "rnd (rnd x) = rnd x"
proof -
  consider "x = 0" | "0 < x" | "x < 0" by linarith
  then show ?thesis
  proof cases
    case 2
    then show ?thesis using rnd_pos_idem [of x] by (simp add: rnd_def [of x])
  next
    case 3
    then show ?thesis using rnd_pos_idem [of "- x"] by (simp add: rnd_def [of x] rnd_neg)
  qed simp
qed

lemma repr_rnd [simp]: "repr (rnd x)"
  by (simp add: repr_def)

subsection \<open>The type and its operations\<close>

datatype f64 = Fin rat | PInf | NInf | NaN

definition max_finite :: rat where
  "max_finite = 4294967296 ^ 32"

lemma max_finite_pos [simp]: "0 < max_finite" "\<not> max_finite \<le> 0"
  by (simp_all add: max_finite_def)

definition to_f64 :: "rat \<Rightarrow> f64" where
  "to_f64 x = (let r = rnd x in
     if max_finite \<le> r then PInf else if r \<le> - max_finite then NInf else Fin r)"

definition of_int64 :: "int \<Rightarrow> f64" where
  "of_int64 n = to_f64 (of_int n)"

fun is_nan :: "f64 \<Rightarrow> bool" where
  "is_nan NaN = True" | "is_nan _ = False"

fun is_inf :: "f64 \<Rightarrow> bool" where
  "is_inf PInf = True" | "is_inf NInf = True" | "is_inf _ = False"

fun is_fin :: "f64 \<Rightarrow> bool" where
  "is_fin (Fin _) = True" | "is_fin _ = False"

fun fneg :: "f64 \<Rightarrow> f64" where
  "fneg (Fin x) = Fin (- x)" | "fneg PInf = NInf" | "fneg NInf = PInf" | "fneg NaN = NaN"

fun fadd :: "f64 \<Rightarrow> f64 \<Rightarrow> f64" where
  "fadd NaN _ = NaN"
| "fadd _ NaN = NaN"
| "fadd (Fin x) (Fin y) = to_f64 (x + y)"
| "fadd PInf NInf = NaN"
| "fadd NInf PInf = NaN"
| "fadd PInf _ = PInf"
| "fadd NInf _ = NInf"
| "fadd _ i = i"

definition fsub :: "f64 \<Rightarrow> f64 \<Rightarrow> f64" where
  "fsub x y = fadd x (fneg y)"

definition inf_of_sign :: "rat \<Rightarrow> f64" where
  "inf_of_sign s = (if s = 0 then NaN else if 0 < s then PInf else NInf)"

fun fsgn :: "f64 \<Rightarrow> rat" where
  "fsgn (Fin x) = sgn x" | "fsgn PInf = 1" | "fsgn NInf = -1" | "fsgn NaN = 0"

fun fmul :: "f64 \<Rightarrow> f64 \<Rightarrow> f64" where
  "fmul NaN _ = NaN"
| "fmul _ NaN = NaN"
| "fmul (Fin x) (Fin y) = to_f64 (x * y)"
| "fmul x y = inf_of_sign (fsgn x * fsgn y)"

fun fdiv :: "f64 \<Rightarrow> f64 \<Rightarrow> f64" where
  "fdiv NaN _ = NaN"
| "fdiv _ NaN = NaN"
| "fdiv (Fin x) (Fin y) = (if y = 0 then inf_of_sign (sgn x) else to_f64 (x / y))"
| "fdiv (Fin _) _ = Fin 0"
| "fdiv x (Fin y) = inf_of_sign (fsgn x * (if y < 0 then -1 else 1))"
| "fdiv _ _ = NaN"

fun fle :: "f64 \<Rightarrow> f64 \<Rightarrow> bool" where
  "fle NaN _ = False"
| "fle _ NaN = False"
| "fle (Fin x) (Fin y) = (x \<le> y)"
| "fle NInf _ = True"
| "fle _ PInf = True"
| "fle _ _ = False"

fun flt :: "f64 \<Rightarrow> f64 \<Rightarrow> bool" where
  "flt NaN _ = False"
| "flt _ NaN = False"
| "flt (Fin x) (Fin y) = (x < y)"
| "flt NInf NInf = False"
| "flt NInf _ = True"
| "flt PInf PInf = False"
| "flt _ PInf = True"
| "flt _ _ = False"

fun feq :: "f64 \<Rightarrow> f64 \<Rightarrow> bool" where
  "feq NaN _ = False"
| "feq _ NaN = False"
| "feq x y = (x = y)"

text \<open>\<open>math.Max\<close>, \<open>math.Min\<close>, \<open>math.Abs\<close>, \<open>math.Round\<close> (half away from zero), \<open>math.Ceil\<close>.\<close>

definition fmax :: "f64 \<Rightarrow> f64 \<Rightarrow> f64" where
  "fmax x y = (if x = PInf \<or> y = PInf then PInf
     else if is_nan x \<or> is_nan y then NaN else if flt y x then x else y)"

definition fmin :: "f64 \<Rightarrow> f64 \<Rightarrow> f64" where
  "fmin x y = (if x = NInf \<or> y = NInf then NInf
     else if is_nan x \<or> is_nan y then NaN else if flt x y then x else y)"

fun fabs :: "f64 \<Rightarrow> f64" where
  "fabs (Fin x) = Fin \<bar>x\<bar>" | "fabs NaN = NaN" | "fabs _ = PInf"

fun fround :: "f64 \<Rightarrow> f64" where
  "fround (Fin x) = Fin (of_int (if 0 \<le> x then \<lfloor>x + 1 / 2\<rfloor> else - \<lfloor>1 / 2 - x\<rfloor>))"
| "fround x = x"

fun fceil :: "f64 \<Rightarrow> f64" where
  "fceil (Fin x) = Fin (of_int \<lceil>x\<rceil>)" | "fceil x = x"

text \<open>
  The conversion \<open>int(x)\<close> of a \<open>float64\<close> truncates.  Go leaves the value of an
  out-of-range conversion to the implementation; here it is the least 64-bit integer, as on
  amd64.
\<close>

fun to_int64 :: "f64 \<Rightarrow> int" where
  "to_int64 (Fin x) = (let t = (if 0 \<le> x then \<lfloor>x\<rfloor> else \<lceil>x\<rceil>) in
     if - (2 ^ 63) \<le> t \<and> t < 2 ^ 63 then t else - (2 ^ 63))"
| "to_int64 _ = - (2 ^ 63)"

text \<open>\<open>Duration.Seconds()\<close>: whole seconds plus the fraction, both rounded.\<close>

definition dur_seconds :: "duration \<Rightarrow> f64" where
  "dur_seconds d = fadd (of_int64 (go_div d second))
     (fdiv (of_int64 (go_mod d second)) (Fin 1000000000))"

text \<open>The verb \<open>%.nf\<close> of \<open>fmt\<close>: exact decimal rounding, ties to even.\<close>

definition zpad :: "nat \<Rightarrow> string \<Rightarrow> string" where
  "zpad n s = replicate (n - length s) (CHR ''0'') @ s"

fun fmt_fixed :: "nat \<Rightarrow> f64 \<Rightarrow> string" where
  "fmt_fixed n (Fin x) =
     (let d = nat (round_even (\<bar>x\<bar> * 10 ^ n)) in
      (if x < 0 then ''-'' else '''') @ nat_digits (d div 10 ^ n) @
      (if n = 0 then '''' else CHR ''.'' # zpad n (nat_digits (d mod 10 ^ n))))"
| "fmt_fixed n PInf = ''+Inf''"
| "fmt_fixed n NInf = ''-Inf''"
| "fmt_fixed n NaN = ''NaN''"

subsection \<open>What the components use\<close>

lemma to_f64_not_nan [simp]: "to_f64 x \<noteq> NaN" "\<not> is_nan (to_f64 x)"
  by (simp_all add: to_f64_def Let_def)

lemma to_f64_mono: "x \<le> y \<Longrightarrow> fle (to_f64 x) (to_f64 y)"
  using rnd_mono [of x y] max_finite_pos(1)
  unfolding to_f64_def Let_def by (simp; linarith)

lemma to_f64_0 [simp]: "to_f64 0 = Fin 0"
  by (simp add: to_f64_def)

lemma to_f64_fin: "\<bar>x\<bar> < max_finite \<Longrightarrow> repr x \<Longrightarrow> to_f64 x = Fin x"
  by (auto simp: to_f64_def repr_def)

lemma to_f64_of_int: "\<bar>n\<bar> \<le> 2 ^ 53 \<Longrightarrow> to_f64 (of_int n) = Fin (of_int n)"
proof (rule to_f64_fin)
  assume n: "\<bar>n\<bar> \<le> 2 ^ 53"
  then have "(of_int \<bar>n\<bar> :: rat) \<le> of_int (2 ^ 53)" by (simp only: of_int_le_iff)
  then show "\<bar>of_int n :: rat\<bar> < max_finite" by (simp add: max_finite_def)
  show "repr (of_int n)" using n by (simp add: repr_def rnd_of_int)
qed

lemma to_f64_nonneg: "0 \<le> x \<Longrightarrow> fle (Fin 0) (to_f64 x)"
  using to_f64_mono [of 0 x] by simp

lemma of_int64_exact: "\<bar>n\<bar> \<le> 2 ^ 53 \<Longrightarrow> of_int64 n = Fin (of_int n)"
  by (simp add: of_int64_def to_f64_of_int)

lemma of_int64_mono: "m \<le> n \<Longrightarrow> fle (of_int64 m) (of_int64 n)"
  by (simp add: of_int64_def to_f64_mono)

lemma fadd_nonneg: "fle (Fin 0) x \<Longrightarrow> fle (Fin 0) y \<Longrightarrow> fle (Fin 0) (fadd x y)"
  by (cases x; cases y) (auto intro: to_f64_nonneg)

lemma fmul_nonneg:
  "fle (Fin 0) x \<Longrightarrow> fle (Fin 0) y \<Longrightarrow> fmul x y = NaN \<or> fle (Fin 0) (fmul x y)"
  by (cases x; cases y) (auto simp: inf_of_sign_def intro: to_f64_nonneg)

lemma dur_seconds_nonneg: "0 \<le> d \<Longrightarrow> fle (Fin 0) (dur_seconds d)"
proof -
  assume d: "0 \<le> d"
  have s: "0 < second" by (simp add: second_def)
  have "fle (Fin 0) (of_int64 n)" if "0 \<le> n" for n
    using that by (simp add: of_int64_def to_f64_nonneg)
  moreover have "fle (Fin 0) (fdiv x (Fin 1000000000))" if "fle (Fin 0) x" for x
    using that by (cases x) (auto simp: inf_of_sign_def intro: to_f64_nonneg)
  ultimately show ?thesis
    using d s unfolding dur_seconds_def
    by (intro fadd_nonneg) (simp_all add: go_div_nonneg go_mod_nonneg pos_imp_zdiv_nonneg_iff)
qed

lemma fle_refl_iff: "fle x x \<longleftrightarrow> x \<noteq> NaN"
  by (cases x) auto

lemma fle_trans: "fle x y \<Longrightarrow> fle y z \<Longrightarrow> fle x z"
  by (cases x; cases y; cases z) auto

lemma fle_linear: "x \<noteq> NaN \<Longrightarrow> y \<noteq> NaN \<Longrightarrow> fle x y \<or> fle y x"
  by (cases x; cases y) auto

lemma fle_antisym: "fle x y \<Longrightarrow> fle y x \<Longrightarrow> x = y"
  by (cases x; cases y) auto

lemma flt_le: "flt x y \<longleftrightarrow> fle x y \<and> x \<noteq> y"
  by (cases x; cases y) auto

lemma not_flt: "x \<noteq> NaN \<Longrightarrow> y \<noteq> NaN \<Longrightarrow> \<not> flt x y \<longleftrightarrow> fle y x"
  by (cases x; cases y) auto

lemma fle_not_nan: "fle x y \<Longrightarrow> x \<noteq> NaN \<and> y \<noteq> NaN"
  by (cases x; cases y) auto

lemma flt_not_nan: "flt x y \<Longrightarrow> x \<noteq> NaN \<and> y \<noteq> NaN"
  by (cases x; cases y) auto

lemma fle_between_fin:
  "fle (Fin a) x \<Longrightarrow> fle x (Fin b) \<Longrightarrow> \<exists>c. x = Fin c \<and> a \<le> c \<and> c \<le> b"
  by (cases x) auto

lemma fadd_mono_fin: "a \<le> c \<Longrightarrow> b \<le> d \<Longrightarrow> fle (fadd (Fin a) (Fin b)) (fadd (Fin c) (Fin d))"
  by (simp add: to_f64_mono add_mono)

lemma fsub_fin [simp]: "fsub (Fin a) (Fin b) = to_f64 (a - b)"
  by (simp add: fsub_def)

lemma fmin_fin [simp]: "fmin (Fin a) (Fin b) = Fin (min a b)"
  by (simp add: fmin_def min_def)

lemma fmax_fin [simp]: "fmax (Fin a) (Fin b) = Fin (max a b)"
  by (simp add: fmax_def max_def)

text \<open>
  The values a \<open>float64\<close> can hold: \<open>Fin x\<close> with a representable \<open>x\<close>.
\<close>

fun wf_f64 :: "f64 \<Rightarrow> bool" where
  "wf_f64 (Fin x) = (repr x \<and> \<bar>x\<bar> < max_finite)"
| "wf_f64 _ = True"

lemma wf_to_f64 [simp]: "wf_f64 (to_f64 x)"
  by (auto simp: to_f64_def Let_def)

lemma wf_of_int64 [simp]: "wf_f64 (of_int64 n)"
  by (simp add: of_int64_def)

lemma to_f64_bound:
  assumes "0 \<le> x" "x \<le> a" "wf_f64 (Fin a)"
  shows "\<exists>c. to_f64 x = Fin c \<and> 0 \<le> c \<and> c \<le> a"
proof -
  have "rnd x \<le> a" using rnd_mono [OF assms(2)] assms(3) by (simp add: repr_def)
  moreover have "0 \<le> rnd x" using assms(1) by (rule rnd_nonneg)
  ultimately show ?thesis using assms by (auto simp: to_f64_def Let_def)
qed

lemma repr_0_1 [simp]: "repr 0" "repr 1" "1 < max_finite" "0 < max_finite"
  by (simp_all add: repr_def max_finite_def)

lemma wf_of_int: "\<bar>n\<bar> \<le> 2 ^ 53 \<Longrightarrow> wf_f64 (Fin (of_int n))"
  using to_f64_of_int [of n] wf_to_f64 [of "of_int n"] by simp

lemma to_f64_unit: "0 \<le> x \<Longrightarrow> x \<le> 1 \<Longrightarrow> \<exists>c. to_f64 x = Fin c \<and> 0 \<le> c \<and> c \<le> 1"
  by (rule to_f64_bound) simp_all

lemma fmul_unit:
  assumes "0 \<le> p" "p \<le> 1" "0 \<le> a" "wf_f64 (Fin a)"
  shows "\<exists>c. fmul (Fin p) (Fin a) = Fin c \<and> 0 \<le> c \<and> c \<le> a \<and> wf_f64 (Fin c)"
proof -
  have "p * a \<le> a" using assms mult_right_mono [of p 1 a] by simp
  with to_f64_bound [of "p * a" a] assms obtain c where
    c: "to_f64 (p * a) = Fin c" "0 \<le> c" "c \<le> a" by auto
  with wf_to_f64 [of "p * a"] show ?thesis by auto
qed

lemma fmul_fin_nonneg: "0 \<le> a \<Longrightarrow> 0 \<le> b \<Longrightarrow> fle (Fin 0) (fmul (Fin a) (Fin b))"
  by (simp add: to_f64_nonneg)

end
