(* ===== verification/Token_Bucket.thy ===== *)
theory Token_Bucket
  imports Go_Float
begin

text \<open>
  The contract of a token bucket at one instant: a request takes a token if one is available, and
  a refusal takes none.  Proved from it: however many requests arrive at that instant, no more are
  granted than tokens were available.  The per-tenant bucket, the two-level limiter built on it
  and the layered limiter provide the contract.
\<close>

text \<open>\<open>Time.Sub\<close> saturates at the ends of a 64-bit duration.\<close>

definition time_sub :: "gotime \<Rightarrow> gotime \<Rightarrow> duration" where
  "time_sub t u = max (- 9223372036854775808) (min 9223372036854775807 (t - u))"

lemma dur_seconds_0 [simp]: "dur_seconds 0 = Fin 0"
  by (simp add: dur_seconds_def go_div_def go_mod_def of_int64_def second_def)

lemma dur_seconds_fin:
  assumes "0 \<le> d" "d \<le> 9223372036854775807"
  shows "\<exists>e. dur_seconds d = Fin e \<and> of_int (d div second) \<le> e \<and> e \<le> of_int (d div second + 1)"
proof -
  let ?s = "d div second" and ?n = "d mod second"
  have s: "0 \<le> ?s" "?s \<le> 9223372036" "0 \<le> ?n" "?n < 1000000000"
    using assms by (simp_all add: second_def div_le_mono)
  have g: "go_div d second = ?s" "go_mod d second = ?n"
    using assms(1) by (simp_all add: go_div_nonneg go_mod_nonneg second_def)
  have es: "of_int64 ?s = Fin (of_int ?s)" "of_int64 ?n = Fin (of_int ?n)"
    using s by (simp_all add: of_int64_exact)
  have "0 \<le> (of_int ?n / 1000000000 :: rat)" "(of_int ?n / 1000000000 :: rat) \<le> 1"
    using s(3,4) by (simp_all add: divide_le_eq)
  then obtain c where c: "to_f64 (of_int ?n / 1000000000) = Fin c" "0 \<le> c" "c \<le> 1"
    using to_f64_unit by blast
  have d: "dur_seconds d = to_f64 (of_int ?s + c)"
    by (simp add: dur_seconds_def g es c(1))
  have "fle (to_f64 (of_int ?s)) (to_f64 (of_int ?s + c))" "fle (to_f64 (of_int ?s + c)) (to_f64 (of_int (?s + 1)))"
    using c(2,3) by (simp_all add: to_f64_mono)
  moreover have "to_f64 (of_int ?s) = Fin (of_int ?s)" "to_f64 (of_int (?s + 1)) = Fin (of_int (?s + 1))"
    using s by (simp_all add: to_f64_of_int del: of_int_add)
  ultimately show ?thesis
    using fle_between_fin [of "of_int ?s" "to_f64 (of_int ?s + c)" "of_int (?s + 1)"] by (simp only: d)
qed

lemma to_f64_wf: "wf_f64 (Fin x) \<Longrightarrow> to_f64 x = Fin x"
  by (rule to_f64_fin) simp_all

lemma fsub_one_le:
  assumes "fle (Fin 1) x" "fle x (Fin (of_int k))" "\<bar>k\<bar> < 2 ^ 53"
  shows "1 \<le> k \<and> fle (fsub x (Fin 1)) (Fin (of_int (k - 1)))"
proof -
  obtain a where a: "x = Fin a" "1 \<le> a" "a \<le> of_int k"
    using fle_between_fin [OF assms(1,2)] by blast
  then have "(1 :: rat) \<le> of_int k" by simp
  then have k: "1 \<le> k" by simp
  have "fle (to_f64 (a - 1)) (to_f64 (of_int (k - 1)))" using a(3) by (intro to_f64_mono) simp
  moreover have "to_f64 (of_int (k - 1)) = Fin (of_int (k - 1))" using assms(3) k by (intro to_f64_of_int) simp
  ultimately show ?thesis using a(1) k by (simp del: of_int_diff)
qed

locale token_bucket =
  fixes try_take :: "'b \<Rightarrow> bool \<times> 'b"
    and avail :: "'b \<Rightarrow> f64"
    and ok :: "'b \<Rightarrow> bool"
  assumes ok_take: "ok b \<Longrightarrow> ok (snd (try_take b))"
    and granted: "ok b \<Longrightarrow> fst (try_take b) \<Longrightarrow>
      fle (Fin 1) (avail b) \<and> fle (avail (snd (try_take b))) (fsub (avail b) (Fin 1))"
    and refused: "ok b \<Longrightarrow> \<not> fst (try_take b) \<Longrightarrow> fle (avail (snd (try_take b))) (avail b)"
begin

fun grants :: "nat \<Rightarrow> 'b \<Rightarrow> nat" where
  "grants 0 b = 0"
| "grants (Suc n) b = (if fst (try_take b) then 1 else 0) + grants n (snd (try_take b))"

fun after :: "nat \<Rightarrow> 'b \<Rightarrow> 'b" where
  "after 0 b = b"
| "after (Suc n) b = after n (snd (try_take b))"

lemma ok_after: "ok b \<Longrightarrow> ok (after n b)"
  by (induction n arbitrary: b) (simp_all add: ok_take)

lemma burst_bound:
  "ok b \<Longrightarrow> fle (avail b) (Fin (of_int k)) \<Longrightarrow> 0 \<le> k \<Longrightarrow> k < 2 ^ 53 \<Longrightarrow> int (grants n b) \<le> k"
proof (induction n arbitrary: b k)
  case (Suc n)
  show ?case
  proof (cases "fst (try_take b)")
    case True
    note g = granted [OF Suc.prems(1) True]
    have k: "1 \<le> k" "fle (fsub (avail b) (Fin 1)) (Fin (of_int (k - 1)))"
      using fsub_one_le [of "avail b" k] g Suc.prems(2,3,4) by simp_all
    have "fle (avail (snd (try_take b))) (Fin (of_int (k - 1)))" using fle_trans g k(2) by blast
    then have "int (grants n (snd (try_take b))) \<le> k - 1"
      using Suc.IH [OF ok_take [OF Suc.prems(1)], of "k - 1"] k(1) Suc.prems(4) by (simp del: of_int_diff)
    with True show ?thesis by simp
  next
    case False
    have "fle (avail (snd (try_take b))) (Fin (of_int k))"
      using fle_trans [OF refused [OF Suc.prems(1) False] Suc.prems(2)] .
    with Suc.IH [OF ok_take [OF Suc.prems(1)] this Suc.prems(3,4)] False show ?thesis by simp
  qed
qed simp

end

end
