(* ===== verification/Bot_Types.thy ===== *)
theory Bot_Types
  imports Token_Bucket
begin

text \<open>
  The data of the bot defense, \<open>internal/bot_defense/types.go\<close>: the attributes of a request, the
  signals the analysers measure, and the verdict.  The metadata of a request is not read by any
  analyser and left out.  \<open>None\<close> is the zero timestamp.
\<close>

datatype automation_risk_level = RiskLow | RiskMedium | RiskHigh | RiskCritical

fun risk_level_string :: "automation_risk_level \<Rightarrow> string" where
  "risk_level_string RiskLow = ''LOW''"
| "risk_level_string RiskMedium = ''MEDIUM''"
| "risk_level_string RiskHigh = ''HIGH''"
| "risk_level_string RiskCritical = ''CRITICAL''"

datatype defense_action = ActAllow | ActScrutinize | ActElevateRisk | ActContain

fun defense_action_string :: "defense_action \<Rightarrow> string" where
  "defense_action_string ActAllow = ''ALLOW''"
| "defense_action_string ActScrutinize = ''SCRUTINIZE''"
| "defense_action_string ActElevateRisk = ''ELEVATE_RISK''"
| "defense_action_string ActContain = ''CONTAIN''"

record bot_context =
  bx_tenant_id :: string
  bx_plan_tier :: string
  bx_transaction_id :: string
  bx_account_id :: string
  bx_device_fingerprint :: string
  bx_ip_address :: string
  bx_user_agent :: string
  bx_card_hash :: string
  bx_amount :: f64
  bx_currency :: string
  bx_nonce :: string
  bx_timestamp :: "gotime option"

record bot_signals =
  sg_iat_mean_ms :: f64
  sg_iat_std_dev :: f64
  sg_coefficient_of_variation :: f64
  sg_request_cadence_hz :: f64
  sg_is_deterministic_cadence :: bool
  sg_is_burst_pacing :: bool
  sg_account_fan_out_1h :: int
  sg_device_fan_out_1h :: int
  sg_ip_device_fan_out_5m :: int
  sg_card_testing_tokens_5m :: int
  sg_is_card_testing_probing :: bool
  sg_replay_detected :: bool
  sg_time_drift_sec :: f64
  sg_is_headless_ua :: bool
  sg_tenant_limited :: bool
  sg_ip_limited :: bool
  sg_device_limited :: bool
  sg_account_limited :: bool
  sg_card_limited :: bool

definition no_signals :: bot_signals where
  "no_signals =
     \<lparr>sg_iat_mean_ms = Fin 0, sg_iat_std_dev = Fin 0, sg_coefficient_of_variation = Fin 0, sg_request_cadence_hz = Fin 0,
      sg_is_deterministic_cadence = False, sg_is_burst_pacing = False, sg_account_fan_out_1h = 0,
      sg_device_fan_out_1h = 0, sg_ip_device_fan_out_5m = 0, sg_card_testing_tokens_5m = 0,
      sg_is_card_testing_probing = False, sg_replay_detected = False, sg_time_drift_sec = Fin 0,
      sg_is_headless_ua = False, sg_tenant_limited = False, sg_ip_limited = False, sg_device_limited = False,
      sg_account_limited = False, sg_card_limited = False\<rparr>"

record bot_result =
  br_automation_risk_score :: f64
  br_risk_level :: automation_risk_level
  br_recommended_action :: defense_action
  br_triggered_rules :: "string list"
  br_observed_patterns :: "string list"
  br_signals :: bot_signals
  br_evaluated_at :: gotime
  br_latency_ms :: f64
  br_is_degraded :: bool
  br_degrade_reason :: string

end
