(* ===== verification/Rate_Limiter.thy ===== *)
theory Rate_Limiter
  imports Token_Bucket
begin

text \<open>
  The two-level limiter, \<open>internal/riskengine/rate_limiter.go\<close>: one bucket for the platform and one
  per tenant, made on first use.  Every bucket runs under its own mutex; a call reads one clock.
\<close>

record tenant_bucket =
  tb_tokens :: f64
  tb_capacity :: f64
  tb_refill_rate :: f64
  tb_last_refill :: gotime

definition new_tenant_bucket :: "f64 \<Rightarrow> f64 \<Rightarrow> gotime \<Rightarrow> tenant_bucket" where
  "new_tenant_bucket rate burst now =
     \<lparr>tb_tokens = burst, tb_capacity = burst, tb_refill_rate = rate, tb_last_refill = now\<rparr>"

definition tb_allow :: "int \<Rightarrow> gotime \<Rightarrow> tenant_bucket \<Rightarrow> bool \<times> tenant_bucket" where
  "tb_allow n now b =
     (let elapsed = dur_seconds (time_sub now (tb_last_refill b));
          t1 = fadd (tb_tokens b) (fmul elapsed (tb_refill_rate b));
          t2 = (if flt (tb_capacity b) t1 then tb_capacity b else t1);
          req = of_int64 n in
      if fle req t2 then (True, b\<lparr>tb_last_refill := now, tb_tokens := fsub t2 req\<rparr>)
      else (False, b\<lparr>tb_last_refill := now, tb_tokens := t2\<rparr>))"

record rate_limiter_config =
  rl_default_rate_per_sec :: f64
  rl_default_burst_cap :: f64
  rl_global_rate_per_sec :: f64
  rl_global_burst_cap :: f64
  rl_cleanup_interval :: duration

definition default_rate_limiter_config :: rate_limiter_config where
  "default_rate_limiter_config =
     \<lparr>rl_default_rate_per_sec = Fin 5000, rl_default_burst_cap = Fin 10000, rl_global_rate_per_sec = Fin 50000,
      rl_global_burst_cap = Fin 100000, rl_cleanup_interval = 10 * minute\<rparr>"

record tenant_rate_limiter =
  rl_config :: rate_limiter_config
  rl_global :: "tenant_bucket option"
  rl_tenants :: "string \<rightharpoonup> tenant_bucket"
  rl_enabled :: bool

definition new_tenant_rate_limiter :: "rate_limiter_config \<Rightarrow> gotime \<Rightarrow> tenant_rate_limiter" where
  "new_tenant_rate_limiter cfg now =
     \<lparr>rl_config = cfg, rl_global = Some (new_tenant_bucket (rl_global_rate_per_sec cfg) (rl_global_burst_cap cfg) now),
      rl_tenants = Map.empty, rl_enabled = True\<rparr>"

definition rl_set_enabled :: "bool \<Rightarrow> tenant_rate_limiter \<Rightarrow> tenant_rate_limiter" where
  "rl_set_enabled e rl = rl\<lparr>rl_enabled := e\<rparr>"

definition tenant_bucket_of :: "string \<Rightarrow> gotime \<Rightarrow> tenant_rate_limiter \<Rightarrow> tenant_bucket" where
  "tenant_bucket_of tenant now rl =
     (case rl_tenants rl tenant of Some b \<Rightarrow> b
      | None \<Rightarrow> new_tenant_bucket (rl_default_rate_per_sec (rl_config rl)) (rl_default_burst_cap (rl_config rl)) now)"

definition allow_n :: "string \<Rightarrow> int \<Rightarrow> gotime \<Rightarrow> tenant_rate_limiter \<Rightarrow> bool \<times> tenant_rate_limiter" where
  "allow_n tenant_id n now rl =
     (if \<not> rl_enabled rl then (True, rl)
      else
        (let (g, rl1) = (case rl_global rl of None \<Rightarrow> (True, rl)
               | Some b \<Rightarrow> (case tb_allow n now b of (g, b') \<Rightarrow> (g, rl\<lparr>rl_global := Some b'\<rparr>))) in
         if \<not> g then (False, rl1)
         else
           (let tenant = (if tenant_id = '''' then ''default'' else tenant_id);
                (r, b') = tb_allow n now (tenant_bucket_of tenant now rl1) in
            (r, rl1\<lparr>rl_tenants := (rl_tenants rl1)(tenant \<mapsto> b')\<rparr>))))"

definition allow :: "string \<Rightarrow> gotime \<Rightarrow> tenant_rate_limiter \<Rightarrow> bool \<times> tenant_rate_limiter" where
  "allow tenant_id now rl = allow_n tenant_id 1 now rl"

subsection \<open>Facts about a bucket\<close>

text \<open>The tokens of a bucket after its refill at an instant, and the buckets with sensible numbers.\<close>

definition tb_refilled :: "gotime \<Rightarrow> tenant_bucket \<Rightarrow> f64" where
  "tb_refilled now b =
     (let t1 = fadd (tb_tokens b) (fmul (dur_seconds (time_sub now (tb_last_refill b))) (tb_refill_rate b)) in
      if flt (tb_capacity b) t1 then tb_capacity b else t1)"

definition tb_ok :: "gotime \<Rightarrow> tenant_bucket \<Rightarrow> bool" where
  "tb_ok now b \<longleftrightarrow> tb_last_refill b \<le> now \<and>
     (\<exists>c r t. tb_capacity b = Fin c \<and> wf_f64 (Fin c) \<and> 0 \<le> c \<and> tb_refill_rate b = Fin r \<and> 0 \<le> r \<and>
       tb_tokens b = Fin t \<and> wf_f64 (Fin t) \<and> 0 \<le> t \<and> t \<le> c)"

lemma time_sub_bounds: "u \<le> t \<Longrightarrow> 0 \<le> time_sub t u \<and> time_sub t u \<le> 9223372036854775807"
  by (simp add: time_sub_def)

lemma tb_refilled_fin:
  assumes "tb_ok now b"
  shows "\<exists>x. tb_refilled now b = Fin x \<and> wf_f64 (Fin x) \<and> 0 \<le> x \<and> fle (Fin x) (tb_capacity b)"
proof -
  obtain c r t where b: "tb_capacity b = Fin c" "wf_f64 (Fin c)" "0 \<le> c" "tb_refill_rate b = Fin r" "0 \<le> r"
    "tb_tokens b = Fin t" "wf_f64 (Fin t)" "0 \<le> t" "t \<le> c" and l: "tb_last_refill b \<le> now"
    using assms by (auto simp: tb_ok_def)
  obtain e where e: "dur_seconds (time_sub now (tb_last_refill b)) = Fin e" "0 \<le> e"
    using dur_seconds_fin [of "time_sub now (tb_last_refill b)"] time_sub_bounds [OF l]
      dur_seconds_nonneg [of "time_sub now (tb_last_refill b)"] by auto
  let ?m = "fmul (Fin e) (Fin r)"
  have m: "fle (Fin 0) ?m" using e(2) b(5) by (rule fmul_fin_nonneg)
  let ?t1 = "fadd (Fin t) ?m"
  have t1: "fle (Fin 0) ?t1" using m b(8) by (intro fadd_nonneg) simp_all
  have w: "wf_f64 ?t1" using m by (cases ?m) simp_all
  show ?thesis
  proof (cases "flt (Fin c) ?t1")
    case True
    then show ?thesis using b by (simp add: tb_refilled_def e(1))
  next
    case False
    have nn: "?t1 \<noteq> NaN" using fle_not_nan [OF t1] by simp
    have "fle ?t1 (Fin c)" using False not_flt [of "Fin c" ?t1] nn by simp
    then obtain x where "?t1 = Fin x" "0 \<le> x" "x \<le> c" using fle_between_fin [OF t1] by blast
    then show ?thesis using b False w by (simp add: tb_refilled_def e(1))
  qed
qed

lemma tb_allow_refilled:
  "tb_allow n now b = (if fle (of_int64 n) (tb_refilled now b)
     then (True, b\<lparr>tb_last_refill := now, tb_tokens := fsub (tb_refilled now b) (of_int64 n)\<rparr>)
     else (False, b\<lparr>tb_last_refill := now, tb_tokens := tb_refilled now b\<rparr>))"
  by (simp add: tb_allow_def tb_refilled_def Let_def)

lemma of_int64_1: "of_int64 1 = Fin 1"
  using of_int64_exact [of 1] by simp

lemma tb_refilled_now:
  assumes "tb_last_refill b = now" "tb_tokens b = Fin t" "wf_f64 (Fin t)" "tb_refill_rate b = Fin r"
    "fle (Fin t) (tb_capacity b)"
  shows "tb_refilled now b = Fin t"
proof -
  have "\<not> flt (tb_capacity b) (Fin t)" using assms(5) by (cases "tb_capacity b") auto
  then show ?thesis using assms to_f64_wf [OF assms(3)] by (simp add: tb_refilled_def time_sub_def)
qed

text \<open>One token at one instant.\<close>

lemma tb_allow_one:
  assumes "tb_ok now b"
  shows "tb_ok now (snd (tb_allow 1 now b))"
    and "fst (tb_allow 1 now b) \<Longrightarrow> fle (Fin 1) (tb_refilled now b) \<and>
      tb_refilled now (snd (tb_allow 1 now b)) = fsub (tb_refilled now b) (Fin 1)"
    and "\<not> fst (tb_allow 1 now b) \<Longrightarrow> tb_refilled now (snd (tb_allow 1 now b)) = tb_refilled now b"
    and "tb_capacity (snd (tb_allow 1 now b)) = tb_capacity b"
proof -
  obtain x where x: "tb_refilled now b = Fin x" "wf_f64 (Fin x)" "0 \<le> x" "fle (Fin x) (tb_capacity b)"
    using tb_refilled_fin [OF assms] by blast
  obtain c r where cr: "tb_capacity b = Fin c" "wf_f64 (Fin c)" "0 \<le> c" "tb_refill_rate b = Fin r" "0 \<le> r"
    using assms by (auto simp: tb_ok_def)
  have xc: "x \<le> c" using x(4) cr(1) by simp
  have sub: "\<exists>y. fsub (Fin x) (Fin 1) = Fin y \<and> wf_f64 (Fin y) \<and> 0 \<le> y \<and> y \<le> x" if "1 \<le> x"
  proof -
    have "0 \<le> x - 1" "x - 1 \<le> x" using that by simp_all
    from to_f64_bound [OF this x(2)] obtain y where "to_f64 (x - 1) = Fin y" "0 \<le> y" "y \<le> x" by blast
    then show ?thesis using wf_to_f64 [of "x - 1"] by simp
  qed
  show "tb_ok now (snd (tb_allow 1 now b))"
    using x xc cr sub by (auto simp: tb_allow_refilled of_int64_1 tb_ok_def)
  show "tb_capacity (snd (tb_allow 1 now b)) = tb_capacity b" by (simp add: tb_allow_refilled)
  show "fst (tb_allow 1 now b) \<Longrightarrow> fle (Fin 1) (tb_refilled now b) \<and>
      tb_refilled now (snd (tb_allow 1 now b)) = fsub (tb_refilled now b) (Fin 1)"
  proof -
    assume "fst (tb_allow 1 now b)"
    then have x1: "1 \<le> x" by (simp add: tb_allow_refilled of_int64_1 x(1) split: if_splits)
    from sub [OF x1] obtain y where y: "fsub (Fin x) (Fin 1) = Fin y" "wf_f64 (Fin y)" "0 \<le> y" "y \<le> x" by blast
    have "tb_refilled now (b\<lparr>tb_last_refill := now, tb_tokens := Fin y\<rparr>) = Fin y"
      by (rule tb_refilled_now) (use y cr xc in simp_all)
    then show ?thesis using x1 y(1) by (simp add: tb_allow_refilled of_int64_1 x(1) del: fsub_fin)
  qed
  show "\<not> fst (tb_allow 1 now b) \<Longrightarrow> tb_refilled now (snd (tb_allow 1 now b)) = tb_refilled now b"
  proof -
    assume "\<not> fst (tb_allow 1 now b)"
    then have "\<not> 1 \<le> x" by (simp add: tb_allow_refilled of_int64_1 x(1) split: if_splits)
    moreover have "tb_refilled now (b\<lparr>tb_last_refill := now, tb_tokens := Fin x\<rparr>) = Fin x"
      by (rule tb_refilled_now) (use x cr in simp_all)
    ultimately show ?thesis by (simp add: tb_allow_refilled of_int64_1 x(1))
  qed
qed

interpretation tenant_tokens: token_bucket "tb_allow 1 now" "tb_refilled now" "tb_ok now" for now
proof
  fix b assume ok: "tb_ok now b"
  show "tb_ok now (snd (tb_allow 1 now b))" using tb_allow_one(1) [OF ok] .
  have nn: "tb_refilled now b \<noteq> NaN" "fsub (tb_refilled now b) (Fin 1) \<noteq> NaN"
    using tb_refilled_fin [OF ok] by auto
  show "fst (tb_allow 1 now b) \<Longrightarrow> fle (Fin 1) (tb_refilled now b) \<and>
      fle (tb_refilled now (snd (tb_allow 1 now b))) (fsub (tb_refilled now b) (Fin 1))"
    using tb_allow_one(2) [OF ok] nn(2) by (simp add: fle_refl_iff)
  show "\<not> fst (tb_allow 1 now b) \<Longrightarrow> fle (tb_refilled now (snd (tb_allow 1 now b))) (tb_refilled now b)"
    using tb_allow_one(3) [OF ok] nn(1) by (simp add: fle_refl_iff)
qed

subsection \<open>Bursts through the limiter\<close>

text \<open>The answers to a list of requests that arrive at one instant.\<close>

fun burst :: "gotime \<Rightarrow> string list \<Rightarrow> tenant_rate_limiter \<Rightarrow> (string \<times> bool) list" where
  "burst now [] rl = []"
| "burst now (t # ts) rl = (t, fst (allow t now rl)) # burst now ts (snd (allow t now rl))"

definition bucket_name :: "string \<Rightarrow> string" where
  "bucket_name t = (if t = '''' then ''default'' else t)"

definition granted_to :: "string \<Rightarrow> (string \<times> bool) list \<Rightarrow> nat" where
  "granted_to t rs = length (filter (\<lambda>(u, g). bucket_name u = t \<and> g) rs)"

definition granted_in :: "(string \<times> bool) list \<Rightarrow> nat" where
  "granted_in rs = length (filter snd rs)"

lemma fst_tb_allow: "fst (tb_allow 1 now b) \<longleftrightarrow> fle (Fin 1) (tb_refilled now b)"
  by (simp add: tb_allow_refilled of_int64_1)

lemma tenant_bucket_of_global [simp]:
  "tenant_bucket_of u now (rl\<lparr>rl_global := x\<rparr>) = tenant_bucket_of u now rl"
  by (simp add: tenant_bucket_of_def split: option.split)

lemma allow_unfold:
  assumes "rl_enabled rl" "rl_global rl = Some g"
  shows "allow t now rl =
    (if \<not> fst (tb_allow 1 now g) then (False, rl\<lparr>rl_global := Some (snd (tb_allow 1 now g))\<rparr>)
     else (fst (tb_allow 1 now (tenant_bucket_of (bucket_name t) now rl)),
       rl\<lparr>rl_global := Some (snd (tb_allow 1 now g)),
          rl_tenants := (rl_tenants rl)(bucket_name t \<mapsto> snd (tb_allow 1 now (tenant_bucket_of (bucket_name t) now rl)))\<rparr>))"
  using assms
  by (cases "tb_allow 1 now g"; cases "tb_allow 1 now (tenant_bucket_of (bucket_name t) now rl)")
    (simp add: allow_def allow_n_def bucket_name_def)

lemma allow_simps:
  assumes "rl_enabled rl" "rl_global rl = Some g"
  shows "fst (allow t now rl) \<longleftrightarrow> fst (tb_allow 1 now g) \<and> fst (tb_allow 1 now (tenant_bucket_of (bucket_name t) now rl))"
    and "rl_global (snd (allow t now rl)) = Some (snd (tb_allow 1 now g))"
    and "rl_enabled (snd (allow t now rl))" "rl_config (snd (allow t now rl)) = rl_config rl"
    and "tenant_bucket_of u now (snd (allow t now rl)) =
      (if u = bucket_name t \<and> fst (tb_allow 1 now g) then snd (tb_allow 1 now (tenant_bucket_of u now rl))
       else tenant_bucket_of u now rl)"
    and "rl_tenants (snd (allow t now rl)) u =
      (if u = bucket_name t \<and> fst (tb_allow 1 now g) then Some (snd (tb_allow 1 now (tenant_bucket_of u now rl)))
       else rl_tenants rl u)"
  using assms by (auto simp: allow_unfold tenant_bucket_of_def split: option.splits)

lemma burst_tenant_grants:
  "rl_enabled rl \<Longrightarrow> rl_global rl = Some g \<Longrightarrow>
   \<exists>m. granted_to u (burst now ts rl) = tenant_tokens.grants now m (tenant_bucket_of u now rl)"
proof (induction ts arbitrary: rl g)
  case Nil
  then show ?case by (intro exI [of _ 0]) (simp add: granted_to_def)
next
  case (Cons t ts)
  note a = allow_simps [OF Cons.prems]
  obtain m where m: "granted_to u (burst now ts (snd (allow t now rl))) =
      tenant_tokens.grants now m (tenant_bucket_of u now (snd (allow t now rl)))"
    using Cons.IH [OF a(3) a(2)] by blast
  show ?case
  proof (cases "u = bucket_name t \<and> fst (tb_allow 1 now g)")
    case True
    then show ?thesis using m a(1,5) by (intro exI [of _ "Suc m"]) (auto simp: granted_to_def)
  next
    case False
    then show ?thesis using m a(1,5) by (intro exI [of _ m]) (auto simp: granted_to_def)
  qed
qed

lemma burst_global_grants:
  "rl_enabled rl \<Longrightarrow> rl_global rl = Some g \<Longrightarrow> granted_in (burst now ts rl) \<le> tenant_tokens.grants now (length ts) g"
proof (induction ts arbitrary: rl g)
  case (Cons t ts)
  note a = allow_simps [OF Cons.prems]
  show ?case using Cons.IH [OF a(3) a(2), of t now] a(1) [of t now] by (auto simp: granted_in_def)
qed (simp add: granted_in_def)

text \<open>Limiters with sensible numbers, and the histories they see.\<close>

definition config_ok :: "rate_limiter_config \<Rightarrow> int \<Rightarrow> int \<Rightarrow> bool" where
  "config_ok cfg cap gcap \<longleftrightarrow> 0 \<le> cap \<and> cap < 2 ^ 53 \<and> 0 \<le> gcap \<and> gcap < 2 ^ 53 \<and>
     rl_default_burst_cap cfg = Fin (of_int cap) \<and> rl_global_burst_cap cfg = Fin (of_int gcap) \<and>
     (\<exists>r g. rl_default_rate_per_sec cfg = Fin r \<and> 0 \<le> r \<and> rl_global_rate_per_sec cfg = Fin g \<and> 0 \<le> g)"

definition limiter_ok :: "int \<Rightarrow> int \<Rightarrow> gotime \<Rightarrow> tenant_rate_limiter \<Rightarrow> bool" where
  "limiter_ok cap gcap now rl \<longleftrightarrow> rl_enabled rl \<and> config_ok (rl_config rl) cap gcap \<and>
     (\<exists>g. rl_global rl = Some g \<and> tb_ok now g \<and> tb_capacity g = Fin (of_int gcap)) \<and>
     (\<forall>t b. rl_tenants rl t = Some b \<longrightarrow> tb_ok now b \<and> tb_capacity b = Fin (of_int cap))"

lemma new_bucket_ok:
  "0 \<le> c \<Longrightarrow> c < 2 ^ 53 \<Longrightarrow> 0 \<le> r \<Longrightarrow> t \<le> now \<Longrightarrow> tb_ok now (new_tenant_bucket (Fin r) (Fin (of_int c)) t)"
  using wf_of_int [of c] by (simp add: tb_ok_def new_tenant_bucket_def)

lemma limiter_bucket_ok:
  assumes "limiter_ok cap gcap now rl"
  shows "tb_ok now (tenant_bucket_of u now rl) \<and> tb_capacity (tenant_bucket_of u now rl) = Fin (of_int cap)"
proof (cases "rl_tenants rl u")
  case None
  obtain r where "rl_default_rate_per_sec (rl_config rl) = Fin r" "0 \<le> r"
    "rl_default_burst_cap (rl_config rl) = Fin (of_int cap)" "0 \<le> cap" "cap < 2 ^ 53"
    using assms by (auto simp: limiter_ok_def config_ok_def)
  with None new_bucket_ok [of cap r now now] show ?thesis by (simp add: tenant_bucket_of_def new_tenant_bucket_def)
qed (use assms in \<open>auto simp: limiter_ok_def tenant_bucket_of_def\<close>)

lemma limiter_ok_allow:
  assumes "limiter_ok cap gcap now rl" shows "limiter_ok cap gcap now (snd (allow t now rl))"
proof -
  obtain g where g: "rl_global rl = Some g" "tb_ok now g" "tb_capacity g = Fin (of_int gcap)" "rl_enabled rl"
    using assms by (auto simp: limiter_ok_def)
  note a = allow_simps [OF g(4,1), of t now]
  show ?thesis
    using assms a g tb_allow_one(1,4) [OF g(2)] limiter_bucket_ok [OF assms]
      tb_allow_one(1,4) [of now "tenant_bucket_of (bucket_name t) now rl"]
    by (auto simp: limiter_ok_def split: if_splits)
qed

lemma tb_ok_later: "tb_ok now b \<Longrightarrow> now \<le> later \<Longrightarrow> tb_ok later b"
  by (auto simp: tb_ok_def)

lemma limiter_ok_later: "limiter_ok cap gcap now rl \<Longrightarrow> now \<le> later \<Longrightarrow> limiter_ok cap gcap later rl"
  by (auto simp: limiter_ok_def intro: tb_ok_later)

definition limiter_history :: "(string \<times> gotime) list \<Rightarrow> tenant_rate_limiter \<Rightarrow> tenant_rate_limiter" where
  "limiter_history h rl = fold (\<lambda>(t, u) rl. snd (allow t u rl)) h rl"

lemma limiter_ok_history:
  "limiter_ok cap gcap t0 rl \<Longrightarrow> sorted (t0 # map snd h @ [now]) \<Longrightarrow> limiter_ok cap gcap now (limiter_history h rl)"
proof (induction h arbitrary: t0 rl)
  case Nil
  then show ?case by (simp add: limiter_history_def limiter_ok_later)
next
  case (Cons e h)
  obtain t u where e: "e = (t, u)" by force
  have "limiter_ok cap gcap u (snd (allow t u rl))"
    using limiter_ok_allow [OF limiter_ok_later [OF Cons.prems(1)]] Cons.prems(2) by (simp add: e)
  with Cons.IH [of u "snd (allow t u rl)"] Cons.prems(2) show ?case by (simp add: limiter_history_def e)
qed

lemma new_limiter_ok: "config_ok cfg cap gcap \<Longrightarrow> limiter_ok cap gcap now (new_tenant_rate_limiter cfg now)"
  using new_bucket_ok [of gcap _ now now]
  by (auto simp: limiter_ok_def new_tenant_rate_limiter_def config_ok_def)
     (auto simp: new_tenant_bucket_def)

subsection \<open>Properties\<close>

text \<open>
  C9: the burst limits hold.  After any history of requests in the order of time, of the requests of
  all tenants that arrive at one instant no more are allowed than the burst capacity of the
  platform, and of those of one tenant no more than the burst capacity of a tenant (for integer
  capacities below \<open>2 ^ 53\<close> and rates that are numbers).
\<close>

theorem burst_limits_hold:
  assumes "config_ok cfg cap gcap" "sorted (t0 # map snd h @ [now])"
  shows "int (granted_in (burst now ts (limiter_history h (new_tenant_rate_limiter cfg t0)))) \<le> gcap \<and>
    int (granted_to tenant (burst now ts (limiter_history h (new_tenant_rate_limiter cfg t0)))) \<le> cap"
proof -
  let ?rl = "limiter_history h (new_tenant_rate_limiter cfg t0)"
  have ok: "limiter_ok cap gcap now ?rl" using limiter_ok_history [OF new_limiter_ok [OF assms(1)] assms(2)] .
  then obtain g where g: "rl_enabled ?rl" "rl_global ?rl = Some g" "tb_ok now g" "tb_capacity g = Fin (of_int gcap)"
    by (auto simp: limiter_ok_def)
  have bounds: "0 \<le> cap" "cap < 2 ^ 53" "0 \<le> gcap" "gcap < 2 ^ 53" using assms(1) by (simp_all add: config_ok_def)
  have "fle (tb_refilled now b) (tb_capacity b)" if "tb_ok now b" for b
    using tb_refilled_fin [OF that] by auto
  then have f: "fle (tb_refilled now g) (Fin (of_int gcap))"
    "fle (tb_refilled now (tenant_bucket_of tenant now ?rl)) (Fin (of_int cap))"
    using g(3,4) limiter_bucket_ok [OF ok, of tenant] by metis+
  obtain m where m: "granted_to tenant (burst now ts ?rl) = tenant_tokens.grants now m (tenant_bucket_of tenant now ?rl)"
    using burst_tenant_grants [OF g(1,2)] by blast
  have "int (granted_to tenant (burst now ts ?rl)) \<le> cap" unfolding m
    by (rule tenant_tokens.burst_bound [OF conjunct1 [OF limiter_bucket_ok [OF ok]] f(2) bounds(1,2)])
  moreover have "int (tenant_tokens.grants now (length ts) g) \<le> gcap"
    by (rule tenant_tokens.burst_bound [OF g(3) f(1) bounds(3,4)])
  ultimately show ?thesis using burst_global_grants [OF g(1,2), of now ts] by linarith
qed

definition small_config :: rate_limiter_config where
  "small_config = \<lparr>rl_default_rate_per_sec = Fin 1, rl_default_burst_cap = Fin 2, rl_global_rate_per_sec = Fin 10,
     rl_global_burst_cap = Fin 3, rl_cleanup_interval = minute\<rparr>"

lemma burst_limits_hold_witness:
  "granted_in (burst 5 [''a'', ''a'', ''a'', ''b'', ''b''] (limiter_history [(''a'', 3)] (new_tenant_rate_limiter small_config 0))) \<le> 3 \<and>
   granted_to ''a'' (burst 5 [''a'', ''a'', ''a'', ''b'', ''b''] (limiter_history [(''a'', 3)] (new_tenant_rate_limiter small_config 0))) \<le> 2"
proof -
  have "config_ok small_config 2 3" by (simp add: config_ok_def small_config_def)
  then show ?thesis
    using burst_limits_hold [of small_config 2 3 0 "[(''a'', 3)]" 5 "[''a'', ''a'', ''a'', ''b'', ''b'']" "''a''"] by simp
qed

text \<open>
  a tenant over its limit drains the platform.  A request that the tenant's own bucket refuses has
  already taken a token from the global bucket, so refused requests of one tenant use up the
  capacity of all: with the tenant's bucket empty, as many requests as the global bucket has tokens
  are all refused and leave it without a token for anyone.
\<close>

theorem refused_request_drains_global:
  assumes "limiter_ok cap gcap now rl" "rl_global rl = Some g" "fst (tb_allow 1 now g)"
    and "\<not> fst (tb_allow 1 now (tenant_bucket_of (bucket_name t) now rl))"
  shows "\<not> fst (allow t now rl) \<and>
    (\<exists>g'. rl_global (snd (allow t now rl)) = Some g' \<and> tb_refilled now g' = fsub (tb_refilled now g) (Fin 1)) \<and>
    \<not> fst (tb_allow 1 now (tenant_bucket_of (bucket_name t) now (snd (allow t now rl))))"
proof -
  let ?b = "tenant_bucket_of (bucket_name t) now rl"
  have e: "rl_enabled rl" and g: "tb_ok now g" using assms(1,2) by (auto simp: limiter_ok_def)
  note a = allow_simps [OF e assms(2), of t now]
  have "tb_refilled now (snd (tb_allow 1 now ?b)) = tb_refilled now ?b"
    by (rule tb_allow_one(3) [OF conjunct1 [OF limiter_bucket_ok [OF assms(1)]] assms(4)])
  then have "\<not> fst (tb_allow 1 now (snd (tb_allow 1 now ?b)))"
    using assms(4) by (simp add: fst_tb_allow)
  moreover have "tb_refilled now (snd (tb_allow 1 now g)) = fsub (tb_refilled now g) (Fin 1)"
    using tb_allow_one(2) [OF g assms(3)] by simp
  ultimately show ?thesis using a(1,2) assms(3,4)
    allow_simps(5) [OF e assms(2), where t = t and now = now and u = "bucket_name t"] by simp
qed

definition drained_limiter :: tenant_rate_limiter where
  "drained_limiter = snd (allow ''a'' 5 (snd (allow ''a'' 5 (new_tenant_rate_limiter small_config 5))))"

lemma full_bucket_counts:
  "tb_refilled 5 (new_tenant_bucket (Fin r) (Fin (of_nat n)) 5) = Fin (of_nat n)" if "n \<le> 3"
proof -
  have "wf_f64 (Fin (of_nat n))" using wf_of_int [of "int n"] that by simp
  then show ?thesis by (intro tb_refilled_now) (simp_all add: new_tenant_bucket_def)
qed

lemma refused_request_drains_global_witness:
  "\<not> fst (allow ''a'' 5 drained_limiter) \<and>
   \<not> fst (allow ''b'' 5 (snd (allow ''a'' 5 drained_limiter)))"
proof -
  let ?l0 = "new_tenant_rate_limiter small_config 5"
  let ?l1 = "snd (allow ''a'' 5 ?l0)"
  let ?g0 = "new_tenant_bucket (Fin 10) (Fin 3) 5" and ?b0 = "new_tenant_bucket (Fin 1) (Fin 2) 5"
  have ok0: "limiter_ok 2 3 5 ?l0" by (rule new_limiter_ok) (simp add: config_ok_def small_config_def)
  note ok1 = limiter_ok_allow [OF ok0, of "''a''"]
  note ok2 = limiter_ok_allow [OF ok1, of "''a''", folded drained_limiter_def]
  have 0: "rl_global ?l0 = Some ?g0" "rl_enabled ?l0" "tenant_bucket_of ''a'' 5 ?l0 = ?b0" "bucket_name ''a'' = ''a''"
    by (simp_all add: new_tenant_rate_limiter_def small_config_def tenant_bucket_of_def bucket_name_def)
  have g0: "tb_refilled 5 ?g0 = Fin 3" "tb_refilled 5 ?b0 = Fin 2"
    using full_bucket_counts [of 3 10] full_bucket_counts [of 2 1] by simp_all
  have f: "fsub (Fin 3) (Fin 1) = Fin 2" "fsub (Fin 2) (Fin 1) = Fin 1" "fsub (Fin 1) (Fin 1) = Fin 0"
    by code_simp+
  have tok: "tb_ok 5 ?g0" "tb_ok 5 ?b0" using new_bucket_ok [of 3 10 5 5] new_bucket_ok [of 2 1 5 5] by simp_all
  let ?g1 = "snd (tb_allow 1 5 ?g0)" and ?b1 = "snd (tb_allow 1 5 ?b0)"
  have 1: "rl_global ?l1 = Some ?g1" "rl_enabled ?l1" "tenant_bucket_of ''a'' 5 ?l1 = ?b1"
    using allow_simps(2,3) [OF 0(2,1)] allow_simps(5) [OF 0(2,1), where u = "''a''" and t = "''a''" and now = 5] 0 g0
    by (simp_all add: fst_tb_allow)
  have g1: "tb_refilled 5 ?g1 = Fin 2" "tb_refilled 5 ?b1 = Fin 1" "tb_ok 5 ?g1" "tb_ok 5 ?b1"
    using tb_allow_one(1,2) [OF tok(1)] tb_allow_one(1,2) [OF tok(2)] g0 f by (simp_all add: fst_tb_allow)
  let ?g2 = "snd (tb_allow 1 5 ?g1)" and ?b2 = "snd (tb_allow 1 5 ?b1)"
  have 2: "rl_global drained_limiter = Some ?g2" "rl_enabled drained_limiter" "tenant_bucket_of ''a'' 5 drained_limiter = ?b2"
    unfolding drained_limiter_def
    using allow_simps(2,3) [OF 1(2,1)] allow_simps(5) [OF 1(2,1), where u = "''a''" and t = "''a''" and now = 5] 0(4) 1 g1
    by (simp_all add: fst_tb_allow)
  have g2: "tb_refilled 5 ?g2 = Fin 1" "tb_refilled 5 ?b2 = Fin 0"
    using tb_allow_one(2) [OF g1(3)] tb_allow_one(2) [OF g1(4)] g1 f by (simp_all add: fst_tb_allow)
  have "fst (tb_allow 1 5 ?g2)" "\<not> fst (tb_allow 1 5 (tenant_bucket_of (bucket_name ''a'') 5 drained_limiter))"
    using g2 by (simp_all add: fst_tb_allow 2(3) 0(4))
  from refused_request_drains_global [OF ok2 2(1) this] obtain g' where
    ref: "\<not> fst (allow ''a'' 5 drained_limiter)" and
    g': "rl_global (snd (allow ''a'' 5 drained_limiter)) = Some g'" "tb_refilled 5 g' = Fin 0"
    using g2(1) f(3) by auto
  have "\<not> fst (allow ''b'' 5 (snd (allow ''a'' 5 drained_limiter)))"
    using allow_simps(1) [OF allow_simps(3) [OF 2(2,1)] g'(1)] g'(2) by (simp add: fst_tb_allow)
  then show ?thesis using ref by blast
qed

end
