(* ===== verification/Layered_Limiter.thy ===== *)
theory Layered_Limiter
  imports Bot_Types Rate_Limiter
begin

text \<open>
  The layered limiter of the bot defense, \<open>internal/bot_defense/layered_limiter.go\<close>: one map of
  token buckets for tenants, addresses, devices, accounts and cards, keyed by layer and entity.
  A bucket that exists behaves as a bucket of the two-level limiter; its facts are taken from
  there through that simulation.
\<close>

record layered_config =
  lc_tenant_starter_rps :: f64
  lc_tenant_growth_rps :: f64
  lc_tenant_enterprise_rps :: f64
  lc_ip_max_rpm :: f64
  lc_ip_burst :: f64
  lc_device_max_rpm :: f64
  lc_device_burst :: f64
  lc_account_max_rpm :: f64
  lc_account_burst :: f64
  lc_card_max_rpm :: f64
  lc_card_burst :: f64

definition default_layered_config :: layered_config where
  "default_layered_config =
     \<lparr>lc_tenant_starter_rps = Fin 100, lc_tenant_growth_rps = Fin 500, lc_tenant_enterprise_rps = Fin 5000,
      lc_ip_max_rpm = Fin 60, lc_ip_burst = Fin 120, lc_device_max_rpm = Fin 30, lc_device_burst = Fin 60,
      lc_account_max_rpm = Fin 20, lc_account_burst = Fin 40, lc_card_max_rpm = Fin 15, lc_card_burst = Fin 30\<rparr>"

record entity_bucket =
  eb_capacity :: f64
  eb_tokens :: f64
  eb_refill_rate :: f64
  eb_last_refill :: gotime

record layered_limiter =
  ll_buckets :: "string \<rightharpoonup> entity_bucket"
  ll_cfg :: layered_config

definition new_layered_limiter :: "layered_config \<Rightarrow> layered_limiter" where
  "new_layered_limiter cfg = \<lparr>ll_buckets = Map.empty, ll_cfg = cfg\<rparr>"

definition check_bucket ::
  "string \<Rightarrow> f64 \<Rightarrow> f64 \<Rightarrow> f64 \<Rightarrow> gotime \<Rightarrow> (string \<rightharpoonup> entity_bucket) \<Rightarrow> bool \<times> (string \<rightharpoonup> entity_bucket)" where
  "check_bucket key capacity rate req now m =
     (case m key of
        None \<Rightarrow> (True, m(key \<mapsto> \<lparr>eb_capacity = capacity, eb_tokens = fsub capacity req, eb_refill_rate = rate,
          eb_last_refill = now\<rparr>))
      | Some b \<Rightarrow>
          (let elapsed = dur_seconds (time_sub now (eb_last_refill b));
               t = fmin (eb_capacity b) (fadd (eb_tokens b) (fmul elapsed (eb_refill_rate b))) in
           if fle req t then (True, m(key \<mapsto> b\<lparr>eb_tokens := fsub t req, eb_last_refill := now\<rparr>))
           else (False, m(key \<mapsto> b\<lparr>eb_tokens := t, eb_last_refill := now\<rparr>))))"

definition tenant_rps :: "layered_config \<Rightarrow> string \<Rightarrow> f64" where
  "tenant_rps cfg tier =
     (if tier = ''GROWTH'' then lc_tenant_growth_rps cfg
      else if tier = ''ENTERPRISE'' then lc_tenant_enterprise_rps cfg else lc_tenant_starter_rps cfg)"

text \<open>One entity layer: an absent attribute is not limited.\<close>

definition check_entity ::
  "string \<Rightarrow> string \<Rightarrow> f64 \<Rightarrow> f64 \<Rightarrow> gotime \<Rightarrow> (string \<rightharpoonup> entity_bucket) \<Rightarrow> bool \<times> (string \<rightharpoonup> entity_bucket)" where
  "check_entity layer entity rpm capacity now m =
     (if entity = '''' then (True, m)
      else check_bucket (layer @ entity) capacity (fdiv rpm (Fin 60)) (Fin 1) now m)"

definition limit_rules :: "layered_config \<Rightarrow> bot_context \<Rightarrow> bool \<Rightarrow> bool \<Rightarrow> bool \<Rightarrow> bool \<Rightarrow> bool \<Rightarrow> string list" where
  "limit_rules cfg cx t_ok i_ok d_ok a_ok c_ok =
           (if t_ok then [] else [''Tenant quota exceeded for '' @ bx_tenant_id cx @ '' (limit: '' @ fmt_fixed 0 (tenant_rps cfg (bx_plan_tier cx)) @ '' req/s)'']) @
           (if i_ok then [] else [''IP rate limit exceeded for '' @ bx_ip_address cx @ '' (limit: '' @
              fmt_fixed 0 (lc_ip_max_rpm cfg) @ '' req/min)'']) @
           (if d_ok then [] else [''Device rate limit exceeded for '' @ bx_device_fingerprint cx @ '' (limit: '' @
              fmt_fixed 0 (lc_device_max_rpm cfg) @ '' req/min)'']) @
           (if a_ok then [] else [''Account rate limit exceeded for '' @ bx_account_id cx @ '' (limit: '' @
              fmt_fixed 0 (lc_account_max_rpm cfg) @ '' req/min)'']) @
           (if c_ok then [] else [''Payment instrument velocity exceeded for card hash '' @ take 8 (bx_card_hash cx) @
              '' (limit: '' @ fmt_fixed 0 (lc_card_max_rpm cfg) @ '' req/min)''])"

definition evaluate_limits ::
  "gotime \<Rightarrow> bot_context \<Rightarrow> layered_limiter \<Rightarrow> (bot_signals \<times> string list) \<times> layered_limiter" where
  "evaluate_limits now cx l =
     (let cfg = ll_cfg l;
          rps = tenant_rps cfg (bx_plan_tier cx);
          (t_ok, m1) = check_bucket (''tenant:'' @ bx_tenant_id cx) (fmul rps (Fin 2)) rps (Fin 1) now (ll_buckets l);
          (i_ok, m2) = check_entity ''ip:'' (bx_ip_address cx) (lc_ip_max_rpm cfg) (lc_ip_burst cfg) now m1;
          (d_ok, m3) = check_entity ''dev:'' (bx_device_fingerprint cx) (lc_device_max_rpm cfg) (lc_device_burst cfg) now m2;
          (a_ok, m4) = check_entity ''acc:'' (bx_account_id cx) (lc_account_max_rpm cfg) (lc_account_burst cfg) now m3;
          (c_ok, m5) = check_entity ''card:'' (bx_card_hash cx) (lc_card_max_rpm cfg) (lc_card_burst cfg) now m4
      in ((no_signals\<lparr>sg_tenant_limited := \<not> t_ok, sg_ip_limited := \<not> i_ok, sg_device_limited := \<not> d_ok,
             sg_account_limited := \<not> a_ok, sg_card_limited := \<not> c_ok\<rparr>,
           limit_rules cfg cx t_ok i_ok d_ok a_ok c_ok),
          l\<lparr>ll_buckets := m5\<rparr>))"

subsection \<open>The simulation\<close>

text \<open>What a call does to the one bucket it names.\<close>

definition bucket_step :: "f64 \<Rightarrow> f64 \<Rightarrow> f64 \<Rightarrow> gotime \<Rightarrow> entity_bucket option \<Rightarrow> bool \<times> entity_bucket" where
  "bucket_step capacity rate req now bo = (let (g, m) = check_bucket '''' capacity rate req now (\<lambda>_. bo) in (g, the (m '''')))"

lemma check_bucket_step:
  "check_bucket key c r q now m = (fst (bucket_step c r q now (m key)), m(key \<mapsto> snd (bucket_step c r q now (m key))))"
  by (simp add: check_bucket_def bucket_step_def Let_def split: option.split)

definition tb_of :: "entity_bucket \<Rightarrow> tenant_bucket" where
  "tb_of b = \<lparr>tb_tokens = eb_tokens b, tb_capacity = eb_capacity b, tb_refill_rate = eb_refill_rate b,
     tb_last_refill = eb_last_refill b\<rparr>"

definition bucket_view :: "f64 \<Rightarrow> f64 \<Rightarrow> gotime \<Rightarrow> entity_bucket option \<Rightarrow> tenant_bucket" where
  "bucket_view capacity rate now bo = (case bo of None \<Rightarrow> new_tenant_bucket rate capacity now | Some b \<Rightarrow> tb_of b)"

text \<open>A bucket with sensible numbers, of the capacity of its layer.\<close>

definition entity_ok :: "int \<Rightarrow> gotime \<Rightarrow> entity_bucket option \<Rightarrow> bool" where
  "entity_ok cap now bo \<longleftrightarrow> (\<forall>b. bo = Some b \<longrightarrow> tb_ok now (tb_of b) \<and> eb_capacity b = Fin (of_int cap))"

lemma fmin_capped: "fmin (Fin c) t = (if flt (Fin c) t then Fin c else t)"
  by (cases t) (auto simp: fmin_def)

lemma bucket_step_simulates:
  assumes "entity_ok cap now bo" "1 \<le> cap" "cap < 2 ^ 53" "0 \<le> r"
  shows "fst (bucket_step (Fin (of_int cap)) (Fin r) (Fin 1) now bo) = fst (tb_allow 1 now (bucket_view (Fin (of_int cap)) (Fin r) now bo))"
    and "tb_of (snd (bucket_step (Fin (of_int cap)) (Fin r) (Fin 1) now bo)) = snd (tb_allow 1 now (bucket_view (Fin (of_int cap)) (Fin r) now bo))"
    and "tb_ok now (bucket_view (Fin (of_int cap)) (Fin r) now bo)"
    and "tb_capacity (bucket_view (Fin (of_int cap)) (Fin r) now bo) = Fin (of_int cap)"
proof -
  let ?c = "Fin (of_int cap)"
  have new: "tb_refilled now (new_tenant_bucket (Fin r) ?c now) = ?c"
    using wf_of_int [of cap] assms(2,3) by (intro tb_refilled_now) (simp_all add: new_tenant_bucket_def)
  have one: "fle (Fin 1) ?c" using assms(2) by simp
  show "fst (bucket_step ?c (Fin r) (Fin 1) now bo) = fst (tb_allow 1 now (bucket_view ?c (Fin r) now bo))"
    "tb_of (snd (bucket_step ?c (Fin r) (Fin 1) now bo)) = snd (tb_allow 1 now (bucket_view ?c (Fin r) now bo))"
  proof (atomize (full), cases bo)
    case None
    then show "fst (bucket_step ?c (Fin r) (Fin 1) now bo) = fst (tb_allow 1 now (bucket_view ?c (Fin r) now bo)) \<and>
      tb_of (snd (bucket_step ?c (Fin r) (Fin 1) now bo)) = snd (tb_allow 1 now (bucket_view ?c (Fin r) now bo))"
      using one new
      by (simp add: bucket_view_def bucket_step_def check_bucket_def tb_allow_refilled of_int64_1 tb_of_def new_tenant_bucket_def)
  next
    case (Some b)
    then have c: "eb_capacity b = ?c" using assms(1) by (simp add: entity_ok_def)
    show "fst (bucket_step ?c (Fin r) (Fin 1) now bo) = fst (tb_allow 1 now (bucket_view ?c (Fin r) now bo)) \<and>
      tb_of (snd (bucket_step ?c (Fin r) (Fin 1) now bo)) = snd (tb_allow 1 now (bucket_view ?c (Fin r) now bo))"
      unfolding Some
      by (simp add: bucket_view_def bucket_step_def check_bucket_def tb_allow_def tb_of_def c Let_def of_int64_1 fmin_capped)
  qed
  show "tb_ok now (bucket_view ?c (Fin r) now bo)"
    using assms new_bucket_ok [of cap r now now] by (auto simp: bucket_view_def entity_ok_def split: option.split)
  show "tb_capacity (bucket_view ?c (Fin r) now bo) = ?c"
    using assms by (auto simp: bucket_view_def entity_ok_def tb_of_def new_tenant_bucket_def split: option.split)
qed

lemma bucket_step_ok:
  assumes "entity_ok cap now bo" "1 \<le> cap" "cap < 2 ^ 53" "0 \<le> r"
  shows "entity_ok cap now (Some (snd (bucket_step (Fin (of_int cap)) (Fin r) (Fin 1) now bo)))"
  using tb_allow_one(1,4) [OF bucket_step_simulates(3) [OF assms]] bucket_step_simulates(2,4) [OF assms]
  by (simp add: entity_ok_def) (metis tb_of_def tenant_bucket.select_convs(2))

subsection \<open>The layers\<close>

datatype entity_layer = IpLayer | DeviceLayer | AccountLayer | CardLayer

fun layer_prefix :: "entity_layer \<Rightarrow> string" where
  "layer_prefix IpLayer = ''ip:''" | "layer_prefix DeviceLayer = ''dev:''"
| "layer_prefix AccountLayer = ''acc:''" | "layer_prefix CardLayer = ''card:''"

fun layer_entity :: "entity_layer \<Rightarrow> bot_context \<Rightarrow> string" where
  "layer_entity IpLayer cx = bx_ip_address cx" | "layer_entity DeviceLayer cx = bx_device_fingerprint cx"
| "layer_entity AccountLayer cx = bx_account_id cx" | "layer_entity CardLayer cx = bx_card_hash cx"

fun layer_limited :: "entity_layer \<Rightarrow> bot_signals \<Rightarrow> bool" where
  "layer_limited IpLayer s = sg_ip_limited s" | "layer_limited DeviceLayer s = sg_device_limited s"
| "layer_limited AccountLayer s = sg_account_limited s" | "layer_limited CardLayer s = sg_card_limited s"

fun layer_burst :: "entity_layer \<Rightarrow> layered_config \<Rightarrow> f64" where
  "layer_burst IpLayer cfg = lc_ip_burst cfg" | "layer_burst DeviceLayer cfg = lc_device_burst cfg"
| "layer_burst AccountLayer cfg = lc_account_burst cfg" | "layer_burst CardLayer cfg = lc_card_burst cfg"

fun layer_rpm :: "entity_layer \<Rightarrow> layered_config \<Rightarrow> f64" where
  "layer_rpm IpLayer cfg = lc_ip_max_rpm cfg" | "layer_rpm DeviceLayer cfg = lc_device_max_rpm cfg"
| "layer_rpm AccountLayer cfg = lc_account_max_rpm cfg" | "layer_rpm CardLayer cfg = lc_card_max_rpm cfg"

definition layer_bucket :: "entity_layer \<Rightarrow> string \<Rightarrow> layered_limiter \<Rightarrow> entity_bucket option" where
  "layer_bucket L e l = ll_buckets l (layer_prefix L @ e)"

definition layer_step :: "entity_layer \<Rightarrow> layered_config \<Rightarrow> gotime \<Rightarrow> entity_bucket option \<Rightarrow> bool \<times> entity_bucket" where
  "layer_step L cfg now = bucket_step (layer_burst L cfg) (fdiv (layer_rpm L cfg) (Fin 60)) (Fin 1) now"

lemma evaluate_limits_cfg [simp]: "ll_cfg (snd (evaluate_limits now cx l)) = ll_cfg l"
  by (simp add: evaluate_limits_def Let_def split_beta)

lemma check_entity_step:
  "fst (check_entity p e rpm c now m) = (e = '''' \<or> fst (bucket_step c (fdiv rpm (Fin 60)) (Fin 1) now (m (p @ e))))"
  "snd (check_entity p e rpm c now m) k =
     (if e \<noteq> '''' \<and> k = p @ e then Some (snd (bucket_step c (fdiv rpm (Fin 60)) (Fin 1) now (m k))) else m k)"
  by (simp_all add: check_entity_def check_bucket_step)

lemma check_bucket_other: "k \<noteq> key \<Longrightarrow> snd (check_bucket key c r q now m) k = m k"
  by (simp add: check_bucket_step)

lemma evaluate_limits_layer:
  "layer_entity L cx \<noteq> '''' \<Longrightarrow> layer_limited L (fst (fst (evaluate_limits now cx l))) =
     (\<not> fst (layer_step L (ll_cfg l) now (layer_bucket L (layer_entity L cx) l)))"
  "layer_bucket L e (snd (evaluate_limits now cx l)) =
     (if e = layer_entity L cx \<and> e \<noteq> '''' then Some (snd (layer_step L (ll_cfg l) now (layer_bucket L e l)))
      else layer_bucket L e l)"
  by (cases L; simp add: evaluate_limits_def Let_def split_beta check_entity_step check_bucket_other layer_bucket_def layer_step_def)+

subsection \<open>Bursts\<close>

text \<open>The signals of the requests that arrive at one instant, and the limiter after a history.\<close>

fun signals_at :: "gotime \<Rightarrow> bot_context list \<Rightarrow> layered_limiter \<Rightarrow> (bot_context \<times> bot_signals) list" where
  "signals_at now [] l = []"
| "signals_at now (cx # cxs) l = (cx, fst (fst (evaluate_limits now cx l))) # signals_at now cxs (snd (evaluate_limits now cx l))"

definition passed_layer :: "entity_layer \<Rightarrow> string \<Rightarrow> (bot_context \<times> bot_signals) list \<Rightarrow> nat" where
  "passed_layer L e rs = length (filter (\<lambda>(cx, s). layer_entity L cx = e \<and> \<not> layer_limited L s) rs)"

definition limits_history :: "(bot_context \<times> gotime) list \<Rightarrow> layered_limiter \<Rightarrow> layered_limiter" where
  "limits_history h l = fold (\<lambda>(cx, t) l. snd (evaluate_limits t cx l)) h l"

text \<open>A layer whose capacity is a positive integer and whose rate is a number.\<close>

definition layer_config_ok :: "entity_layer \<Rightarrow> layered_config \<Rightarrow> int \<Rightarrow> bool" where
  "layer_config_ok L cfg cap \<longleftrightarrow> layer_burst L cfg = Fin (of_int cap) \<and> 1 \<le> cap \<and> cap < 2 ^ 53 \<and>
     (\<exists>r. fdiv (layer_rpm L cfg) (Fin 60) = Fin r \<and> 0 \<le> r)"

definition layer_inv :: "entity_layer \<Rightarrow> int \<Rightarrow> gotime \<Rightarrow> layered_limiter \<Rightarrow> bool" where
  "layer_inv L cap now l \<longleftrightarrow> (\<forall>e. entity_ok cap now (layer_bucket L e l))"

lemma layer_inv_step:
  assumes "layer_config_ok L (ll_cfg l) cap" "layer_inv L cap now l"
  shows "layer_inv L cap now (snd (evaluate_limits now cx l))"
proof -
  obtain r where r: "layer_burst L (ll_cfg l) = Fin (of_int cap)" "1 \<le> cap" "cap < 2 ^ 53"
    "fdiv (layer_rpm L (ll_cfg l)) (Fin 60) = Fin r" "0 \<le> r"
    using assms(1) by (auto simp: layer_config_ok_def)
  show ?thesis
    using assms(2) bucket_step_ok [OF _ r(2,3,5)]
    by (simp add: layer_inv_def evaluate_limits_layer(2) layer_step_def r(1,4))
qed

lemma entity_ok_later: "entity_ok cap now bo \<Longrightarrow> now \<le> later \<Longrightarrow> entity_ok cap later bo"
  by (auto simp: entity_ok_def intro: tb_ok_later)

lemma limits_history_cfg [simp]: "ll_cfg (limits_history h l) = ll_cfg l"
  by (induction h arbitrary: l) (auto simp: limits_history_def)

lemma layer_inv_history:
  "layer_config_ok L (ll_cfg l) cap \<Longrightarrow> layer_inv L cap t0 l \<Longrightarrow> sorted (t0 # map snd h @ [now]) \<Longrightarrow>
   layer_inv L cap now (limits_history h l)"
proof (induction h arbitrary: t0 l)
  case Nil
  then show ?case by (auto simp: limits_history_def layer_inv_def intro: entity_ok_later)
next
  case (Cons x h)
  obtain cx t where x: "x = (cx, t)" by force
  have "layer_inv L cap t l" using Cons.prems by (auto simp: layer_inv_def x intro: entity_ok_later)
  then have "layer_inv L cap t (snd (evaluate_limits t cx l))" using layer_inv_step Cons.prems(1) by blast
  then show ?case using Cons.IH [of "snd (evaluate_limits t cx l)" t] Cons.prems by (simp add: limits_history_def x)
qed

lemma passed_layer_grants:
  assumes "layer_burst L cfg = Fin (of_int cap)" "1 \<le> cap" "cap < 2 ^ 53"
    "fdiv (layer_rpm L cfg) (Fin 60) = Fin r" "0 \<le> r" "e \<noteq> ''''"
  shows "layer_inv L cap now l \<Longrightarrow> ll_cfg l = cfg \<Longrightarrow>
    \<exists>m. passed_layer L e (signals_at now cxs l) =
      tenant_tokens.grants now m (bucket_view (Fin (of_int cap)) (Fin r) now (layer_bucket L e l))"
proof (induction cxs arbitrary: l)
  case Nil
  then show ?case by (intro exI [of _ 0]) (simp add: passed_layer_def)
next
  case (Cons cx cxs)
  let ?l = "snd (evaluate_limits now cx l)"
  let ?v = "bucket_view (Fin (of_int cap)) (Fin r) now"
  have ok: "entity_ok cap now (layer_bucket L e l)" using Cons.prems(1) by (simp add: layer_inv_def)
  have cfg: "layer_config_ok L (ll_cfg l) cap" using assms Cons.prems(2) by (auto simp: layer_config_ok_def)
  obtain m where m: "passed_layer L e (signals_at now cxs ?l) = tenant_tokens.grants now m (?v (layer_bucket L e ?l))"
    using Cons.IH [OF layer_inv_step [OF cfg Cons.prems(1)]] Cons.prems(2) by auto
  note st = bucket_step_simulates(1,2) [OF ok assms(2,3,5)]
  show ?case
  proof (cases "layer_entity L cx = e")
    case True
    have v: "?v (layer_bucket L e ?l) = snd (tb_allow 1 now (?v (layer_bucket L e l)))"
      "layer_limited L (fst (fst (evaluate_limits now cx l))) = (\<not> fst (tb_allow 1 now (?v (layer_bucket L e l))))"
      using True st assms Cons.prems(2) evaluate_limits_layer(1) [of L cx now l] evaluate_limits_layer(2) [of L e now cx l]
      by (simp_all add: layer_step_def bucket_view_def [of _ _ _ "Some _"])
    show ?thesis using m True v by (intro exI [of _ "Suc m"]) (simp add: passed_layer_def)
  next
    case False
    then show ?thesis using m by (intro exI [of _ m]) (simp add: passed_layer_def evaluate_limits_layer(2))
  qed
qed


definition card_context :: bot_context where
  "card_context = \<lparr>bx_tenant_id = ''t1'', bx_plan_tier = ''GROWTH'', bx_transaction_id = ''tx1'', bx_account_id = ''a1'',
     bx_device_fingerprint = ''d1'', bx_ip_address = ''10.0.0.1'', bx_user_agent = ''curl'', bx_card_hash = ''c1'',
     bx_amount = Fin 2, bx_currency = ''INR'', bx_nonce = '''', bx_timestamp = None\<rparr>"


end
