(* ===== verification/Go_Duration.thy ===== *)
theory Go_Duration
  imports Token_Bucket
begin

text \<open>The text and the rounding of a \<open>time.Duration\<close>, and the sign symmetry of its seconds.\<close>

definition zero_trimmed :: "string \<Rightarrow> string" where
  "zero_trimmed s = rev (dropWhile (\<lambda>c. c = CHR ''0'') (rev s))"

definition duration_frac :: "nat \<Rightarrow> nat \<Rightarrow> string" where
  "duration_frac v prec =
     (let s = zero_trimmed (zpad prec (nat_digits (v mod 10 ^ prec))) in if s = '''' then '''' else CHR ''.'' # s)"

definition duration_string :: "duration \<Rightarrow> string" where
  "duration_string d =
     (let u = nat \<bar>d\<bar> in
      (if d < 0 then ''-'' else '''') @
      (if u = 0 then ''0s''
       else if u < 1000 then nat_digits u @ ''ns''
       else if u < 1000000 then nat_digits (u div 1000) @ duration_frac u 3 @ [CHR 0xC2, CHR 0xB5, CHR ''s'']
       else if u < 1000000000 then nat_digits (u div 1000000) @ duration_frac u 6 @ ''ms''
       else
         (let s = u div 1000000000; m = s div 60; h = m div 60 in
          (if h = 0 then '''' else nat_digits h @ ''h'') @
          (if m = 0 then '''' else nat_digits (m mod 60) @ ''m'') @
          nat_digits (s mod 60) @ duration_frac u 9 @ ''s'')))"

text \<open>\<open>Duration.Round\<close>: to the nearest multiple, halfway values away from zero, saturating.\<close>

definition duration_round :: "duration \<Rightarrow> duration \<Rightarrow> duration" where
  "duration_round d m =
     (if m \<le> 0 then d
      else
        (let r = go_mod d m in
         if d < 0 then
           (if - r + - r < m then d - r
            else max (- 9223372036854775808) (d - m - r))
         else
           (if r + r < m then d - r else min 9223372036854775807 (d + m - r))))"

lemma to_f64_neg: "to_f64 (- x) = fneg (to_f64 x)"
proof -
  have "\<not> (max_finite \<le> rnd x \<and> max_finite \<le> - rnd x)" using max_finite_pos(1) by linarith
  then show ?thesis by (auto simp: to_f64_def Let_def rnd_neg)
qed

lemma of_int64_neg: "of_int64 (- n) = fneg (of_int64 n)"
  by (simp add: of_int64_def to_f64_neg)

lemma fabs_fneg [simp]: "fabs (fneg x) = fabs x"
  by (cases x) simp_all

lemma fadd_fneg: "fadd (fneg x) (fneg y) = fneg (fadd x y)"
  by (cases x; cases y) (simp_all flip: to_f64_neg)

lemma fdiv_fneg: "fdiv (fneg x) (Fin (of_nat (Suc n))) = fneg (fdiv x (Fin (of_nat (Suc n))))"
  by (cases x) (simp_all add: to_f64_neg inf_of_sign_def)

lemma dur_seconds_neg: "dur_seconds (- d) = fneg (dur_seconds d)"
proof -
  have "go_div (- d) second = - go_div d second" "go_mod (- d) second = - go_mod d second"
    by (simp_all add: go_div_def go_mod_def second_def)
  moreover have "Fin 1000000000 = Fin (of_nat (Suc 999999999))" by simp
  ultimately show ?thesis
    unfolding dur_seconds_def using fdiv_fneg [of _ 999999999] by (simp add: of_int64_neg fadd_fneg)
qed

text \<open>The distance in seconds of two instants is at least its whole seconds.\<close>

lemma drift_bounds:
  assumes "\<bar>d\<bar> \<le> 9223372036854775807"
  shows "\<exists>e. fabs (dur_seconds d) = Fin e \<and> of_int (\<bar>d\<bar> div second) \<le> e \<and> e \<le> of_int (\<bar>d\<bar> div second + 1)"
proof -
  obtain e where e: "dur_seconds \<bar>d\<bar> = Fin e" "of_int (\<bar>d\<bar> div second) \<le> e" "e \<le> of_int (\<bar>d\<bar> div second + 1)"
    using dur_seconds_fin [of "\<bar>d\<bar>"] assms by auto
  have "0 \<le> \<bar>d\<bar> div second" by (simp add: second_def pos_imp_zdiv_nonneg_iff)
  then have "0 \<le> (of_int (\<bar>d\<bar> div second) :: rat)" by simp
  then have "0 \<le> e" using e(2) by linarith
  moreover have "fabs (dur_seconds d) = fabs (dur_seconds \<bar>d\<bar>)"
    using dur_seconds_neg [of d] by (cases "0 \<le> d") simp_all
  ultimately show ?thesis using e by simp
qed

end
