(* ===== verification/Replay_Protector.thy ===== *)
theory Replay_Protector
  imports Bot_Types Go_Duration Assoc_Lists
begin

text \<open>
  The replay protector, \<open>internal/bot_defense/replay_protector.go\<close>: the nonces seen, with the time
  each was stored, one entry per nonce.
\<close>

record replay_config =
  rp_max_timestamp_drift_sec :: f64
  rp_nonce_retention_window :: duration
  rp_max_cache_entries :: int

definition default_replay_config :: replay_config where
  "default_replay_config =
     \<lparr>rp_max_timestamp_drift_sec = Fin 300, rp_nonce_retention_window = 15 * minute, rp_max_cache_entries = 50000\<rparr>"

record replay_protector =
  rp_seen_nonces :: "(string \<times> gotime) list"
  rp_cfg :: replay_config

definition new_replay_protector :: "replay_config \<Rightarrow> replay_protector" where
  "new_replay_protector cfg = \<lparr>rp_seen_nonces = [], rp_cfg = cfg\<rparr>"

definition drift_rule :: "replay_config \<Rightarrow> f64 \<Rightarrow> string" where
  "drift_rule cfg drift = ''Request timestamp drift ('' @ fmt_fixed 1 drift @ ''s) exceeds tolerance ('' @
     fmt_fixed 0 (rp_max_timestamp_drift_sec cfg) @ ''s)''"

definition duplicate_rule :: "string \<Rightarrow> duration \<Rightarrow> string" where
  "duplicate_rule nonce age = ''Duplicate request nonce/transaction_id detected: '' @ [CHR 0x27] @ nonce @ [CHR 0x27] @
     '' seen '' @ duration_string (duration_round age millisecond) @ '' ago''"

definition drift_check :: "replay_config \<Rightarrow> gotime \<Rightarrow> gotime option \<Rightarrow> bot_signals \<times> string list" where
  "drift_check cfg now ts =
     (case ts of None \<Rightarrow> (no_signals, [])
      | Some t \<Rightarrow>
          (let drift = fabs (dur_seconds (time_sub now t));
               s = no_signals\<lparr>sg_time_drift_sec := drift\<rparr> in
           if flt (rp_max_timestamp_drift_sec cfg) drift
           then (s\<lparr>sg_replay_detected := True\<rparr>, [drift_rule cfg drift])
           else (s, [])))"

text \<open>Storing a nonce, after the expired entries are gone when the cache is at its capacity.\<close>

definition store_nonce :: "string \<Rightarrow> gotime \<Rightarrow> replay_protector \<Rightarrow> replay_protector" where
  "store_nonce nonce now p =
     (let seen = rp_seen_nonces p;
          kept = (if rp_max_cache_entries (rp_cfg p) \<le> int (length seen)
            then filter (\<lambda>(k, v). \<not> rp_nonce_retention_window (rp_cfg p) < time_sub now v) seen else seen) in
      p\<lparr>rp_seen_nonces := AList.update nonce now kept\<rparr>)"

definition validate_replay ::
  "string \<Rightarrow> gotime option \<Rightarrow> gotime \<Rightarrow> replay_protector \<Rightarrow> (bot_signals \<times> string list) \<times> replay_protector" where
  "validate_replay nonce ts now p =
     (let (s, rules) = drift_check (rp_cfg p) now ts in
      if nonce = '''' then ((s, rules), p)
      else
        (case map_of (rp_seen_nonces p) nonce of
           Some t0 \<Rightarrow>
             if time_sub now t0 \<le> rp_nonce_retention_window (rp_cfg p)
             then ((s\<lparr>sg_replay_detected := True\<rparr>, rules @ [duplicate_rule nonce (time_sub now t0)]), p)
             else ((s, rules), store_nonce nonce now p)
         | None \<Rightarrow> ((s, rules), store_nonce nonce now p)))"

text \<open>A request passes when it is not flagged.\<close>

definition replay_passes :: "string \<Rightarrow> gotime option \<Rightarrow> gotime \<Rightarrow> replay_protector \<Rightarrow> bool" where
  "replay_passes nonce ts now p \<longleftrightarrow> \<not> sg_replay_detected (fst (fst (validate_replay nonce ts now p)))"

definition replay_run :: "(string \<times> gotime option \<times> gotime) list \<Rightarrow> replay_protector \<Rightarrow> replay_protector" where
  "replay_run rqs p = fold (\<lambda>(n, ts, now) p. snd (validate_replay n ts now p)) rqs p"

subsection \<open>What the cache remembers\<close>

text \<open>A nonce stored at a time is still stored with it, as long as its window runs.\<close>

definition stored_since :: "replay_protector \<Rightarrow> string \<Rightarrow> gotime \<Rightarrow> bool" where
  "stored_since p nonce t0 \<longleftrightarrow> map_of (rp_seen_nonces p) nonce = Some t0"

lemma store_nonce_cfg [simp]: "rp_cfg (store_nonce n now p) = rp_cfg p"
  by (simp add: store_nonce_def Let_def)

lemma validate_replay_snd:
  "snd (validate_replay n ts now p) = (if n = '''' then p
     else case map_of (rp_seen_nonces p) n of
         Some t0 \<Rightarrow> if time_sub now t0 \<le> rp_nonce_retention_window (rp_cfg p) then p else store_nonce n now p
       | None \<Rightarrow> store_nonce n now p)"
  by (simp add: validate_replay_def split: prod.split option.split)

lemma validate_replay_cfg [simp]: "rp_cfg (snd (validate_replay n ts now p)) = rp_cfg p"
  by (simp add: validate_replay_snd split: option.split)

lemma store_nonce_distinct:
  "distinct (map fst (rp_seen_nonces p)) \<Longrightarrow> distinct (map fst (rp_seen_nonces (store_nonce n now p)))"
  by (simp add: store_nonce_def Let_def distinct_update distinct_map_filter)

lemma validate_replay_distinct:
  "distinct (map fst (rp_seen_nonces p)) \<Longrightarrow> distinct (map fst (rp_seen_nonces (snd (validate_replay n ts now p))))"
  by (simp add: validate_replay_snd store_nonce_distinct split: option.split)

lemma stored_since_kept:
  assumes "distinct (map fst (rp_seen_nonces p))" "stored_since p nonce t0"
    and "time_sub now t0 \<le> rp_nonce_retention_window (rp_cfg p)"
  shows "stored_since (snd (validate_replay n ts now p)) nonce t0"
proof -
  have m: "map_of (rp_seen_nonces p) nonce = Some t0" using assms(2) by (simp add: stored_since_def)
  have "stored_since (store_nonce n now p) nonce t0" if "n \<noteq> nonce"
    using that m assms(3) map_of_filter_key [OF assms(1) m] by (simp add: stored_since_def store_nonce_def Let_def update_conv)
  then show ?thesis using assms(2,3) m by (cases "n = nonce") (auto simp: validate_replay_snd split: option.split)
qed

lemma replay_run_kept:
  "distinct (map fst (rp_seen_nonces p)) \<Longrightarrow> stored_since p nonce t0 \<Longrightarrow>
   \<forall>(n, ts, now) \<in> set rqs. time_sub now t0 \<le> rp_nonce_retention_window (rp_cfg p) \<Longrightarrow>
   stored_since (replay_run rqs p) nonce t0 \<and> distinct (map fst (rp_seen_nonces (replay_run rqs p)))"
proof (induction rqs arbitrary: p)
  case (Cons r rqs)
  obtain n ts now where r: "r = (n, ts, now)" by (cases r)
  show ?case
    using Cons.IH [of "snd (validate_replay n ts now p)"] Cons.prems
      stored_since_kept [OF Cons.prems(1,2), of now n ts] validate_replay_distinct [OF Cons.prems(1)]
    by (auto simp: replay_run_def r)
qed (simp add: replay_run_def)

lemma replay_run_cfg [simp]: "rp_cfg (replay_run rqs p) = rp_cfg p"
  by (induction rqs arbitrary: p) (auto simp: replay_run_def)

lemma replay_run_distinct:
  "distinct (map fst (rp_seen_nonces p)) \<Longrightarrow> distinct (map fst (rp_seen_nonces (replay_run rqs p)))"
proof (induction rqs arbitrary: p)
  case (Cons r rqs)
  then show ?case by (cases r) (auto simp: replay_run_def validate_replay_distinct)
qed (simp add: replay_run_def)

lemma stored_is_flagged:
  "stored_since p nonce t0 \<Longrightarrow> time_sub now t0 \<le> rp_nonce_retention_window (rp_cfg p) \<Longrightarrow> nonce \<noteq> '''' \<Longrightarrow>
   \<not> replay_passes nonce ts now p"
  by (simp add: replay_passes_def stored_since_def validate_replay_def split: prod.split)

lemma passing_is_stored:
  assumes "replay_passes nonce ts now p" "nonce \<noteq> ''''"
  shows "stored_since (snd (validate_replay nonce ts now p)) nonce now"
proof -
  have "stored_since (store_nonce nonce now p) nonce now" by (simp add: stored_since_def store_nonce_def Let_def update_conv)
  then show ?thesis using assms stored_is_flagged [of p nonce _ now ts]
    by (auto simp: validate_replay_snd stored_since_def split: option.split)
qed

lemma passing_drift:
  assumes "replay_passes nonce (Some t) now p" "rp_max_timestamp_drift_sec (rp_cfg p) = Fin (of_int k)"
    and "\<bar>now - t\<bar> \<le> 9223372036854775807"
  shows "\<bar>now - t\<bar> < (k + 1) * second"
proof -
  have sub: "time_sub now t = now - t" using assms(3) by (simp add: time_sub_def)
  have "\<not> flt (Fin (of_int k)) (fabs (dur_seconds (now - t)))"
    using assms(1,2) by (auto simp: replay_passes_def validate_replay_def drift_check_def Let_def sub split: if_splits option.splits)
  with drift_bounds [OF assms(3)] have "(of_int (\<bar>now - t\<bar> div second) :: rat) \<le> of_int k" by auto
  then have "\<bar>now - t\<bar> div second \<le> k" by simp
  moreover have "0 < second" by (simp add: second_def)
  moreover have "x < (k + 1) * second" if "x div second \<le> k" for x :: int
    using that pos_mod_bound [of second x] div_mult_mod_eq [of x second] mult_right_mono [OF that, of second]
    unfolding distrib_right by (simp add: second_def)
  ultimately show ?thesis by blast
qed

text \<open>
  A request is admitted once.  With the default configuration a request with a nonce and a timestamp
  that passed the protector is flagged at every later time, whatever other requests are validated
  in between and however many nonces the cache evicts: within the retention window because the
  nonce is remembered, after it because its timestamp is too old.
\<close>

lemma replayed_request_never_passes_again:
  assumes "p = replay_run before (new_replay_protector default_replay_config)" "nonce \<noteq> ''''"
    and "replay_passes nonce (Some ts) t1 p"
    and "sorted (t1 # map (snd \<circ> snd) rqs @ [t2])" "\<bar>t1 - ts\<bar> + (t2 - t1) \<le> 9223372036854775807"
  shows "\<not> replay_passes nonce (Some ts) t2 (replay_run rqs (snd (validate_replay nonce (Some ts) t1 p)))"
proof -
  have p: "rp_cfg p = default_replay_config" "distinct (map fst (rp_seen_nonces p))"
    using assms(1) replay_run_distinct [of "new_replay_protector default_replay_config" before]
    by (simp_all add: new_replay_protector_def)
  let ?p1 = "snd (validate_replay nonce (Some ts) t1 p)"
  have le: "t1 \<le> t2" "\<forall>(n, u, now) \<in> set rqs. t1 \<le> now \<and> now \<le> t2"
    using assms(4) by (auto simp: sorted_append)
  have cfg: "rp_cfg (replay_run rqs ?p1) = default_replay_config" using p(1) by simp
  show ?thesis
  proof (cases "t2 - t1 \<le> 15 * minute")
    case True
    have w: "time_sub now t1 \<le> rp_nonce_retention_window (rp_cfg ?p1)" if "now \<le> t2" for now
      using that True p(1) by (simp add: time_sub_def default_replay_config_def minute_def second_def)
    have "stored_since (replay_run rqs ?p1) nonce t1"
      using replay_run_kept [OF validate_replay_distinct [OF p(2)] passing_is_stored [OF assms(3,2)]] le w by fastforce
    then show ?thesis using stored_is_flagged [of _ nonce t1 t2] w [of t2] cfg p(1) assms(2) by simp
  next
    case False
    have k: "rp_max_timestamp_drift_sec default_replay_config = Fin (of_int 300)" by (simp add: default_replay_config_def)
    have "\<bar>t1 - ts\<bar> < 301 * second"
      using passing_drift [OF assms(3), of 300] p(1) assms(5) k le(1) by simp
    moreover have "\<not> \<bar>t2 - ts\<bar> < 301 * second"
      using calculation False by (simp add: minute_def second_def)
    ultimately show ?thesis
      using passing_drift [of nonce ts t2 "replay_run rqs ?p1" 300] cfg k assms(5) le(1) by fastforce
  qed
qed

end
