(* ===== verification/Go_Sqrt.thy ===== *)
theory Go_Sqrt
  imports Go_Float
begin

text \<open>
  \<open>math.Sqrt\<close>: the correctly rounded square root.  The root of the scaled argument is taken on
  integers with at least 55 bits; the remainder, when there is one, is a sticky half bit below,
  which no tie of the rounding can meet.
\<close>

fun isqrt_bits :: "nat \<Rightarrow> int \<Rightarrow> int \<Rightarrow> int" where
  "isqrt_bits 0 r n = r"
| "isqrt_bits (Suc k) r n = (if (r + 2 ^ k) * (r + 2 ^ k) \<le> n then isqrt_bits k (r + 2 ^ k) n else isqrt_bits k r n)"

definition isqrt :: "int \<Rightarrow> int" where
  "isqrt n = isqrt_bits (nat (blen n)) 0 n"

lemma isqrt_bits_bounds:
  "0 \<le> r \<Longrightarrow> r * r \<le> n \<Longrightarrow> n < (r + 2 ^ k) * (r + 2 ^ k) \<Longrightarrow>
   0 \<le> isqrt_bits k r n \<and> isqrt_bits k r n * isqrt_bits k r n \<le> n \<and> n < (isqrt_bits k r n + 1) * (isqrt_bits k r n + 1)"
  by (induction k arbitrary: r) (simp_all add: add.assoc flip: mult_2)

lemma isqrt_bounds:
  assumes "0 \<le> n"
  shows "0 \<le> isqrt n \<and> isqrt n * isqrt n \<le> n \<and> n < (isqrt n + 1) * (isqrt n + 1)"
proof -
  have "n < 2 ^ nat (blen n)"
  proof (cases "n = 0")
    case False
    then have p: "of_int n + 1 \<le> pow2 (blen n)" "pow2 (blen n - 1) \<le> of_int n" using blen_bounds [of n] assms by simp_all
    have "0 \<le> blen n"
    proof (rule ccontr)
      assume "\<not> 0 \<le> blen n"
      then have "pow2 (blen n) \<le> pow2 0" by (simp only: pow2_le_iff)
      then show False using p(1) assms False by simp
    qed
    then have "(of_int n + 1 :: rat) \<le> of_int (2 ^ nat (blen n))" using p(1) by (simp add: pow2_def)
    then have "(of_int (n + 1) :: rat) \<le> of_int (2 ^ nat (blen n))" by simp
    then show ?thesis unfolding of_int_le_iff by simp
  qed simp
  also have "(2 :: int) ^ nat (blen n) \<le> 2 ^ nat (blen n) * 2 ^ nat (blen n)" by simp
  finally show ?thesis unfolding isqrt_def using assms isqrt_bits_bounds [of 0 n "nat (blen n)"] by simp
qed

definition sqrt_shift :: "rat \<Rightarrow> nat" where
  "sqrt_shift x = nat (60 - flog2 x div 2)"

fun fsqrt :: "f64 \<Rightarrow> f64" where
  "fsqrt (Fin x) =
     (if x < 0 then NaN else if x = 0 then Fin 0
      else (let k = sqrt_shift x; y = x * 4 ^ k; s = isqrt \<lfloor>y\<rfloor> in
            to_f64 ((of_int (2 * s) + (if of_int (s * s) = y then 0 else 1)) / 2 ^ (k + 1))))"
| "fsqrt PInf = PInf"
| "fsqrt NInf = NaN"
| "fsqrt NaN = NaN"

text \<open>The exact root lies in the cell of the scaled integer root.\<close>

lemma sqrt_scaled_bounds:
  fixes x :: rat and k :: nat
  assumes "0 \<le> x"
  shows "(of_int (isqrt \<lfloor>x * 4 ^ k\<rfloor>) / 2 ^ k) ^ 2 \<le> x \<and> x < ((of_int (isqrt \<lfloor>x * 4 ^ k\<rfloor>) + 1) / 2 ^ k) ^ 2"
proof -
  let ?y = "x * 4 ^ k"
  define s where "s = isqrt \<lfloor>?y\<rfloor>"
  have y: "0 \<le> \<lfloor>?y\<rfloor>" using assms by simp
  have b: "s * s \<le> \<lfloor>?y\<rfloor>" "\<lfloor>?y\<rfloor> < (s + 1) * (s + 1)" using isqrt_bounds [OF y] unfolding s_def by blast+
  have 1: "of_int (s * s) \<le> ?y" using b(1) by (simp only: le_floor_iff)
  have 2: "?y < of_int ((s + 1) * (s + 1))" using b(2) by (simp only: floor_less_iff)
  have four: "(4 :: rat) ^ k = (2 ^ k) ^ 2" by (simp add: power2_eq_square flip: power_mult_distrib)
  have "of_int s ^ 2 \<le> x * (2 ^ k) ^ 2" "x * (2 ^ k) ^ 2 < (of_int s + 1) ^ 2"
    using 1 2 by (simp_all add: four power2_eq_square)
  then show ?thesis unfolding s_def [symmetric] by (simp add: power_divide divide_le_eq less_divide_eq)
qed

lemma fsqrt_0 [simp]: "fsqrt (Fin 0) = Fin 0"
  by simp

lemma fsqrt_nine: "fsqrt (Fin 9) = Fin 3"
  by code_simp

end
