(* ===== verification/Cadence_Analyzer.thy ===== *)
theory Cadence_Analyzer
  imports Bot_Types Go_Sqrt Bounded_History
begin

text \<open>
  The cadence analyser, \<open>internal/bot_defense/cadence_analyzer.go\<close>: per client the newest arrival
  times, and the statistics of their gaps.  The window of one client is a bounded history.
\<close>

record cadence_analyzer =
  ca_history :: "string \<rightharpoonup> gotime list"
  ca_max_window_len :: int

definition new_cadence_analyzer :: "int \<Rightarrow> cadence_analyzer" where
  "new_cadence_analyzer max_len =
     \<lparr>ca_history = Map.empty, ca_max_window_len = (if max_len \<le> 0 then 12 else max_len)\<rparr>"

definition headless_ua :: "string \<Rightarrow> bool" where
  "headless_ua ua =
     (let u = to_lower ua in
      str_contains u ''headlesschrome'' \<or> str_contains u ''phantomjs'' \<or> str_contains u ''selenium'' \<or>
      str_contains u ''puppeteer'' \<or> str_contains u ''playwright'' \<or>
      has_prefix u ''python-requests'' \<and> \<not> str_contains u ''merchant-sdk'')"

definition headless_rule :: "string \<Rightarrow> string" where
  "headless_rule ua = ''Client User-Agent signature matches headless automation framework ('' @ ua @ '')''"

text \<open>The window after an arrival.\<close>

definition push_arrival :: "int \<Rightarrow> gotime \<Rightarrow> gotime list option \<Rightarrow> gotime list" where
  "push_arrival max_len t h =
     (case h of None \<Rightarrow> [t]
      | Some ts \<Rightarrow>
          (let ts' = ts @ [t] in
           if max_len < int (length ts') then drop (length ts' - nat max_len) ts' else ts'))"

text \<open>The gap of two arrivals in milliseconds, never negative; \<open>Pow(x, 2)\<close> is a product.\<close>

definition gap_ms :: "gotime \<Rightarrow> gotime \<Rightarrow> f64" where
  "gap_ms s t =
     (let d = fdiv (of_int64 (go_div (time_sub t s) 1000)) (Fin 1000) in if flt d (Fin 0) then Fin 0 else d)"

definition gaps_of :: "gotime list \<Rightarrow> f64 list" where
  "gaps_of ts = map (\<lambda>(s, t). gap_ms s t) (zip ts (tl ts))"

definition f_sum :: "f64 list \<Rightarrow> f64" where
  "f_sum xs = foldl fadd (Fin 0) xs"

definition burst_count :: "f64 list \<Rightarrow> nat" where
  "burst_count gs = length (filter (\<lambda>g. flt g (Fin 200)) gs)"

definition cadence_rule :: "f64 \<Rightarrow> f64 \<Rightarrow> string" where
  "cadence_rule mean cv = ''Deterministic inter-arrival cadence detected (mean: '' @ fmt_fixed 1 mean @ ''ms, CV: '' @
     fmt_fixed 3 cv @ '' < 0.15)''"

definition burst_rule :: "nat \<Rightarrow> string" where
  "burst_rule n = ''High-frequency burst pacing detected ('' @ nat_digits n @ '' sub-200ms inter-arrival intervals)''"

text \<open>The statistics of a window of at least three arrivals.\<close>

definition cadence_stats :: "gotime list \<Rightarrow> bot_signals \<Rightarrow> bot_signals \<times> string list" where
  "cadence_stats ts s =
     (let n = length ts;
          gs = gaps_of ts;
          mean = fdiv (f_sum gs) (of_int64 (int (length gs)));
          var = f_sum (map (\<lambda>g. fmul (fsub g mean) (fsub g mean)) gs);
          sd = fsqrt (fdiv var (of_int64 (int (length gs))));
          cv = (if flt (Fin 0) mean then fdiv sd mean else Fin 1);
          hz = (if flt (Fin 0) mean then fdiv (Fin 1000) mean else Fin 0);
          det = (4 \<le> n \<and> flt mean (Fin 5000) \<and> flt cv (to_f64 (15 / 100)));
          bc = burst_count gs in
      (s\<lparr>sg_iat_mean_ms := mean, sg_iat_std_dev := sd, sg_coefficient_of_variation := cv, sg_request_cadence_hz := hz,
         sg_is_deterministic_cadence := det, sg_is_burst_pacing := (3 \<le> bc)\<rparr>,
       (if det then [cadence_rule mean cv] else []) @ (if 3 \<le> bc then [burst_rule bc] else [])))"

definition analyze_cadence ::
  "string \<Rightarrow> gotime option \<Rightarrow> string \<Rightarrow> gotime \<Rightarrow> cadence_analyzer \<Rightarrow> (bot_signals \<times> string list) \<times> cadence_analyzer" where
  "analyze_cadence entity arrival ua now a =
     (let t = (case arrival of None \<Rightarrow> now | Some t \<Rightarrow> t);
          s = no_signals\<lparr>sg_is_headless_ua := headless_ua ua\<rparr>;
          rules = (if headless_ua ua then [headless_rule ua] else []);
          w = push_arrival (ca_max_window_len a) t (ca_history a entity);
          a' = a\<lparr>ca_history := (ca_history a)(entity \<mapsto> w)\<rparr> in
      if ca_history a entity = None \<or> length w < 3 then ((s\<lparr>sg_coefficient_of_variation := Fin 1\<rparr>, rules), a')
      else (case cadence_stats w s of (s', found) \<Rightarrow> ((s', rules @ found), a')))"

subsection \<open>The window\<close>

definition cadence_window :: "string \<Rightarrow> cadence_analyzer \<Rightarrow> gotime list" where
  "cadence_window entity a = (case ca_history a entity of None \<Rightarrow> [] | Some ts \<Rightarrow> ts)"

definition cadence_ok :: "string \<Rightarrow> cadence_analyzer \<Rightarrow> bool" where
  "cadence_ok entity a \<longleftrightarrow> 0 < ca_max_window_len a \<and> length (cadence_window entity a) \<le> nat (ca_max_window_len a)"

definition arrive :: "string \<Rightarrow> gotime \<times> string \<Rightarrow> cadence_analyzer \<Rightarrow> cadence_analyzer" where
  "arrive entity e a = snd (analyze_cadence entity (Some (fst e)) (snd e) 0 a)"

lemma analyze_cadence_state:
  "snd (analyze_cadence entity arrival ua now a) =
     a\<lparr>ca_history := (ca_history a)(entity \<mapsto> push_arrival (ca_max_window_len a)
        (case arrival of None \<Rightarrow> now | Some t \<Rightarrow> t) (ca_history a entity))\<rparr>"
  by (simp add: analyze_cadence_def Let_def split: prod.split)

lemma arrive_window:
  assumes "cadence_ok entity a"
  shows "cadence_window entity (arrive entity (t, ua) a) = last_n (nat (ca_max_window_len a)) (cadence_window entity a @ [t])"
proof (cases "ca_history a entity")
  case None
  have "Suc 0 - nat (ca_max_window_len a) = 0" using assms by (simp add: cadence_ok_def Suc_le_eq)
  with None show ?thesis using assms
    by (simp add: arrive_def analyze_cadence_state cadence_window_def push_arrival_def last_n_def cadence_ok_def)
next
  case (Some ts)
  then show ?thesis using assms
    by (simp add: arrive_def analyze_cadence_state cadence_window_def push_arrival_def last_n_def cadence_ok_def Let_def)
qed

lemma arrive_max [simp]: "ca_max_window_len (arrive entity e a) = ca_max_window_len a"
  by (simp add: arrive_def analyze_cadence_state)

lemma arrives_max [simp]: "ca_max_window_len (fold (arrive entity) es a) = ca_max_window_len a"
  by (induction es arbitrary: a) simp_all

interpretation arrivals: bounded_history "arrive entity" "fst :: gotime \<times> string \<Rightarrow> gotime" "cadence_window entity" "\<lambda>a. nat (ca_max_window_len a)" "cadence_ok entity"
  for entity
proof unfold_locales
  fix a and e :: "gotime \<times> string" assume ok: "cadence_ok entity a"
  obtain t ua where e: "e = (t, ua)" by force
  show 1: "cadence_window entity (arrive entity e a) = last_n (nat (ca_max_window_len a)) (cadence_window entity a @ [fst e])"
    using arrive_window [OF ok] by (simp add: e)
  show 2: "nat (ca_max_window_len (arrive entity e a)) = nat (ca_max_window_len a)"
    by (simp add: arrive_def analyze_cadence_state)
  show "cadence_ok entity (arrive entity e a)"
    using ok 1 by (auto simp: cadence_ok_def arrive_def analyze_cadence_state)
  show "0 < nat (ca_max_window_len a) \<and> length (cadence_window entity a) \<le> nat (ca_max_window_len a)"
    using ok by (simp add: cadence_ok_def)
qed

subsection \<open>A client at a constant pace\<close>

lemma f_sum_constant:
  assumes "0 \<le> k" "k * int (length xs + n) \<le> 2 ^ 53" "\<forall>x \<in> set xs. x = Fin (of_int k)"
  shows "foldl fadd (Fin (of_int (k * int n))) xs = Fin (of_int (k * int (length xs + n)))"
  using assms
proof (induction xs arbitrary: n)
  case (Cons x xs)
  have "k * int (Suc n) \<le> k * int (length (x # xs) + n)" using Cons.prems(1) by (intro mult_left_mono) simp_all
  then have b: "\<bar>k * int (Suc n)\<bar> \<le> 2 ^ 53" using Cons.prems(1,2) by (simp add: abs_mult)
  have "fadd (Fin (of_int (k * int n))) x = to_f64 (of_int (k * int (Suc n)))"
    using Cons.prems(3) by (simp add: algebra_simps)
  then have "fadd (Fin (of_int (k * int n))) x = Fin (of_int (k * int (Suc n)))" using to_f64_of_int [OF b] by simp
  then show ?case using Cons.IH [of "Suc n"] Cons.prems by simp
qed simp

lemma f_sum_replicate:
  "0 \<le> k \<Longrightarrow> k * int n \<le> 2 ^ 53 \<Longrightarrow> f_sum (replicate n (Fin (of_int k))) = Fin (of_int (k * int n))"
  using f_sum_constant [of k "replicate n (Fin (of_int k))" 0] by (simp add: f_sum_def)

lemma gap_ms_whole:
  assumes "0 \<le> k" "k < 5000"
  shows "gap_ms s (s + k * millisecond) = Fin (of_int k)"
proof -
  have "time_sub (s + k * millisecond) s = k * 1000000" using assms by (simp add: time_sub_def millisecond_def)
  moreover have "go_div (k * 1000000) 1000 = k * 1000" using assms by (simp add: go_div_nonneg)
  moreover have "of_int64 (k * 1000) = Fin (of_int (k * 1000))" using assms by (intro of_int64_exact) simp
  moreover have "to_f64 (of_int k) = Fin (of_int k)" using assms by (intro to_f64_of_int) simp
  ultimately show ?thesis using assms by (simp add: gap_ms_def Let_def)
qed

lemma gaps_of_Cons: "gaps_of (s # t # ts) = gap_ms s t # gaps_of (t # ts)"
  by (simp add: gaps_of_def)

fun paced :: "int \<Rightarrow> gotime list \<Rightarrow> bool" where
  "paced k (s # t # ts) = (t = s + k * millisecond \<and> paced k (t # ts))"
| "paced k _ = True"

lemma paced_gaps: "0 \<le> k \<Longrightarrow> k < 5000 \<Longrightarrow> paced k ts \<Longrightarrow> gaps_of ts = replicate (length ts - 1) (Fin (of_int k))"
  by (induction k ts rule: paced.induct) (simp_all add: gaps_of_Cons gap_ms_whole, simp_all add: gaps_of_def)

lemma paced_tl: "paced k ts \<Longrightarrow> paced k (tl ts)"
  by (induction k ts rule: paced.induct) simp_all

lemma paced_drop: "paced k ts \<Longrightarrow> paced k (drop n ts)"
proof (induction n arbitrary: ts)
  case (Suc n)
  then show ?case using paced_tl [of k ts] by (simp add: drop_Suc)
qed simp

lemma cadence_stats_paced:
  assumes "0 < k" "k < 5000" "paced k ts" "4 \<le> length ts" "length ts \<le> 1000000"
  shows "sg_is_deterministic_cadence (fst (cadence_stats ts s))"
    and "sg_iat_mean_ms (fst (cadence_stats ts s)) = Fin (of_int k)"
proof -
  let ?n = "length ts - 1"
  have ne: "ts \<noteq> []" using assms(4) by auto
  have g: "gaps_of ts = replicate ?n (Fin (of_int k))" using assms(1,2,3) by (intro paced_gaps) simp_all
  have "k * int ?n \<le> 5000 * 1000000" using assms ne by (intro mult_mono) simp_all
  then have "f_sum (gaps_of ts) = Fin (of_int (k * int ?n))"
    unfolding g using assms(1) by (intro f_sum_replicate) simp_all
  moreover have "of_int64 (int ?n) = Fin (of_int (int ?n))" using assms(5) by (intro of_int64_exact) simp
  moreover have "to_f64 (of_int k) = Fin (of_int k)" using assms(1,2) by (intro to_f64_of_int) simp
  moreover have "fdiv (Fin (of_int (k * int ?n))) (Fin (of_int (int ?n))) = to_f64 (of_int k)" using assms(4) by (cases ts) auto
  ultimately have m: "fdiv (f_sum (gaps_of ts)) (of_int64 (int (length (gaps_of ts)))) = Fin (of_int k)" by (simp add: g)
  have "f_sum (map (\<lambda>x. fmul (fsub x (Fin (of_int k))) (fsub x (Fin (of_int k)))) (gaps_of ts)) = Fin 0"
    using f_sum_replicate [of 0 ?n] by (simp add: g)
  then have v: "fsqrt (fdiv (f_sum (map (\<lambda>x. fmul (fsub x (Fin (of_int k))) (fsub x (Fin (of_int k)))) (gaps_of ts)))
      (of_int64 (int (length (gaps_of ts))))) = Fin 0"
    using assms(4,5) ne by (simp add: g of_int64_exact)
  have c: "flt (Fin 0) (to_f64 (15 / 100))" by code_simp
  show "sg_is_deterministic_cadence (fst (cadence_stats ts s))" "sg_iat_mean_ms (fst (cadence_stats ts s)) = Fin (of_int k)"
    unfolding cadence_stats_def Let_def m v using assms c by simp_all
qed

text \<open>The arrivals of all clients, in any interleaving.\<close>

definition analysed :: "(string \<times> gotime \<times> string) list \<Rightarrow> cadence_analyzer \<Rightarrow> cadence_analyzer" where
  "analysed rs a = fold (\<lambda>(e, x). arrive e x) rs a"

definition arrivals_of :: "string \<Rightarrow> (string \<times> gotime \<times> string) list \<Rightarrow> gotime list" where
  "arrivals_of entity rs = map (fst \<circ> snd) (filter (\<lambda>r. fst r = entity) rs)"

lemma analysed_window:
  "cadence_ok entity a \<Longrightarrow>
   cadence_window entity (analysed rs a) = last_n (nat (ca_max_window_len a)) (cadence_window entity a @ arrivals_of entity rs) \<and>
   ca_max_window_len (analysed rs a) = ca_max_window_len a"
proof -
  assume ok: "cadence_ok entity a"
  have "cadence_window entity (analysed rs a) =
      cadence_window entity (fold (arrive entity) (map snd (filter (\<lambda>r. fst r = entity) rs)) a)
      \<and> ca_max_window_len (analysed rs a) = ca_max_window_len a" for rs
  proof (induction rs rule: rev_induct)
    case (snoc r rs)
    obtain e t ua where r: "r = (e, t, ua)" by (cases r)
    let ?b = "fold (arrive entity) (map snd (filter (\<lambda>r. fst r = entity) rs)) a"
    have "cadence_ok entity (analysed rs a)"
      using snoc ok arrivals.length_pushes [OF ok, of "map snd (filter (\<lambda>r. fst r = entity) rs)"] by (simp add: cadence_ok_def)
    moreover have "cadence_ok entity ?b" using arrivals.ok_pushes [OF ok] .
    moreover have "ca_max_window_len ?b = ca_max_window_len a"
      by simp
    ultimately show ?case using snoc
      by (cases "e = entity")
        (simp_all add: analysed_def r arrive_window, simp_all add: arrive_def analyze_cadence_state cadence_window_def)
  qed (simp add: analysed_def)
  then show ?thesis using arrivals.items_pushes [OF ok] by (simp add: arrivals_of_def comp_def)
qed

text \<open>
  a metronome is caught.  A client whose requests arrive at a constant pace of whole milliseconds
  below five seconds is flagged as deterministic from its fourth request on, whatever other
  clients send in between and however long it goes on (for a window between 4 and a million).
\<close>

theorem constant_pace_is_detected:
  assumes "0 < k" "k < 5000" "4 \<le> m" "m \<le> 1000000"
    and "paced k (arrivals_of entity rs @ [t])" "3 \<le> length (arrivals_of entity rs)"
  shows "sg_is_deterministic_cadence
    (fst (fst (analyze_cadence entity (Some t) ua now (analysed rs (new_cadence_analyzer m)))))"
proof -
  let ?a = "analysed rs (new_cadence_analyzer m)"
  let ?ts = "arrivals_of entity rs"
  have ok: "cadence_ok entity (new_cadence_analyzer m)" using assms(3)
    by (simp add: cadence_ok_def new_cadence_analyzer_def cadence_window_def)
  have w: "cadence_window entity ?a = last_n (nat m) ?ts" "ca_max_window_len ?a = m"
    using analysed_window [OF ok, of rs] assms(3) by (simp_all add: new_cadence_analyzer_def cadence_window_def)
  then have some: "ca_history ?a entity \<noteq> None"
    using assms(3,6) by (auto simp: cadence_window_def last_n_def split: option.splits)
  have "cadence_ok entity ?a" using w assms(3) by (simp add: cadence_ok_def)
  from arrive_window [OF this, of t ua] have p: "push_arrival (ca_max_window_len ?a) t (ca_history ?a entity) = last_n (nat m) (?ts @ [t])"
    by (simp add: w last_n_last_n_snoc arrive_def analyze_cadence_state cadence_window_def [of entity "ca_history_update _ _"])
  let ?w = "last_n (nat m) (?ts @ [t])"
  have l: "4 \<le> length ?w" "length ?w \<le> 1000000" using assms(3,4,6) by simp_all
  have "paced k ?w" using assms(5) by (simp add: last_n_def paced_drop del: drop_append)
  note det = cadence_stats_paced(1) [OF assms(1,2) this l]
  have "\<not> length ?w < 3" using l(1) by linarith
  then show ?thesis
    using some by (auto simp: analyze_cadence_def Let_def p det split_beta simp del: length_last_n)
qed

lemma constant_pace_is_detected_witness:
  "sg_is_deterministic_cadence (fst (fst (analyze_cadence ''d1'' (Some (40 + 3 * 250 * millisecond)) ''curl'' 0
     (analysed [(''d1'', 40, ''''), (''d1'', 40 + 250 * millisecond, ''''), (''d2'', 41, ''''), (''d1'', 40 + 2 * 250 * millisecond, '''')]
       (new_cadence_analyzer 12)))))"
  by (rule constant_pace_is_detected [of 250]) (simp_all add: arrivals_of_def)

end
