(* ===== verification/Coordinated_Detector.thy ===== *)
theory Coordinated_Detector
  imports Bot_Types Go_Duration Assoc_Lists
begin

text \<open>
  The detector of coordinated attacks, \<open>internal/bot_defense/coordinated_attack_detector.go\<close>: four
  relations between entities, each entry with the time it was last seen, and the number of
  partners seen within the window.
\<close>

type_synonym entity_relation = "string \<rightharpoonup> (string \<times> gotime) list"

record coordinated_detector =
  cd_device_to_accounts :: entity_relation
  cd_account_to_devices :: entity_relation
  cd_ip_to_devices :: entity_relation
  cd_device_to_cards :: entity_relation
  cd_window :: duration

definition new_coordinated_detector :: "duration \<Rightarrow> coordinated_detector" where
  "new_coordinated_detector window =
     \<lparr>cd_device_to_accounts = Map.empty, cd_account_to_devices = Map.empty, cd_ip_to_devices = Map.empty,
      cd_device_to_cards = Map.empty, cd_window = (if window \<le> 0 then 15 * minute else window)\<rparr>"

text \<open>Recording that two entities were seen together, and counting the recent partners of one.\<close>

definition partners :: "entity_relation \<Rightarrow> string \<Rightarrow> (string \<times> gotime) list" where
  "partners m a = (case m a of None \<Rightarrow> [] | Some xs \<Rightarrow> xs)"

definition link :: "string \<Rightarrow> string \<Rightarrow> gotime \<Rightarrow> entity_relation \<Rightarrow> entity_relation" where
  "link a b now m = (if a = '''' \<or> b = '''' then m else m(a \<mapsto> AList.update b now (partners m a)))"

definition fan_out :: "string \<Rightarrow> string \<Rightarrow> gotime \<Rightarrow> duration \<Rightarrow> entity_relation \<Rightarrow> int" where
  "fan_out a b now window m =
     (if a = '''' \<or> b = '''' then 0
      else int (length (filter (\<lambda>(k, t). time_sub now t \<le> window) (partners (link a b now m) a))))"

definition fan_out_rules :: "bot_context \<Rightarrow> duration \<Rightarrow> int \<Rightarrow> int \<Rightarrow> int \<Rightarrow> int \<Rightarrow> bool \<Rightarrow> string list" where
  "fan_out_rules cx window acc dev ipd cards probing =
     (if 4 \<le> acc then [''High device account fan-out ('' @ itoa acc @ '' distinct accounts accessed from device '' @
        bx_device_fingerprint cx @ '' in '' @ duration_string window @ '')''] else []) @
     (if 4 \<le> dev then [''High account device fan-out ('' @ itoa dev @ '' distinct hardware devices accessed account '' @
        bx_account_id cx @ '' in '' @ duration_string window @ '')''] else []) @
     (if 6 \<le> ipd then [''IP device cluster fan-out ('' @ itoa ipd @ '' distinct devices from IP '' @
        bx_ip_address cx @ '' in '' @ duration_string window @ '')''] else []) @
     (if probing then [''Automated card testing sequence detected ('' @ itoa cards @ '' unique card instruments tested on device '' @
        bx_device_fingerprint cx @ '')''] else [])"

definition card_probing :: "int \<Rightarrow> f64 \<Rightarrow> bool" where
  "card_probing cards amount \<longleftrightarrow> 3 \<le> cards \<or> 2 \<le> cards \<and> flt (Fin 0) amount \<and> fle amount (Fin 3)"

definition analyze_coordinated_risk ::
  "gotime \<Rightarrow> bot_context \<Rightarrow> coordinated_detector \<Rightarrow> (bot_signals \<times> string list) \<times> coordinated_detector" where
  "analyze_coordinated_risk now cx d =
     (let dev = bx_device_fingerprint cx; acc = bx_account_id cx; ip = bx_ip_address cx; card = bx_card_hash cx;
          w = cd_window d;
          accs = fan_out dev acc now w (cd_device_to_accounts d);
          devs = fan_out acc dev now w (cd_account_to_devices d);
          ipds = fan_out ip dev now w (cd_ip_to_devices d);
          cards = fan_out dev card now w (cd_device_to_cards d);
          probing = card_probing cards (bx_amount cx) in
      ((no_signals\<lparr>sg_account_fan_out_1h := accs, sg_device_fan_out_1h := devs, sg_ip_device_fan_out_5m := ipds,
          sg_card_testing_tokens_5m := cards, sg_is_card_testing_probing := probing\<rparr>,
        fan_out_rules cx w accs devs ipds cards probing),
       d\<lparr>cd_device_to_accounts := link dev acc now (cd_device_to_accounts d),
         cd_account_to_devices := link acc dev now (cd_account_to_devices d),
         cd_ip_to_devices := link ip dev now (cd_ip_to_devices d),
         cd_device_to_cards := link dev card now (cd_device_to_cards d)\<rparr>))"

subsection \<open>The relations as the histories they stand for\<close>

datatype fan_relation = DeviceAccounts | AccountDevices | IpDevices | DeviceCards

fun rel_from :: "fan_relation \<Rightarrow> bot_context \<Rightarrow> string" where
  "rel_from DeviceAccounts cx = bx_device_fingerprint cx" | "rel_from AccountDevices cx = bx_account_id cx"
| "rel_from IpDevices cx = bx_ip_address cx" | "rel_from DeviceCards cx = bx_device_fingerprint cx"

fun rel_to :: "fan_relation \<Rightarrow> bot_context \<Rightarrow> string" where
  "rel_to DeviceAccounts cx = bx_account_id cx" | "rel_to AccountDevices cx = bx_device_fingerprint cx"
| "rel_to IpDevices cx = bx_device_fingerprint cx" | "rel_to DeviceCards cx = bx_card_hash cx"

fun rel_map :: "fan_relation \<Rightarrow> coordinated_detector \<Rightarrow> entity_relation" where
  "rel_map DeviceAccounts d = cd_device_to_accounts d" | "rel_map AccountDevices d = cd_account_to_devices d"
| "rel_map IpDevices d = cd_ip_to_devices d" | "rel_map DeviceCards d = cd_device_to_cards d"

fun rel_count :: "fan_relation \<Rightarrow> bot_signals \<Rightarrow> int" where
  "rel_count DeviceAccounts s = sg_account_fan_out_1h s" | "rel_count AccountDevices s = sg_device_fan_out_1h s"
| "rel_count IpDevices s = sg_ip_device_fan_out_5m s" | "rel_count DeviceCards s = sg_card_testing_tokens_5m s"

definition observed :: "(bot_context \<times> gotime) list \<Rightarrow> coordinated_detector \<Rightarrow> coordinated_detector" where
  "observed h d = fold (\<lambda>(cx, t) d. snd (analyze_coordinated_risk t cx d)) h d"

text \<open>The partners of an entity in a history, within a window before an instant.\<close>

definition recent_partners ::
  "fan_relation \<Rightarrow> string \<Rightarrow> gotime \<Rightarrow> duration \<Rightarrow> (bot_context \<times> gotime) list \<Rightarrow> string set" where
  "recent_partners R a now w h =
     {b. b \<noteq> '''' \<and> (\<exists>(cx, t) \<in> set h. rel_from R cx = a \<and> rel_to R cx = b \<and> time_sub now t \<le> w)}"

text \<open>The last time two entities were seen together.\<close>

fun last_seen :: "fan_relation \<Rightarrow> string \<Rightarrow> string \<Rightarrow> (bot_context \<times> gotime) list \<Rightarrow> gotime option" where
  "last_seen R a b [] = None"
| "last_seen R a b ((cx, t) # h) = (if rel_from R cx = a \<and> rel_to R cx = b then Some t else last_seen R a b h)"

lemma analyze_window [simp]: "cd_window (snd (analyze_coordinated_risk t cx d)) = cd_window d"
  by (simp add: analyze_coordinated_risk_def Let_def)

lemma analyze_rel_map:
  "rel_map R (snd (analyze_coordinated_risk t cx d)) = link (rel_from R cx) (rel_to R cx) t (rel_map R d)"
  by (cases R) (simp_all add: analyze_coordinated_risk_def Let_def)

lemma analyze_rel_count:
  "rel_count R (fst (fst (analyze_coordinated_risk t cx d))) =
     fan_out (rel_from R cx) (rel_to R cx) t (cd_window d) (rel_map R d)"
  by (cases R) (simp_all add: analyze_coordinated_risk_def Let_def)

lemma partners_link:
  "partners (link a b t m) c = (if a \<noteq> '''' \<and> b \<noteq> '''' \<and> c = a then AList.update b t (partners m c) else partners m c)"
  by (simp add: partners_def link_def)

lemma observed_snoc: "observed (h @ [(cx, t)]) d = snd (analyze_coordinated_risk t cx (observed h d))"
  by (simp add: observed_def)

lemma observed_window [simp]: "cd_window (observed h d) = cd_window d"
  by (induction h rule: rev_induct) (auto simp: observed_snoc, simp add: observed_def)

lemma observed_partners:
  assumes "a \<noteq> ''''" "rel_map R d = Map.empty"
  shows "distinct (map fst (partners (rel_map R (observed h d)) a)) \<and>
    map_of (partners (rel_map R (observed h d)) a) b = (if b = '''' then None else last_seen R a b (rev h))"
proof (induction h rule: rev_induct)
  case Nil
  then show ?case using assms(2) by (simp add: observed_def partners_def)
next
  case (snoc e h)
  obtain cx t where e: "e = (cx, t)" by force
  show ?case using snoc assms(1)
    by (auto simp: e observed_snoc analyze_rel_map partners_link distinct_update update_conv)
qed

lemma last_seen_recent:
  assumes "sorted (map snd (rev h))"
  shows "(\<exists>t. last_seen R a b h = Some t \<and> time_sub now t \<le> w) \<longleftrightarrow>
    (\<exists>(cx, t) \<in> set h. rel_from R cx = a \<and> rel_to R cx = b \<and> time_sub now t \<le> w)"
  using assms
proof (induction h)
  case (Cons e h)
  obtain cx t where e: "e = (cx, t)" by force
  have later: "\<forall>(cx', u) \<in> set h. u \<le> t" using Cons.prems by (auto simp: e sorted_append)
  have s: "sorted (map snd (rev h))" using Cons.prems by (simp add: sorted_append)
  show ?case
  proof (cases "rel_from R cx = a \<and> rel_to R cx = b")
    case True
    have "time_sub now t \<le> w" if "(cx', u) \<in> set h" "time_sub now u \<le> w" for cx' u
      using later that by (fastforce simp: time_sub_def)
    then show ?thesis using True by (auto simp: e)
  next
    case False
    then show ?thesis using Cons.IH [OF s] by (auto simp: e)
  qed
qed simp

text \<open>
  the fan-out counts are exact.  After any history in the order of time, the count a request gets for
  each of the four relations is the number of distinct partners its entity was seen with within the
  window, this request included.
\<close>

theorem fan_out_counts_distinct_partners:
  assumes "sorted (map snd h @ [now])" "rel_from R cx \<noteq> ''''" "rel_to R cx \<noteq> ''''"
  shows "rel_count R (fst (fst (analyze_coordinated_risk now cx (observed h (new_coordinated_detector window))))) =
    int (card (recent_partners R (rel_from R cx) now (if window \<le> 0 then 15 * minute else window) (h @ [(cx, now)])))"
proof -
  let ?d = "new_coordinated_detector window"
  let ?w = "if window \<le> 0 then 15 * minute else window"
  let ?a = "rel_from R cx"
  let ?h = "h @ [(cx, now)]"
  let ?ps = "partners (rel_map R (observed ?h ?d)) ?a"
  have empty: "rel_map R ?d = Map.empty" by (cases R) (simp_all add: new_coordinated_detector_def)
  note p = observed_partners [OF assms(2) empty, of ?h]
  have w: "cd_window ?d = ?w" by (simp add: new_coordinated_detector_def)
  have "rel_count R (fst (fst (analyze_coordinated_risk now cx (observed h ?d)))) =
      int (length (filter (\<lambda>(k, t). time_sub now t \<le> ?w) ?ps))"
    using assms(2,3) by (simp add: analyze_rel_count fan_out_def observed_snoc analyze_rel_map w)
  also have "length (filter (\<lambda>(k, t). time_sub now t \<le> ?w) ?ps) =
      card (fst ` set (filter (\<lambda>(k, t). time_sub now t \<le> ?w) ?ps))"
    using p distinct_card [of "map fst (filter (\<lambda>(k, t). time_sub now t \<le> ?w) ?ps)"] by (simp add: distinct_map_filter)
  also have "fst ` set (filter (\<lambda>(k, t). time_sub now t \<le> ?w) ?ps) = recent_partners R ?a now ?w ?h"
  proof (intro set_eqI)
    fix b
    have "b \<in> fst ` set (filter (\<lambda>(k, t). time_sub now t \<le> ?w) ?ps) \<longleftrightarrow> (\<exists>t. map_of ?ps b = Some t \<and> time_sub now t \<le> ?w)"
      using p by (intro filtered_keys) blast
    also have "\<dots> \<longleftrightarrow> b \<noteq> '''' \<and> (\<exists>t. last_seen R ?a b (rev ?h) = Some t \<and> time_sub now t \<le> ?w)" using p by simp
    also have "\<dots> \<longleftrightarrow> b \<in> recent_partners R ?a now ?w ?h"
      using last_seen_recent [of "rev ?h" R ?a b now ?w] assms(1) by (simp add: recent_partners_def)
    finally show "b \<in> fst ` set (filter (\<lambda>(k, t). time_sub now t \<le> ?w) ?ps) \<longleftrightarrow> b \<in> recent_partners R ?a now ?w ?h" .
  qed
  finally show ?thesis .
qed

definition account_context :: "string \<Rightarrow> string \<Rightarrow> bot_context" where
  "account_context dev acc = \<lparr>bx_tenant_id = ''t1'', bx_plan_tier = ''GROWTH'', bx_transaction_id = ''tx1'',
     bx_account_id = acc, bx_device_fingerprint = dev, bx_ip_address = '''', bx_user_agent = ''curl'', bx_card_hash = '''',
     bx_amount = Fin 2, bx_currency = ''INR'', bx_nonce = '''', bx_timestamp = None\<rparr>"

lemma fan_out_counts_distinct_partners_witness:
  "rel_count DeviceAccounts (fst (fst (analyze_coordinated_risk 9 (account_context ''d'' ''a2'')
     (observed [(account_context ''d'' ''a1'', 4), (account_context ''d'' ''a2'', 5)] (new_coordinated_detector 0))))) =
   int (card {''a1'', ''a2''})"
proof -
  have "recent_partners DeviceAccounts ''d'' 9 (15 * minute)
      ([(account_context ''d'' ''a1'', 4), (account_context ''d'' ''a2'', 5)] @ [(account_context ''d'' ''a2'', 9)]) = {''a1'', ''a2''}"
    by (auto simp: recent_partners_def account_context_def time_sub_def minute_def second_def)
  then show ?thesis
    using fan_out_counts_distinct_partners [of "[(account_context ''d'' ''a1'', 4), (account_context ''d'' ''a2'', 5)]" 9
      DeviceAccounts "account_context ''d'' ''a2''" 0] by (simp add: account_context_def)
qed

end
