(* ===== verification/Bot_Detector.thy ===== *)
theory Bot_Detector
  imports Layered_Limiter Replay_Protector Cadence_Analyzer Coordinated_Detector
begin

text \<open>
  The bot defense engine, \<open>internal/bot_defense/bot_detector.go\<close>: the four analysers in their order,
  the composite score in binary64 arithmetic, and the graduated action.  A nil context makes the
  first field access panic, which the deferred handler turns into the fail-open verdict.
\<close>

record bot_engine =
  be_limiter :: layered_limiter
  be_cadence :: cadence_analyzer
  be_replay :: replay_protector
  be_coordinated :: coordinated_detector

definition new_bot_engine :: bot_engine where
  "new_bot_engine =
     \<lparr>be_limiter = new_layered_limiter default_layered_config, be_cadence = new_cadence_analyzer 12,
      be_replay = new_replay_protector default_replay_config, be_coordinated = new_coordinated_detector (15 * minute)\<rparr>"

text \<open>The clock readings of one evaluation, in the order they are taken.\<close>

record bot_clock =
  bk_start :: gotime
  bk_now :: gotime
  bk_replay :: gotime
  bk_limits :: gotime
  bk_cadence :: gotime
  bk_coordinated :: gotime
  bk_end :: gotime

definition latency_of :: "gotime \<Rightarrow> gotime \<Rightarrow> f64" where
  "latency_of start finish = fdiv (of_int64 (go_div (time_sub finish start) 1000)) (Fin 1000)"

definition cadence_key :: "bot_context \<Rightarrow> string" where
  "cadence_key cx = (let k = (if bx_device_fingerprint cx = '''' then bx_ip_address cx else bx_device_fingerprint cx) in
     if k = '''' then bx_account_id cx else k)"

definition nonce_key :: "bot_context \<Rightarrow> string" where
  "nonce_key cx = (if bx_nonce cx = '''' then bx_transaction_id cx else bx_nonce cx)"

text \<open>The signals of the four analysers in one record.\<close>

definition combine_signals :: "bot_signals \<Rightarrow> bot_signals \<Rightarrow> bot_signals \<Rightarrow> bot_signals \<Rightarrow> bot_signals" where
  "combine_signals rep lm cad co =
     \<lparr>sg_iat_mean_ms = sg_iat_mean_ms cad, sg_iat_std_dev = sg_iat_std_dev cad,
      sg_coefficient_of_variation = sg_coefficient_of_variation cad, sg_request_cadence_hz = sg_request_cadence_hz cad,
      sg_is_deterministic_cadence = sg_is_deterministic_cadence cad, sg_is_burst_pacing = sg_is_burst_pacing cad,
      sg_account_fan_out_1h = sg_account_fan_out_1h co, sg_device_fan_out_1h = sg_device_fan_out_1h co,
      sg_ip_device_fan_out_5m = sg_ip_device_fan_out_5m co, sg_card_testing_tokens_5m = sg_card_testing_tokens_5m co,
      sg_is_card_testing_probing = sg_is_card_testing_probing co, sg_replay_detected = sg_replay_detected rep,
      sg_time_drift_sec = sg_time_drift_sec rep, sg_is_headless_ua = sg_is_headless_ua cad,
      sg_tenant_limited = sg_tenant_limited lm, sg_ip_limited = sg_ip_limited lm,
      sg_device_limited = sg_device_limited lm, sg_account_limited = sg_account_limited lm,
      sg_card_limited = sg_card_limited lm\<rparr>"

text \<open>The blocks of the scoring: a condition, its weight and its pattern.\<close>

definition score_blocks :: "bot_signals \<Rightarrow> (bool \<times> rat \<times> string) list" where
  "score_blocks s =
     [(sg_replay_detected s, 50 / 100, ''Replay attack or duplicate transaction nonce detected''),
      (sg_is_deterministic_cadence s, 35 / 100, ''Deterministic inter-arrival timing indicates scripted bot loop''),
      (sg_is_burst_pacing s, 25 / 100, ''Rapid burst pacing exceeds natural human interaction thresholds''),
      (sg_is_headless_ua s, 30 / 100, ''Client environment exhibits headless browser or automation driver signatures''),
      (sg_is_card_testing_probing s, 45 / 100, ''Rapid sequential card token testing detected across small authorization amounts''),
      (4 \<le> sg_account_fan_out_1h s, 35 / 100, ''Device is rotating across multiple distinct user account identities''),
      (6 \<le> sg_ip_device_fan_out_5m s, 30 / 100, ''IP subnet exhibiting high device fan-out indicative of proxy farm''),
      (sg_ip_limited s \<or> sg_device_limited s \<or> sg_account_limited s, 30 / 100,
         ''Request velocity exceeded layered rate limiter thresholds''),
      (sg_card_limited s, 35 / 100, ''Payment instrument rate limit saturated'')]"

definition add_block :: "f64 \<Rightarrow> bool \<times> rat \<times> string \<Rightarrow> f64" where
  "add_block x b = (case b of (on, w, _) \<Rightarrow> if on then fadd x (to_f64 w) else x)"

definition raw_score :: "bot_signals \<Rightarrow> f64" where
  "raw_score s = foldl add_block (to_f64 (4 / 100)) (score_blocks s)"

definition cap_score :: "f64 \<Rightarrow> f64" where
  "cap_score x = (if flt (to_f64 (99 / 100)) x then to_f64 (98 / 100) else x)"

definition normalize_score :: "f64 \<Rightarrow> f64" where
  "normalize_score x = fdiv (fround (fmul x (Fin 100))) (Fin 100)"

definition grade :: "f64 \<Rightarrow> automation_risk_level \<times> defense_action" where
  "grade x = (if fle (to_f64 (90 / 100)) x then (RiskCritical, ActContain)
     else if fle (to_f64 (70 / 100)) x then (RiskHigh, ActElevateRisk)
     else if fle (to_f64 (30 / 100)) x then (RiskMedium, ActScrutinize) else (RiskLow, ActAllow))"

definition bot_evaluate :: "bot_clock \<Rightarrow> bot_context option \<Rightarrow> bot_engine \<Rightarrow> bot_result \<times> bot_engine" where
  "bot_evaluate ck ctx e =
     (case ctx of
        None \<Rightarrow>
          (\<lparr>br_automation_risk_score = to_f64 (5 / 100), br_risk_level = RiskLow, br_recommended_action = ActAllow,
            br_triggered_rules = [], br_observed_patterns = [''Bot defense failed open due to internal panic''],
            br_signals = no_signals, br_evaluated_at = bk_now ck, br_latency_ms = latency_of (bk_start ck) (bk_end ck),
            br_is_degraded = True,
            br_degrade_reason = ''internal error: runtime error: invalid memory address or nil pointer dereference''\<rparr>, e)
      | Some cx \<Rightarrow>
          (let ((rep, r1), rp) = validate_replay (nonce_key cx) (bx_timestamp cx) (bk_replay ck) (be_replay e);
               ((lm, r2), ll) = evaluate_limits (bk_limits ck) cx (be_limiter e);
               ((cad, r3), ca) = analyze_cadence (cadence_key cx) (bx_timestamp cx) (bx_user_agent cx) (bk_cadence ck) (be_cadence e);
               ((co, r4), cd) = analyze_coordinated_risk (bk_coordinated ck) cx (be_coordinated e);
               s = combine_signals rep lm cad co;
               score = normalize_score (cap_score (raw_score s)) in
           (\<lparr>br_automation_risk_score = score, br_risk_level = fst (grade score), br_recommended_action = snd (grade score),
             br_triggered_rules = r1 @ r2 @ r3 @ r4,
             br_observed_patterns = map (snd \<circ> snd) (filter fst (score_blocks s)),
             br_signals = s, br_evaluated_at = bk_now ck, br_latency_ms = latency_of (bk_start ck) (bk_end ck),
             br_is_degraded = False, br_degrade_reason = ''''\<rparr>,
            \<lparr>be_limiter = ll, be_cadence = ca, be_replay = rp, be_coordinated = cd\<rparr>)))"

subsection \<open>Monotonicity of the score\<close>

lemma fle_inf [simp]: "fle x PInf \<longleftrightarrow> x \<noteq> NaN" "fle NInf x \<longleftrightarrow> x \<noteq> NaN"
  by (cases x; simp)+

lemma fadd_mono_left: "fle x y \<Longrightarrow> fle (fadd x (Fin c)) (fadd y (Fin c))"
  by (cases x; cases y) (auto simp: to_f64_mono)

lemma fadd_increases: "wf_f64 x \<Longrightarrow> x \<noteq> NaN \<Longrightarrow> 0 \<le> c \<Longrightarrow> fle x (fadd x (Fin c))"
proof (cases x)
  case (Fin a)
  assume "wf_f64 x" "0 \<le> c"
  then have "to_f64 a = Fin a" using Fin to_f64_wf [of a] by (simp del: wf_f64.simps)
  moreover have "fle (to_f64 a) (to_f64 (a + c))" by (rule to_f64_mono) (simp add: \<open>0 \<le> c\<close>)
  ultimately show ?thesis unfolding Fin by (simp only: fadd.simps)
qed simp_all

lemma add_block_on [simp]: "add_block x (True, w, p) = fadd x (to_f64 w)" "add_block x (False, w, p) = x"
  by (simp_all add: add_block_def)

definition unit_blocks :: "(bool \<times> rat \<times> string) list \<Rightarrow> bool" where
  "unit_blocks bs \<longleftrightarrow> (\<forall>(on, w, p) \<in> set bs. 0 \<le> w \<and> w \<le> 1)"

lemma add_block_grows:
  assumes "wf_f64 x" "x \<noteq> NaN" "0 \<le> w" "w \<le> 1"
  shows "fle x (add_block x (on, w, p)) \<and> wf_f64 (add_block x (on, w, p)) \<and> add_block x (on, w, p) \<noteq> NaN"
proof -
  obtain c where c: "to_f64 w = Fin c" "0 \<le> c" using to_f64_unit [OF assms(3,4)] by blast
  have "wf_f64 (fadd x (Fin c))" by (cases x) simp_all
  then show ?thesis
    using fadd_increases [OF assms(1,2) c(2)] fle_not_nan assms(1,2) by (auto simp: add_block_def c(1) fle_refl_iff)
qed

lemma foldl_blocks_grow:
  "unit_blocks bs \<Longrightarrow> wf_f64 x \<Longrightarrow> x \<noteq> NaN \<Longrightarrow> fle x (foldl add_block x bs)"
proof (induction bs arbitrary: x)
  case (Cons b bs)
  obtain on w p where b: "b = (on, w, p)" by (cases b)
  have w: "0 \<le> w" "w \<le> 1" using Cons.prems(1) by (simp_all add: unit_blocks_def b)
  note g = add_block_grows [OF Cons.prems(2,3) w, of on p]
  have "fle (add_block x b) (foldl add_block (add_block x b) bs)"
    using Cons.IH [of "add_block x b"] Cons.prems(1) g by (simp add: unit_blocks_def b)
  then show ?case using fle_trans g by (auto simp: b)
qed (simp add: fle_refl_iff)

lemma foldl_blocks_on:
  assumes "(True, w, p) \<in> set bs"
  shows "unit_blocks bs \<Longrightarrow> wf_f64 x \<Longrightarrow> x \<noteq> NaN \<Longrightarrow> fle (fadd x (to_f64 w)) (foldl add_block x bs)"
  using assms
proof (induction bs arbitrary: x)
  case (Cons b bs)
  obtain on v q where b: "b = (on, v, q)" by (cases b)
  have v: "0 \<le> v" "v \<le> 1" using Cons.prems(1) by (simp_all add: unit_blocks_def b)
  have u: "unit_blocks bs" using Cons.prems(1) by (simp add: unit_blocks_def)
  note g = add_block_grows [OF Cons.prems(2,3) v, of on q]
  show ?case
  proof (cases "b = (True, w, p)")
    case True
    then show ?thesis using foldl_blocks_grow [OF u, of "add_block x b"] g by (simp add: b)
  next
    case False
    have mem: "(True, w, p) \<in> set bs" using Cons.prems(4) False by auto
    then have "0 \<le> w \<and> w \<le> 1" using u by (auto simp: unit_blocks_def)
    then obtain c where c: "to_f64 w = Fin c" using to_f64_unit [of w] by blast
    have "fle (fadd (add_block x b) (to_f64 w)) (foldl add_block (add_block x b) bs)"
      using Cons.IH [OF u _ _ mem, of "add_block x b"] g by (simp add: b)
    moreover have "fle (fadd x (to_f64 w)) (fadd (add_block x b) (to_f64 w))"
      using g by (simp add: c b fadd_mono_left)
    ultimately show ?thesis using fle_trans by auto
  qed
qed simp

lemma unit_score_blocks: "unit_blocks (score_blocks s)"
  by (simp add: unit_blocks_def score_blocks_def)

lemma normalize_mono:
  assumes "fle (Fin a) (Fin b)" shows "fle (normalize_score (Fin a)) (normalize_score (Fin b))"
proof -
  have r: "fle (fround x) (fround y)" if xy: "fle x y" for x y
  proof (cases "\<exists>u v. x = Fin u \<and> y = Fin v")
    case True
    then obtain u v where x: "x = Fin u" "y = Fin v" "u \<le> v" using xy by auto
    have up: "\<lfloor>u + 1 / 2\<rfloor> \<le> \<lfloor>v + 1 / 2\<rfloor>" "\<lfloor>1 / 2 - v\<rfloor> \<le> \<lfloor>1 / 2 - u\<rfloor>" using x(3) by (intro floor_mono; simp)+
    have "- \<lfloor>1 / 2 - u\<rfloor> \<le> \<lfloor>v + 1 / 2\<rfloor>" if "u < 0" "0 \<le> v"
    proof -
      have "0 \<le> \<lfloor>1 / 2 - u\<rfloor>" "0 \<le> \<lfloor>v + 1 / 2\<rfloor>" using that by (simp_all add: zero_le_floor)
      then show ?thesis by linarith
    qed
    then have "(if 0 \<le> u then \<lfloor>u + 1 / 2\<rfloor> else - \<lfloor>1 / 2 - u\<rfloor>) \<le> (if 0 \<le> v then \<lfloor>v + 1 / 2\<rfloor> else - \<lfloor>1 / 2 - v\<rfloor>)"
      using up x(3) by (auto simp: not_le)
    then show ?thesis unfolding x fround.simps fle.simps of_int_le_iff .
  next
    case False
    then show ?thesis using xy by (cases x; cases y) auto
  qed
  have d: "fle (fdiv x (Fin 100)) (fdiv y (Fin 100))" if "fle x y" for x y
    using that by (cases x; cases y) (auto simp: inf_of_sign_def to_f64_mono divide_right_mono)
  have "fle (fmul (Fin a) (Fin 100)) (fmul (Fin b) (Fin 100))" using assms by (simp add: to_f64_mono)
  then show ?thesis unfolding normalize_score_def by (intro d r)
qed

subsection \<open>Properties\<close>

text \<open>The signals that count for themselves.\<close>

definition serious :: "bot_signals \<Rightarrow> bool" where
  "serious s \<longleftrightarrow> sg_replay_detected s \<or> sg_is_deterministic_cadence s \<or> sg_is_headless_ua s \<or> sg_is_card_testing_probing s \<or>
     4 \<le> sg_account_fan_out_1h s \<or> 6 \<le> sg_ip_device_fan_out_5m s \<or>
     sg_ip_limited s \<or> sg_device_limited s \<or> sg_account_limited s \<or> sg_card_limited s"

lemma score_constants:
  "to_f64 (4 / 100) = Fin (5764607523034235 / 144115188075855872)"
  "to_f64 (30 / 100) = Fin (5404319552844595 / 18014398509481984)"
  by code_simp+

lemma serious_raw:
  assumes "serious s" shows "fle (fadd (to_f64 (4 / 100)) (to_f64 (30 / 100))) (raw_score s)"
proof -
  have "\<exists>b \<in> set (score_blocks s). fst b \<and> 30 / 100 \<le> fst (snd b) \<and> fst (snd b) \<le> 1"
    using assms by (auto simp: serious_def score_blocks_def)
  then obtain w p where b: "(True, w, p) \<in> set (score_blocks s)" "30 / 100 \<le> w" "w \<le> 1" by force
  obtain c where c: "to_f64 w = Fin c" using to_f64_unit [of w] b(2,3) by auto
  have "fle (to_f64 (30 / 100)) (to_f64 w)" using b(2) by (rule to_f64_mono)
  then have "fle (fadd (to_f64 (4 / 100)) (to_f64 (30 / 100))) (fadd (to_f64 (4 / 100)) (to_f64 w))"
    unfolding c score_constants by (intro fadd_mono_fin) simp_all
  moreover have "fle (fadd (to_f64 (4 / 100)) (to_f64 w)) (raw_score s)"
    unfolding raw_score_def by (rule foldl_blocks_on [OF b(1) unit_score_blocks]) simp_all
  ultimately show ?thesis by (rule fle_trans)
qed

lemma raw_bounds: "fle (to_f64 (4 / 100)) (raw_score s)"
  unfolding raw_score_def by (rule foldl_blocks_grow [OF unit_score_blocks]) simp_all

lemma capped_bounds:
  assumes "fle (Fin a) x" "fle (Fin a) (to_f64 (98 / 100))"
  shows "\<exists>c. cap_score x = Fin c \<and> fle (Fin a) (Fin c) \<and> fle (Fin c) (to_f64 (99 / 100))"
proof -
  have l: "fle (to_f64 (98 / 100)) (to_f64 (99 / 100))" by (rule to_f64_mono) simp
  have nn: "x \<noteq> NaN" using assms(1) by auto
  have top: "\<exists>b. to_f64 (99 / 100) = Fin b" using to_f64_unit [of "99 / 100"] by auto
  have "fle (Fin a) (cap_score x) \<and> fle (cap_score x) (to_f64 (99 / 100))"
    using assms l nn not_flt [of "to_f64 (99 / 100)" x] by (simp add: cap_score_def)
  then show ?thesis using top fle_between_fin [of a "cap_score x"] by fastforce
qed

lemma calm_raw: "\<not> serious s \<Longrightarrow> raw_score s = (if sg_is_burst_pacing s then fadd (to_f64 (4 / 100)) (to_f64 (25 / 100)) else to_f64 (4 / 100))"
  by (simp add: raw_score_def serious_def score_blocks_def add_block_def)

lemma allow_iff_not_serious:
  "br_recommended_action (fst (bot_evaluate ck (Some cx) e)) = ActAllow \<longleftrightarrow>
     \<not> serious (br_signals (fst (bot_evaluate ck (Some cx) e)))"
proof -
  let ?s = "br_signals (fst (bot_evaluate ck (Some cx) e))"
  have act: "br_recommended_action (fst (bot_evaluate ck (Some cx) e)) = snd (grade (normalize_score (cap_score (raw_score ?s))))"
    by (simp add: bot_evaluate_def split_beta Let_def)
  have "snd (grade (normalize_score (cap_score (raw_score s)))) = ActAllow \<longleftrightarrow> \<not> serious s" for s
  proof (cases "serious s")
    case True
    have start: "fadd (to_f64 (4 / 100)) (to_f64 (30 / 100)) = Fin (3062447746611937 / 9007199254740992)" by code_simp
    have a: "fle (Fin (3062447746611937 / 9007199254740992)) (to_f64 (98 / 100))" by code_simp
    obtain c where c: "cap_score (raw_score s) = Fin c" "fle (Fin (3062447746611937 / 9007199254740992)) (Fin c)"
      using capped_bounds [OF serious_raw [OF True, unfolded start] a] by blast
    have "fle (to_f64 (30 / 100)) (normalize_score (Fin (3062447746611937 / 9007199254740992)))" by code_simp
    then have "fle (to_f64 (30 / 100)) (normalize_score (Fin c))" using fle_trans normalize_mono [OF c(2)] by blast
    then show ?thesis using True by (simp add: c(1) grade_def)
  next
    case False
    have "snd (grade (normalize_score (cap_score (fadd (to_f64 (4 / 100)) (to_f64 (25 / 100)))))) = ActAllow"
      "snd (grade (normalize_score (cap_score (to_f64 (4 / 100))))) = ActAllow" by code_simp+
    then show ?thesis using False by (simp add: calm_raw)
  qed
  then show ?thesis unfolding act .
qed

text \<open>
  what the engine lets through.  The recommended action is \<open>ALLOW\<close> exactly when none of the serious
  signals is present: a replay, a deterministic cadence, a headless client, card probing, four
  accounts on a device, six devices on an address, or a limit of address, device, account or card.
  Burst pacing alone, the tenant's limit and the devices of an account never change the action.
\<close>

theorem bot_allows_iff_calm:
  "br_recommended_action (fst (bot_evaluate ck (Some cx) e)) = ActAllow \<longleftrightarrow>
     \<not> serious (br_signals (fst (bot_evaluate ck (Some cx) e)))"
  by (rule allow_iff_not_serious)

text \<open>
  the score stays between 0.04 and 0.99, and the level and the action are the ones of its bracket.
\<close>

theorem bot_score_bounded:
  "fle (to_f64 (4 / 100)) (br_automation_risk_score (fst (bot_evaluate ck (Some cx) e))) \<and>
   fle (br_automation_risk_score (fst (bot_evaluate ck (Some cx) e))) (to_f64 (99 / 100)) \<and>
   (br_risk_level (fst (bot_evaluate ck (Some cx) e)), br_recommended_action (fst (bot_evaluate ck (Some cx) e))) =
     grade (br_automation_risk_score (fst (bot_evaluate ck (Some cx) e)))"
proof -
  let ?s = "br_signals (fst (bot_evaluate ck (Some cx) e))"
  have sc: "br_automation_risk_score (fst (bot_evaluate ck (Some cx) e)) = normalize_score (cap_score (raw_score ?s))"
    "(br_risk_level (fst (bot_evaluate ck (Some cx) e)), br_recommended_action (fst (bot_evaluate ck (Some cx) e))) =
      grade (br_automation_risk_score (fst (bot_evaluate ck (Some cx) e)))"
    by (simp_all add: bot_evaluate_def split_beta Let_def)
  obtain b where b: "to_f64 (99 / 100) = Fin b" using to_f64_unit [of "99 / 100"] by auto
  have "fle (to_f64 (4 / 100)) (to_f64 (98 / 100))" by (rule to_f64_mono) simp
  from capped_bounds [OF raw_bounds [unfolded score_constants] this [unfolded score_constants]]
  obtain c where c: "cap_score (raw_score ?s) = Fin c" "fle (to_f64 (4 / 100)) (Fin c)" "fle (Fin c) (Fin b)"
    unfolding b score_constants by blast
  have n: "normalize_score (to_f64 (4 / 100)) = to_f64 (4 / 100)" "normalize_score (to_f64 (99 / 100)) = to_f64 (99 / 100)"
    by code_simp+
  show ?thesis
    using normalize_mono [OF c(2) [unfolded score_constants]] normalize_mono [OF c(3)] n sc(2)
    unfolding sc(1) c(1) b score_constants by simp
qed

definition bot_run :: "(bot_clock \<times> bot_context option) list \<Rightarrow> bot_engine \<Rightarrow> bot_engine" where
  "bot_run rs e = fold (\<lambda>(ck, cx) e. snd (bot_evaluate ck cx e)) rs e"

definition replay_requests :: "(bot_clock \<times> bot_context option) list \<Rightarrow> (string \<times> gotime option \<times> gotime) list" where
  "replay_requests rs = concat (map (\<lambda>(ck, cx). case cx of None \<Rightarrow> [] | Some c \<Rightarrow> [(nonce_key c, bx_timestamp c, bk_replay ck)]) rs)"

lemma bot_evaluate_replay:
  "be_replay (snd (bot_evaluate ck None e)) = be_replay e"
  "be_replay (snd (bot_evaluate ck (Some cx) e)) = snd (validate_replay (nonce_key cx) (bx_timestamp cx) (bk_replay ck) (be_replay e))"
  "sg_replay_detected (br_signals (fst (bot_evaluate ck (Some cx) e))) =
     (\<not> replay_passes (nonce_key cx) (bx_timestamp cx) (bk_replay ck) (be_replay e))"
  by (simp_all add: bot_evaluate_def split_beta Let_def combine_signals_def replay_passes_def)

lemma sorted_subseq: "subseq xs ys \<Longrightarrow> sorted ys \<Longrightarrow> sorted xs"
  by (induction rule: list_emb.induct) (auto dest: list_emb_set)

lemma bot_run_replay: "be_replay (bot_run rs e) = replay_run (replay_requests rs) (be_replay e)"
proof (induction rs arbitrary: e)
  case (Cons r rs)
  obtain ck cx where r: "r = (ck, cx)" by force
  show ?case using Cons.IH [of "snd (bot_evaluate ck cx e)"]
    by (cases cx) (simp_all add: bot_run_def replay_requests_def replay_run_def r bot_evaluate_replay)
qed (simp add: bot_run_def replay_requests_def replay_run_def)

text \<open>
  C31: no replay is allowed.  If a fresh engine, after any evaluations, allows a request that has a nonce
  (or transaction id) and a timestamp, then every later request with the same nonce and timestamp is
  answered with another action, whatever the engine evaluates in between (in the order of time).
\<close>

theorem no_replay_is_allowed:
  assumes "e = bot_run before new_bot_engine"
    and "nonce_key cx \<noteq> ''''" "bx_timestamp cx = Some ts"
    and "br_recommended_action (fst (bot_evaluate ck (Some cx) e)) = ActAllow"
    and "nonce_key cx' = nonce_key cx" "bx_timestamp cx' = Some ts"
    and "sorted (bk_replay ck # map (\<lambda>(ck, _). bk_replay ck) rs @ [bk_replay ck'])"
    and "\<bar>bk_replay ck - ts\<bar> + (bk_replay ck' - bk_replay ck) \<le> 9223372036854775807"
  shows "br_recommended_action (fst (bot_evaluate ck' (Some cx') (bot_run rs (snd (bot_evaluate ck (Some cx) e))))) \<noteq> ActAllow"
proof -
  have p: "be_replay e = replay_run (replay_requests before) (new_replay_protector default_replay_config)"
    using assms(1) by (simp add: bot_run_replay new_bot_engine_def)
  have "replay_passes (nonce_key cx) (Some ts) (bk_replay ck) (be_replay e)"
    using assms(3,4) bot_evaluate_replay(3) [of ck cx e] by (simp add: allow_iff_not_serious serious_def)
  moreover have "sorted (bk_replay ck # map (snd \<circ> snd) (replay_requests rs) @ [bk_replay ck'])"
  proof -
    have "subseq (map (snd \<circ> snd) (replay_requests rs)) (map (\<lambda>(ck, _). bk_replay ck) rs)"
      by (induction rs) (auto simp: replay_requests_def split: option.split)
    then have "subseq (bk_replay ck # map (snd \<circ> snd) (replay_requests rs) @ [bk_replay ck'])
        (bk_replay ck # map (\<lambda>(ck, _). bk_replay ck) rs @ [bk_replay ck'])" by (simp add: subseq_append')
    then show ?thesis using assms(7) sorted_subseq by blast
  qed
  ultimately have "\<not> replay_passes (nonce_key cx') (bx_timestamp cx') (bk_replay ck')
      (be_replay (bot_run rs (snd (bot_evaluate ck (Some cx) e))))"
    using replayed_request_never_passes_again [OF p assms(2) _ _ assms(8)] assms(3,5,6)
    by (simp add: bot_run_replay bot_evaluate_replay)
  then show ?thesis by (simp add: allow_iff_not_serious serious_def bot_evaluate_replay)
qed

definition clock_at :: "gotime \<Rightarrow> bot_clock" where
  "clock_at t = \<lparr>bk_start = t, bk_now = t, bk_replay = t, bk_limits = t, bk_cadence = t, bk_coordinated = t, bk_end = t\<rparr>"

lemma no_replay_is_allowed_witness:
  "br_recommended_action (fst (bot_evaluate (clock_at (20 * minute)) (Some (card_context\<lparr>bx_timestamp := Some 1\<rparr>))
     (bot_run [(clock_at minute, None)] (snd (bot_evaluate (clock_at 5) (Some (card_context\<lparr>bx_timestamp := Some 1\<rparr>)) new_bot_engine)))))
   \<noteq> ActAllow"
proof (rule no_replay_is_allowed)
  show "new_bot_engine = bot_run [] new_bot_engine" by (simp add: bot_run_def)
  show "br_recommended_action (fst (bot_evaluate (clock_at 5) (Some (card_context\<lparr>bx_timestamp := Some 1\<rparr>)) new_bot_engine)) = ActAllow"
    by code_simp
  show "\<bar>bk_replay (clock_at 5) - 1\<bar> + (bk_replay (clock_at (20 * minute)) - bk_replay (clock_at 5)) \<le> 9223372036854775807"
    by (simp add: clock_at_def minute_def second_def)
qed (simp_all add: card_context_def nonce_key_def clock_at_def minute_def second_def)

end
