(* ===== verification/Circuit_Breaker.thy ===== *)
theory Circuit_Breaker
  imports Go_Float
begin

text \<open>
  The automatic rollback breaker of the canary rollout,
  \<open>internal/riskengine/circuit_breaker.go\<close>: its configuration with the defaults
  \<open>NewCircuitBreaker\<close> fills in, the evaluation of a metrics snapshot, the forced trip, the
  reset, the status and the self test.  Every method runs under the breaker's mutex, so it is
  one function from state to state; the clock is an argument.

  The snapshot is the untyped map the router passes: a missing key or a value of another type
  reads as zero, as the comma-ok assertions of the code do.

  The lemmas relate the running counter to the history of evaluations (\<open>trailing\<close>):
  a trip needs \<open>FailureWindow\<close> breaching evaluations in a row.
\<close>

datatype cb_state = CB_Healthy | CB_Warning | CB_Failed | CB_RollingBack | CB_RolledBack | CB_Unset

fun cb_state_string :: "cb_state \<Rightarrow> string" where
  "cb_state_string CB_Healthy = ''HEALTHY''"
| "cb_state_string CB_Warning = ''WARNING''"
| "cb_state_string CB_Failed = ''FAILED''"
| "cb_state_string CB_RollingBack = ''ROLLING_BACK''"
| "cb_state_string CB_RolledBack = ''ROLLED_BACK''"
| "cb_state_string CB_Unset = ''''"

lemma cb_state_string_inj [simp]: "cb_state_string a = cb_state_string b \<longleftrightarrow> a = b"
  by (cases a; cases b) simp_all

record cb_config =
  cbc_max_error_rate :: f64
  cbc_max_fallback_rate :: f64
  cbc_max_p95_latency_ms :: f64
  cbc_max_p99_latency_ms :: f64
  cbc_max_decision_change_rate :: f64
  cbc_min_sample_count :: int
  cbc_failure_window :: int
  cbc_cooldown_seconds :: int

definition default_cb_config :: cb_config where
  "default_cb_config =
     \<lparr>cbc_max_error_rate = to_f64 (1 / 100), cbc_max_fallback_rate = to_f64 (1 / 100),
      cbc_max_p95_latency_ms = Fin 15, cbc_max_p99_latency_ms = Fin 25,
      cbc_max_decision_change_rate = to_f64 (1 / 10), cbc_min_sample_count = 10,
      cbc_failure_window = 3, cbc_cooldown_seconds = 300\<rparr>"

record circuit_breaker =
  cb_cfg :: cb_config
  cb_st :: cb_state
  cb_consecutive_failures :: int
  cb_last_tripped_at :: gotime
  cb_last_trip_reason :: string
  cb_tripped_count :: int

text \<open>The zero \<open>time.Time\<close>, first of January of the year 1.\<close>

definition zero_time :: gotime where
  "zero_time = -62135596800 * second"

definition or_default :: "f64 \<Rightarrow> rat \<Rightarrow> f64" where
  "or_default x d = (if fle x (Fin 0) then to_f64 d else x)"

definition int_or_default :: "int \<Rightarrow> int \<Rightarrow> int" where
  "int_or_default x d = (if x \<le> 0 then d else x)"

definition normalize_cb_config :: "cb_config \<Rightarrow> cb_config" where
  "normalize_cb_config cfg =
     \<lparr>cbc_max_error_rate = or_default (cbc_max_error_rate cfg) (1 / 100),
      cbc_max_fallback_rate = or_default (cbc_max_fallback_rate cfg) (1 / 100),
      cbc_max_p95_latency_ms = or_default (cbc_max_p95_latency_ms cfg) 15,
      cbc_max_p99_latency_ms = or_default (cbc_max_p99_latency_ms cfg) 25,
      cbc_max_decision_change_rate = or_default (cbc_max_decision_change_rate cfg) (1 / 10),
      cbc_min_sample_count = int_or_default (cbc_min_sample_count cfg) 10,
      cbc_failure_window = int_or_default (cbc_failure_window cfg) 3,
      cbc_cooldown_seconds = int_or_default (cbc_cooldown_seconds cfg) 300\<rparr>"

definition new_circuit_breaker :: "cb_config \<Rightarrow> circuit_breaker" where
  "new_circuit_breaker cfg =
     \<lparr>cb_cfg = normalize_cb_config cfg, cb_st = CB_Healthy, cb_consecutive_failures = 0,
      cb_last_tripped_at = zero_time, cb_last_trip_reason = '''', cb_tripped_count = 0\<rparr>"

subsection \<open>The metrics snapshot\<close>

datatype snap_val = SInt64 int | SFloat f64

type_synonym snapshot = "string \<rightharpoonup> snap_val"

definition snap_int64 :: "snapshot \<Rightarrow> string \<Rightarrow> int" where
  "snap_int64 s k = (case s k of Some (SInt64 n) \<Rightarrow> n | _ \<Rightarrow> 0)"

definition snap_float :: "snapshot \<Rightarrow> string \<Rightarrow> f64" where
  "snap_float s k = (case s k of Some (SFloat x) \<Rightarrow> x | _ \<Rightarrow> Fin 0)"

definition pct_text :: "f64 \<Rightarrow> string" where
  "pct_text x = fmt_fixed 2 (fmul x (Fin 100)) @ ''%''"

definition ms_text :: "f64 \<Rightarrow> string" where
  "ms_text x = fmt_fixed 2 x @ ''ms''"

definition cb_violations :: "cb_config \<Rightarrow> snapshot \<Rightarrow> string list" where
  "cb_violations cfg s =
     (let er = snap_float s ''candidate_error_rate'';
          fr = snap_float s ''candidate_fallback_rate'';
          p95 = snap_float s ''candidate_p95_latency_ms'';
          p99 = snap_float s ''candidate_p99_latency_ms'' in
      (if flt (cbc_max_error_rate cfg) er
       then [''Error rate '' @ pct_text er @ '' > max '' @ pct_text (cbc_max_error_rate cfg)] else []) @
      (if flt (cbc_max_fallback_rate cfg) fr
       then [''Fallback rate '' @ pct_text fr @ '' > max '' @ pct_text (cbc_max_fallback_rate cfg)] else []) @
      (if flt (cbc_max_p95_latency_ms cfg) p95
       then [''p95 latency '' @ ms_text p95 @ '' > max '' @ ms_text (cbc_max_p95_latency_ms cfg)] else []) @
      (if flt (cbc_max_p99_latency_ms cfg) p99
       then [''p99 latency '' @ ms_text p99 @ '' > max '' @ ms_text (cbc_max_p99_latency_ms cfg)] else []))"

definition enough_samples :: "cb_config \<Rightarrow> snapshot \<Rightarrow> bool" where
  "enough_samples cfg s \<longleftrightarrow> cbc_min_sample_count cfg \<le> snap_int64 s ''candidate_requests_total''"

definition in_cooldown :: "circuit_breaker \<Rightarrow> gotime \<Rightarrow> bool" where
  "in_cooldown cb now \<longleftrightarrow>
     cb_st cb = CB_RolledBack \<and>
     now - cb_last_tripped_at cb < cbc_cooldown_seconds (cb_cfg cb) * second"

subsection \<open>Operations\<close>

record cb_result =
  res_tripped :: bool
  res_state :: cb_state
  res_reason :: string
  res_violations :: "string list"

definition evaluate_and_check_trip ::
  "circuit_breaker \<Rightarrow> snapshot \<Rightarrow> gotime \<Rightarrow> cb_result \<times> circuit_breaker" where
  "evaluate_and_check_trip cb s now =
     (if in_cooldown cb now then
        (\<lparr>res_tripped = False, res_state = CB_RolledBack, res_reason = cb_last_trip_reason cb,
          res_violations = []\<rparr>, cb)
      else if \<not> enough_samples (cb_cfg cb) s then
        (\<lparr>res_tripped = False, res_state = cb_st cb, res_reason = '''', res_violations = []\<rparr>, cb)
      else
        (let vs = cb_violations (cb_cfg cb) s in
         if vs \<noteq> [] then
           (let n = cb_consecutive_failures cb + 1;
                cb1 = cb\<lparr>cb_consecutive_failures := n\<rparr> in
            if cbc_failure_window (cb_cfg cb) \<le> n then
              (let reason = ''Sustained safety breach ('' @ itoa n @ '' consecutive evaluations): '' @ fmt_slice vs
               in (\<lparr>res_tripped = True, res_state = CB_RolledBack, res_reason = reason,
                     res_violations = vs\<rparr>,
                   cb1\<lparr>cb_st := CB_RolledBack, cb_last_tripped_at := now,
                       cb_tripped_count := cb_tripped_count cb + 1, cb_last_trip_reason := reason\<rparr>))
            else
              (\<lparr>res_tripped = False, res_state = CB_Failed,
                 res_reason = ''Breach detected ('' @ itoa n @ ''/'' @
                   itoa (cbc_failure_window (cb_cfg cb)) @ ''): '' @ fmt_slice vs,
                 res_violations = vs\<rparr>,
               cb1\<lparr>cb_st := CB_Failed\<rparr>))
         else
           (\<lparr>res_tripped = False, res_state = CB_Healthy, res_reason = '''', res_violations = []\<rparr>,
            cb\<lparr>cb_consecutive_failures := 0, cb_st := CB_Healthy\<rparr>)))"

definition cb_trip :: "circuit_breaker \<Rightarrow> string \<Rightarrow> gotime \<Rightarrow> circuit_breaker" where
  "cb_trip cb reason now = cb\<lparr>cb_st := CB_RolledBack, cb_last_tripped_at := now,
     cb_last_trip_reason := reason, cb_tripped_count := cb_tripped_count cb + 1\<rparr>"

definition cb_reset :: "circuit_breaker \<Rightarrow> circuit_breaker" where
  "cb_reset cb = cb\<lparr>cb_st := CB_Healthy, cb_consecutive_failures := 0, cb_last_trip_reason := ''''\<rparr>"

definition cb_get_state :: "circuit_breaker \<Rightarrow> cb_state" where
  "cb_get_state cb = cb_st cb"

record cb_status =
  sta_state :: string
  sta_consecutive_failures :: int
  sta_failure_window :: int
  sta_min_sample_count :: int
  sta_tripped_count :: int
  sta_last_trip_reason :: string
  sta_last_tripped_at :: gotime
  sta_in_cooldown :: bool
  sta_remaining_cooldown_sec :: int

definition cb_get_status :: "circuit_breaker \<Rightarrow> gotime \<Rightarrow> cb_status" where
  "cb_get_status cb now =
     (let elapsed = dur_seconds (now - cb_last_tripped_at cb);
          total = of_int64 (cbc_cooldown_seconds (cb_cfg cb));
          cool = cb_st cb = CB_RolledBack \<and> flt elapsed total in
      \<lparr>sta_state = cb_state_string (cb_st cb),
       sta_consecutive_failures = cb_consecutive_failures cb,
       sta_failure_window = cbc_failure_window (cb_cfg cb),
       sta_min_sample_count = cbc_min_sample_count (cb_cfg cb),
       sta_tripped_count = cb_tripped_count cb,
       sta_last_trip_reason = cb_last_trip_reason cb,
       sta_last_tripped_at = cb_last_tripped_at cb,
       sta_in_cooldown = cool,
       sta_remaining_cooldown_sec = to_int64 (if cool then fsub total elapsed else Fin 0)\<rparr>)"

text \<open>The self test runs on a breaker of its own, at the four clock readings it is given.\<close>

definition self_test_config :: cb_config where
  "self_test_config =
     \<lparr>cbc_max_error_rate = to_f64 (5 / 100), cbc_max_fallback_rate = Fin 0,
      cbc_max_p95_latency_ms = Fin 50, cbc_max_p99_latency_ms = Fin 0,
      cbc_max_decision_change_rate = Fin 0, cbc_min_sample_count = 10,
      cbc_failure_window = 2, cbc_cooldown_seconds = 60\<rparr>"

definition healthy_snap :: snapshot where
  "healthy_snap = [''candidate_requests_total'' \<mapsto> SInt64 100,
     ''candidate_error_rate'' \<mapsto> SFloat (Fin 0), ''candidate_p95_latency_ms'' \<mapsto> SFloat (Fin 10)]"

definition failing_snap :: snapshot where
  "failing_snap = [''candidate_requests_total'' \<mapsto> SInt64 100,
     ''candidate_error_rate'' \<mapsto> SFloat (Fin (1 / 2)), ''candidate_p95_latency_ms'' \<mapsto> SFloat (Fin 10)]"

definition run_self_test :: "gotime \<Rightarrow> gotime \<Rightarrow> gotime \<Rightarrow> string option" where
  "run_self_test t1 t2 t3 =
     (let cb0 = new_circuit_breaker self_test_config in
      if cb_get_state cb0 \<noteq> CB_Healthy then
        Some (''self-test failed: expected initial state HEALTHY, got '' @ cb_state_string (cb_get_state cb0))
      else
      (let (r1, cb1) = evaluate_and_check_trip cb0 healthy_snap t1 in
       if res_tripped r1 \<or> res_state r1 \<noteq> CB_Healthy then
         Some ''self-test failed: healthy evaluation caused trip''
       else
       (let (r2, cb2) = evaluate_and_check_trip cb1 failing_snap t2 in
        if res_tripped r2 \<or> res_state r2 \<noteq> CB_Failed then
          Some (''self-test failed: first failure did not enter FAILED state (got '' @
            cb_state_string (res_state r2) @ '')'')
        else
        (let (r3, cb3) = evaluate_and_check_trip cb2 failing_snap t3 in
         if \<not> res_tripped r3 \<or> res_state r3 \<noteq> CB_RolledBack then
           Some (''self-test failed: second consecutive failure did not trip (got '' @
             cb_state_string (res_state r3) @ '')'')
         else if res_reason r3 = '''' then Some ''self-test failed: trip reason empty''
         else if cb_get_state (cb_reset cb3) \<noteq> CB_Healthy then
           Some ''self-test failed: Reset did not restore HEALTHY state''
         else None))))"

subsection \<open>Case rules\<close>

lemma eval_in_cooldown:
  "in_cooldown cb now \<Longrightarrow> snd (evaluate_and_check_trip cb s now) = cb"
  by (simp add: evaluate_and_check_trip_def)

lemma eval_few_samples:
  "\<not> enough_samples (cb_cfg cb) s \<Longrightarrow> snd (evaluate_and_check_trip cb s now) = cb"
  by (simp add: evaluate_and_check_trip_def)

lemma eval_cfg [simp]: "cb_cfg (snd (evaluate_and_check_trip cb s now)) = cb_cfg cb"
  by (simp add: evaluate_and_check_trip_def Let_def)

lemma eval_trippedD:
  assumes "res_tripped (fst (evaluate_and_check_trip cb s now))"
  shows "\<not> in_cooldown cb now" "enough_samples (cb_cfg cb) s" "cb_violations (cb_cfg cb) s \<noteq> []"
    "cbc_failure_window (cb_cfg cb) \<le> cb_consecutive_failures cb + 1"
    "cb_st (snd (evaluate_and_check_trip cb s now)) = CB_RolledBack"
    "cb_tripped_count (snd (evaluate_and_check_trip cb s now)) = cb_tripped_count cb + 1"
  using assms by (auto simp: evaluate_and_check_trip_def Let_def split: if_splits)

lemma reset_state [simp]: "cb_st (cb_reset cb) = CB_Healthy" "cb_cfg (cb_reset cb) = cb_cfg cb"
  "cb_consecutive_failures (cb_reset cb) = 0"
  by (simp_all add: cb_reset_def)

lemma normalize_cb_config_pos:
  "0 < cbc_min_sample_count (normalize_cb_config cfg)"
  "0 < cbc_failure_window (normalize_cb_config cfg)"
  "0 < cbc_cooldown_seconds (normalize_cb_config cfg)"
  by (simp_all add: normalize_cb_config_def int_or_default_def)

subsection \<open>Runs of evaluations\<close>

text \<open>
  What an evaluation says of a snapshot, and the number of breaching evaluations at the end of
  a history, evaluations without enough samples left out.
\<close>

datatype verdict = Ignored | Clean | Breach

definition verdict_of :: "cb_config \<Rightarrow> snapshot \<Rightarrow> verdict" where
  "verdict_of cfg s = (if \<not> enough_samples cfg s then Ignored
     else if cb_violations cfg s = [] then Clean else Breach)"

fun trailing :: "verdict list \<Rightarrow> int" where
  "trailing [] = 0"
| "trailing (Ignored # vs) = trailing vs"
| "trailing (Clean # vs) = 0"
| "trailing (Breach # vs) = trailing vs + 1"

fun cb_run :: "circuit_breaker \<Rightarrow> (snapshot \<times> gotime) list \<Rightarrow> circuit_breaker" where
  "cb_run cb [] = cb"
| "cb_run cb ((s, t) # es) = cb_run (snd (evaluate_and_check_trip cb s t)) es"

lemma cb_run_cfg [simp]: "cb_cfg (cb_run cb es) = cb_cfg cb"
  by (induction es arbitrary: cb) auto

lemma cb_run_append: "cb_run cb (es @ fs) = cb_run (cb_run cb es) fs"
  by (induction cb es rule: cb_run.induct) simp_all

text \<open>The history of verdicts, newest first.\<close>

definition verdicts :: "cb_config \<Rightarrow> (snapshot \<times> gotime) list \<Rightarrow> verdict list" where
  "verdicts cfg es = rev (map (verdict_of cfg \<circ> fst) es)"

lemma trailing_nonneg: "0 \<le> trailing vs"
  by (induction vs rule: trailing.induct) simp_all

lemma eval_counter:
  assumes "cb_st cb \<noteq> CB_RolledBack"
  shows "cb_consecutive_failures (snd (evaluate_and_check_trip cb s t)) =
    (case verdict_of (cb_cfg cb) s of Ignored \<Rightarrow> cb_consecutive_failures cb
      | Clean \<Rightarrow> 0 | Breach \<Rightarrow> cb_consecutive_failures cb + 1)"
  using assms
  by (auto simp: evaluate_and_check_trip_def in_cooldown_def verdict_of_def Let_def)

lemma eval_state:
  assumes "cb_st cb \<noteq> CB_RolledBack" "cb_consecutive_failures cb < cbc_failure_window (cb_cfg cb)"
    "0 < cbc_failure_window (cb_cfg cb)"
  shows "cb_st (snd (evaluate_and_check_trip cb s t)) = CB_RolledBack \<longleftrightarrow>
    cbc_failure_window (cb_cfg cb) \<le> cb_consecutive_failures (snd (evaluate_and_check_trip cb s t))"
  using assms
  by (auto simp: evaluate_and_check_trip_def in_cooldown_def Let_def)

text \<open>
  Until the breaker first rolls back its counter is the length of the breaching run at the end
  of the history, and it rolls back exactly when that reaches the failure window.
\<close>

lemma cb_run_counter:
  assumes "cb_st cb \<noteq> CB_RolledBack" "cb_consecutive_failures cb = 0"
    "0 < cbc_failure_window (cb_cfg cb)"
    and "\<And>k. k < length es \<Longrightarrow> cb_st (cb_run cb (take k es)) \<noteq> CB_RolledBack"
  shows "cb_consecutive_failures (cb_run cb es) = trailing (verdicts (cb_cfg cb) es) \<and>
    (cb_st (cb_run cb es) = CB_RolledBack \<longleftrightarrow>
      cbc_failure_window (cb_cfg cb) \<le> trailing (verdicts (cb_cfg cb) es))"
  using assms(4)
proof (induction es rule: rev_induct)
  case Nil
  then show ?case using assms(1-3) by (simp add: verdicts_def)
next
  case (snoc e es)
  obtain s t where e: "e = (s, t)" by force
  let ?cb = "cb_run cb es"
  have prev: "cb_st (cb_run cb (take k es)) \<noteq> CB_RolledBack" if "k < length es" for k
    using snoc.prems [of k] that by simp
  from snoc.IH [OF prev] have ih: "cb_consecutive_failures ?cb = trailing (verdicts (cb_cfg cb) es)"
    "cb_st ?cb = CB_RolledBack \<longleftrightarrow> cbc_failure_window (cb_cfg cb) \<le> trailing (verdicts (cb_cfg cb) es)"
    by simp_all
  have nr: "cb_st ?cb \<noteq> CB_RolledBack" using snoc.prems [of "length es"] by simp
  have c: "cb_consecutive_failures (cb_run cb (es @ [e])) = trailing (verdicts (cb_cfg cb) (es @ [e]))"
    using eval_counter [OF nr, of s t] ih(1)
    by (simp add: cb_run_append e verdicts_def split: verdict.split)
  have "cb_consecutive_failures ?cb < cbc_failure_window (cb_cfg ?cb)" using ih nr by simp
  from eval_state [OF nr this, of s t] assms(3) c show ?case by (simp add: cb_run_append e)
qed

lemma new_breaker [simp]:
  "cb_st (new_circuit_breaker cfg) = CB_Healthy"
  "cb_consecutive_failures (new_circuit_breaker cfg) = 0"
  "cb_cfg (new_circuit_breaker cfg) = normalize_cb_config cfg"
  by (simp_all add: new_circuit_breaker_def)

subsection \<open>Properties\<close>

text \<open>C8: A fresh breaker has rolled back at some point of a run of evaluations exactly when, at
  some point of it, the last \<open>FailureWindow\<close> evaluations that had enough samples all
  breached a threshold; and it has not before.\<close>

theorem breaker_rolls_back_iff_sustained_breach:
  "(\<exists>k \<le> length es. cb_st (cb_run (new_circuit_breaker cfg) (take k es)) = CB_RolledBack) \<longleftrightarrow>
   (\<exists>k \<le> length es. cbc_failure_window (normalize_cb_config cfg)
      \<le> trailing (verdicts (normalize_cb_config cfg) (take k es)))"
  (is "?L \<longleftrightarrow> ?R")
proof -
  let ?cb = "new_circuit_breaker cfg"
  let ?P = "\<lambda>k. cb_st (cb_run ?cb (take k es)) = CB_RolledBack"
  have step: "?P k \<longleftrightarrow> cbc_failure_window (normalize_cb_config cfg)
      \<le> trailing (verdicts (normalize_cb_config cfg) (take k es))"
    if "\<And>j. j < k \<Longrightarrow> \<not> ?P j" for k
  proof -
    have "cb_st (cb_run ?cb (take j (take k es))) \<noteq> CB_RolledBack" if "j < length (take k es)" for j
      using that \<open>\<And>j. j < k \<Longrightarrow> \<not> ?P j\<close> [of j] by (simp add: min_absorb1)
    from cb_run_counter [OF _ _ _ this] show ?thesis
      using normalize_cb_config_pos(2) [of cfg] by simp
  qed
  show ?thesis
  proof
    assume ?L
    then obtain k where k: "?P k" "k \<le> length es" by blast
    define m where "m = (LEAST m. ?P m)"
    have m: "?P m" "m \<le> k" unfolding m_def by (rule LeastI, rule k(1)) (rule Least_le, rule k(1))
    have "\<not> ?P j" if "j < m" for j using that unfolding m_def by (rule not_less_Least)
    with step [of m] m k(2) show ?R by (meson order_trans)
  next
    assume ?R
    then obtain k where k: "k \<le> length es" "cbc_failure_window (normalize_cb_config cfg)
      \<le> trailing (verdicts (normalize_cb_config cfg) (take k es))" by blast
    show ?L
    proof (cases "\<exists>j < k. ?P j")
      case True
      with k(1) show ?thesis by (meson less_imp_le order_trans)
    next
      case False
      with step [of k] k show ?thesis by blast
    qed
  qed
qed

text \<open>While the cooldown of a rollback runs, no sequence of evaluations changes the breaker,
  whatever the metrics say, and every one of them reports the state \<open>ROLLED_BACK\<close> with the reason
  of the trip and does not trip again.\<close>

theorem breaker_frozen_in_cooldown:
  assumes "\<forall>(s, t) \<in> set es. in_cooldown cb t" "in_cooldown cb now"
  shows "cb_run cb es = cb \<and>
    fst (evaluate_and_check_trip (cb_run cb es) s now) =
      \<lparr>res_tripped = False, res_state = CB_RolledBack, res_reason = cb_last_trip_reason cb, res_violations = []\<rparr>"
proof -
  have "cb_run cb es = cb"
    using assms(1) by (induction es) (auto simp: eval_in_cooldown)
  with assms(2) show ?thesis by (simp add: evaluate_and_check_trip_def)
qed

definition tripped_example :: circuit_breaker where
  "tripped_example = cb_trip (new_circuit_breaker default_cb_config) ''manual'' 1000"

theorem breaker_frozen_in_cooldown_witness:
  "cb_run tripped_example [(failing_snap, 2000), (healthy_snap, 1000 + 100 * second)] = tripped_example \<and>
   \<not> res_tripped (fst (evaluate_and_check_trip
     (cb_run tripped_example [(failing_snap, 2000), (healthy_snap, 1000 + 100 * second)])
     failing_snap (1000 + 299 * second)))"
proof -
  have h: "in_cooldown tripped_example (1000 + 299 * second)" "in_cooldown tripped_example 2000"
    "in_cooldown tripped_example (1000 + 100 * second)"
    by (simp_all add: in_cooldown_def tripped_example_def cb_trip_def normalize_cb_config_def
        default_cb_config_def int_or_default_def second_def)
  then have "\<forall>(s, t) \<in> set [(failing_snap, 2000), (healthy_snap, 1000 + 100 * second)]. in_cooldown tripped_example t"
    by simp
  note f = breaker_frozen_in_cooldown [OF this h(1), of failing_snap]
  show ?thesis using conjunct1 [OF f] conjunct2 [OF f] by (simp del: cb_run.simps)
qed

text \<open>An automatic trip leaves the failure counter at or above the window, so that after the
  cooldown the very first breaching evaluation with enough samples trips the breaker again; only a
  clean evaluation or an administrative reset restores the full window.\<close>

theorem breaker_retrips_on_first_breach:
  assumes "res_tripped (fst (evaluate_and_check_trip cb s t))"
    and "cb' = snd (evaluate_and_check_trip cb s t)"
    and "\<not> in_cooldown cb' t'" and "verdict_of (cb_cfg cb) s' = Breach"
  shows "res_tripped (fst (evaluate_and_check_trip cb' s' t'))"
  using assms
  by (auto simp: evaluate_and_check_trip_def verdict_of_def Let_def split: if_splits)

definition breached_twice :: circuit_breaker where
  "breached_twice = (new_circuit_breaker default_cb_config)\<lparr>cb_consecutive_failures := 2, cb_st := CB_Failed\<rparr>"

lemma failing_snap_breaches:
  "cb_violations (cb_cfg (new_circuit_breaker default_cb_config)) failing_snap \<noteq> []"
  "enough_samples (cb_cfg (new_circuit_breaker default_cb_config)) failing_snap"
proof -
  have "flt (or_default (to_f64 (1 / 100)) (1 / 100)) (Fin (1 / 2))" by code_simp
  then show "cb_violations (cb_cfg (new_circuit_breaker default_cb_config)) failing_snap \<noteq> []"
    by (simp add: cb_violations_def failing_snap_def snap_float_def normalize_cb_config_def
        default_cb_config_def Let_def)
qed (simp add: enough_samples_def failing_snap_def snap_int64_def normalize_cb_config_def
      default_cb_config_def int_or_default_def)

theorem breaker_retrips_on_first_breach_witness:
  "res_tripped (fst (evaluate_and_check_trip
     (snd (evaluate_and_check_trip breached_twice failing_snap 0)) failing_snap (300 * second)))"
proof -
  let ?n = "new_circuit_breaker default_cb_config"
  have c: "cb_cfg breached_twice = cb_cfg ?n" "cb_st breached_twice = CB_Failed"
    by (simp_all add: breached_twice_def)
  have w: "cbc_failure_window (cb_cfg breached_twice) = 3" "cb_consecutive_failures breached_twice = 2"
    "cbc_cooldown_seconds (cb_cfg breached_twice) = 300"
    by (simp_all add: breached_twice_def normalize_cb_config_def default_cb_config_def int_or_default_def)
  note f = failing_snap_breaches [folded c(1)]
  have t: "res_tripped (fst (evaluate_and_check_trip breached_twice failing_snap 0))"
    using f c(2) w by (simp add: evaluate_and_check_trip_def in_cooldown_def Let_def)
  have n: "\<not> in_cooldown (snd (evaluate_and_check_trip breached_twice failing_snap 0)) (300 * second)"
    using f c(2) w by (simp add: evaluate_and_check_trip_def in_cooldown_def Let_def)
  have b: "verdict_of (cb_cfg breached_twice) failing_snap = Breach"
    using f by (simp add: verdict_of_def)
  show ?thesis by (rule breaker_retrips_on_first_breach [OF t refl n b])
qed

text \<open>The breaker's self test succeeds at every reading of the clock.\<close>

theorem self_test_passes: "run_self_test t1 t2 t3 = None"
proof -
  let ?c = "normalize_cb_config self_test_config"
  have v: "cb_violations ?c healthy_snap = []" "cb_violations ?c failing_snap \<noteq> []"
  proof -
    have "\<not> flt (or_default (to_f64 (5 / 100)) (1 / 100)) (Fin 0)"
      "\<not> flt (or_default (Fin 0) (1 / 100)) (Fin 0)" "\<not> flt (or_default (Fin 0) 25) (Fin 0)"
      "flt (or_default (to_f64 (5 / 100)) (1 / 100)) (Fin (1 / 2))"
      by code_simp+
    then show "cb_violations ?c healthy_snap = []" "cb_violations ?c failing_snap \<noteq> []"
      by (simp_all add: cb_violations_def healthy_snap_def failing_snap_def snap_float_def
          normalize_cb_config_def self_test_config_def Let_def or_default_def [of "Fin 50"])
  qed
  have e: "enough_samples ?c healthy_snap" "enough_samples ?c failing_snap"
    by (simp_all add: enough_samples_def healthy_snap_def failing_snap_def snap_int64_def
        normalize_cb_config_def self_test_config_def int_or_default_def)
  have w: "cbc_failure_window ?c = 2"
    by (simp add: normalize_cb_config_def self_test_config_def int_or_default_def)
  show ?thesis using v e w
    by (simp add: run_self_test_def evaluate_and_check_trip_def in_cooldown_def cb_get_state_def
        Let_def split: prod.split)
qed

end
