(* ===== verification/Ring_Buffer.thy ===== *)
theory Ring_Buffer
  imports Bounded_History "HOL-Library.Multiset"
begin

text \<open>
  The ring that several components write by hand: a slice of fixed length, the index of the next slot
  and the number of live entries.  Read from its oldest slot it is the list of the newest entries, so
  it provides the interface \<open>bounded_history\<close>; a client that only sorts or counts the live slots sees
  the same entries.
\<close>

record 'a ring =
  rg_slots :: "'a list"
  rg_idx :: nat
  rg_count :: nat

definition ring_new :: "nat \<Rightarrow> 'a \<Rightarrow> 'a ring" where
  "ring_new n x = \<lparr>rg_slots = replicate n x, rg_idx = 0, rg_count = 0\<rparr>"

definition ring_push :: "'a \<Rightarrow> 'a ring \<Rightarrow> 'a ring" where
  "ring_push v r =
     (let cap = length (rg_slots r) in
      \<lparr>rg_slots = (rg_slots r)[rg_idx r := v], rg_idx = Suc (rg_idx r) mod cap,
       rg_count = (if rg_count r < cap then Suc (rg_count r) else rg_count r)\<rparr>)"

definition ring_live :: "'a ring \<Rightarrow> 'a list" where
  "ring_live r = take (rg_count r) (rg_slots r)"

definition ring_cap :: "'a ring \<Rightarrow> nat" where
  "ring_cap r = length (rg_slots r)"

definition ring_ok :: "'a ring \<Rightarrow> bool" where
  "ring_ok r \<longleftrightarrow> 0 < ring_cap r \<and> rg_idx r < ring_cap r \<and> rg_count r \<le> ring_cap r \<and>
     (rg_count r < ring_cap r \<longrightarrow> rg_idx r = rg_count r)"

text \<open>The entries from the oldest to the newest.\<close>

definition ring_items :: "'a ring \<Rightarrow> 'a list" where
  "ring_items r = (if rg_count r < ring_cap r then ring_live r
     else drop (rg_idx r) (rg_slots r) @ take (rg_idx r) (rg_slots r))"

lemma ring_new_ok: "0 < n \<Longrightarrow> ring_ok (ring_new n x)"
  by (simp add: ring_ok_def ring_new_def ring_cap_def)

lemma ring_new_items: "0 < n \<Longrightarrow> ring_items (ring_new n x) = []"
  by (simp add: ring_items_def ring_new_def ring_cap_def ring_live_def)

lemma ring_new_cap [simp]: "ring_cap (ring_new n x) = n"
  by (simp add: ring_new_def ring_cap_def)

lemma ring_push_cap [simp]: "ring_cap (ring_push v r) = ring_cap r"
  by (simp add: ring_push_def ring_cap_def Let_def)

lemma last_n_full: "length xs = n \<Longrightarrow> 0 < n \<Longrightarrow> last_n n (xs @ [x]) = tl xs @ [x]"
  by (cases xs) (simp_all add: last_n_def)

lemma ring_rotation:
  assumes "i < length xs"
  shows "drop (Suc i) (xs[i := v]) @ take (Suc i) (xs[i := v]) = tl (drop i xs @ take i xs) @ [v]"
proof -
  have "tl (drop i xs) = drop (Suc i) xs" by (simp add: drop_Suc tl_drop)
  with assms show ?thesis by (simp add: take_Suc_conv_app_nth)
qed

lemma ring_items_push:
  assumes "ring_ok r"
  shows "ring_items (ring_push v r) = last_n (ring_cap r) (ring_items r @ [v])"
proof (cases "rg_count r < ring_cap r")
  case True
  then have i: "rg_idx r = rg_count r" and l: "rg_count r < length (rg_slots r)"
    using assms by (simp_all add: ring_ok_def ring_cap_def)
  then have t: "take (Suc (rg_count r)) ((rg_slots r)[rg_count r := v]) = take (rg_count r) (rg_slots r) @ [v]"
    by (simp add: take_Suc_conv_app_nth)
  then show ?thesis
    using assms i l
    by (cases "Suc (rg_count r) = ring_cap r")
      (auto simp: ring_items_def ring_push_def ring_cap_def ring_live_def last_n_all Let_def)
next
  case False
  have l: "length (drop (rg_idx r) (rg_slots r) @ take (rg_idx r) (rg_slots r)) = ring_cap r"
    using assms by (simp add: ring_ok_def ring_cap_def)
  have "ring_items (ring_push v r) = drop (Suc (rg_idx r)) ((rg_slots r)[rg_idx r := v]) @
      take (Suc (rg_idx r)) ((rg_slots r)[rg_idx r := v])"
    using assms False
    by (cases "Suc (rg_idx r) = ring_cap r")
      (auto simp: ring_items_def ring_push_def ring_ok_def ring_cap_def Let_def)
  then show ?thesis
    using assms False ring_rotation [of "rg_idx r" "rg_slots r" v] last_n_full [OF l]
    by (simp add: ring_items_def ring_ok_def ring_cap_def)
qed

interpretation ring: bounded_history ring_push "\<lambda>v. v" ring_items ring_cap ring_ok
proof
  fix r :: "'a ring" and v assume ok: "ring_ok r"
  show "ring_items (ring_push v r) = last_n (ring_cap r) (ring_items r @ [v])" using ok by (rule ring_items_push)
  show "ring_cap (ring_push v r) = ring_cap r" by simp
  show "ring_ok (ring_push v r)"
    using ok by (auto simp: ring_ok_def ring_push_def ring_cap_def Let_def mod_Suc)
  show "0 < ring_cap r \<and> length (ring_items r) \<le> ring_cap r"
    using ok by (auto simp: ring_ok_def ring_items_def ring_live_def ring_cap_def)
qed

lemma ring_live_mset: "ring_ok r \<Longrightarrow> mset (ring_live r) = mset (ring_items r)"
  by (auto simp: ring_items_def ring_ok_def ring_live_def ring_cap_def simp flip: mset_append)
     (metis append_take_drop_id mset_append union_commute)

lemma ring_count_items: "ring_ok r \<Longrightarrow> rg_count r = length (ring_items r)"
  by (auto simp: ring_items_def ring_ok_def ring_live_def ring_cap_def)

lemma ring_live_length: "ring_ok r \<Longrightarrow> length (ring_live r) = length (ring_items r)"
  using ring_live_mset [of r] by (metis size_mset)

end
