(* ===== verification/Latency_Reservoir.thy ===== *)
theory Latency_Reservoir
  imports Ring_Buffer Go_Float
begin

text \<open>
  \<open>LatencyReservoir\<close> of \<open>internal/riskengine/canary_router.go\<close>: a ring of the newest latency
  samples with their nearest-rank percentiles.  The order of \<open>sort.Float64s\<close> (\<open>NaN\<close> first) makes
  \<open>f64\<close> a linear order.  The ring provides the interface \<open>bounded_history\<close>: read from its oldest
  slot it is the list of the newest samples.
\<close>

subsection \<open>The order of sort.Float64s\<close>

instantiation f64 :: linorder
begin

fun less_eq_f64 :: "f64 \<Rightarrow> f64 \<Rightarrow> bool" where
  "less_eq_f64 NaN _ = True"
| "less_eq_f64 _ NaN = False"
| "less_eq_f64 NInf _ = True"
| "less_eq_f64 _ NInf = False"
| "less_eq_f64 (Fin x) (Fin y) = (x \<le> y)"
| "less_eq_f64 _ PInf = True"
| "less_eq_f64 PInf _ = False"

definition less_f64 :: "f64 \<Rightarrow> f64 \<Rightarrow> bool" where
  "less_f64 x y = (x \<le> y \<and> \<not> y \<le> x)"

instance
proof
  fix x y z :: f64
  show "x < y \<longleftrightarrow> x \<le> y \<and> \<not> y \<le> x" by (rule less_f64_def)
  show "x \<le> x" by (cases x) simp_all
  show "x \<le> y \<Longrightarrow> y \<le> z \<Longrightarrow> x \<le> z" by (cases x; cases y; cases z) simp_all
  show "x \<le> y \<Longrightarrow> y \<le> x \<Longrightarrow> x = y" by (cases x; cases y) simp_all
  show "x \<le> y \<or> y \<le> x" by (cases x; cases y) auto
qed

end

lemma less_eq_f64_fle: "x \<noteq> NaN \<Longrightarrow> y \<noteq> NaN \<Longrightarrow> x \<le> y \<longleftrightarrow> fle x y"
  by (cases x; cases y) simp_all

subsection \<open>The ring\<close>

record reservoir =
  lr_samples :: "f64 list"
  lr_max_size :: nat
  lr_idx :: nat
  lr_count :: nat

definition new_latency_reservoir :: "int \<Rightarrow> reservoir" where
  "new_latency_reservoir max_size =
     (let n = nat (if max_size \<le> 0 then 2000 else max_size) in
      \<lparr>lr_samples = replicate n (Fin 0), lr_max_size = n, lr_idx = 0, lr_count = 0\<rparr>)"

definition reservoir_add :: "f64 \<Rightarrow> reservoir \<Rightarrow> reservoir" where
  "reservoir_add v r = r\<lparr>lr_samples := (lr_samples r)[lr_idx r := v],
     lr_idx := Suc (lr_idx r) mod lr_max_size r,
     lr_count := (if lr_count r < lr_max_size r then Suc (lr_count r) else lr_count r)\<rparr>"

definition calc_pct :: "f64 list \<Rightarrow> f64 \<Rightarrow> f64" where
  "calc_pct copied pct =
     (if length copied = 1 then copied ! 0
      else
        (let idx = to_int64 (fceil (fmul pct (of_int64 (int (length copied))))) - 1;
             idx = (if idx < 0 then 0 else idx);
             idx = (if int (length copied) \<le> idx then int (length copied) - 1 else idx)
         in copied ! nat idx))"

definition percentiles :: "reservoir \<Rightarrow> f64 \<times> f64 \<times> f64" where
  "percentiles r =
     (if lr_count r = 0 then (Fin 0, Fin 0, Fin 0)
      else (let copied = sort (take (lr_count r) (lr_samples r)) in
        (calc_pct copied (to_f64 (50 / 100)), calc_pct copied (to_f64 (95 / 100)),
         calc_pct copied (to_f64 (99 / 100)))))"

subsection \<open>The ring holds the newest samples\<close>

definition ring_of :: "reservoir \<Rightarrow> f64 ring" where
  "ring_of r = \<lparr>rg_slots = lr_samples r, rg_idx = lr_idx r, rg_count = lr_count r\<rparr>"

definition reservoir_ok :: "reservoir \<Rightarrow> bool" where
  "reservoir_ok r \<longleftrightarrow> length (lr_samples r) = lr_max_size r \<and> ring_ok (ring_of r)"

text \<open>The samples from the oldest to the newest.\<close>

definition reservoir_items :: "reservoir \<Rightarrow> f64 list" where
  "reservoir_items r = ring_items (ring_of r)"

lemma new_reservoir_ring: "\<exists>n>0. ring_of (new_latency_reservoir k) = ring_new n (Fin 0) \<and> lr_max_size (new_latency_reservoir k) = n"
  by (auto simp: ring_of_def new_latency_reservoir_def ring_new_def Let_def)

lemma new_reservoir_ok: "reservoir_ok (new_latency_reservoir n)"
  using new_reservoir_ring [of n] by (auto simp: reservoir_ok_def ring_new_ok) (simp add: new_latency_reservoir_def Let_def)

lemma new_reservoir_items: "reservoir_items (new_latency_reservoir n) = []"
  using new_reservoir_ring [of n] by (auto simp: reservoir_items_def ring_new_items)

lemma ring_of_add: "reservoir_ok r \<Longrightarrow> ring_of (reservoir_add v r) = ring_push v (ring_of r)"
  by (simp add: ring_of_def reservoir_add_def ring_push_def reservoir_ok_def Let_def)

lemma reservoir_cap: "reservoir_ok r \<Longrightarrow> ring_cap (ring_of r) = lr_max_size r"
  by (simp add: reservoir_ok_def ring_cap_def ring_of_def)

interpretation latencies: bounded_history reservoir_add "\<lambda>v. v" reservoir_items lr_max_size reservoir_ok
proof
  fix r v assume ok: "reservoir_ok r"
  then have rk: "ring_ok (ring_of r)" by (simp add: reservoir_ok_def)
  show "reservoir_items (reservoir_add v r) = last_n (lr_max_size r) (reservoir_items r @ [v])"
    using ring.items_push [OF rk] by (simp add: reservoir_items_def ring_of_add [OF ok] reservoir_cap [OF ok])
  show "lr_max_size (reservoir_add v r) = lr_max_size r" by (simp add: reservoir_add_def)
  show "reservoir_ok (reservoir_add v r)"
    using ok ring.ok_push [OF rk] by (simp add: reservoir_ok_def flip: ring_of_add) (simp add: reservoir_add_def ring_of_add [OF ok])
  show "0 < lr_max_size r \<and> length (reservoir_items r) \<le> lr_max_size r"
    using ring.ok_bound [OF rk] by (simp add: reservoir_items_def reservoir_cap [OF ok])
qed

lemma reservoir_live_mset: "reservoir_ok r \<Longrightarrow> mset (take (lr_count r) (lr_samples r)) = mset (reservoir_items r)"
  using ring_live_mset [of "ring_of r"] by (simp add: reservoir_items_def reservoir_ok_def ring_live_def ring_of_def)

lemma reservoir_live_sorted:
  "reservoir_ok r \<Longrightarrow> sort (take (lr_count r) (lr_samples r)) = sort (reservoir_items r)"
  using reservoir_live_mset [of r] properties_for_sort [of "sort (take (lr_count r) (lr_samples r))" "reservoir_items r"]
  by simp

lemma reservoir_count: "reservoir_ok r \<Longrightarrow> lr_count r = length (reservoir_items r)"
  using ring_count_items [of "ring_of r"] by (simp add: reservoir_items_def reservoir_ok_def ring_of_def)

text \<open>The percentiles as a function of the sorted newest samples.\<close>

definition percentiles_of :: "f64 list \<Rightarrow> f64 \<times> f64 \<times> f64" where
  "percentiles_of xs = (if xs = [] then (Fin 0, Fin 0, Fin 0)
     else (calc_pct (sort xs) (to_f64 (50 / 100)), calc_pct (sort xs) (to_f64 (95 / 100)),
           calc_pct (sort xs) (to_f64 (99 / 100))))"

lemma percentiles_items: "reservoir_ok r \<Longrightarrow> percentiles r = percentiles_of (reservoir_items r)"
  using reservoir_count [of r] reservoir_live_sorted [of r]
  by (simp add: percentiles_def percentiles_of_def Let_def)

subsection \<open>The rank of a percentile\<close>

definition rank_of :: "f64 \<Rightarrow> nat \<Rightarrow> int" where
  "rank_of pct n = max 0 (min (int n - 1) (to_int64 (fceil (fmul pct (of_int64 (int n)))) - 1))"

lemma rank_of_less: "0 < n \<Longrightarrow> nat (rank_of p n) < n"
  unfolding rank_of_def by linarith

lemma to_int64_exact: "0 \<le> k \<Longrightarrow> k < 2 ^ 63 \<Longrightarrow> to_int64 (Fin (of_int k)) = k"
  by (simp add: Let_def)

lemma calc_pct_rank: "xs \<noteq> [] \<Longrightarrow> calc_pct xs p = xs ! nat (rank_of p (length xs))"
  by (cases "length xs = 1")
    (auto simp: calc_pct_def rank_of_def Let_def max_def min_def intro!: arg_cong [where f = "(!) xs"])

lemma calc_pct_in: "xs \<noteq> [] \<Longrightarrow> calc_pct xs p \<in> set xs"
  by (simp add: calc_pct_rank rank_of_less)

lemma rank_mono:
  assumes "0 \<le> p" "p \<le> q" "q \<le> 1" "int n \<le> 2 ^ 53"
  shows "rank_of (Fin p) n \<le> rank_of (Fin q) n"
proof -
  have n: "of_int64 (int n) = Fin (of_nat n)"
    using of_int64_exact [of "int n"] assms(4) by simp
  have w: "wf_f64 (Fin (of_nat n))" using wf_of_int64 [of "int n"] n by simp
  obtain a where a: "fmul (Fin p) (Fin (of_nat n)) = Fin a" "0 \<le> a" "a \<le> of_nat n"
    using fmul_unit [of p "of_nat n"] assms w by auto
  obtain b where b: "fmul (Fin q) (Fin (of_nat n)) = Fin b" "0 \<le> b" "b \<le> of_nat n"
    using fmul_unit [of q "of_nat n"] assms w by auto
  have "fle (to_f64 (p * of_nat n)) (to_f64 (q * of_nat n))"
    by (rule to_f64_mono) (simp add: assms mult_right_mono)
  then have "a \<le> b" using a(1) b(1) by simp
  moreover have "\<lceil>b\<rceil> \<le> int n" "\<lceil>a\<rceil> \<le> int n" "0 \<le> \<lceil>a\<rceil>" "0 \<le> \<lceil>b\<rceil>"
    using a b by (simp_all add: ceiling_le_iff)
  moreover have "int n < 2 ^ 63" using assms(4) by simp
  ultimately have "to_int64 (fceil (fmul (Fin p) (of_int64 (int n)))) \<le> to_int64 (fceil (fmul (Fin q) (of_int64 (int n))))"
    unfolding n a(1) b(1)
    using to_int64_exact [of "\<lceil>a\<rceil>"] to_int64_exact [of "\<lceil>b\<rceil>"] ceiling_mono [of a b]
    by (simp only: fceil.simps)
  then show ?thesis unfolding rank_of_def by linarith
qed

lemma calc_pct_mono:
  assumes "xs \<noteq> []" "int (length xs) \<le> 2 ^ 53" "0 \<le> p" "p \<le> q" "q \<le> 1"
  shows "calc_pct (sort xs) (Fin p) \<le> calc_pct (sort xs) (Fin q)"
proof -
  have "nat (rank_of (Fin p) (length xs)) \<le> nat (rank_of (Fin q) (length xs))"
    using rank_mono [OF assms(3-5,2)] by simp
  moreover have "nat (rank_of (Fin q) (length xs)) < length xs"
    using assms(1) by (simp add: rank_of_less)
  moreover have "sort xs \<noteq> []" using assms(1) by (metis length_0_conv length_sort)
  ultimately show ?thesis
    by (simp add: calc_pct_rank sorted_nth_mono)
qed

lemma calc_pct_literal_mono:
  assumes "xs \<noteq> []" "int (length xs) \<le> 2 ^ 53" "0 \<le> x" "x \<le> y" "y \<le> 1"
  shows "calc_pct (sort xs) (to_f64 x) \<le> calc_pct (sort xs) (to_f64 y)"
proof -
  obtain p q where "to_f64 x = Fin p" "0 \<le> p" "to_f64 y = Fin q" "q \<le> 1"
    using to_f64_unit [of x] to_f64_unit [of y] assms by auto
  moreover from this have "p \<le> q" using to_f64_mono [OF assms(4)] by simp
  ultimately show ?thesis using calc_pct_mono assms(1,2) by simp
qed

subsection \<open>Properties of the ring\<close>

text \<open>
  after any sequence of latencies the ring holds, from its oldest slot on, exactly the newest
  ones up to its size, and its percentiles are those of the sorted newest samples: samples that
  were recorded, in the order p50, p95, p99 (for the sizes a \<open>float64\<close> counts exactly).
\<close>

theorem reservoir_percentiles_newest:
  assumes "vs \<noteq> []" "n \<le> 2 ^ 53"
  shows "reservoir_items (fold reservoir_add vs (new_latency_reservoir n))
      = last_n (lr_max_size (new_latency_reservoir n)) vs \<and>
    (case percentiles (fold reservoir_add vs (new_latency_reservoir n)) of (p50, p95, p99) \<Rightarrow>
      (p50, p95, p99) = percentiles_of (last_n (lr_max_size (new_latency_reservoir n)) vs) \<and>
      {p50, p95, p99} \<subseteq> set vs \<and> p50 \<le> p95 \<and> p95 \<le> p99)"
proof -
  let ?r = "fold reservoir_add vs (new_latency_reservoir n)"
  let ?m = "lr_max_size (new_latency_reservoir n)"
  let ?w = "last_n ?m vs"
  have items: "reservoir_items ?r = ?w"
    using latencies.items_pushes [OF new_reservoir_ok, of vs n] by (simp add: new_reservoir_items)
  have "?m = nat (if n \<le> 0 then 2000 else n)"
    by (simp add: new_latency_reservoir_def Let_def)
  then have m: "0 < ?m" "int ?m \<le> 2 ^ 53"
    using assms(2) by simp_all
  have lw: "length ?w = min ?m (length vs)" by simp
  have ne: "?w \<noteq> []" using assms(1) m(1) lw by (cases ?w; cases vs; cases ?m) auto
  have bd: "int (length ?w) \<le> 2 ^ 53" using m(2) lw by linarith
  have p: "percentiles ?r = percentiles_of ?w" "percentiles_of ?w =
      (calc_pct (sort ?w) (to_f64 (50 / 100)), calc_pct (sort ?w) (to_f64 (95 / 100)), calc_pct (sort ?w) (to_f64 (99 / 100)))"
    using percentiles_items [OF latencies.ok_pushes [OF new_reservoir_ok, of vs n]] items ne
    by (simp_all add: percentiles_of_def)
  have sne: "sort ?w \<noteq> []" using ne by (metis length_0_conv length_sort)
  have "calc_pct (sort ?w) q \<in> set vs" for q
    using calc_pct_in [OF sne, of q] set_last_n_subset [of ?m vs] by auto
  moreover have "calc_pct (sort ?w) (to_f64 (50 / 100)) \<le> calc_pct (sort ?w) (to_f64 (95 / 100))"
    "calc_pct (sort ?w) (to_f64 (95 / 100)) \<le> calc_pct (sort ?w) (to_f64 (99 / 100))"
    by (rule calc_pct_literal_mono [OF ne bd]; simp)+
  ultimately show ?thesis unfolding p items prod.case by blast
qed

lemma reservoir_percentiles_newest_witness:
  "reservoir_items (fold reservoir_add [Fin 9, Fin 1, Fin 5] (new_latency_reservoir 2)) = [Fin 1, Fin 5] \<and>
   (case percentiles (fold reservoir_add [Fin 9, Fin 1, Fin 5] (new_latency_reservoir 2)) of (p50, p95, p99) \<Rightarrow>
     p95 \<le> p99 \<and> p99 \<in> {Fin 9, Fin 1, Fin 5})"
proof -
  obtain p50 p95 p99 where
    p: "percentiles (fold reservoir_add [Fin 9, Fin 1, Fin 5] (new_latency_reservoir 2)) = (p50, p95, p99)"
    by (rule prod_cases3)
  have w: "last_n (lr_max_size (new_latency_reservoir 2)) [Fin 9, Fin 1, Fin 5] = [Fin 1, Fin 5]"
    by (simp add: new_latency_reservoir_def last_n_def)
  have "[Fin 9, Fin 1, Fin 5] \<noteq> []" "(2 :: int) \<le> 2 ^ 53" by simp_all
  from reservoir_percentiles_newest [OF this] show ?thesis
    unfolding w p prod.case by auto
qed

end
