(* ===== verification/Canary_Router.thy ===== *)
theory Canary_Router
  imports Circuit_Breaker Latency_Reservoir Sha256
begin

text \<open>
  The staged rollout router, \<open>internal/riskengine/canary_router.go\<close>: its configuration, the live
  metrics and their snapshot, the deterministic routing decision, the recording handlers with the
  automatic rollback, the safety gates and the runtime reconfiguration.  A handler runs at one
  instant \<open>now\<close>; the rollout events it hands to the ClickHouse client (when there is one) are
  collected in \<open>cr_events\<close>, newest last.  Counters are \<open>atomic.Int64\<close>: they wrap.
\<close>

definition wrap64 :: "int \<Rightarrow> int" where
  "wrap64 x = (x + 9223372036854775808) mod 18446744073709551616 - 9223372036854775808"

datatype model_route = RouteLegacy | RouteCandidate

fun route_string :: "model_route \<Rightarrow> string" where
  "route_string RouteCandidate = ''CANDIDATE''"
| "route_string RouteLegacy = ''LEGACY''"

record canary_config =
  cc_enabled :: bool
  cc_percentage :: int
  cc_candidate_model_version :: string
  cc_candidate_feature_contract :: string
  cc_max_error_rate :: f64
  cc_max_fallback_rate :: f64
  cc_max_p95_latency_ms :: f64
  cc_max_p99_latency_ms :: f64
  cc_max_decision_change_rate :: f64

definition default_canary_config :: canary_config where
  "default_canary_config =
     \<lparr>cc_enabled = False, cc_percentage = 0, cc_candidate_model_version = ''fraud-xgb-25f-candidate-v1'',
      cc_candidate_feature_contract = ''v2.5'', cc_max_error_rate = to_f64 (1 / 100),
      cc_max_fallback_rate = to_f64 (1 / 100), cc_max_p95_latency_ms = Fin 15,
      cc_max_p99_latency_ms = Fin 25, cc_max_decision_change_rate = to_f64 (1 / 10)\<rparr>"

definition validate_percentage :: "canary_config \<Rightarrow> canary_config" where
  "validate_percentage cfg =
     (if cc_percentage cfg < 0 then cfg\<lparr>cc_percentage := 0, cc_enabled := False\<rparr>
      else if 100 < cc_percentage cfg then cfg\<lparr>cc_percentage := 100\<rparr> else cfg)"

definition validate_canary_config :: "canary_config \<Rightarrow> canary_config" where
  "validate_canary_config cfg =
     (let c = validate_percentage cfg in
      c\<lparr>cc_candidate_model_version :=
          (if cc_candidate_model_version c = '''' then ''fraud-xgb-25f-candidate-v1''
           else cc_candidate_model_version c),
        cc_candidate_feature_contract :=
          (if cc_candidate_feature_contract c = '''' then ''v2.5'' else cc_candidate_feature_contract c),
        cc_max_error_rate := or_default (cc_max_error_rate c) (1 / 100),
        cc_max_fallback_rate := or_default (cc_max_fallback_rate c) (1 / 100),
        cc_max_p95_latency_ms := or_default (cc_max_p95_latency_ms c) 15,
        cc_max_p99_latency_ms := or_default (cc_max_p99_latency_ms c) 25,
        cc_max_decision_change_rate := or_default (cc_max_decision_change_rate c) (1 / 10)\<rparr>)"

subsection \<open>Metrics\<close>

record canary_metrics =
  cm_legacy_requests_total :: int
  cm_candidate_requests_total :: int
  cm_candidate_success_total :: int
  cm_candidate_error_total :: int
  cm_candidate_fallback_total :: int
  cm_candidate_decision_allow_total :: int
  cm_candidate_decision_review_total :: int
  cm_candidate_decision_decline_total :: int
  cm_decision_changed_total :: int
  cm_total_candidate_latency_us :: int
  cm_latency_reservoir :: "reservoir option"

definition round_to :: "rat \<Rightarrow> f64 \<Rightarrow> f64" where
  "round_to k x = fdiv (fround (fmul x (Fin k))) (Fin k)"

definition metrics_snapshot :: "canary_metrics \<Rightarrow> snapshot" where
  "metrics_snapshot m =
     (let cand = cm_candidate_requests_total m;
          succ = cm_candidate_success_total m;
          errs = cm_candidate_error_total m;
          falls = cm_candidate_fallback_total m;
          total = wrap64 (cm_legacy_requests_total m + cand);
          error_rate = (if 0 < cand then fdiv (of_int64 errs) (of_int64 cand) else Fin 0);
          fallback_rate = (if 0 < cand then fdiv (of_int64 falls) (of_int64 cand) else Fin 0);
          actual_pct = (if 0 < total then fmul (fdiv (of_int64 cand) (of_int64 total)) (Fin 100) else Fin 0);
          (p50, p95, p99) = (case cm_latency_reservoir m of None \<Rightarrow> (Fin 0, Fin 0, Fin 0)
             | Some r \<Rightarrow> percentiles r);
          avg_ms = (if 0 < succ then fdiv (of_int64 (cm_total_candidate_latency_us m))
                      (fmul (of_int64 succ) (Fin 1000)) else Fin 0) in
      [''total_requests'' \<mapsto> SInt64 total,
       ''legacy_requests_total'' \<mapsto> SInt64 (cm_legacy_requests_total m),
       ''candidate_requests_total'' \<mapsto> SInt64 cand,
       ''candidate_success_total'' \<mapsto> SInt64 succ,
       ''candidate_error_total'' \<mapsto> SInt64 errs,
       ''candidate_fallback_total'' \<mapsto> SInt64 falls,
       ''candidate_error_rate'' \<mapsto> SFloat (round_to 10000 error_rate),
       ''candidate_fallback_rate'' \<mapsto> SFloat (round_to 10000 fallback_rate),
       ''candidate_decision_allow_total'' \<mapsto> SInt64 (cm_candidate_decision_allow_total m),
       ''candidate_decision_review_total'' \<mapsto> SInt64 (cm_candidate_decision_review_total m),
       ''candidate_decision_decline_total'' \<mapsto> SInt64 (cm_candidate_decision_decline_total m),
       ''decision_changed_total'' \<mapsto> SInt64 (cm_decision_changed_total m),
       ''actual_canary_percentage'' \<mapsto> SFloat (round_to 100 actual_pct),
       ''candidate_avg_latency_ms'' \<mapsto> SFloat (round_to 100 avg_ms),
       ''candidate_p50_latency_ms'' \<mapsto> SFloat (round_to 100 p50),
       ''candidate_p95_latency_ms'' \<mapsto> SFloat (round_to 100 p95),
       ''candidate_p99_latency_ms'' \<mapsto> SFloat (round_to 100 p99)])"

subsection \<open>The router\<close>

record rollout_event =
  re_event_id :: string
  re_timestamp :: gotime
  re_event_type :: string
  re_previous_percentage :: int
  re_new_percentage :: int
  re_previous_model_version :: string
  re_new_model_version :: string
  re_trigger :: string
  re_safety_status :: string
  re_error_rate :: f64
  re_fallback_rate :: f64
  re_p95_latency_ms :: f64
  re_p99_latency_ms :: f64
  re_actor :: string
  re_reason :: string

record canary_router =
  cr_config :: canary_config
  cr_metrics :: canary_metrics
  cr_breaker :: circuit_breaker
  cr_ch_client :: bool
  cr_events :: "rollout_event list"

definition breaker_config_of :: "canary_config \<Rightarrow> cb_config" where
  "breaker_config_of cfg =
     \<lparr>cbc_max_error_rate = cc_max_error_rate cfg, cbc_max_fallback_rate = cc_max_fallback_rate cfg,
      cbc_max_p95_latency_ms = cc_max_p95_latency_ms cfg, cbc_max_p99_latency_ms = cc_max_p99_latency_ms cfg,
      cbc_max_decision_change_rate = cc_max_decision_change_rate cfg,
      cbc_min_sample_count = 10, cbc_failure_window = 3, cbc_cooldown_seconds = 300\<rparr>"

definition zero_metrics :: canary_metrics where
  "zero_metrics = \<lparr>cm_legacy_requests_total = 0, cm_candidate_requests_total = 0,
     cm_candidate_success_total = 0, cm_candidate_error_total = 0, cm_candidate_fallback_total = 0,
     cm_candidate_decision_allow_total = 0, cm_candidate_decision_review_total = 0,
     cm_candidate_decision_decline_total = 0, cm_decision_changed_total = 0,
     cm_total_candidate_latency_us = 0, cm_latency_reservoir = Some (new_latency_reservoir 2000)\<rparr>"

definition new_canary_router :: "canary_config \<Rightarrow> bool \<Rightarrow> canary_router" where
  "new_canary_router cfg ch =
     (let c = validate_canary_config cfg in
      \<lparr>cr_config = c, cr_metrics = zero_metrics,
       cr_breaker = new_circuit_breaker (breaker_config_of c), cr_ch_client = ch, cr_events = []\<rparr>)"

definition route_key :: "string \<Rightarrow> string \<Rightarrow> string" where
  "route_key tenant txn =
     (if tenant = '''' \<or> txn = '''' then ''anon_'' @ txn else tenant @ '':'' @ txn)"

definition route_bucket :: "string \<Rightarrow> string \<Rightarrow> nat" where
  "route_bucket tenant txn = be_uint32 (take 4 (sha256 (to_bytes (route_key tenant txn)))) mod 100"

definition canary_route :: "canary_router \<Rightarrow> string \<Rightarrow> string \<Rightarrow> model_route" where
  "canary_route r tenant txn =
     (if cb_state_string (cb_st (cr_breaker r)) = cb_state_string CB_RolledBack then RouteLegacy
      else if \<not> cc_enabled (cr_config r) \<or> cc_percentage (cr_config r) \<le> 0 then RouteLegacy
      else if 100 \<le> cc_percentage (cr_config r) then RouteCandidate
      else if int (route_bucket tenant txn) < cc_percentage (cr_config r) then RouteCandidate
      else RouteLegacy)"

definition log_rollout_event :: "rollout_event \<Rightarrow> canary_router \<Rightarrow> canary_router" where
  "log_rollout_event ev r = (if cr_ch_client r then r\<lparr>cr_events := cr_events r @ [ev]\<rparr> else r)"

subsection \<open>Recording\<close>

definition check_circuit_breaker :: "gotime \<Rightarrow> canary_router \<Rightarrow> canary_router" where
  "check_circuit_breaker now r =
     (let snap = metrics_snapshot (cr_metrics r);
          (res, cb) = evaluate_and_check_trip (cr_breaker r) snap now;
          r1 = r\<lparr>cr_breaker := cb\<rparr> in
      if res_tripped res then
        (let prev_pct = cc_percentage (cr_config r1);
             r2 = r1\<lparr>cr_config := (cr_config r1)\<lparr>cc_percentage := 0, cc_enabled := False\<rparr>\<rparr> in
         log_rollout_event
           \<lparr>re_event_id = ''evt_auto_'' @ itoa now, re_timestamp = now,
            re_event_type = ''AUTOMATIC_ROLLBACK'', re_previous_percentage = prev_pct mod 256,
            re_new_percentage = 0,
            re_previous_model_version = cc_candidate_model_version (cr_config r2),
            re_new_model_version = ''fraud-xgb-25f-v3.0'', re_trigger = ''AUTOMATIC_CIRCUIT_BREAKER'',
            re_safety_status = cb_state_string (res_state res),
            re_error_rate = snap_float snap ''candidate_error_rate'',
            re_fallback_rate = snap_float snap ''candidate_fallback_rate'',
            re_p95_latency_ms = snap_float snap ''candidate_p95_latency_ms'',
            re_p99_latency_ms = snap_float snap ''candidate_p99_latency_ms'',
            re_actor = ''circuit_breaker_daemon'', re_reason = res_reason res\<rparr> r2)
      else r1)"

definition upd_metrics :: "(canary_metrics \<Rightarrow> canary_metrics) \<Rightarrow> canary_router \<Rightarrow> canary_router" where
  "upd_metrics f r = r\<lparr>cr_metrics := f (cr_metrics r)\<rparr>"

definition add_latency :: "f64 \<Rightarrow> canary_metrics \<Rightarrow> canary_metrics" where
  "add_latency v m = m\<lparr>cm_latency_reservoir := map_option (reservoir_add v) (cm_latency_reservoir m)\<rparr>"

definition record_legacy_request :: "canary_router \<Rightarrow> canary_router" where
  "record_legacy_request = upd_metrics (\<lambda>m. m\<lparr>cm_legacy_requests_total := wrap64 (cm_legacy_requests_total m + 1)\<rparr>)"

definition record_candidate_request :: "canary_router \<Rightarrow> canary_router" where
  "record_candidate_request =
     upd_metrics (\<lambda>m. m\<lparr>cm_candidate_requests_total := wrap64 (cm_candidate_requests_total m + 1)\<rparr>)"

definition count_decision :: "string \<Rightarrow> canary_metrics \<Rightarrow> canary_metrics" where
  "count_decision d m =
     (if d = ''ALLOW_RECOMMENDATION'' \<or> d = ''ALLOW''
      then m\<lparr>cm_candidate_decision_allow_total := wrap64 (cm_candidate_decision_allow_total m + 1)\<rparr>
      else if d = ''MANUAL_REVIEW''
      then m\<lparr>cm_candidate_decision_review_total := wrap64 (cm_candidate_decision_review_total m + 1)\<rparr>
      else if d = ''DECLINE_RECOMMENDATION'' \<or> d = ''DECLINE''
      then m\<lparr>cm_candidate_decision_decline_total := wrap64 (cm_candidate_decision_decline_total m + 1)\<rparr>
      else m)"

definition record_candidate_success :: "f64 \<Rightarrow> string \<Rightarrow> gotime \<Rightarrow> canary_router \<Rightarrow> canary_router" where
  "record_candidate_success latency_ms decision now r =
     check_circuit_breaker now
       (upd_metrics (\<lambda>m. count_decision decision (add_latency latency_ms
          (m\<lparr>cm_candidate_success_total := wrap64 (cm_candidate_success_total m + 1),
             cm_total_candidate_latency_us :=
               wrap64 (cm_total_candidate_latency_us m + to_int64 (fmul latency_ms (Fin 1000)))\<rparr>))) r)"

definition record_candidate_fallback :: "f64 \<Rightarrow> gotime \<Rightarrow> canary_router \<Rightarrow> canary_router" where
  "record_candidate_fallback latency_ms now r =
     check_circuit_breaker now
       (upd_metrics (\<lambda>m. (if flt (Fin 0) latency_ms then add_latency latency_ms else id)
          (m\<lparr>cm_candidate_error_total := wrap64 (cm_candidate_error_total m + 1),
             cm_candidate_fallback_total := wrap64 (cm_candidate_fallback_total m + 1)\<rparr>)) r)"

definition record_candidate_error :: "gotime \<Rightarrow> canary_router \<Rightarrow> canary_router" where
  "record_candidate_error now r =
     check_circuit_breaker now
       (upd_metrics (\<lambda>m. m\<lparr>cm_candidate_error_total := wrap64 (cm_candidate_error_total m + 1)\<rparr>) r)"

definition record_decision_changed :: "canary_router \<Rightarrow> canary_router" where
  "record_decision_changed =
     upd_metrics (\<lambda>m. m\<lparr>cm_decision_changed_total := wrap64 (cm_decision_changed_total m + 1)\<rparr>)"

subsection \<open>Safety gates\<close>

datatype gate_status = GateHealthy | GateWarning | GateFailed | GateIdle

record gate_result =
  gr_status :: gate_status
  gr_violations :: "string list"
  gr_warnings :: "string list"
  gr_snapshot :: snapshot
  gr_evaluated_at :: gotime

definition gate_error :: "canary_config \<Rightarrow> int \<Rightarrow> f64 \<Rightarrow> gate_result \<Rightarrow> gate_result" where
  "gate_error cfg cand er g =
     (if flt (cc_max_error_rate cfg) er \<and> 10 \<le> cand then
        g\<lparr>gr_violations := gr_violations g @ [''Candidate error rate '' @ pct_text er @
            '' exceeds max allowed '' @ pct_text (cc_max_error_rate cfg)],
          gr_status := GateFailed\<rparr>
      else if flt (fmul (cc_max_error_rate cfg) (Fin (1 / 2))) er \<and> 5 \<le> cand then
        g\<lparr>gr_warnings := gr_warnings g @ [''Candidate error rate '' @ pct_text er @
            '' is approaching max allowed '' @ pct_text (cc_max_error_rate cfg)]\<rparr>
      else g)"

definition gate_fallback :: "canary_config \<Rightarrow> int \<Rightarrow> f64 \<Rightarrow> gate_result \<Rightarrow> gate_result" where
  "gate_fallback cfg cand fr g =
     (if flt (cc_max_fallback_rate cfg) fr \<and> 10 \<le> cand then
        g\<lparr>gr_violations := gr_violations g @ [''Candidate fallback rate '' @ pct_text fr @
            '' exceeds max allowed '' @ pct_text (cc_max_fallback_rate cfg)],
          gr_status := GateFailed\<rparr>
      else g)"

definition gate_latency :: "string \<Rightarrow> f64 \<Rightarrow> int \<Rightarrow> f64 \<Rightarrow> gate_result \<Rightarrow> gate_result" where
  "gate_latency name limit cand p g =
     (if flt limit p \<and> 20 \<le> cand then
        g\<lparr>gr_violations := gr_violations g @ [''Candidate '' @ name @ '' latency '' @ ms_text p @
            '' exceeds threshold '' @ ms_text limit],
          gr_status := (if gr_status g \<noteq> GateFailed then GateWarning else gr_status g)\<rparr>
      else g)"

definition evaluate_safety_gates :: "canary_router \<Rightarrow> gotime \<Rightarrow> gate_result" where
  "evaluate_safety_gates r now =
     (let cfg = cr_config r;
          snap = metrics_snapshot (cr_metrics r);
          cand = snap_int64 snap ''candidate_requests_total'';
          g = \<lparr>gr_status = GateHealthy, gr_violations = [], gr_warnings = [], gr_snapshot = snap,
               gr_evaluated_at = now\<rparr> in
      if \<not> cc_enabled cfg \<or> cc_percentage cfg = 0 \<or> cand = 0 then
        (let st = cb_get_status (cr_breaker r) now in
         if sta_state st = cb_state_string CB_RolledBack \<or> sta_state st = cb_state_string CB_Failed then
           g\<lparr>gr_status := GateFailed,
             gr_violations := [if sta_last_trip_reason st \<noteq> '''' then sta_last_trip_reason st
               else ''Circuit breaker state: '' @ sta_state st]\<rparr>
         else g\<lparr>gr_status := GateIdle\<rparr>)
      else
        gate_latency ''p99'' (cc_max_p99_latency_ms cfg) cand (snap_float snap ''candidate_p99_latency_ms'')
          (gate_latency ''p95'' (cc_max_p95_latency_ms cfg) cand (snap_float snap ''candidate_p95_latency_ms'')
            (gate_fallback cfg cand (snap_float snap ''candidate_fallback_rate'')
              (gate_error cfg cand (snap_float snap ''candidate_error_rate'') g))))"

subsection \<open>Reconfiguration\<close>

definition update_config ::
  "bool \<Rightarrow> int \<Rightarrow> string \<Rightarrow> string \<Rightarrow> gotime \<Rightarrow> canary_router \<Rightarrow> string + canary_router" where
  "update_config enabled pct actor reason now r =
     (if pct < 0 \<or> 100 < pct then
        Inl (''invalid percentage: '' @ itoa pct @ '' (must be between 0 and 100)'')
      else
        (let prev_pct = cc_percentage (cr_config r);
             r1 = r\<lparr>cr_config := (cr_config r)\<lparr>cc_percentage := pct, cc_enabled := enabled \<and> 0 < pct\<rparr>\<rparr>;
             r2 = (if pct = 0 \<or> has_prefix actor ''admin_'' \<or> actor = ''ADMIN_OPERATOR''
                   then r1\<lparr>cr_breaker := cb_reset (cr_breaker r1)\<rparr> else r1);
             etype = (if pct = 0 \<and> 0 < prev_pct then ''MANUAL_ROLLBACK''
                      else if pct = 100 then ''MODEL_PROMOTION'' else ''MANUAL_ROLLOUT'');
             snap = metrics_snapshot (cr_metrics r2) in
         Inr (log_rollout_event
           \<lparr>re_event_id = ''evt_'' @ itoa now, re_timestamp = now, re_event_type = etype,
            re_previous_percentage = prev_pct mod 256, re_new_percentage = pct mod 256,
            re_previous_model_version = cc_candidate_model_version (cr_config r1),
            re_new_model_version = ''fraud-xgb-25f-v3.0'', re_trigger = ''ADMIN_API'',
            re_safety_status = ''HEALTHY'',
            re_error_rate = snap_float snap ''candidate_error_rate'',
            re_fallback_rate = snap_float snap ''candidate_fallback_rate'',
            re_p95_latency_ms = snap_float snap ''candidate_p95_latency_ms'',
            re_p99_latency_ms = snap_float snap ''candidate_p99_latency_ms'',
            re_actor = actor, re_reason = reason\<rparr> r2)))"

definition set_percentage :: "int \<Rightarrow> gotime \<Rightarrow> canary_router \<Rightarrow> canary_router" where
  "set_percentage pct now r =
     (case update_config (0 < pct) pct ''test_harness'' ''direct SetPercentage call'' now r of
        Inl _ \<Rightarrow> r | Inr r' \<Rightarrow> r')"

definition get_percentage :: "canary_router \<Rightarrow> int" where
  "get_percentage r = cc_percentage (cr_config r)"

record canary_status =
  cst_enabled :: bool
  cst_target_percentage :: int
  cst_production_model :: string
  cst_candidate_model :: string
  cst_feature_contract :: string
  cst_calibration_version :: string
  cst_safety_gate_status :: gate_status
  cst_safety_violations :: "string list"
  cst_safety_warnings :: "string list"
  cst_circuit_breaker :: cb_status
  cst_thresholds :: "f64 list"
  cst_metrics :: snapshot

definition canary_get_status :: "canary_router \<Rightarrow> gotime \<Rightarrow> canary_status" where
  "canary_get_status r now =
     (let cfg = cr_config r; g = evaluate_safety_gates r now in
      \<lparr>cst_enabled = cc_enabled cfg, cst_target_percentage = cc_percentage cfg,
       cst_production_model = ''fraud-xgb-25f-v3.0'', cst_candidate_model = cc_candidate_model_version cfg,
       cst_feature_contract = ''fraud-risk-25f-v2.5'', cst_calibration_version = ''beta-calibrated-v2.5'',
       cst_safety_gate_status = gr_status g, cst_safety_violations = gr_violations g,
       cst_safety_warnings = gr_warnings g, cst_circuit_breaker = cb_get_status (cr_breaker r) now,
       cst_thresholds = [cc_max_error_rate cfg, cc_max_fallback_rate cfg, cc_max_p95_latency_ms cfg,
         cc_max_p99_latency_ms cfg, cc_max_decision_change_rate cfg],
       cst_metrics = gr_snapshot g\<rparr>)"

subsection \<open>Runs of the router\<close>

text \<open>
  Everything that changes a router: the recording handlers, the reconfiguration, and the forced trip
  and reset of the breaker through \<open>GetCircuitBreaker\<close>.
\<close>

datatype router_op =
    LegacyRequest | CandidateRequest | CandidateSuccess f64 string | CandidateFallback f64
  | CandidateError | DecisionChanged | UpdateConfig bool int string string
  | BreakerTrip string | BreakerReset

fun router_step :: "router_op \<times> gotime \<Rightarrow> canary_router \<Rightarrow> canary_router" where
  "router_step (LegacyRequest, t) r = record_legacy_request r"
| "router_step (CandidateRequest, t) r = record_candidate_request r"
| "router_step (CandidateSuccess l d, t) r = record_candidate_success l d t r"
| "router_step (CandidateFallback l, t) r = record_candidate_fallback l t r"
| "router_step (CandidateError, t) r = record_candidate_error t r"
| "router_step (DecisionChanged, t) r = record_decision_changed r"
| "router_step (UpdateConfig e p a why, t) r = (case update_config e p a why t r of Inl _ \<Rightarrow> r | Inr r' \<Rightarrow> r')"
| "router_step (BreakerTrip why, t) r = r\<lparr>cr_breaker := cb_trip (cr_breaker r) why t\<rparr>"
| "router_step (BreakerReset, t) r = r\<lparr>cr_breaker := cb_reset (cr_breaker r)\<rparr>"

fun is_update :: "router_op \<Rightarrow> bool" where
  "is_update (UpdateConfig _ _ _ _) = True" | "is_update _ = False"

lemma validate_bounds:
  "0 \<le> cc_percentage (validate_canary_config c) \<and> cc_percentage (validate_canary_config c) \<le> 100"
  by (simp add: validate_canary_config_def validate_percentage_def Let_def)

lemma check_config:
  "cr_config (check_circuit_breaker now r) =
    (if res_tripped (fst (evaluate_and_check_trip (cr_breaker r) (metrics_snapshot (cr_metrics r)) now))
     then (cr_config r)\<lparr>cc_percentage := 0, cc_enabled := False\<rparr> else cr_config r)"
  by (simp add: check_circuit_breaker_def log_rollout_event_def Let_def split: prod.split)

lemma check_breaker:
  "cr_breaker (check_circuit_breaker now r) =
    snd (evaluate_and_check_trip (cr_breaker r) (metrics_snapshot (cr_metrics r)) now)"
  by (simp add: check_circuit_breaker_def log_rollout_event_def Let_def split: prod.split)

lemma check_metrics: "cr_metrics (check_circuit_breaker now r) = cr_metrics r"
  by (simp add: check_circuit_breaker_def log_rollout_event_def Let_def split: prod.split)

lemma upd_metrics_simps [simp]:
  "cr_config (upd_metrics f r) = cr_config r" "cr_breaker (upd_metrics f r) = cr_breaker r"
  "cr_metrics (upd_metrics f r) = f (cr_metrics r)"
  by (simp_all add: upd_metrics_def)

lemma eval_tripped_count:
  "cb_tripped_count (snd (evaluate_and_check_trip cb s now)) =
    (if res_tripped (fst (evaluate_and_check_trip cb s now)) then cb_tripped_count cb + 1 else cb_tripped_count cb)"
  by (auto simp: evaluate_and_check_trip_def Let_def)

lemmas recording_defs = record_legacy_request_def record_candidate_request_def record_candidate_success_def
  record_candidate_fallback_def record_candidate_error_def record_decision_changed_def

text \<open>Recording changes a configuration in one way only, and together with the trip counter.\<close>

fun is_recording :: "router_op \<Rightarrow> bool" where
  "is_recording (UpdateConfig _ _ _ _) = False"
| "is_recording (BreakerTrip _) = False"
| "is_recording BreakerReset = False"
| "is_recording _ = True"

definition traffic_off :: "canary_router \<Rightarrow> bool" where
  "traffic_off r \<longleftrightarrow> \<not> cc_enabled (cr_config r) \<and> cc_percentage (cr_config r) = 0"

lemma recording_step:
  assumes "is_recording op"
  shows "(cr_config (router_step (op, t) r) = cr_config r \<and>
      cb_tripped_count (cr_breaker (router_step (op, t) r)) = cb_tripped_count (cr_breaker r)) \<or>
    (traffic_off (router_step (op, t) r) \<and>
      cb_tripped_count (cr_breaker (router_step (op, t) r)) = cb_tripped_count (cr_breaker r) + 1)"
  using assms
  by (cases op) (simp_all add: recording_defs check_config check_breaker traffic_off_def eval_tripped_count)

lemma no_update_keeps_off:
  assumes "traffic_off r" "\<not> is_update op"
  shows "traffic_off (router_step (op, t) r)"
  using assms by (cases op) (simp_all add: recording_defs check_config traffic_off_def)

lemma no_updates_keep_off:
  "traffic_off r \<Longrightarrow> \<forall>(op, t) \<in> set es. \<not> is_update op \<Longrightarrow> traffic_off (fold router_step es r)"
proof (induction es arbitrary: r)
  case (Cons e es)
  then show ?case using no_update_keeps_off [of r "fst e" "snd e"] by (cases e) auto
qed simp

lemma recording_trip_count:
  "\<forall>(op, t) \<in> set es. is_recording op \<Longrightarrow>
   cb_tripped_count (cr_breaker r) \<le> cb_tripped_count (cr_breaker (fold router_step es r)) \<and>
   (cb_tripped_count (cr_breaker (fold router_step es r)) = cb_tripped_count (cr_breaker r) \<or>
    traffic_off (fold router_step es r))"
proof (induction es rule: rev_induct)
  case (snoc e es)
  obtain op t where e: "e = (op, t)" by force
  have ih: "cb_tripped_count (cr_breaker r) \<le> cb_tripped_count (cr_breaker (fold router_step es r)) \<and>
   (cb_tripped_count (cr_breaker (fold router_step es r)) = cb_tripped_count (cr_breaker r) \<or>
    traffic_off (fold router_step es r))" and op: "is_recording op"
    using snoc by (auto simp: e)
  then have "\<not> is_update op" by (cases op) auto
  then show ?case
    using ih recording_step [OF op, of t "fold router_step es r"]
      no_update_keeps_off [of "fold router_step es r" op t] by (auto simp: e)
qed simp

lemma update_config_cases:
  "update_config e p a why t r = Inr r' \<Longrightarrow> 0 \<le> p \<and> p \<le> 100 \<and>
     cr_config r' = (cr_config r)\<lparr>cc_percentage := p, cc_enabled := e \<and> 0 < p\<rparr> \<and> cr_metrics r' = cr_metrics r"
  by (auto simp: update_config_def log_rollout_event_def Let_def split: if_splits)

text \<open>One breaching evaluation outside a rollback.\<close>

lemma check_breach:
  assumes "cb_st (cr_breaker r) \<noteq> CB_RolledBack"
    and "verdict_of (cb_cfg (cr_breaker r)) (metrics_snapshot (cr_metrics r)) = Breach"
    and "n = cb_consecutive_failures (cr_breaker r) + 1" "w = cbc_failure_window (cb_cfg (cr_breaker r))"
  shows "n < w \<Longrightarrow> cb_st (cr_breaker (check_circuit_breaker t r)) = CB_Failed"
    and "cb_consecutive_failures (cr_breaker (check_circuit_breaker t r)) = n"
    and "w \<le> n \<Longrightarrow> traffic_off (check_circuit_breaker t r)"
    and "cb_cfg (cr_breaker (check_circuit_breaker t r)) = cb_cfg (cr_breaker r)"
    and "cr_metrics (check_circuit_breaker t r) = cr_metrics r"
proof -
  have v: "\<not> in_cooldown (cr_breaker r) t" "enough_samples (cb_cfg (cr_breaker r)) (metrics_snapshot (cr_metrics r))"
    "cb_violations (cb_cfg (cr_breaker r)) (metrics_snapshot (cr_metrics r)) \<noteq> []"
    using assms(1,2) by (auto simp: verdict_of_def in_cooldown_def split: if_splits)
  show "n < w \<Longrightarrow> cb_st (cr_breaker (check_circuit_breaker t r)) = CB_Failed"
    "cb_consecutive_failures (cr_breaker (check_circuit_breaker t r)) = n"
    "w \<le> n \<Longrightarrow> traffic_off (check_circuit_breaker t r)"
    using v assms(3,4) by (simp_all add: check_breaker check_config evaluate_and_check_trip_def Let_def traffic_off_def)
  show "cb_cfg (cr_breaker (check_circuit_breaker t r)) = cb_cfg (cr_breaker r)"
    by (simp add: check_breaker)
  show "cr_metrics (check_circuit_breaker t r) = cr_metrics r" by (rule check_metrics)
qed

definition percentage_in_bounds :: "canary_router \<Rightarrow> bool" where
  "percentage_in_bounds r \<longleftrightarrow> 0 \<le> get_percentage r \<and> get_percentage r \<le> 100"

lemma step_bounds: "percentage_in_bounds r \<Longrightarrow> percentage_in_bounds (router_step (op, t) r)"
  by (cases op)
    (auto simp: recording_defs check_config percentage_in_bounds_def get_percentage_def
      dest!: update_config_cases split: sum.split)

text \<open>The gates one at a time, and chained.\<close>

lemma gate_error_simps:
  "gr_status (gate_error cfg n er g) = (if flt (cc_max_error_rate cfg) er \<and> 10 \<le> n then GateFailed else gr_status g)"
  "gr_violations (gate_error cfg n er g) = [] \<longleftrightarrow>
     \<not> (flt (cc_max_error_rate cfg) er \<and> 10 \<le> n) \<and> gr_violations g = []"
  by (auto simp: gate_error_def)

lemma gate_fallback_simps:
  "gr_status (gate_fallback cfg n fr g) = (if flt (cc_max_fallback_rate cfg) fr \<and> 10 \<le> n then GateFailed else gr_status g)"
  "gr_violations (gate_fallback cfg n fr g) = [] \<longleftrightarrow>
     \<not> (flt (cc_max_fallback_rate cfg) fr \<and> 10 \<le> n) \<and> gr_violations g = []"
  by (auto simp: gate_fallback_def)

lemma gate_latency_simps:
  "gr_status (gate_latency name l n p g) = GateFailed \<longleftrightarrow> gr_status g = GateFailed"
  "gr_status (gate_latency name l n p g) = GateWarning \<longleftrightarrow>
     gr_status g = GateWarning \<or> (flt l p \<and> 20 \<le> n \<and> gr_status g \<noteq> GateFailed)"
  "gr_violations (gate_latency name l n p g) = [] \<longleftrightarrow> \<not> (flt l p \<and> 20 \<le> n) \<and> gr_violations g = []"
  by (auto simp: gate_latency_def)

lemmas gate_simps = gate_error_simps gate_fallback_simps gate_latency_simps

subsection \<open>Properties\<close>

text \<open>
  a request goes to the candidate model exactly when the breaker is not rolled back, the rollout is
  enabled, and the SHA-256 bucket (0 to 99) of its tenant and transaction lies below the configured
  percentage.  In particular the decision depends on nothing but these four, and a request that
  goes to the candidate at some percentage still does at every larger one.
\<close>

theorem canary_route_iff:
  "(canary_route r tenant txn = RouteCandidate \<longleftrightarrow>
     cb_st (cr_breaker r) \<noteq> CB_RolledBack \<and> cc_enabled (cr_config r) \<and>
     int (route_bucket tenant txn) < get_percentage r) \<and>
   route_bucket tenant txn < 100"
  unfolding canary_route_def cb_state_string_inj
  by (auto simp: route_bucket_def get_percentage_def)

text \<open>
  C6: automatic rollback.  If the breaker trips at any point of a run of recorded requests, results and
  errors, then the rollout is off (disabled, at 0 percent) and stays off: until an operator
  changes the configuration, whatever else happens, every request of every tenant is routed to the
  legacy model.
\<close>

theorem automatic_rollback_stops_candidate:
  assumes "\<forall>(op, t) \<in> set es. is_recording op" "\<forall>(op, t) \<in> set fs. \<not> is_update op"
    and "cb_tripped_count (cr_breaker (fold router_step es r)) \<noteq> cb_tripped_count (cr_breaker r)"
  shows "get_percentage (fold router_step (es @ fs) r) = 0 \<and>
    canary_route (fold router_step (es @ fs) r) tenant txn = RouteLegacy"
proof -
  have "traffic_off (fold router_step es r)" using recording_trip_count [OF assms(1), of r] assms(3) by simp
  then have "traffic_off (fold router_step (es @ fs) r)" using no_updates_keep_off assms(2) by simp
  then show ?thesis by (simp add: traffic_off_def canary_route_def get_percentage_def)
qed

definition breached_router :: canary_router where
  "breached_router = (new_canary_router (default_canary_config\<lparr>cc_enabled := True, cc_percentage := 50\<rparr>) False)
     \<lparr>cr_metrics := zero_metrics\<lparr>cm_candidate_requests_total := 100, cm_candidate_error_total := 50\<rparr>,
      cr_breaker := breached_twice\<rparr>"

lemma sample_breach:
  assumes "flt (or_default (to_f64 (1 / 100)) (1 / 100)) (round_to 10000 (fdiv (of_int64 k) (of_int64 100)))"
  shows "enough_samples (normalize_cb_config default_cb_config)
      (metrics_snapshot (zero_metrics\<lparr>cm_candidate_requests_total := 100, cm_candidate_error_total := k\<rparr>))"
    "cb_violations (normalize_cb_config default_cb_config)
      (metrics_snapshot (zero_metrics\<lparr>cm_candidate_requests_total := 100, cm_candidate_error_total := k\<rparr>)) \<noteq> []"
proof -
  let ?s = "metrics_snapshot (zero_metrics\<lparr>cm_candidate_requests_total := 100, cm_candidate_error_total := k\<rparr>)"
  have er: "snap_float ?s ''candidate_error_rate'' = round_to 10000 (fdiv (of_int64 k) (of_int64 100))"
    by (simp add: metrics_snapshot_def snap_float_def zero_metrics_def Let_def split: prod.split)
  have n: "snap_int64 ?s ''candidate_requests_total'' = 100"
    by (simp add: metrics_snapshot_def snap_int64_def zero_metrics_def Let_def split: prod.split)
  show "cb_violations (normalize_cb_config default_cb_config) ?s \<noteq> []"
    using assms by (simp add: cb_violations_def er normalize_cb_config_def default_cb_config_def Let_def)
  show "enough_samples (normalize_cb_config default_cb_config) ?s"
    by (simp add: enough_samples_def n normalize_cb_config_def default_cb_config_def int_or_default_def)
qed

lemma default_window: "cbc_failure_window (normalize_cb_config default_cb_config) = 3"
  by (simp add: normalize_cb_config_def default_cb_config_def int_or_default_def)

lemma breached_router_trips:
  "cb_tripped_count (cr_breaker (fold router_step [(CandidateError, 7)] breached_router)) = 1"
proof -
  have "flt (or_default (to_f64 (1 / 100)) (1 / 100)) (round_to 10000 (fdiv (of_int64 51) (of_int64 100)))"
    by code_simp
  note b = sample_breach [OF this]
  have "cr_breaker breached_router = breached_twice" by (simp add: breached_router_def)
  moreover have "cr_metrics (upd_metrics (\<lambda>m. m\<lparr>cm_candidate_error_total := wrap64 (cm_candidate_error_total m + 1)\<rparr>) breached_router)
      = zero_metrics\<lparr>cm_candidate_requests_total := 100, cm_candidate_error_total := 51\<rparr>"
    by (simp add: breached_router_def wrap64_def)
  ultimately show ?thesis using b default_window
    by (simp add: record_candidate_error_def check_breaker evaluate_and_check_trip_def in_cooldown_def
        breached_twice_def Let_def new_circuit_breaker_def del: upd_metrics_simps(3))
qed

lemma automatic_rollback_stops_candidate_witness:
  "canary_route (fold router_step ([(CandidateError, 7)] @ [(BreakerReset, 8), (CandidateRequest, 9)])
     breached_router) ''tenant'' ''txn'' = RouteLegacy"
proof -
  have "cb_tripped_count (cr_breaker breached_router) = 0"
    by (simp add: breached_router_def breached_twice_def new_circuit_breaker_def)
  then have "cb_tripped_count (cr_breaker (fold router_step [(CandidateError, 7)] breached_router))
      \<noteq> cb_tripped_count (cr_breaker breached_router)"
    using breached_router_trips by simp
  from automatic_rollback_stops_candidate [OF _ _ this, of "[(BreakerReset, 8), (CandidateRequest, 9)]"]
  show ?thesis by simp
qed

text \<open>
  the target percentage is between 0 and 100 in every state a router can reach from any
  configuration, however far outside the bounds that one was, and a reconfiguration outside them is
  an error that changes nothing.
\<close>

theorem canary_percentage_bounded:
  "0 \<le> get_percentage (fold router_step es (new_canary_router cfg ch)) \<and>
   get_percentage (fold router_step es (new_canary_router cfg ch)) \<le> 100 \<and>
   ((\<exists>msg. update_config e p a why t r = Inl msg) \<longleftrightarrow> p < 0 \<or> 100 < p)"
proof -
  have "percentage_in_bounds (fold router_step es (new_canary_router cfg ch))"
  proof (induction es rule: rev_induct)
    case Nil
    show ?case using validate_bounds [of cfg]
      by (simp add: percentage_in_bounds_def get_percentage_def new_canary_router_def Let_def)
  next
    case (snoc e es)
    then show ?case using step_bounds [of _ "fst e" "snd e"] by simp
  qed
  then show ?thesis by (auto simp: percentage_in_bounds_def update_config_def Let_def)
qed

text \<open>
  the safety gates.  The status is \<open>FAILED\<close> exactly when, with live candidate traffic, the error
  or fallback rate is above its limit over at least ten candidate requests, or, without, the breaker
  has rolled back or counts a breach; and violations are reported exactly with the statuses
  \<open>FAILED\<close> and \<open>WARNING\<close>.
\<close>

theorem safety_gates_verdict:
  "(gr_status (evaluate_safety_gates r now) = GateFailed \<longleftrightarrow>
     (if cc_enabled (cr_config r) \<and> get_percentage r \<noteq> 0 \<and> cm_candidate_requests_total (cr_metrics r) \<noteq> 0
      then 10 \<le> cm_candidate_requests_total (cr_metrics r) \<and>
        (flt (cc_max_error_rate (cr_config r)) (snap_float (metrics_snapshot (cr_metrics r)) ''candidate_error_rate'') \<or>
         flt (cc_max_fallback_rate (cr_config r)) (snap_float (metrics_snapshot (cr_metrics r)) ''candidate_fallback_rate''))
      else cb_st (cr_breaker r) \<in> {CB_RolledBack, CB_Failed})) \<and>
   (gr_violations (evaluate_safety_gates r now) \<noteq> [] \<longleftrightarrow>
     gr_status (evaluate_safety_gates r now) \<in> {GateFailed, GateWarning})"
proof -
  have n: "snap_int64 (metrics_snapshot m) ''candidate_requests_total'' = cm_candidate_requests_total m" for m
    by (simp add: metrics_snapshot_def snap_int64_def Let_def split: prod.split)
  have s: "sta_state (cb_get_status cb now) = cb_state_string (cb_st cb)" for cb
    by (simp add: cb_get_status_def Let_def)
  show ?thesis
    unfolding evaluate_safety_gates_def Let_def n s cb_state_string_inj get_percentage_def
    by (simp add: gate_simps) blast
qed

text \<open>
  a reset does not forget.  An accepted reconfiguration keeps every metric, so the error rate that
  tripped the breaker is measured again after it: if it still breaches, with enough candidate
  requests, the next three evaluations under unchanged metrics roll the re-enabled rollout back.
\<close>

theorem reconfiguration_keeps_breach:
  assumes "update_config e p a why t r = Inr r'"
    and "cb_st (cr_breaker r') = CB_Healthy" "cb_consecutive_failures (cr_breaker r') = 0"
    and "cbc_failure_window (cb_cfg (cr_breaker r')) = 3"
    and "verdict_of (cb_cfg (cr_breaker r')) (metrics_snapshot (cr_metrics r)) = Breach"
  shows "traffic_off (check_circuit_breaker t3 (check_circuit_breaker t2 (check_circuit_breaker t1 r')))"
proof -
  have m: "cr_metrics r' = cr_metrics r" using update_config_cases [OF assms(1)] by simp
  define r1 where "r1 = check_circuit_breaker t1 r'"
  define r2 where "r2 = check_circuit_breaker t2 r1"
  note b1 = check_breach [of r' 1 3 t1, folded r1_def]
  have s1: "cb_st (cr_breaker r1) = CB_Failed" "cb_consecutive_failures (cr_breaker r1) = 1"
    "cb_cfg (cr_breaker r1) = cb_cfg (cr_breaker r')" "cr_metrics r1 = cr_metrics r"
    using b1 assms(2-5) m by simp_all
  note b2 = check_breach [of r1 2 3 t2, folded r2_def]
  have s2: "cb_st (cr_breaker r2) = CB_Failed" "cb_consecutive_failures (cr_breaker r2) = 2"
    "cb_cfg (cr_breaker r2) = cb_cfg (cr_breaker r')" "cr_metrics r2 = cr_metrics r"
    using b2 s1 assms(4,5) by simp_all
  show ?thesis
    using check_breach(3) [of r2 3 3 t3] s2 assms(4,5) by (simp add: r1_def r2_def)
qed

definition reenabled_router :: canary_router where
  "reenabled_router = (case update_config True 50 ''admin_ops'' ''retry'' 1000 breached_router of Inr r \<Rightarrow> r)"

lemma reconfiguration_keeps_breach_witness:
  "traffic_off (check_circuit_breaker 13 (check_circuit_breaker 12 (check_circuit_breaker 11 reenabled_router)))"
proof (rule reconfiguration_keeps_breach)
  show "update_config True 50 ''admin_ops'' ''retry'' 1000 breached_router = Inr reenabled_router"
    by (simp add: reenabled_router_def update_config_def Let_def)
  have cb: "cr_breaker reenabled_router = cb_reset breached_twice"
    by (simp add: reenabled_router_def update_config_def Let_def log_rollout_event_def breached_router_def
        has_prefix_def)
  then show "cb_st (cr_breaker reenabled_router) = CB_Healthy"
    "cb_consecutive_failures (cr_breaker reenabled_router) = 0" by simp_all
  have cfg: "cb_cfg (cr_breaker reenabled_router) = normalize_cb_config default_cb_config"
    by (simp add: cb breached_twice_def)
  then show "cbc_failure_window (cb_cfg (cr_breaker reenabled_router)) = 3" by (simp add: default_window)
  have "flt (or_default (to_f64 (1 / 100)) (1 / 100)) (round_to 10000 (fdiv (of_int64 50) (of_int64 100)))"
    by code_simp
  note b = sample_breach [OF this]
  have "cr_metrics breached_router = zero_metrics\<lparr>cm_candidate_requests_total := 100, cm_candidate_error_total := 50\<rparr>"
    by (simp add: breached_router_def)
  then show "verdict_of (cb_cfg (cr_breaker reenabled_router)) (metrics_snapshot (cr_metrics breached_router)) = Breach"
    using b by (simp add: cfg verdict_of_def)
qed

end
