(* ===== verification/Retraining_Types.thy ===== *)
theory Retraining_Types
  imports Go_Duration
begin

text \<open>
  The data of the retraining lifecycle, \<open>internal/riskengine/retraining_types.go\<close>: the states of a job
  and the transitions between them, the configuration with its safe bounds, and the records of jobs,
  metrics and gates.  A \<open>uint32\<close> is a 32-bit word.
\<close>

datatype job_state = JsIdle | JsTriggered | JsQueued | JsTraining | JsValidating | JsShadowEvaluation
  | JsAwaitingApproval | JsCanary | JsPromoted | JsRejected | JsFailed | JsRolledBack

fun job_state_string :: "job_state \<Rightarrow> string" where
  "job_state_string JsIdle = ''IDLE''"
| "job_state_string JsTriggered = ''TRIGGERED''"
| "job_state_string JsQueued = ''QUEUED''"
| "job_state_string JsTraining = ''TRAINING''"
| "job_state_string JsValidating = ''VALIDATING''"
| "job_state_string JsShadowEvaluation = ''SHADOW_EVALUATION''"
| "job_state_string JsAwaitingApproval = ''AWAITING_APPROVAL''"
| "job_state_string JsCanary = ''CANARY''"
| "job_state_string JsPromoted = ''PROMOTED''"
| "job_state_string JsRejected = ''REJECTED''"
| "job_state_string JsFailed = ''FAILED''"
| "job_state_string JsRolledBack = ''ROLLED_BACK''"

fun can_transition_to :: "job_state \<Rightarrow> job_state \<Rightarrow> bool" where
  "can_transition_to JsIdle t = (t = JsTriggered)"
| "can_transition_to JsTriggered t = (t = JsQueued \<or> t = JsFailed \<or> t = JsIdle)"
| "can_transition_to JsQueued t = (t = JsTraining \<or> t = JsFailed \<or> t = JsIdle)"
| "can_transition_to JsTraining t = (t = JsValidating \<or> t = JsFailed)"
| "can_transition_to JsValidating t = (t = JsShadowEvaluation \<or> t = JsRejected \<or> t = JsFailed)"
| "can_transition_to JsShadowEvaluation t = (t = JsAwaitingApproval \<or> t = JsCanary \<or> t = JsRejected \<or> t = JsFailed)"
| "can_transition_to JsAwaitingApproval t = (t = JsCanary \<or> t = JsRejected \<or> t = JsFailed)"
| "can_transition_to JsCanary t = (t = JsPromoted \<or> t = JsRolledBack \<or> t = JsFailed)"
| "can_transition_to JsPromoted t = (t = JsIdle \<or> t = JsTriggered)"
| "can_transition_to JsRejected t = (t = JsIdle \<or> t = JsTriggered)"
| "can_transition_to JsFailed t = (t = JsIdle \<or> t = JsTriggered)"
| "can_transition_to JsRolledBack t = (t = JsIdle \<or> t = JsTriggered)"

record retraining_config =
  rtc_enabled :: bool
  rtc_min_samples :: "32 word"
  rtc_drift_threshold :: f64
  rtc_required_consecutive_windows :: int
  rtc_cooldown_duration :: duration
  rtc_max_concurrent_jobs :: int
  rtc_min_model_improvement :: f64
  rtc_max_error_rate :: f64
  rtc_max_fallback_rate :: f64
  rtc_max_latency_regression_ms :: f64
  rtc_max_decision_change_rate :: f64
  rtc_max_allowed_fpr :: f64
  rtc_max_allowed_brier_score :: f64
  rtc_max_p95_latency_ms :: f64
  rtc_auto_approve_canary :: bool
  rtc_shadow_min_evaluations :: "32 word"
  rtc_canary_observation_window :: duration

definition default_retraining_config :: retraining_config where
  "default_retraining_config =
     \<lparr>rtc_enabled = True, rtc_min_samples = 200, rtc_drift_threshold = to_f64 (20 / 100),
      rtc_required_consecutive_windows = 2, rtc_cooldown_duration = 30 * minute, rtc_max_concurrent_jobs = 1,
      rtc_min_model_improvement = to_f64 (- 2 / 100), rtc_max_error_rate = to_f64 (1 / 100),
      rtc_max_fallback_rate = to_f64 (1 / 100), rtc_max_latency_regression_ms = Fin 5,
      rtc_max_decision_change_rate = to_f64 (10 / 100), rtc_max_allowed_fpr = to_f64 (5 / 100),
      rtc_max_allowed_brier_score = to_f64 (10 / 100), rtc_max_p95_latency_ms = Fin 15,
      rtc_auto_approve_canary = False, rtc_shadow_min_evaluations = 50,
      rtc_canary_observation_window = 100 * millisecond\<rparr>"

definition positive_or :: "f64 \<Rightarrow> rat \<Rightarrow> f64" where
  "positive_or x d = (if fle x (Fin 0) then to_f64 d else x)"

definition validate_retraining_config :: "retraining_config \<Rightarrow> retraining_config" where
  "validate_retraining_config cfg = cfg
     \<lparr>rtc_min_samples := (if rtc_min_samples cfg < 50 then 50 else rtc_min_samples cfg),
      rtc_drift_threshold := positive_or (rtc_drift_threshold cfg) (20 / 100),
      rtc_required_consecutive_windows :=
        (if rtc_required_consecutive_windows cfg < 1 then 1 else rtc_required_consecutive_windows cfg),
      rtc_cooldown_duration := (if rtc_cooldown_duration cfg \<le> 0 then 30 * minute else rtc_cooldown_duration cfg),
      rtc_max_concurrent_jobs := (if rtc_max_concurrent_jobs cfg \<le> 0 then 1 else rtc_max_concurrent_jobs cfg),
      rtc_max_error_rate := positive_or (rtc_max_error_rate cfg) (1 / 100),
      rtc_max_fallback_rate := positive_or (rtc_max_fallback_rate cfg) (1 / 100),
      rtc_max_allowed_fpr := positive_or (rtc_max_allowed_fpr cfg) (5 / 100),
      rtc_max_allowed_brier_score := positive_or (rtc_max_allowed_brier_score cfg) (10 / 100),
      rtc_max_p95_latency_ms := positive_or (rtc_max_p95_latency_ms cfg) 15,
      rtc_shadow_min_evaluations := (if rtc_shadow_min_evaluations cfg < 10 then 10 else rtc_shadow_min_evaluations cfg)\<rparr>"

record retraining_job =
  rj_job_id :: string
  rj_triggered_at :: gotime
  rj_state :: job_state
  rj_trigger_type :: string
  rj_trigger_reason :: string
  rj_parent_model_version :: string
  rj_candidate_model_version :: string
  rj_dataset_id :: string
  rj_sample_count :: "32 word"
  rj_completed_at :: gotime
  rj_duration_ms :: f64
  rj_error :: string

record dataset_metadata =
  dm_dataset_id :: string
  dm_time_window_start :: gotime
  dm_time_window_end :: gotime
  dm_sample_count :: "32 word"
  dm_feature_contract :: string
  dm_parent_model_version :: string
  dm_fraud_rate :: f64
  dm_data_quality_score :: f64
  dm_missing_value_rate :: f64
  dm_schema_compatible :: bool
  dm_zero_labels_detected :: bool
  dm_duplicate_rate :: f64
  dm_label_distribution_ratio :: f64

record validation_metrics =
  vm_roc_auc :: f64
  vm_pr_auc :: f64
  vm_precision :: f64
  vm_recall :: f64
  vm_f1_score :: f64
  vm_fpr :: f64
  vm_fnr :: f64
  vm_brier_score :: f64
  vm_calibration_error :: f64
  vm_p95_latency_ms :: f64
  vm_inference_errors :: int
  vm_nan_count :: int

record validation_gate =
  vg_validation_id :: string
  vg_timestamp :: gotime
  vg_model_id :: string
  vg_model_version :: string
  vg_parent_model_version :: string
  vg_passed :: bool
  vg_violations :: "string list"
  vg_warnings :: "string list"
  vg_candidate_metrics :: validation_metrics
  vg_baseline_metrics :: validation_metrics
  vg_gate_details :: string

record shadow_gate =
  sh_evaluation_id :: string
  sh_timestamp :: gotime
  sh_candidate_model_version :: string
  sh_production_model_version :: string
  sh_samples_evaluated :: "32 word"
  sh_score_divergence_rate :: f64
  sh_decision_change_rate :: f64
  sh_error_rate :: f64
  sh_fallback_rate :: f64
  sh_avg_score_delta :: f64
  sh_p95_latency_ms :: f64
  sh_passed :: bool
  sh_violations :: "string list"
  sh_gate_details :: string

text \<open>A candidate; no code of the lifecycle writes its canary result.\<close>

record model_candidate =
  mc_model_id :: string
  mc_version :: string
  mc_parent_model_version :: string
  mc_feature_contract :: string
  mc_calibration_version :: string
  mc_training_job_id :: string
  mc_dataset_id :: string
  mc_created_at :: gotime
  mc_artifact_checksum :: string
  mc_config_hash :: string
  mc_state :: job_state
  mc_validation_result :: "validation_gate option"
  mc_shadow_result :: "shadow_gate option"

text \<open>Every state but the terminal ones can fail, and a terminal state is left only for a new cycle.\<close>

definition terminal :: "job_state \<Rightarrow> bool" where
  "terminal s \<longleftrightarrow> s \<in> {JsPromoted, JsRejected, JsFailed, JsRolledBack}"

lemma canary_predecessors: "can_transition_to s JsCanary \<longleftrightarrow> s = JsShadowEvaluation \<or> s = JsAwaitingApproval"
  by (cases s) simp_all

lemma promoted_predecessor: "can_transition_to s JsPromoted \<longleftrightarrow> s = JsCanary"
  by (cases s) simp_all

lemma failed_predecessors: "can_transition_to s JsFailed \<longleftrightarrow> \<not> terminal s \<and> s \<noteq> JsIdle"
  by (cases s) (simp_all add: terminal_def)

lemma validate_retraining_config_idem [simp]:
  "validate_retraining_config (validate_retraining_config cfg) = validate_retraining_config cfg"
proof -
  have p: "positive_or (positive_or x d) d = positive_or x d" for x d by (simp add: positive_or_def)
  show ?thesis by (simp add: validate_retraining_config_def p duration_defs)
qed

end
