(* ===== verification/Go_Value.thy ===== *)
theory Go_Value
  imports Go_Float "HOL-Library.AList" "HOL-Library.List_Lexorder" "HOL-Library.Char_ord"
begin

text \<open>
  Dynamic values (\<open>interface{}\<close>), their text under the verb \<open>%v\<close>, \<open>strconv.ParseFloat\<close>, and the
  decoding of a parsed JSON document into such a value.  A map is an association list with one
  entry per key; \<open>VFloats\<close> is a \<open>map[string]float64\<close>, whose entries are not such values.
\<close>

datatype val = VNil | VBool bool | VInt int | VFloat f64 | VStr string | VList "val list"
  | VMap "(string \<times> val) list" | VFloats "(string \<times> f64) list"

subsection \<open>strconv.ParseFloat\<close>

text \<open>The check of underscores: the last argument is the class of the byte before.\<close>

datatype us_class = UsStart | UsDigit | UsUnderscore | UsOther

definition hex_letter :: "char \<Rightarrow> bool" where
  "hex_letter c \<longleftrightarrow> lower_char c \<in> set ''abcdef''"

fun us_scan :: "bool \<Rightarrow> us_class \<Rightarrow> string \<Rightarrow> bool" where
  "us_scan hex st [] = (st \<noteq> UsUnderscore)"
| "us_scan hex st (c # cs) =
     (if is_digit c \<or> hex \<and> hex_letter c then us_scan hex UsDigit cs
      else if c = CHR ''_'' then st = UsDigit \<and> us_scan hex UsUnderscore cs
      else st \<noteq> UsUnderscore \<and> us_scan hex UsOther cs)"

definition drop_sign :: "string \<Rightarrow> string" where
  "drop_sign s = (case s of c # cs \<Rightarrow> if c = CHR ''+'' \<or> c = CHR ''-'' then cs else s | [] \<Rightarrow> [])"

definition underscore_ok :: "string \<Rightarrow> bool" where
  "underscore_ok s =
     (case drop_sign s of
        a # b # cs \<Rightarrow> if a = CHR ''0'' \<and> lower_char b \<in> set ''box'' then us_scan (lower_char b = CHR ''x'') UsDigit cs
                     else us_scan False UsStart (a # b # cs)
      | t \<Rightarrow> us_scan False UsStart t)"

definition digit_value :: "char \<Rightarrow> int" where
  "digit_value c = (if is_digit c then of_char c - 48 else of_char (lower_char c) - 87)"

record scan =
  sc_mant :: int
  sc_digits :: bool
  sc_dot :: bool
  sc_frac :: nat
  sc_rest :: string

text \<open>The mantissa: digits, underscores and at most one dot, as far as they reach.\<close>

fun scan_mant :: "bool \<Rightarrow> scan \<Rightarrow> string \<Rightarrow> scan" where
  "scan_mant hex sc [] = sc\<lparr>sc_rest := []\<rparr>"
| "scan_mant hex sc (c # cs) =
     (if c = CHR ''_'' then scan_mant hex sc cs
      else if c = CHR ''.'' \<and> \<not> sc_dot sc then scan_mant hex (sc\<lparr>sc_dot := True\<rparr>) cs
      else if is_digit c \<or> hex \<and> hex_letter c then
        scan_mant hex (sc\<lparr>sc_mant := sc_mant sc * (if hex then 16 else 10) + digit_value c, sc_digits := True,
          sc_frac := (if sc_dot sc then Suc (sc_frac sc) else sc_frac sc)\<rparr>) cs
      else sc\<lparr>sc_rest := c # cs\<rparr>)"

fun scan_exp :: "int \<Rightarrow> string \<Rightarrow> int \<times> string" where
  "scan_exp e [] = (e, [])"
| "scan_exp e (c # cs) =
     (if c = CHR ''_'' then scan_exp e cs
      else if is_digit c then scan_exp (if e < 10000 then e * 10 + digit_value c else e) cs
      else (e, c # cs))"

definition scan_exponent :: "string \<Rightarrow> (int \<times> string) option" where
  "scan_exponent s =
     (let neg = has_prefix s ''-''; t = drop_sign s in
      if t = [] \<or> \<not> is_digit (hd t) then None
      else (let (e, rest) = scan_exp 0 t in Some (if neg then - e else e, rest)))"

definition special_float :: "string \<Rightarrow> f64 option" where
  "special_float s =
     (let t = to_lower (drop_sign s) in
      if t = ''inf'' \<or> t = ''infinity'' then Some (if has_prefix s ''-'' then NInf else PInf)
      else if to_lower s = ''nan'' then Some NaN else None)"

definition read_float :: "string \<Rightarrow> rat option" where
  "read_float s =
     (let t = drop_sign s;
          hex = (case t of a # b # c # _ \<Rightarrow> a = CHR ''0'' \<and> lower_char b = CHR ''x'' | _ \<Rightarrow> False);
          sc = scan_mant hex \<lparr>sc_mant = 0, sc_digits = False, sc_dot = False, sc_frac = 0, sc_rest = []\<rparr>
                 (if hex then drop 2 t else t);
          r = sc_rest sc;
          ex = (if r \<noteq> [] \<and> lower_char (hd r) = (if hex then CHR ''p'' else CHR ''e'')
                then scan_exponent (tl r) else if hex then None else Some (0, r)) in
      if \<not> sc_digits sc then None
      else (case ex of None \<Rightarrow> None
        | Some (e, rest) \<Rightarrow>
            if rest \<noteq> [] \<or> CHR ''_'' \<in> set s \<and> \<not> underscore_ok s then None
            else Some ((if has_prefix s ''-'' then -1 else 1) *
              (if hex then of_int (sc_mant sc) / 16 ^ sc_frac sc * pow2 e
               else of_int (sc_mant sc) / 10 ^ sc_frac sc * (if 0 \<le> e then 10 ^ nat e else 1 / 10 ^ nat (- e))))))"

text \<open>A value out of range is an error, as is a malformed text.\<close>

definition parse_float :: "string \<Rightarrow> f64 option" where
  "parse_float s =
     (case special_float s of Some x \<Rightarrow> Some x
      | None \<Rightarrow> (case read_float s of None \<Rightarrow> None
          | Some x \<Rightarrow> if is_inf (to_f64 x) then None else Some (to_f64 x)))"

subsection \<open>The verb for any value\<close>

text \<open>
  The decimal exponent of a positive number, and its shortest decimal digits that read back as the
  same number: the least count of digits, up to 17, whose rounding does.
\<close>

fun dec_exp :: "nat \<Rightarrow> int \<Rightarrow> rat \<Rightarrow> int" where
  "dec_exp 0 e x = e"
| "dec_exp (Suc f) e x = (if 10 \<le> x then dec_exp f (e + 1) (x / 10)
     else if x < 1 then dec_exp f (e - 1) (x * 10) else e)"

definition pow10 :: "int \<Rightarrow> rat" where
  "pow10 k = (if 0 \<le> k then 10 ^ nat k else 1 / 10 ^ nat (- k))"

definition digits_at :: "rat \<Rightarrow> nat \<Rightarrow> int" where
  "digits_at x n = round_even (x / pow10 (dec_exp 800 0 x - int n + 1))"

definition reads_back :: "rat \<Rightarrow> nat \<Rightarrow> bool" where
  "reads_back x n = (to_f64 (of_int (digits_at x n) * pow10 (dec_exp 800 0 x - int n + 1)) = Fin x)"

fun count_from :: "nat \<Rightarrow> nat \<Rightarrow> rat \<Rightarrow> nat" where
  "count_from 0 n x = n"
| "count_from (Suc f) n x = (if reads_back x n then n else count_from f (Suc n) x)"

definition shortest_count :: "rat \<Rightarrow> nat" where
  "shortest_count x = count_from 16 1 x"

text \<open>The decimal digits of a non-negative integer.\<close>

function int_digits :: "int \<Rightarrow> string" where
  "int_digits i = (if i < 10 then [char_of (48 + i)] else int_digits (i div 10) @ [char_of (48 + i mod 10)])"
  by pat_completeness auto
termination by (relation "measure nat") auto

declare int_digits.simps [simp del]

definition strip_zeros :: "string \<Rightarrow> string" where
  "strip_zeros s = rev (dropWhile (\<lambda>c. c = CHR ''0'') (rev s))"

definition fmt_pos :: "rat \<Rightarrow> string" where
  "fmt_pos x =
     (let n = shortest_count x;
          e0 = dec_exp 800 0 x;
          ds0 = int_digits (digits_at x n);
          e = (if n < length ds0 then e0 + 1 else e0);
          ds = (let t = strip_zeros ds0 in if t = '''' then ''0'' else t) in
      if e < -4 \<or> 6 \<le> e then
        hd ds # (if length ds = 1 then '''' else CHR ''.'' # tl ds) @ ''e'' @
        (if e < 0 then ''-'' else ''+'') @ zpad 2 (int_digits \<bar>e\<bar>)
      else if e < 0 then ''0.'' @ replicate (nat (- e) - 1) (CHR ''0'') @ ds
      else if length ds \<le> nat e + 1 then ds @ replicate (nat e + 1 - length ds) (CHR ''0'')
      else take (nat e + 1) ds @ ''.'' @ drop (nat e + 1) ds)"

fun fmt_float :: "f64 \<Rightarrow> string" where
  "fmt_float (Fin x) = (if x = 0 then ''0'' else if x < 0 then ''-'' @ fmt_pos (- x) else fmt_pos x)"
| "fmt_float PInf = ''+Inf''"
| "fmt_float NInf = ''-Inf''"
| "fmt_float NaN = ''NaN''"

definition fmt_bool :: "bool \<Rightarrow> string" where
  "fmt_bool b = (if b then ''true'' else ''false'')"

fun fmt_v :: "val \<Rightarrow> string" where
  "fmt_v VNil = ''<nil>''"
| "fmt_v (VBool b) = fmt_bool b"
| "fmt_v (VInt i) = itoa i"
| "fmt_v (VFloat x) = fmt_float x"
| "fmt_v (VStr s) = s"
| "fmt_v (VList vs) = fmt_slice (map fmt_v vs)"
| "fmt_v (VMap kvs) = ''map'' @ fmt_slice (map snd (sort_key fst
     (map (\<lambda>e. (fst e, fst e @ '':'' @ fmt_v (snd e))) kvs)))"
| "fmt_v (VFloats kvs) = ''map'' @ fmt_slice (map snd (sort_key fst
     (map (\<lambda>e. (fst e, fst e @ '':'' @ fmt_float (snd e))) kvs)))"

subsection \<open>Parsed JSON\<close>

text \<open>A number keeps its text, as the decoder sees it.\<close>

datatype json = JNull | JBool bool | JNum string | JStr string | JArr "json list" | JObj "(string \<times> json) list"

text \<open>Decoding into an \<open>interface{}\<close>: numbers become \<open>float64\<close>, out of range is an error.\<close>

fun json_val :: "json \<Rightarrow> val option" and json_vals :: "json list \<Rightarrow> val list option"
  and json_pairs :: "(string \<times> json) list \<Rightarrow> (string \<times> val) list \<Rightarrow> (string \<times> val) list option" where
  "json_val JNull = Some VNil"
| "json_val (JBool b) = Some (VBool b)"
| "json_val (JNum t) = map_option VFloat (parse_float t)"
| "json_val (JStr s) = Some (VStr s)"
| "json_val (JArr js) = map_option VList (json_vals js)"
| "json_val (JObj kvs) = map_option VMap (json_pairs kvs [])"
| "json_vals [] = Some []"
| "json_vals (j # js) = (case json_val j of None \<Rightarrow> None
     | Some v \<Rightarrow> map_option (Cons v) (json_vals js))"
| "json_pairs [] acc = Some acc"
| "json_pairs ((k, j) # kvs) acc = (case json_val j of None \<Rightarrow> None
     | Some v \<Rightarrow> json_pairs kvs (AList.update k v acc))"

text \<open>Decoding into a field of type \<open>string\<close> and \<open>int\<close>; \<open>null\<close> leaves the field as it is.\<close>

fun json_string :: "json \<Rightarrow> string \<Rightarrow> string option" where
  "json_string (JStr s) _ = Some s"
| "json_string JNull old = Some old"
| "json_string _ _ = None"

definition parse_int64 :: "string \<Rightarrow> int option" where
  "parse_int64 s =
     (let t = drop_sign s;
          n = foldl (\<lambda>a c. a * 10 + digit_value c) 0 t;
          i = (if has_prefix s ''-'' then - n else n) in
      if t = '''' \<or> \<not> list_all is_digit t \<or> i < - (2 ^ 63) \<or> 2 ^ 63 \<le> i then None else Some i)"

fun json_int :: "json \<Rightarrow> int \<Rightarrow> int option" where
  "json_int (JNum t) _ = parse_int64 t"
| "json_int JNull old = Some old"
| "json_int _ _ = None"

text \<open>A key of an object matches a field by its name, up to case.\<close>

definition key_is :: "string \<Rightarrow> string \<Rightarrow> bool" where
  "key_is k f \<longleftrightarrow> to_lower k = to_lower f"

subsection \<open>Trimmed texts\<close>

lemma trim_left_with_id:
  "s \<noteq> [] \<Longrightarrow> \<forall>r \<in> set rs. r \<noteq> [] \<and> hd r \<noteq> hd s \<Longrightarrow> trim_left_with rs n s = s"
proof (cases n)
  case (Suc m)
  assume "s \<noteq> []" "\<forall>r \<in> set rs. r \<noteq> [] \<and> hd r \<noteq> hd s"
  then have "\<forall>r \<in> set rs. \<not> has_prefix s r"
    by (metis has_prefix_iff hd_append2 prefix_def)
  then have "find (has_prefix s) rs = None" by (auto simp: find_None_iff)
  then show ?thesis using Suc by simp
qed simp

lemma trim_space_id:
  assumes "s \<noteq> ''''" "hd s \<notin> hd ` set space_runes" "last s \<notin> last ` set space_runes"
  shows "trim_space s = s"
proof -
  have ne: "\<forall>r \<in> set space_runes. r \<noteq> []" by (simp add: space_runes_def)
  have "trim_left s = s"
    unfolding trim_left_def using assms(1,2) ne by (metis trim_left_with_id image_eqI)
  moreover have "trim_left_with (map rev space_runes) (length s) (rev s) = rev s"
    using assms(1,3) ne by (intro trim_left_with_id) (auto simp: hd_rev dest: sym)
  ultimately show ?thesis by (simp add: trim_space_def trim_right_def)
qed

definition plain_char :: "char \<Rightarrow> bool" where
  "plain_char c \<longleftrightarrow> (let n = of_char c :: nat in 33 \<le> n \<and> n < 127)"

lemma trim_plain: "s \<noteq> '''' \<Longrightarrow> plain_char (hd s) \<Longrightarrow> plain_char (last s) \<Longrightarrow> trim_space s = s"
  by (rule trim_space_id) (auto simp: space_runes_def plain_char_def)

end
