(* ===== verification/Candidate_Gates.thy ===== *)
theory Candidate_Gates
  imports Retraining_Types Artifact_Verifier Go_Value Circuit_Breaker
begin

text \<open>
  The gates a candidate passes before it sees traffic: \<open>internal/riskengine/offline_validator.go\<close>, which
  compares its metrics with the baseline, and \<open>dataset_validator.go\<close>, which checks the training data.
\<close>

subsection \<open>Offline validation\<close>

definition default_production_baseline_metrics :: validation_metrics where
  "default_production_baseline_metrics =
     \<lparr>vm_roc_auc = to_f64 (895 / 1000), vm_pr_auc = to_f64 (71 / 100), vm_precision = to_f64 (81 / 100),
      vm_recall = to_f64 (76 / 100), vm_f1_score = to_f64 (7842 / 10000), vm_fpr = to_f64 (25 / 1000),
      vm_fnr = to_f64 (24 / 100), vm_brier_score = to_f64 (42 / 1000), vm_calibration_error = to_f64 (15 / 1000),
      vm_p95_latency_ms = to_f64 (65 / 10), vm_inference_errors = 0, vm_nan_count = 0\<rparr>"

definition min_required_auc :: "retraining_config \<Rightarrow> validation_metrics \<Rightarrow> f64" where
  "min_required_auc cfg base = fadd (vm_roc_auc base) (rtc_min_model_improvement cfg)"

definition msg_auc :: "validation_metrics \<Rightarrow> f64 \<Rightarrow> validation_metrics \<Rightarrow> string" where
  "msg_auc c m b = ''Candidate ROC-AUC ('' @ fmt_fixed 4 (vm_roc_auc c) @ '') below minimum threshold ('' @ fmt_fixed 4 m @
     '') vs baseline ('' @ fmt_fixed 4 (vm_roc_auc b) @ '')''"
definition msg_fpr :: "validation_metrics \<Rightarrow> retraining_config \<Rightarrow> string" where
  "msg_fpr c cfg = ''Candidate FPR ('' @ fmt_fixed 4 (vm_fpr c) @ '') exceeds maximum allowed FPR ('' @
     fmt_fixed 4 (rtc_max_allowed_fpr cfg) @ '')''"
definition msg_brier :: "validation_metrics \<Rightarrow> retraining_config \<Rightarrow> string" where
  "msg_brier c cfg = ''Candidate Brier score ('' @ fmt_fixed 4 (vm_brier_score c) @ '') exceeds maximum threshold ('' @
     fmt_fixed 4 (rtc_max_allowed_brier_score cfg) @ '')''"
definition msg_latency :: "validation_metrics \<Rightarrow> retraining_config \<Rightarrow> string" where
  "msg_latency c cfg = ''Candidate P95 latency ('' @ fmt_fixed 2 (vm_p95_latency_ms c) @ '' ms) exceeds max latency limit ('' @
     fmt_fixed 2 (rtc_max_p95_latency_ms cfg) @ '' ms)''"
definition msg_inference :: "int \<Rightarrow> string" where
  "msg_inference n = ''Candidate encountered '' @ itoa n @ '' inference errors during validation''"
definition msg_nan :: "int \<Rightarrow> string" where
  "msg_nan n = ''Candidate produced '' @ itoa n @ '' NaN/Inf output values during validation''"
definition msg_calibration :: "validation_metrics \<Rightarrow> validation_metrics \<Rightarrow> string" where
  "msg_calibration c b = ''Candidate calibration error ('' @ fmt_fixed 4 (vm_calibration_error c) @
     '') is 20% higher than baseline ('' @ fmt_fixed 4 (vm_calibration_error b) @ '')''"

definition offline_violations :: "retraining_config \<Rightarrow> validation_metrics \<Rightarrow> validation_metrics \<Rightarrow> string list" where
  "offline_violations cfg c b =
     (if flt (vm_roc_auc c) (min_required_auc cfg b) then [msg_auc c (min_required_auc cfg b) b] else []) @
     (if flt (rtc_max_allowed_fpr cfg) (vm_fpr c) then [msg_fpr c cfg] else []) @
     (if flt (rtc_max_allowed_brier_score cfg) (vm_brier_score c) then [msg_brier c cfg] else []) @
     (if flt (rtc_max_p95_latency_ms cfg) (vm_p95_latency_ms c) then [msg_latency c cfg] else []) @
     (if 0 < vm_inference_errors c then [msg_inference (vm_inference_errors c)] else []) @
     (if 0 < vm_nan_count c then [msg_nan (vm_nan_count c)] else [])"

definition offline_warnings :: "validation_metrics \<Rightarrow> validation_metrics \<Rightarrow> string list" where
  "offline_warnings c b =
     (if flt (fmul (vm_calibration_error b) (to_f64 (12 / 10))) (vm_calibration_error c) then [msg_calibration c b] else [])"

definition validate_candidate ::
  "retraining_config \<Rightarrow> model_candidate \<Rightarrow> validation_metrics \<Rightarrow> validation_metrics \<Rightarrow> gotime \<Rightarrow> validation_gate" where
  "validate_candidate cfg0 cand c b now =
     (let cfg = validate_retraining_config cfg0; vs = offline_violations cfg c b; ws = offline_warnings c b in
      \<lparr>vg_validation_id = ''val_'' @ mc_model_id cand @ ''_'' @ itoa now, vg_timestamp = now,
       vg_model_id = mc_model_id cand, vg_model_version = mc_version cand,
       vg_parent_model_version = mc_parent_model_version cand, vg_passed = (vs = []), vg_violations = vs,
       vg_warnings = ws, vg_candidate_metrics = c, vg_baseline_metrics = b,
       vg_gate_details = (if vs \<noteq> [] then ''FAILED: '' @ join_with ''; '' vs
         else if ws \<noteq> [] then ''PASSED_WITH_WARNINGS: '' @ join_with ''; '' ws else ''ALL_GATES_PASSED'')\<rparr>)"

subsection \<open>Training data\<close>

definition canonical_feature_names :: "string list" where
  "canonical_feature_names =
     [''amount'', ''ip_velocity_1h'', ''ip_velocity_24h'', ''token_velocity_24h'', ''is_new_device'', ''device_seen_before'',
      ''hour_of_day'', ''day_of_week'', ''product_cd'', ''card_type'', ''card_category'', ''email_domain'', ''dist1_missing'',
      ''device_type_mobile'', ''device_info_missing'', ''amount_to_mean_ratio'', ''country_match'',
      ''billing_shipping_match'', ''failed_attempts_1h'', ''avg_amount_7d'', ''max_amount_30d'', ''distinct_cards_1h'',
      ''distinct_ips_24h'', ''is_vpn_or_proxy'', ''chargeback_history_count'']"

text \<open>The fields of the result that the validator writes.\<close>

record dataset_validation =
  dv_dataset_id :: string
  dv_timestamp :: gotime
  dv_sample_count :: "32 word"
  dv_feature_contract :: string
  dv_passed :: bool
  dv_violations :: "string list"
  dv_metadata :: dataset_metadata

record dataset_validator =
  ds_min_sample_quorum :: "32 word"
  ds_max_missing_rate :: f64
  ds_min_quality_score :: f64
  ds_min_positive_samples :: "32 word"

definition new_dataset_validator :: "32 word \<Rightarrow> dataset_validator" where
  "new_dataset_validator n =
     \<lparr>ds_min_sample_quorum = (if n < 50 then 50 else n), ds_max_missing_rate = to_f64 (15 / 100),
      ds_min_quality_score = to_f64 (80 / 100), ds_min_positive_samples = 1\<rparr>"

definition msg_quorum :: "32 word \<Rightarrow> 32 word \<Rightarrow> string" where
  "msg_quorum n q = ''Sample count '' @ itoa (uint n) @ '' is below minimum quorum threshold '' @ itoa (uint q)"
definition msg_contract :: "string \<Rightarrow> string" where
  "msg_contract c = ''Incompatible feature contract '' @ quoted c @ ''; expected canonical 25-feature contract v2.5''"
definition msg_missing :: "f64 \<Rightarrow> f64 \<Rightarrow> string" where
  "msg_missing x l = ''Missing value rate '' @ fmt_fixed 4 x @ '' exceeds maximum permitted threshold '' @ fmt_fixed 4 l"
definition msg_quality :: "f64 \<Rightarrow> f64 \<Rightarrow> string" where
  "msg_quality x l = ''Data quality score '' @ fmt_fixed 4 x @ '' is below minimum threshold '' @ fmt_fixed 4 l"
definition msg_no_labels :: string where
  "msg_no_labels = ''Dataset contains zero positive fraud labels; training cannot proceed''"
definition msg_features :: "nat \<Rightarrow> string" where
  "msg_features n = ''Feature count '' @ itoa (int n) @ '' != 25 expected features''"

definition dataset_violations :: "dataset_validator \<Rightarrow> dataset_metadata \<Rightarrow> string list" where
  "dataset_violations v m =
     (if dm_sample_count m < ds_min_sample_quorum v then [msg_quorum (dm_sample_count m) (ds_min_sample_quorum v)] else []) @
     (if dm_feature_contract m \<noteq> ''v2.5'' \<and> dm_feature_contract m \<noteq> ''fraud-risk-25f-v2.5''
      then [msg_contract (dm_feature_contract m)] else []) @
     (if flt (ds_max_missing_rate v) (dm_missing_value_rate m)
      then [msg_missing (dm_missing_value_rate m) (ds_max_missing_rate v)] else []) @
     (if flt (dm_data_quality_score m) (ds_min_quality_score v)
      then [msg_quality (dm_data_quality_score m) (ds_min_quality_score v)] else []) @
     (if dm_zero_labels_detected m then [msg_no_labels] else [])"

definition validate_dataset_metadata ::
  "dataset_validator \<Rightarrow> dataset_metadata \<Rightarrow> gotime \<Rightarrow> dataset_validation \<times> string option" where
  "validate_dataset_metadata v m now =
     (let vs = dataset_violations v m in
      (\<lparr>dv_dataset_id = dm_dataset_id m, dv_timestamp = now, dv_sample_count = dm_sample_count m,
        dv_feature_contract = dm_feature_contract m, dv_passed = (vs = []), dv_violations = vs, dv_metadata = m\<rparr>,
       if vs = [] then None
       else Some (''dataset validation failed ('' @ itoa (int (length vs)) @ '' violations): '' @ fmt_slice vs)))"

definition validate_dataset_file :: "file_system \<Rightarrow> string \<Rightarrow> string + (string \<times> nat)" where
  "validate_dataset_file fs p =
     (if p = '''' then Inl ''dataset file path cannot be empty''
      else (case fs p of
         NoFile e \<Rightarrow> Inl (''dataset file not found or inaccessible at '' @ quoted p @ '': '' @ e)
       | Directory \<Rightarrow> Inl (''dataset path '' @ quoted p @ '' is a directory, expected file'')
       | entry \<Rightarrow>
           if entry_size entry = 0 then Inl (''dataset file '' @ quoted p @ '' is empty (0 bytes)'')
           else (case entry of
               Unopenable _ e \<Rightarrow> Inl (''failed to open dataset file '' @ quoted p @ '': '' @ e)
             | Unreadable _ e \<Rightarrow> Inl (''failed to compute dataset checksum: '' @ e)
             | File content \<Rightarrow> Inr (sha256_hex content, length content)
             | _ \<Rightarrow> Inl '''')))"

text \<open>The descriptor of a dataset after decoding; the decoder's error is the left side.\<close>

record dataset_descriptor =
  dd_dataset_id :: string
  dd_sample_count :: "32 word"
  dd_feature_contract :: string
  dd_feature_names :: "string list"
  dd_positive_fraud_count :: "32 word"
  dd_missing_value_rate :: f64
  dd_data_quality_score :: f64

definition validate_dataset_schema ::
  "dataset_validator \<Rightarrow> string + dataset_descriptor \<Rightarrow> gotime \<Rightarrow> dataset_validation option \<times> string option" where
  "validate_dataset_schema v parsed now =
     (case parsed of Inl e \<Rightarrow> (None, Some (''failed to parse dataset schema JSON: '' @ e))
      | Inr d \<Rightarrow>
          (case validate_dataset_metadata v
              \<lparr>dm_dataset_id = dd_dataset_id d, dm_time_window_start = zero_time, dm_time_window_end = zero_time,
               dm_sample_count = dd_sample_count d, dm_feature_contract = dd_feature_contract d,
               dm_parent_model_version = ''fraud-xgb-25f-v3.0'', dm_fraud_rate = Fin 0,
               dm_data_quality_score = dd_data_quality_score d, dm_missing_value_rate = dd_missing_value_rate d,
               dm_schema_compatible = False, dm_zero_labels_detected = (dd_positive_fraud_count d = 0),
               dm_duplicate_rate = Fin 0, dm_label_distribution_ratio = Fin 0\<rparr> now of
             (res, Some e) \<Rightarrow> (Some res, Some e)
           | (res, None) \<Rightarrow>
               if dd_feature_names d \<noteq> [] \<and> length (dd_feature_names d) \<noteq> 25
               then (Some (res\<lparr>dv_violations := dv_violations res @ [msg_features (length (dd_feature_names d))], dv_passed := False\<rparr>),
                     Some (''feature count mismatch: '' @ itoa (int (length (dd_feature_names d))) @ '' != 25''))
               else (Some res, None)))"

definition check_numerical_sanity :: "f64 list \<Rightarrow> bool \<times> bool" where
  "check_numerical_sanity xs = (list_ex is_nan xs, list_ex is_inf xs)"

end
