(* ===== verification/Cost_Policy.thy ===== *)
theory Cost_Policy
  imports Go_Float
begin

text \<open>
  The Bayes minimum risk decision, \<open>internal/riskengine/cost_policy.go\<close>: expected costs of
  the four actions for a calibrated fraud probability and an amount, and the choice of the
  cheapest action that is enabled.  All arithmetic is the one of \<open>float64\<close>, in the order
  of the source and without fused operations.

  The lemmas show that under the default configuration every cost is a number, at least zero,
  for every input, NaN and infinities included; the properties state which action is chosen.
\<close>

datatype risk_action = Allow | Step_Up | Manual_Review | Decline

fun action_string :: "risk_action \<Rightarrow> string" where
  "action_string Allow = ''ALLOW_RECOMMENDATION''"
| "action_string Step_Up = ''STEP_UP_RECOMMENDATION''"
| "action_string Manual_Review = ''MANUAL_REVIEW''"
| "action_string Decline = ''DECLINE_RECOMMENDATION''"

record economic_policy =
  ep_currency_symbol :: string
  ep_fp_cost_base :: f64
  ep_fp_rate_ltv :: f64
  ep_manual_review_cost :: f64
  ep_challenge_cost :: f64
  ep_challenge_friction_rate :: f64
  ep_fraud_multiplier :: f64
  ep_residual_review_rate :: f64

definition rupee :: string where
  "rupee = [char_of (226::nat), char_of (130::nat), char_of (185::nat)]"

definition default_economic_policy :: economic_policy where
  "default_economic_policy =
     \<lparr>ep_currency_symbol = rupee, ep_fp_cost_base = Fin 500, ep_fp_rate_ltv = to_f64 (5 / 100),
      ep_manual_review_cost = Fin 100, ep_challenge_cost = Fin 2,
      ep_challenge_friction_rate = to_f64 (2 / 100), ep_fraud_multiplier = Fin 1,
      ep_residual_review_rate = to_f64 (5 / 100)\<rparr>"

record cost_breakdown =
  cbk_currency :: string
  cbk_calibrated_probability :: f64
  cbk_transaction_amount :: f64
  cbk_expected_fraud_exposure :: f64
  cbk_allow_cost :: f64
  cbk_challenge_cost :: f64
  cbk_review_cost :: f64
  cbk_decline_cost :: f64
  cbk_optimal_action :: risk_action
  cbk_action_costs :: "risk_action \<Rightarrow> f64"
  cbk_decision_reason :: string

text \<open>The guards on the two inputs, and the clamping.\<close>

definition sane_probability :: "f64 \<Rightarrow> f64" where
  "sane_probability p =
     (let q = (if is_nan p \<or> is_inf p then Fin (1 / 2) else p)
      in fmax (Fin 0) (fmin (Fin 1) q))"

definition sane_amount :: "f64 \<Rightarrow> f64" where
  "sane_amount a = (let b = (if is_nan a \<or> is_inf a then Fin 0 else a) in fmax (Fin 0) b)"

definition fp_cost :: "economic_policy \<Rightarrow> f64 \<Rightarrow> f64" where
  "fp_cost cfg amt =
     (if flt (Fin 0) amt \<and> flt amt (Fin 250)
      then fmax (Fin 25) (fmin (ep_fp_cost_base cfg) (fmul (Fin 2) amt))
      else if flt (ep_fp_cost_base cfg) (fmul amt (ep_fp_rate_ltv cfg))
      then fmul amt (ep_fp_rate_ltv cfg)
      else ep_fp_cost_base cfg)"

fun action_cost :: "economic_policy \<Rightarrow> f64 \<Rightarrow> f64 \<Rightarrow> risk_action \<Rightarrow> f64" where
  "action_cost cfg p amt Allow = fmul (fmul p amt) (ep_fraud_multiplier cfg)"
| "action_cost cfg p amt Decline = fmul (fsub (Fin 1) p) (fp_cost cfg amt)"
| "action_cost cfg p amt Manual_Review =
     fadd (ep_manual_review_cost cfg)
       (fmul (fmul (fmul (ep_residual_review_rate cfg) p) amt) (ep_fraud_multiplier cfg))"
| "action_cost cfg p amt Step_Up =
     fadd (fmul (fsub (Fin 1) p) (fmul (ep_challenge_friction_rate cfg) amt)) (ep_challenge_cost cfg)"

text \<open>\<open>math.Round(x*100) / 100\<close> and its thousandth variant.\<close>

definition round_at :: "rat \<Rightarrow> f64 \<Rightarrow> f64" where
  "round_at k x = fdiv (fround (fmul x (Fin k))) (Fin k)"

definition step_up_gate :: "f64 \<Rightarrow> f64 \<Rightarrow> bool" where
  "step_up_gate p exposure \<longleftrightarrow> fle (to_f64 (15 / 100)) p \<or> fle (Fin 2500) exposure"

definition review_gate :: "f64 \<Rightarrow> f64 \<Rightarrow> bool" where
  "review_gate p exposure \<longleftrightarrow> fle (to_f64 (25 / 100)) p \<or> fle (Fin 5000) exposure"

definition critical :: "f64 \<Rightarrow> bool" where
  "critical p \<longleftrightarrow> fle (to_f64 (80 / 100)) p"

definition select_action :: "f64 \<Rightarrow> f64 \<Rightarrow> (risk_action \<Rightarrow> f64) \<Rightarrow> risk_action \<times> f64" where
  "select_action p exposure cost =
     (let b0 = (Allow, cost Allow);
          b1 = (if step_up_gate p exposure \<and> flt (cost Step_Up) (snd b0)
                then (Step_Up, cost Step_Up) else b0);
          b2 = (if review_gate p exposure \<and> flt (cost Manual_Review) (snd b1)
                then (Manual_Review, cost Manual_Review) else b1);
          b3 = (if flt (cost Decline) (snd b2) then (Decline, cost Decline) else b2)
      in if critical p
         then (if fle (cost Decline) (cost Manual_Review)
               then (Decline, cost Decline) else (Manual_Review, cost Manual_Review))
         else b3)"

definition decision_reason :: "string \<Rightarrow> risk_action \<Rightarrow> f64 \<Rightarrow> f64 \<Rightarrow> f64 \<Rightarrow> f64 \<Rightarrow> string" where
  "decision_reason cur best min_cost exposure amt p =
     ''Bayes Minimum Risk: '' @ action_string best @ '' minimizes expected loss (ExpLoss: '' @ cur @
     fmt_fixed 2 min_cost @ '', ExpFraud: '' @ cur @ fmt_fixed 2 exposure @ '' for Amount: '' @ cur @
     fmt_fixed 2 amt @ '', P(Fraud): '' @ fmt_fixed 2 p @ '')''"

definition evaluate_cost_sensitive_decision ::
  "f64 \<Rightarrow> f64 \<Rightarrow> economic_policy \<Rightarrow> cost_breakdown" where
  "evaluate_cost_sensitive_decision p0 amount cfg =
     (let p = sane_probability p0; amt = sane_amount amount;
          exposure = fmul p amt;
          costs = (\<lambda>a. round_at 100 (action_cost cfg p amt a));
          (best, min_cost) = select_action p exposure (action_cost cfg p amt);
          cur = (if ep_currency_symbol cfg = '''' then rupee else ep_currency_symbol cfg)
      in \<lparr>cbk_currency = cur,
          cbk_calibrated_probability = round_at 1000 p,
          cbk_transaction_amount = round_at 100 amt,
          cbk_expected_fraud_exposure = round_at 100 exposure,
          cbk_allow_cost = costs Allow, cbk_challenge_cost = costs Step_Up,
          cbk_review_cost = costs Manual_Review, cbk_decline_cost = costs Decline,
          cbk_optimal_action = best, cbk_action_costs = costs,
          cbk_decision_reason = decision_reason cur best min_cost exposure amt p\<rparr>)"

subsection \<open>The inputs after the guards\<close>

lemma sane_probability_fin: "\<exists>q. sane_probability p = Fin q \<and> 0 \<le> q \<and> q \<le> 1"
  by (cases p) (auto simp: sane_probability_def Let_def intro: exI [of _ "1 / 2"])

lemma sane_amount_fin:
  "wf_f64 a \<Longrightarrow> \<exists>b. sane_amount a = Fin b \<and> 0 \<le> b \<and> wf_f64 (Fin b)"
  by (cases a) (auto simp: sane_amount_def Let_def max_def repr_def)

lemma wf_500: "wf_f64 (Fin 500)"
  using wf_of_int [of 500] by simp

lemma fp_cost_default:
  assumes "0 \<le> b" "wf_f64 (Fin b)"
  shows "\<exists>c. fp_cost default_economic_policy (Fin b) = Fin c \<and> 0 \<le> c"
proof -
  obtain r where r: "to_f64 (5 / 100) = Fin r" "0 \<le> r" "r \<le> 1"
    using to_f64_unit [of "5 / 100"] by auto
  obtain d where d: "fmul (Fin b) (Fin r) = Fin d" "0 \<le> d"
    using fmul_unit [of r b] r assms by (auto simp: mult.commute)
  show ?thesis
  proof (cases "fmul (Fin 2) (Fin b)")
    case (Fin x)
    then show ?thesis using d r by (auto simp: fp_cost_def default_economic_policy_def)
  next
    case PInf
    then show ?thesis using d r
      by (auto simp: fp_cost_def default_economic_policy_def fmin_def)
  next
    case NInf
    with fmul_fin_nonneg [of 2 b] assms have False by simp
    then show ?thesis ..
  next
    case NaN
    then show ?thesis by simp
  qed
qed

text \<open>Under the default configuration every expected cost is a number that is not negative.\<close>

lemma default_cost_nonneg:
  assumes "wf_f64 amount"
  shows "fle (Fin 0) (action_cost default_economic_policy (sane_probability p) (sane_amount amount) a)"
proof -
  obtain q where q: "sane_probability p = Fin q" "0 \<le> q" "q \<le> 1"
    using sane_probability_fin by blast
  obtain b where b: "sane_amount amount = Fin b" "0 \<le> b" "wf_f64 (Fin b)"
    using sane_amount_fin [OF assms] by blast
  obtain q' where q': "fsub (Fin 1) (Fin q) = Fin q'" "0 \<le> q'" "q' \<le> 1"
    using to_f64_unit [of "1 - q"] q by auto
  obtain qb where qb: "fmul (Fin q) (Fin b) = Fin qb" "0 \<le> qb"
    using fmul_unit [OF q(2,3) b(2,3)] by blast
  show ?thesis
  proof (cases a)
    case Allow
    then show ?thesis using qb q b
      by (simp add: default_economic_policy_def to_f64_nonneg del: fmul.simps(3))
  next
    case Decline
    obtain c where "fp_cost default_economic_policy (Fin b) = Fin c" "0 \<le> c"
      using fp_cost_default [OF b(2,3)] by blast
    with Decline q b q' show ?thesis by (simp add: to_f64_nonneg del: fsub_fin)
  next
    case Manual_Review
    obtain r where r: "to_f64 (5 / 100) = Fin r" "0 \<le> r" "r \<le> 1"
      using to_f64_unit [of "5 / 100"] by auto
    obtain rq where rq: "fmul (Fin r) (Fin q) = Fin rq" "0 \<le> rq" "rq \<le> 1"
      using to_f64_unit [of "r * q"] r q by (auto simp: mult_le_one)
    obtain x where x: "fmul (Fin rq) (Fin b) = Fin x" "0 \<le> x"
      using fmul_unit [OF rq(2,3) b(2,3)] by blast
    have "fle (Fin 0) (fadd (Fin 100) (fmul (Fin x) (Fin 1)))"
      using x(2) by (intro fadd_nonneg fmul_fin_nonneg) simp_all
    then show ?thesis using Manual_Review q b r rq x
      by (simp add: default_economic_policy_def del: fmul.simps(3))
  next
    case Step_Up
    obtain r where r: "to_f64 (2 / 100) = Fin r" "0 \<le> r" "r \<le> 1"
      using to_f64_unit [of "2 / 100"] by auto
    obtain x where x: "fmul (Fin r) (Fin b) = Fin x" "0 \<le> x"
      using fmul_unit [OF r(2,3) b(2,3)] by blast
    have "fle (Fin 0) (fadd (fmul (Fin q') (Fin x)) (Fin 2))"
      using x(2) q'(2) by (intro fadd_nonneg fmul_fin_nonneg) simp_all
    then show ?thesis using Step_Up q b r q' x
      by (simp add: default_economic_policy_def del: fmul.simps(3) fsub_fin)
  qed
qed

subsection \<open>The choice\<close>

definition enabled :: "f64 \<Rightarrow> f64 \<Rightarrow> risk_action \<Rightarrow> bool" where
  "enabled p exposure a = (case a of
     Allow \<Rightarrow> \<not> critical p | Step_Up \<Rightarrow> \<not> critical p \<and> step_up_gate p exposure
   | Manual_Review \<Rightarrow> critical p \<or> review_gate p exposure | Decline \<Rightarrow> True)"

lemma select_action_minimal:
  assumes "\<And>a. cost a \<noteq> NaN"
  shows "enabled p exposure (fst (select_action p exposure cost)) \<and>
    snd (select_action p exposure cost) = cost (fst (select_action p exposure cost)) \<and>
    (\<forall>a. enabled p exposure a \<longrightarrow> fle (cost (fst (select_action p exposure cost))) (cost a))"
proof -
  have nf: "\<not> flt (cost a) (cost b) \<longleftrightarrow> fle (cost b) (cost a)" for a b
    using not_flt assms by blast
  have refl: "fle (cost a) (cost a)" for a using assms fle_refl_iff by blast
  have lt: "flt (cost a) (cost b) \<Longrightarrow> fle (cost a) (cost b)" for a b by (simp add: flt_le)
  have tot: "fle (cost a) (cost b) \<or> fle (cost b) (cost a)" for a b
    using fle_linear assms by blast
  show ?thesis
    unfolding select_action_def enabled_def Let_def
    by (auto split: risk_action.split if_splits simp: nf refl
        dest: lt intro: fle_trans dest: tot [THEN disjE] ) (metis fle_trans lt nf tot)+
qed

lemma optimal_action_eq:
  "cbk_optimal_action (evaluate_cost_sensitive_decision p0 amount cfg) =
   fst (select_action (sane_probability p0) (fmul (sane_probability p0) (sane_amount amount))
     (action_cost cfg (sane_probability p0) (sane_amount amount)))"
  by (simp add: evaluate_cost_sensitive_decision_def Let_def split_beta)

subsection \<open>Properties\<close>

text \<open>C7: Under the default configuration, for every probability (NaN and infinities included) and
  every amount, the chosen action is an enabled one and its expected cost is at most that of every
  enabled action: ALLOW unless the probability is critical, STEP_UP and REVIEW when their gate on
  probability or exposure is open, DECLINE always.\<close>

theorem default_decision_minimises_cost:
  assumes "wf_f64 amount"
    and "p = sane_probability p0" and "amt = sane_amount amount"
    and "best = cbk_optimal_action (evaluate_cost_sensitive_decision p0 amount default_economic_policy)"
  shows "enabled p (fmul p amt) best \<and>
    (\<forall>a. enabled p (fmul p amt) a \<longrightarrow>
      fle (action_cost default_economic_policy p amt best) (action_cost default_economic_policy p amt a))"
proof -
  let ?c = "action_cost default_economic_policy p amt"
  have "?c a \<noteq> NaN" for a
    using default_cost_nonneg [OF assms(1), of p0 a] fle_not_nan assms(2,3) by blast
  from select_action_minimal [of ?c p "fmul p amt", OF this] show ?thesis
    unfolding assms(4) optimal_action_eq assms(2,3) by blast
qed

theorem default_decision_minimises_cost_witness:
  "wf_f64 (Fin 480) \<and>
   enabled (sane_probability NaN) (fmul (sane_probability NaN) (sane_amount (Fin 480)))
     (cbk_optimal_action (evaluate_cost_sensitive_decision NaN (Fin 480) default_economic_policy))"
proof -
  have h: "wf_f64 (Fin 480)" using wf_of_int [of 480] by simp
  show ?thesis using h default_decision_minimises_cost [OF h refl refl refl, of NaN] by blast
qed

text \<open>A critical probability (at least 0.80 after the guards) is never answered with ALLOW or
  STEP_UP, whatever the amount, the configuration and the costs are: the action is DECLINE when
  declining costs no more than a review, and MANUAL_REVIEW otherwise.\<close>

theorem critical_probability_declines_or_reviews:
  assumes "critical (sane_probability p)"
  shows "cbk_optimal_action (evaluate_cost_sensitive_decision p amount cfg) =
    (if fle (action_cost cfg (sane_probability p) (sane_amount amount) Decline)
          (action_cost cfg (sane_probability p) (sane_amount amount) Manual_Review)
     then Decline else Manual_Review)"
  using assms by (simp add: optimal_action_eq select_action_def Let_def)

theorem critical_probability_declines_or_reviews_witness:
  "cbk_optimal_action (evaluate_cost_sensitive_decision (Fin 1) (Fin 1000) default_economic_policy) = Decline"
proof -
  have h: "critical (sane_probability (Fin 1))" by code_simp
  have "fle (action_cost default_economic_policy (sane_probability (Fin 1)) (sane_amount (Fin 1000)) Decline)
     (action_cost default_economic_policy (sane_probability (Fin 1)) (sane_amount (Fin 1000)) Manual_Review)"
    by code_simp
  with critical_probability_declines_or_reviews [OF h, of "Fin 1000" default_economic_policy]
  show ?thesis by simp
qed

text \<open>Under the default configuration a transaction without expected fraud exposure (a zero
  probability, or an amount that is zero, negative or not a number) is allowed unless the
  probability is critical.\<close>

theorem no_exposure_is_allowed:
  assumes "wf_f64 amount" and "\<not> critical (sane_probability p)"
    and "fmul (sane_probability p) (sane_amount amount) = Fin 0"
  shows "cbk_optimal_action (evaluate_cost_sensitive_decision p amount default_economic_policy) = Allow"
proof -
  let ?c = "action_cost default_economic_policy (sane_probability p) (sane_amount amount)"
  have "?c Allow = Fin 0" using assms(3) by (simp add: default_economic_policy_def)
  moreover have "\<not> flt (?c a) (Fin 0)" for a
    using default_cost_nonneg [OF assms(1), of p a] by (cases "?c a") auto
  ultimately show ?thesis using assms(2)
    by (simp add: optimal_action_eq select_action_def Let_def del: action_cost.simps)
qed

theorem no_exposure_is_allowed_witness:
  "cbk_optimal_action (evaluate_cost_sensitive_decision (to_f64 (3 / 10)) (Fin (-5)) default_economic_policy) = Allow"
proof -
  have a: "wf_f64 (Fin (-5))" using wf_of_int [of "-5"] by simp
  have b: "\<not> critical (sane_probability (to_f64 (3 / 10)))" by code_simp
  have c: "fmul (sane_probability (to_f64 (3 / 10))) (sane_amount (Fin (-5))) = Fin 0" by code_simp
  show ?thesis by (rule no_exposure_is_allowed [OF a b c])
qed

end
