(* ===== verification/Hash_Chain.thy ===== *)
theory Hash_Chain
  imports Prelude
begin

text \<open>
  The contract of a hash chain: every record carries the hash of its predecessor and its own,
  the hash of its content.  The content determines the previous hash, and equal hashes mean
  equal contents unless the hash function has a collision.  Proved from it, for any chain: an
  extension of a valid chain is valid, and two valid chains of one length that end in the same
  hash have the same contents (so a ledger is tamper evident against a remembered head).
\<close>

fun valid_from :: "('r \<Rightarrow> 'h) \<Rightarrow> ('r \<Rightarrow> 'h) \<Rightarrow> ('r \<Rightarrow> 'h) \<Rightarrow> 'h \<Rightarrow> 'r list \<Rightarrow> bool" where
  "valid_from prev stored hash_of g [] = True"
| "valid_from prev stored hash_of g (r # rs) =
     (prev r = g \<and> hash_of r = stored r \<and> valid_from prev stored hash_of (stored r) rs)"

fun head_from :: "('r \<Rightarrow> 'h) \<Rightarrow> 'h \<Rightarrow> 'r list \<Rightarrow> 'h" where
  "head_from stored g [] = g"
| "head_from stored g (r # rs) = head_from stored (stored r) rs"

lemma head_from_append: "head_from st g (xs @ [r]) = st r"
  by (induction xs arbitrary: g) simp_all

lemma valid_from_append:
  "valid_from p st h g (xs @ ys) \<longleftrightarrow> valid_from p st h g xs \<and> valid_from p st h (head_from st g xs) ys"
  by (induction xs arbitrary: g) auto

lemma valid_from_take: "valid_from p st h g xs \<Longrightarrow> valid_from p st h g (take n xs)"
  using valid_from_append [of p st h g "take n xs" "drop n xs"] by simp

locale hash_chain =
  fixes prev stored hash_of :: "'r \<Rightarrow> 'h"
    and content :: "'r \<Rightarrow> 'c"
    and hashes :: "'h set"
    and collision :: bool
  assumes hash_eqD: "hash_of r = hash_of r' \<Longrightarrow> content r = content r' \<or> collision"
    and hash_in: "hash_of r \<in> hashes"
    and content_prev: "content r = content r' \<Longrightarrow> prev r \<in> hashes \<Longrightarrow> prev r' \<in> hashes \<Longrightarrow>
      prev r = prev r'"
begin

lemma head_in: "valid_from prev stored hash_of g xs \<Longrightarrow> g \<in> hashes \<Longrightarrow> head_from stored g xs \<in> hashes"
proof (induction xs arbitrary: g)
  case (Cons r rs)
  then have "stored r \<in> hashes" using hash_in [of r] by simp
  with Cons show ?case by simp
qed simp

lemma same_head_same_content:
  assumes "valid_from prev stored hash_of g xs" "valid_from prev stored hash_of g ys"
    and "length xs = length ys" "head_from stored g xs = head_from stored g ys" "g \<in> hashes"
  shows "map content xs = map content ys \<or> collision"
  using assms
proof (induction xs arbitrary: ys rule: rev_induct)
  case Nil
  then show ?case by simp
next
  case (snoc x xs)
  obtain zs y where ys: "ys = zs @ [y]"
    using snoc.prems(3) by (cases ys rule: rev_cases) auto
  have vx: "valid_from prev stored hash_of g xs" and vz: "valid_from prev stored hash_of g zs"
    and hx: "hash_of x = stored x" "prev x = head_from stored g xs"
    and hy: "hash_of y = stored y" "prev y = head_from stored g zs"
    using snoc.prems(1,2) by (simp_all add: ys valid_from_append)
  have "hash_of x = hash_of y" using snoc.prems(4) hx hy by (simp add: ys head_from_append)
  then have c: "content x = content y \<or> collision" by (rule hash_eqD)
  have "content x = content y \<Longrightarrow> head_from stored g xs = head_from stored g zs"
    using content_prev [of x y] hx(2) hy(2) head_in [OF vx snoc.prems(5)] head_in [OF vz snoc.prems(5)]
    by simp
  then have "map content xs = map content zs \<or> collision"
    using c snoc.IH [OF vx vz _ _ snoc.prems(5)] snoc.prems(3) by (auto simp: ys)
  with c show ?case by (auto simp: ys)
qed

end

end
