(* ===== verification/Decision_Audit.thy ===== *)
theory Decision_Audit
  imports Hash_Chain Sha256 Go_Float
begin

text \<open>
  The decision ledger, \<open>internal/governance/decision_audit.go\<close>: an append-only chain of
  records, each with the SHA-256 digest of its predecessor's hash and of part of its own fields.
  The text that is hashed joins the fields with colons; the hexadecimal hash in front has a
  fixed length, so it can always be read back.
\<close>

record decision_record =
  dr_index :: int
  dr_decision_id :: string
  dr_request_hash :: string
  dr_model_version :: string
  dr_feature_contract :: string
  dr_risk_score :: f64
  dr_decision :: string
  dr_explanation_id :: string
  dr_policy_version :: string
  dr_timestamp :: gotime
  dr_previous_hash :: string
  dr_record_hash :: string

record audit_trail =
  at_records :: "decision_record list"
  at_current_hash :: string

definition hash_input :: "string \<Rightarrow> string \<Rightarrow> string \<Rightarrow> string \<Rightarrow> f64 \<Rightarrow> gotime \<Rightarrow> string" where
  "hash_input prev_hash req_hash decision_id decision score ts =
     prev_hash @ '':'' @ req_hash @ '':'' @ decision_id @ '':'' @ decision @ '':'' @
     fmt_fixed 4 score @ '':'' @ itoa ts"

definition compute_decision_hash ::
  "string \<Rightarrow> string \<Rightarrow> string \<Rightarrow> string \<Rightarrow> f64 \<Rightarrow> gotime \<Rightarrow> string" where
  "compute_decision_hash prev_hash req_hash decision_id decision score ts =
     sha256_hex (hash_input prev_hash req_hash decision_id decision score ts)"

definition genesis_hash :: string where
  "genesis_hash = replicate 64 (CHR ''0'')"

definition new_audit_trail :: audit_trail where
  "new_audit_trail = \<lparr>at_records = [], at_current_hash = genesis_hash\<rparr>"

record append_args =
  aa_decision_id :: string
  aa_req_hash :: string
  aa_model_ver :: string
  aa_feature_contract :: string
  aa_decision :: string
  aa_explanation_id :: string
  aa_policy_ver :: string
  aa_score :: f64

definition append_decision :: "append_args \<times> gotime \<Rightarrow> audit_trail \<Rightarrow> audit_trail" where
  "append_decision = (\<lambda>(a, now) t.
     (let prev = at_current_hash t;
          h = compute_decision_hash prev (aa_req_hash a) (aa_decision_id a) (aa_decision a) (aa_score a) now
      in t\<lparr>at_records := at_records t @
            [\<lparr>dr_index = int (length (at_records t)), dr_decision_id = aa_decision_id a,
              dr_request_hash = aa_req_hash a, dr_model_version = aa_model_ver a,
              dr_feature_contract = aa_feature_contract a, dr_risk_score = aa_score a,
              dr_decision = aa_decision a, dr_explanation_id = aa_explanation_id a,
              dr_policy_version = aa_policy_ver a, dr_timestamp = now,
              dr_previous_hash = prev, dr_record_hash = h\<rparr>],
           at_current_hash := h\<rparr>))"

definition recomputed_hash :: "decision_record \<Rightarrow> string" where
  "recomputed_hash r = compute_decision_hash (dr_previous_hash r) (dr_request_hash r)
     (dr_decision_id r) (dr_decision r) (dr_risk_score r) (dr_timestamp r)"

datatype integrity_error = ChainBroken nat string string | RecordTampered nat string string

fun verify_from :: "nat \<Rightarrow> string \<Rightarrow> decision_record list \<Rightarrow> integrity_error option" where
  "verify_from i expected [] = None"
| "verify_from i expected (r # rs) =
     (if dr_previous_hash r \<noteq> expected then Some (ChainBroken i expected (dr_previous_hash r))
      else if recomputed_hash r \<noteq> dr_record_hash r
      then Some (RecordTampered i (recomputed_hash r) (dr_record_hash r))
      else verify_from (Suc i) (dr_record_hash r) rs)"

definition verify_integrity :: "audit_trail \<Rightarrow> integrity_error option" where
  "verify_integrity t = verify_from 0 genesis_hash (at_records t)"

definition trail_count :: "audit_trail \<Rightarrow> nat" where
  "trail_count t = length (at_records t)"

definition get_head_hash :: "audit_trail \<Rightarrow> string" where
  "get_head_hash t = at_current_hash t"

record trail_status =
  ts_status :: string
  ts_integrity_verified :: bool
  ts_total_decisions_audited :: nat
  ts_head_hash :: string
  ts_error :: "integrity_error option"

definition trail_get_status :: "audit_trail \<Rightarrow> trail_status" where
  "trail_get_status t = \<lparr>ts_status = ''PASS'', ts_integrity_verified = (verify_integrity t = None),
     ts_total_decisions_audited = length (at_records t), ts_head_hash = at_current_hash t,
     ts_error = verify_integrity t\<rparr>"

subsection \<open>The ledger is a hash chain\<close>

text \<open>
  The text a record's hash covers; the hexadecimal hash in front of it has 64 characters, which
  is what lets the previous hash be read back from it.
\<close>

definition record_text :: "decision_record \<Rightarrow> string" where
  "record_text r = hash_input (dr_previous_hash r) (dr_request_hash r) (dr_decision_id r)
     (dr_decision r) (dr_risk_score r) (dr_timestamp r)"

definition hex_hashes :: "string set" where
  "hex_hashes = {h. length h = 64}"

lemma recomputed_hash_text: "recomputed_hash r = sha256_hex (record_text r)"
  by (simp add: recomputed_hash_def compute_decision_hash_def record_text_def)

lemma verify_from_valid:
  "verify_from i g rs = None \<longleftrightarrow> valid_from dr_previous_hash dr_record_hash recomputed_hash g rs"
  by (induction rs arbitrary: i g) auto

lemma genesis_in_hashes: "genesis_hash \<in> hex_hashes"
  by (simp add: genesis_hash_def hex_hashes_def)

interpretation ledger: hash_chain
  dr_previous_hash dr_record_hash recomputed_hash record_text hex_hashes sha256_collision
proof unfold_locales
  show "recomputed_hash r = recomputed_hash r' \<Longrightarrow> record_text r = record_text r' \<or> sha256_collision"
    for r r' unfolding recomputed_hash_text by (rule sha256_hex_eqD)
  show "recomputed_hash r \<in> hex_hashes" for r
    by (simp add: recomputed_hash_text hex_hashes_def)
  show "dr_previous_hash r = dr_previous_hash r'"
    if "record_text r = record_text r'" "dr_previous_hash r \<in> hex_hashes" "dr_previous_hash r' \<in> hex_hashes"
    for r r' using that by (simp add: record_text_def hash_input_def hex_hashes_def append_eq_append_conv)
qed

lemma sep_cancel_left:
  "c \<notin> set a \<Longrightarrow> c \<notin> set b \<Longrightarrow> a @ c # s = b @ c # t \<longleftrightarrow> a = b \<and> s = t"
proof (induction a arbitrary: b)
  case Nil
  then show ?case by (cases b) auto
next
  case (Cons x a)
  then show ?case by (cases b) auto
qed

lemma sep_cancel_right:
  assumes "c \<notin> set s" "c \<notin> set t" shows "a @ c # s = b @ c # t \<longleftrightarrow> a = b \<and> s = t"
proof -
  have "a @ c # s = b @ c # t \<longleftrightarrow> rev s @ c # rev a = rev t @ c # rev b"
    by (metis append.left_neutral append_Cons append_assoc rev.simps(2) rev_append rev_rev_ident)
  also have "\<dots> \<longleftrightarrow> a = b \<and> s = t" using assms by (subst sep_cancel_left) auto
  finally show ?thesis .
qed

lemma colon_not_in_itoa: "CHR '':'' \<notin> set (itoa i)"
  using itoa_chars [of "CHR '':''" i] by (auto simp: is_digit_def)

lemma hash_input_inj:
  assumes "hash_input p q d x s n = hash_input p' q' d' x' s' n'" "length p = length p'"
    and "\<forall>f \<in> {q, d, x, q', d', x'}. CHR '':'' \<notin> set f"
  shows "p = p' \<and> q = q' \<and> d = d' \<and> x = x' \<and> fmt_fixed 4 s = fmt_fixed 4 s' \<and> n = n'"
proof -
  have "p = p' \<and> q @ '':'' @ d @ '':'' @ x @ '':'' @ fmt_fixed 4 s @ '':'' @ itoa n
        = q' @ '':'' @ d' @ '':'' @ x' @ '':'' @ fmt_fixed 4 s' @ '':'' @ itoa n'"
    using assms(1,2) by (simp add: hash_input_def)
  then have p: "p = p'" and q: "q = q'" and dd: "d = d'" and x: "x = x'"
    and tl: "fmt_fixed 4 s @ CHR '':'' # itoa n = fmt_fixed 4 s' @ CHR '':'' # itoa n'"
    using assms(3) by (simp_all add: sep_cancel_left)
  have "fmt_fixed 4 s = fmt_fixed 4 s'" "n = n'"
    using tl itoa_inj by (auto simp: sep_cancel_right [OF colon_not_in_itoa colon_not_in_itoa])
  with p q dd x show ?thesis by simp
qed

lemma run_invariant:
  "verify_integrity (fold append_decision as new_audit_trail) = None \<and>
   head_from dr_record_hash genesis_hash (at_records (fold append_decision as new_audit_trail))
     = at_current_hash (fold append_decision as new_audit_trail) \<and>
   map dr_index (at_records (fold append_decision as new_audit_trail)) = map int [0..<length as]"
proof (induction as rule: rev_induct)
  case Nil
  then show ?case by (simp add: verify_integrity_def new_audit_trail_def)
next
  case (snoc a as)
  have "length (at_records (fold append_decision as new_audit_trail)) = length as"
    using snoc by (metis length_map length_upt minus_nat.diff_0)
  with snoc show ?case
    by (auto simp: append_decision_def Let_def verify_integrity_def verify_from_valid valid_from_append
      head_from_append recomputed_hash_def split: prod.splits)
qed

lemma run_fields:
  "map (\<lambda>r. (dr_decision_id r, dr_request_hash r, dr_decision r, dr_risk_score r, dr_timestamp r))
       (at_records (fold append_decision as t))
   = map (\<lambda>r. (dr_decision_id r, dr_request_hash r, dr_decision r, dr_risk_score r, dr_timestamp r)) (at_records t)
     @ map (\<lambda>(a, n). (aa_decision_id a, aa_req_hash a, aa_decision a, aa_score a, n)) as"
  by (induction as arbitrary: t) (auto simp: append_decision_def Let_def)

definition hashed_fields :: "decision_record \<Rightarrow> string \<times> string \<times> string \<times> string \<times> string \<times> gotime" where
  "hashed_fields r = (dr_previous_hash r, dr_request_hash r, dr_decision_id r, dr_decision r,
     fmt_fixed 4 (dr_risk_score r), dr_timestamp r)"

definition colon_free :: "decision_record \<Rightarrow> bool" where
  "colon_free r = list_all (\<lambda>f. CHR '':'' \<notin> set f) [dr_request_hash r, dr_decision_id r, dr_decision r]"

definition ledger_head :: "audit_trail \<Rightarrow> string" where
  "ledger_head t = head_from dr_record_hash genesis_hash (at_records t)"

lemma valid_prev_hash:
  "valid_from dr_previous_hash dr_record_hash recomputed_hash g rs \<Longrightarrow> g \<in> hex_hashes \<Longrightarrow>
   r \<in> set rs \<Longrightarrow> length (dr_previous_hash r) = 64"
proof (induction rs arbitrary: g)
  case (Cons x xs)
  then have "dr_record_hash x \<in> hex_hashes" using ledger.hash_in [of x] by simp
  with Cons show ?case by (auto simp: hex_hashes_def)
qed simp

lemma record_text_fields:
  assumes "record_text r = record_text r'" "length (dr_previous_hash r) = length (dr_previous_hash r')"
    and "colon_free r" "colon_free r'"
  shows "hashed_fields r = hashed_fields r'"
  using hash_input_inj [OF assms(1,2)[unfolded record_text_def]] assms(3,4)
  by (auto simp: hashed_fields_def colon_free_def)

lemma map_text_fields:
  assumes "map record_text rs = map record_text rs'"
    and "\<forall>r \<in> set rs \<union> set rs'. colon_free r \<and> length (dr_previous_hash r) = 64"
  shows "map hashed_fields rs = map hashed_fields rs'"
  using assms
  by (auto simp: list_eq_iff_nth_eq intro!: record_text_fields)

subsection \<open>Properties of the ledger\<close>

text \<open>
  whatever sequence of decisions is appended, at whatever times, the ledger verifies, its
  indices count from zero, and the records carry the decisions in the order they were appended,
  each with the fields it was given.
\<close>

theorem ledger_run_verifies:
  "verify_integrity (fold append_decision as new_audit_trail) = None \<and>
   ts_integrity_verified (trail_get_status (fold append_decision as new_audit_trail)) \<and>
   trail_count (fold append_decision as new_audit_trail) = length as \<and>
   get_head_hash (fold append_decision as new_audit_trail) = ledger_head (fold append_decision as new_audit_trail) \<and>
   map dr_index (at_records (fold append_decision as new_audit_trail)) = map int [0..<length as] \<and>
   map (\<lambda>r. (dr_decision_id r, dr_request_hash r, dr_decision r, dr_risk_score r, dr_timestamp r))
       (at_records (fold append_decision as new_audit_trail))
   = map (\<lambda>(a, n). (aa_decision_id a, aa_req_hash a, aa_decision a, aa_score a, n)) as"
proof -
  have "length (at_records (fold append_decision as new_audit_trail)) = length as"
    using run_invariant [of as] by (metis length_map length_upt minus_nat.diff_0)
  moreover have "at_records new_audit_trail = []" by (simp add: new_audit_trail_def)
  ultimately show ?thesis
    using run_invariant [of as] run_fields [of as new_audit_trail]
    by (simp add: trail_get_status_def trail_count_def get_head_hash_def ledger_head_def)
qed


definition sample_append :: append_args where
  "sample_append = \<lparr>aa_decision_id = ''dec-1'', aa_req_hash = ''ab12'', aa_model_ver = ''v1'',
     aa_feature_contract = ''fc'', aa_decision = ''ALLOW'', aa_explanation_id = ''e'', aa_policy_ver = ''p'',
     aa_score = Fin (1/2)\<rparr>"

lemma unhashed_fields_verify:
  "verify_from i g (map (\<lambda>r. r\<lparr>dr_index := ix r, dr_model_version := mv r, dr_feature_contract := fc r,
     dr_explanation_id := ex r, dr_policy_version := pv r\<rparr>) rs) = verify_from i g rs"
  by (induction rs arbitrary: i g) (auto simp: recomputed_hash_def)

definition sample_ledger :: audit_trail where
  "sample_ledger = fold append_decision [(sample_append, 5)] new_audit_trail"

definition rewritten_ledger :: audit_trail where
  "rewritten_ledger =
     sample_ledger\<lparr>at_records := map (\<lambda>r. r\<lparr>dr_policy_version := ''other''\<rparr>) (at_records sample_ledger)\<rparr>"


definition rewrite_unhashed ::
  "(decision_record \<Rightarrow> int) \<Rightarrow> (decision_record \<Rightarrow> string) \<Rightarrow> (decision_record \<Rightarrow> string) \<Rightarrow>
   (decision_record \<Rightarrow> string) \<Rightarrow> (decision_record \<Rightarrow> string) \<Rightarrow> decision_record \<Rightarrow> decision_record" where
  "rewrite_unhashed ix mv fc ex pv r = r\<lparr>dr_index := ix r, dr_model_version := mv r,
     dr_feature_contract := fc r, dr_explanation_id := ex r, dr_policy_version := pv r\<rparr>"

text \<open>
  what verification does not cover.  Dropping any number of records from the end of a ledger
  leaves one that verifies with status \<open>PASS\<close> (its remembered head is not compared with the last
  record), and so does rewriting the index, model version, feature contract, explanation id or policy
  version of any records.
\<close>

theorem ledger_blind_spots:
  "verify_integrity (fold append_decision as new_audit_trail
     \<lparr>at_records := map (rewrite_unhashed ix mv fc ex pv)
        (take n (at_records (fold append_decision as new_audit_trail)))\<rparr>) = None \<and>
   ts_status (trail_get_status (fold append_decision as new_audit_trail
     \<lparr>at_records := map (rewrite_unhashed ix mv fc ex pv)
        (take n (at_records (fold append_decision as new_audit_trail)))\<rparr>)) = ''PASS''"
proof -
  have "verify_from 0 genesis_hash (take n (at_records (fold append_decision as new_audit_trail))) = None"
    using run_invariant [of as]
    by (auto simp: verify_integrity_def verify_from_valid intro: valid_from_take)
  then show ?thesis
    using unhashed_fields_verify [where ix = ix and mv = mv and fc = fc and ex = ex and pv = pv]
    by (simp add: verify_integrity_def rewrite_unhashed_def [abs_def] trail_get_status_def)
qed

end
