(* ===== verification/Tenant_Context.thy ===== *)
theory Tenant_Context
  imports Prelude
begin

text \<open>
  The resolution of a request's tenant, \<open>internal/tenant/tenant_context.go\<close>: the authenticated
  identity of the request context first, then the validated header, then the default tenant.
\<close>

record identity =
  id_tenant :: string
  id_source :: string

record tenant_request =
  tr_context :: "identity option"
  tr_header :: string

definition default_tenant_id :: string where
  "default_tenant_id = ''00000000-0000-0000-0000-000000000001''"

text \<open>The pattern \<open>^[a-zA-Z0-9_-]{1,64}$\<close>.\<close>

definition tenant_char :: "char \<Rightarrow> bool" where
  "tenant_char c \<longleftrightarrow> is_digit c \<or> c = CHR ''_'' \<or> c = CHR ''-'' \<or>
     (let n = of_char c :: nat in 65 \<le> n \<and> n \<le> 90 \<or> 97 \<le> n \<and> n \<le> 122)"

definition valid_tenant :: "string \<Rightarrow> bool" where
  "valid_tenant s \<longleftrightarrow> 1 \<le> length s \<and> length s \<le> 64 \<and> list_all tenant_char s"

definition fallback_identity :: identity where
  "fallback_identity = \<lparr>id_tenant = default_tenant_id, id_source = ''DEFAULT_FALLBACK''\<rparr>"

text \<open>The refused header is the error.\<close>

definition resolve_tenant :: "tenant_request option \<Rightarrow> string + identity" where
  "resolve_tenant r =
     (case r of None \<Rightarrow> Inr fallback_identity
      | Some q \<Rightarrow>
          (case tr_context q of
             Some i \<Rightarrow> if id_tenant i \<noteq> '''' then Inr i
               else (let raw = trim_space (tr_header q) in
                 if raw = '''' then Inr fallback_identity
                 else if \<not> valid_tenant raw then Inl raw
                 else Inr \<lparr>id_tenant = raw, id_source = ''DEMO_HEADER''\<rparr>)
           | None \<Rightarrow> (let raw = trim_space (tr_header q) in
                 if raw = '''' then Inr fallback_identity
                 else if \<not> valid_tenant raw then Inl raw
                 else Inr \<lparr>id_tenant = raw, id_source = ''DEMO_HEADER''\<rparr>)))"

definition resolve_tenant_or_fallback :: "tenant_request option \<Rightarrow> identity" where
  "resolve_tenant_or_fallback r =
     (case resolve_tenant r of Inl e \<Rightarrow> fallback_identity
      | Inr i \<Rightarrow> if id_tenant i = '''' then fallback_identity else i)"

text \<open>The middleware answers a refused header with status 400, and binds the identity otherwise.\<close>

definition tenant_middleware :: "tenant_request \<Rightarrow> string + tenant_request" where
  "tenant_middleware q =
     (case resolve_tenant (Some q) of Inl raw \<Rightarrow> Inl raw | Inr i \<Rightarrow> Inr (q\<lparr>tr_context := Some i\<rparr>))"

lemma default_tenant_valid: "valid_tenant default_tenant_id"
  by code_simp

lemma tenant_char_no_colon: "\<not> tenant_char (CHR '':'')"
  by code_simp

lemma valid_tenant_no_colon: "valid_tenant s \<Longrightarrow> CHR '':'' \<notin> set s"
  using tenant_char_no_colon by (auto simp: valid_tenant_def list_all_iff)

lemma resolved_tenant_cases:
  assumes "i = resolve_tenant_or_fallback (Some q)"
  shows "tr_context q = Some i \<and> id_tenant i \<noteq> '''' \<or> valid_tenant (id_tenant i)"
  using assms default_tenant_valid
  by (auto simp: resolve_tenant_or_fallback_def resolve_tenant_def fallback_identity_def Let_def
      split: option.splits if_splits sum.splits)


definition spoofing_request :: tenant_request where
  "spoofing_request = \<lparr>tr_context = Some \<lparr>id_tenant = ''acme'', id_source = ''AUTHENTICATED_PRINCIPAL''\<rparr>,
     tr_header = ''victim''\<rparr>"


end
