(* ===== verification/Device_Identity.thy ===== *)
theory Device_Identity
  imports Sha256 Tenant_Context
begin

text \<open>
  Device telemetry, \<open>internal/features/device.go\<close>: fingerprints sent by clients are validated, trimmed and
  hashed with the tenant.  \<open>runes_of\<close> is the decoding of UTF-8 that Go's \<open>range\<close> over a valid string does.
\<close>

subsection \<open>UTF-8\<close>

definition continuation :: "nat \<Rightarrow> bool" where "continuation b \<longleftrightarrow> 128 \<le> b \<and> b < 192"

text \<open>The range of the second byte depends on the first: no overlong forms, no surrogates, nothing above U+10FFFF.\<close>

definition second_ok :: "nat \<Rightarrow> nat \<Rightarrow> bool" where
  "second_ok a b \<longleftrightarrow> (if a = 224 then 160 \<le> b \<and> b < 192 else if a = 237 then 128 \<le> b \<and> b < 160
     else if a = 240 then 144 \<le> b \<and> b < 192 else if a = 244 then 128 \<le> b \<and> b < 144 else continuation b)"

fun runes_of :: "nat list \<Rightarrow> nat list option" where
  "runes_of [] = Some []"
| "runes_of (a # bs) =
     (if a < 128 then map_option (Cons a) (runes_of bs)
      else if 194 \<le> a \<and> a < 224 then
        (case bs of b # cs \<Rightarrow> if second_ok a b then map_option (Cons ((a - 192) * 64 + (b - 128))) (runes_of cs) else None
          | _ \<Rightarrow> None)
      else if 224 \<le> a \<and> a < 240 then
        (case bs of b # c # ds \<Rightarrow> if second_ok a b \<and> continuation c
            then map_option (Cons ((a - 224) * 4096 + (b - 128) * 64 + (c - 128))) (runes_of ds) else None
          | _ \<Rightarrow> None)
      else if 240 \<le> a \<and> a < 245 then
        (case bs of b # c # d # es \<Rightarrow> if second_ok a b \<and> continuation c \<and> continuation d
            then map_option (Cons ((a - 240) * 262144 + (b - 128) * 4096 + (c - 128) * 64 + (d - 128))) (runes_of es) else None
          | _ \<Rightarrow> None)
      else None)"

definition utf8_runes :: "string \<Rightarrow> nat list option" where
  "utf8_runes s = runes_of (map of_char s)"

text \<open>\<open>unicode.IsControl\<close>: the C0 and C1 controls and DEL.\<close>

definition is_control :: "nat \<Rightarrow> bool" where
  "is_control r \<longleftrightarrow> r < 32 \<or> 127 \<le> r \<and> r < 160"

subsection \<open>Identities\<close>

datatype device_status = DevValid | DevMissing | DevEmpty | DevOversized | DevInvalid

fun device_status_string :: "device_status \<Rightarrow> string" where
  "device_status_string DevValid = ''VALID''" | "device_status_string DevMissing = ''MISSING''"
| "device_status_string DevEmpty = ''EMPTY''" | "device_status_string DevOversized = ''OVERSIZED''"
| "device_status_string DevInvalid = ''INVALID_CONTROL_CHARS''"

record device_identity =
  di_tenant_id :: string
  di_device_id :: string
  di_canonical_fingerprint :: string
  di_raw_fingerprint :: string
  di_status :: device_status
  di_is_valid :: bool
  di_validation_error :: string

definition max_fingerprint_length :: nat where "max_fingerprint_length = 256"

definition err_missing :: string where "err_missing = ''device_fingerprint is missing''"
definition err_empty :: string where "err_empty = ''device_fingerprint is empty after trimming whitespace''"
definition err_oversized :: string where
  "err_oversized = ''device_fingerprint exceeds maximum allowed length of 256 characters''"
definition err_invalid :: string where
  "err_invalid = ''device_fingerprint contains invalid control characters or embedded null bytes''"

definition masked_fingerprint :: "device_identity \<Rightarrow> string" where
  "masked_fingerprint d =
     (if \<not> di_is_valid d \<or> di_canonical_fingerprint d = '''' then ''fp_none''
      else (let fp = di_canonical_fingerprint d in
        if length fp \<le> 8 then ''fp_****'' else ''fp_****_'' @ drop (length fp - 4) fp))"

definition hash_device_id :: "string \<Rightarrow> string \<Rightarrow> string" where
  "hash_device_id tenant fp = sha256_hex (tenant @ '':'' @ fp)"

definition rejected_identity :: "string \<Rightarrow> device_status \<Rightarrow> string \<Rightarrow> device_identity" where
  "rejected_identity tenant st err = \<lparr>di_tenant_id = tenant, di_device_id = '''', di_canonical_fingerprint = '''',
     di_raw_fingerprint = '''', di_status = st, di_is_valid = False, di_validation_error = err\<rparr>"

definition parse_device_identity :: "string \<Rightarrow> string \<Rightarrow> device_identity" where
  "parse_device_identity tenant0 raw =
     (let tenant = (if tenant0 = '''' then default_tenant_id else tenant0); trimmed = trim_space raw in
      if raw = '''' then rejected_identity tenant DevMissing err_missing
      else if max_fingerprint_length < length raw then rejected_identity tenant DevOversized err_oversized
      else if trimmed = '''' then rejected_identity tenant DevEmpty err_empty
      else (case utf8_runes trimmed of
          None \<Rightarrow> rejected_identity tenant DevInvalid err_invalid
        | Some rs \<Rightarrow>
            if \<exists>r \<in> set rs. is_control r \<or> r = 65533 then rejected_identity tenant DevInvalid err_invalid
            else \<lparr>di_tenant_id = tenant, di_device_id = hash_device_id tenant trimmed, di_canonical_fingerprint = trimmed,
              di_raw_fingerprint = raw, di_status = DevValid, di_is_valid = True, di_validation_error = ''''\<rparr>))"

subsection \<open>Properties\<close>

lemma parse_valid_iff: "di_is_valid (parse_device_identity t raw) \<longleftrightarrow> di_status (parse_device_identity t raw) = DevValid"
  by (simp add: parse_device_identity_def rejected_identity_def Let_def split: option.split)

lemma parse_device_id:
  "di_device_id (parse_device_identity t raw) \<noteq> '''' \<longleftrightarrow> di_is_valid (parse_device_identity t raw)"
proof -
  have "length (hash_device_id x y) = 64" for x y by (simp add: hash_device_id_def)
  then have "hash_device_id x y \<noteq> ''''" for x y by (metis list.size(3) zero_neq_numeral)
  then show ?thesis by (simp add: parse_device_identity_def rejected_identity_def Let_def split: option.split)
qed

lemma before_colon: "CHR '':'' \<notin> set x \<Longrightarrow> takeWhile (\<lambda>c. c \<noteq> CHR '':'') (x @ '':'' @ y) = x"
  by (induction x) auto

text \<open>
  devices of different tenants are different.  For tenants without a colon in their name, and up to a
  collision of SHA-256, equal device identifiers mean the same tenant and the same trimmed fingerprint.
\<close>

theorem device_id_isolates_tenants:
  assumes "valid_tenant t" "valid_tenant u"
    and "di_is_valid (parse_device_identity t raw)" "di_device_id (parse_device_identity t raw) = di_device_id (parse_device_identity u raw')"
  shows "t = u \<and> trim_space raw = trim_space raw' \<or> sha256_collision"
proof -
  have id: "di_device_id (parse_device_identity x y) = hash_device_id x (trim_space y)"
    if "di_is_valid (parse_device_identity x y)" "x \<noteq> ''''" for x y
    using that by (auto simp: parse_device_identity_def rejected_identity_def Let_def split: option.splits if_splits)
  have ne: "t \<noteq> ''''" "u \<noteq> ''''" using assms(1,2) by (auto simp: valid_tenant_def)
  have "di_is_valid (parse_device_identity u raw')" using assms(3,4) by (metis parse_device_id)
  then have "hash_device_id t (trim_space raw) = hash_device_id u (trim_space raw')"
    using id assms(3,4) ne by metis
  then have "t @ '':'' @ trim_space raw = u @ '':'' @ trim_space raw' \<or> sha256_collision"
    unfolding hash_device_id_def by (rule sha256_hex_eqD)
  moreover have "t = u \<and> trim_space raw = trim_space raw'" if "t @ '':'' @ trim_space raw = u @ '':'' @ trim_space raw'"
  proof -
    have c: "CHR '':'' \<notin> set t" "CHR '':'' \<notin> set u" using assms(1,2) valid_tenant_no_colon by auto
    have "t = u" using before_colon [OF c(1)] before_colon [OF c(2)] that by metis
    then show ?thesis using that by simp
  qed
  ultimately show ?thesis by blast
qed

lemma device_id_isolates_tenants_witness:
  "''acme'' = ''acme'' \<and> trim_space '' fp-1234 '' = trim_space ''fp-1234'' \<or> sha256_collision"
proof (rule device_id_isolates_tenants [of "''acme''" "''acme''" "'' fp-1234 ''" "''fp-1234''"])
  show "valid_tenant ''acme''" by code_simp
  then show "valid_tenant ''acme''" .
  have t: "trim_space '' fp-1234 '' = ''fp-1234''" "trim_space ''fp-1234'' = ''fp-1234''" by code_simp+
  have r: "utf8_runes ''fp-1234'' = Some [102, 112, 45, 49, 50, 51, 52]" by code_simp
  show "di_is_valid (parse_device_identity ''acme'' '' fp-1234 '')"
    by (simp add: parse_device_identity_def t r is_control_def max_fingerprint_length_def Let_def)
  show "di_device_id (parse_device_identity ''acme'' '' fp-1234 '') = di_device_id (parse_device_identity ''acme'' ''fp-1234'')"
    by (simp add: parse_device_identity_def t r is_control_def max_fingerprint_length_def Let_def)
qed

end
