(* ===== verification/Device_Velocity.thy ===== *)
theory Device_Velocity
  imports Go_Value Go_Duration "HOL-Library.Multiset"
begin

text \<open>
  Velocity of a device, \<open>internal/features/device_velocity.go\<close>: every transaction is a member of a sorted set
  in Redis, and the features of all windows are computed from the members that one range query returns.
  The commands are data; what the server answers is an argument.
\<close>

subsection \<open>Commands\<close>

text \<open>The commands of \<open>go-redis\<close> that the feature stores put into their pipelines.\<close>

datatype redis_cmd =
    ZAdd string f64 string
  | ZRemRangeByScore string string string
  | ZRangeByScore string string string
  | ZCount string string string
  | ZCard string
  | Expire string duration
  | SetKey string string duration
  | SetNX string string duration
  | GetKey string
  | Exists string

definition unix_milli :: "gotime \<Rightarrow> int" where "unix_milli t = t div millisecond"

definition float_millis :: "gotime \<Rightarrow> string" where "float_millis t = fmt_fixed 6 (of_int64 (unix_milli t))"

subsection \<open>Types\<close>

datatype velocity_signal = VelNormal | VelLowSignal | VelSuspicious | VelHighSignal

fun velocity_signal_string :: "velocity_signal \<Rightarrow> string" where
  "velocity_signal_string VelNormal = ''NORMAL''" | "velocity_signal_string VelLowSignal = ''LOW_SIGNAL''"
| "velocity_signal_string VelSuspicious = ''SUSPICIOUS''" | "velocity_signal_string VelHighSignal = ''HIGH_SIGNAL''"

record velocity_thresholds =
  vt_tx10s_low :: int
  vt_tx10s_suspicious :: int
  vt_tx10s_high :: int
  vt_tx1m_low :: int
  vt_tx1m_suspicious :: int
  vt_tx1m_high :: int
  vt_tx5m_low :: int
  vt_tx5m_suspicious :: int
  vt_tx5m_high :: int
  vt_amount5m_low :: int
  vt_amount5m_suspicious :: int
  vt_amount5m_high :: int
  vt_acceleration_suspicious :: f64
  vt_acceleration_high :: f64

definition global_velocity_thresholds :: velocity_thresholds where
  "global_velocity_thresholds = \<lparr>vt_tx10s_low = 2, vt_tx10s_suspicious = 4, vt_tx10s_high = 8, vt_tx1m_low = 4,
     vt_tx1m_suspicious = 8, vt_tx1m_high = 15, vt_tx5m_low = 8, vt_tx5m_suspicious = 15, vt_tx5m_high = 30,
     vt_amount5m_low = 50000, vt_amount5m_suspicious = 200000, vt_amount5m_high = 500000,
     vt_acceleration_suspicious = Fin 4, vt_acceleration_high = Fin 8\<rparr>"

record velocity_features =
  vf_tx_count_10s :: int
  vf_tx_count_1m :: int
  vf_tx_count_5m :: int
  vf_tx_count_15m :: int
  vf_tx_count_1h :: int
  vf_tx_count_6h :: int
  vf_tx_count_24h :: int
  vf_amount_sum_10s :: int
  vf_amount_sum_1m :: int
  vf_amount_sum_5m :: int
  vf_amount_sum_15m :: int
  vf_amount_sum_1h :: int
  vf_amount_sum_6h :: int
  vf_amount_sum_24h :: int
  vf_avg_amount_1m :: f64
  vf_avg_amount_5m :: f64
  vf_avg_amount_1h :: f64
  vf_avg_amount_24h :: f64
  vf_max_amount_1h :: int
  vf_max_amount_24h :: int
  vf_tx_rate_10s :: f64
  vf_tx_rate_1m :: f64
  vf_tx_rate_5m :: f64
  vf_tx_rate_15m :: f64
  vf_tx_rate_1h :: f64
  vf_tx_acceleration_1m_15m :: f64
  vf_tx_acceleration_5m_1h :: f64
  vf_tx_acceleration_15m_1h :: f64
  vf_amount_acceleration_5m_1h :: f64
  vf_amount_acceleration_15m_1h :: f64
  vf_amount_concentration_5m_1h :: f64
  vf_amount_concentration_15m_24h :: f64
  vf_velocity_signal :: velocity_signal
  vf_is_degraded :: bool
  vf_degrade_reason :: string

text \<open>The zero value of the struct, with a signal and the marks of degradation.\<close>

definition plain_velocity :: "bool \<Rightarrow> string \<Rightarrow> velocity_features" where
  "plain_velocity degraded reason =
     \<lparr>vf_tx_count_10s = 0, vf_tx_count_1m = 0, vf_tx_count_5m = 0, vf_tx_count_15m = 0, vf_tx_count_1h = 0, vf_tx_count_6h = 0,
      vf_tx_count_24h = 0, vf_amount_sum_10s = 0, vf_amount_sum_1m = 0, vf_amount_sum_5m = 0, vf_amount_sum_15m = 0,
      vf_amount_sum_1h = 0, vf_amount_sum_6h = 0, vf_amount_sum_24h = 0, vf_avg_amount_1m = Fin 0, vf_avg_amount_5m = Fin 0,
      vf_avg_amount_1h = Fin 0, vf_avg_amount_24h = Fin 0, vf_max_amount_1h = 0, vf_max_amount_24h = 0, vf_tx_rate_10s = Fin 0,
      vf_tx_rate_1m = Fin 0, vf_tx_rate_5m = Fin 0, vf_tx_rate_15m = Fin 0, vf_tx_rate_1h = Fin 0,
      vf_tx_acceleration_1m_15m = Fin 0, vf_tx_acceleration_5m_1h = Fin 0, vf_tx_acceleration_15m_1h = Fin 0,
      vf_amount_acceleration_5m_1h = Fin 0, vf_amount_acceleration_15m_1h = Fin 0, vf_amount_concentration_5m_1h = Fin 0,
      vf_amount_concentration_15m_24h = Fin 0, vf_velocity_signal = VelNormal, vf_is_degraded = degraded, vf_degrade_reason = reason\<rparr>"

definition velocity_unavailable :: string where "velocity_unavailable = ''VELOCITY_FEATURE_STORE_UNAVAILABLE''"

subsection \<open>Members\<close>

definition str_index :: "char \<Rightarrow> string \<Rightarrow> nat option" where
  "str_index c s = (let p = takeWhile (\<lambda>d. d \<noteq> c) s in if length p < length s then Some (length p) else None)"

text \<open>The part after the last occurrence; \<open>None\<close> without one, and when nothing follows it.\<close>

definition after_last :: "char \<Rightarrow> string \<Rightarrow> string option" where
  "after_last c s = (let r = takeWhile (\<lambda>d. d \<noteq> c) (rev s) in if length r < length s \<and> r \<noteq> [] then Some (rev r) else None)"

definition member_millis :: "string \<Rightarrow> int" where
  "member_millis m =
     (case str_index (CHR ''_'') m of None \<Rightarrow> 0
      | Some i \<Rightarrow> (case parse_int64 (take i m) of None \<Rightarrow> 0 | Some nano \<Rightarrow> go_div nano 1000000))"

definition member_amount :: "string \<Rightarrow> int" where
  "member_amount m =
     (case after_last (CHR '':'') m of None \<Rightarrow> 0
      | Some t \<Rightarrow> (case parse_int64 t of None \<Rightarrow> 0 | Some a \<Rightarrow> a))"

definition velocity_member :: "gotime \<Rightarrow> string \<Rightarrow> int \<Rightarrow> string" where
  "velocity_member now tx amount = itoa now @ ''_'' @ tx @ '':'' @ itoa amount"

subsection \<open>Windows\<close>

text \<open>Count, sum and greatest positive amount of the members not older than a cutoff; the sum is one of 64 bits.\<close>

definition window_count :: "int \<Rightarrow> string list \<Rightarrow> int" where
  "window_count cutoff ms = int (length (filter (\<lambda>m. cutoff \<le> member_millis m) ms))"

definition add64 :: "int \<Rightarrow> int \<Rightarrow> int" where "add64 x y = signed_take_bit 63 (x + y)"

definition window_sum :: "int \<Rightarrow> string list \<Rightarrow> int" where
  "window_sum cutoff ms = foldl add64 0 (map member_amount (filter (\<lambda>m. cutoff \<le> member_millis m) ms))"

definition window_max :: "int \<Rightarrow> string list \<Rightarrow> int" where
  "window_max cutoff ms = foldl (\<lambda>b a. if b < a then a else b) 0 (map member_amount (filter (\<lambda>m. cutoff \<le> member_millis m) ms))"

definition avg_amount :: "int \<Rightarrow> int \<Rightarrow> f64" where
  "avg_amount s c = (if 0 < c then fdiv (of_int64 s) (of_int64 c) else Fin 0)"

definition tx_rate :: "int \<Rightarrow> rat \<Rightarrow> f64" where
  "tx_rate c secs = fdiv (of_int64 c) (Fin secs)"

definition calc_accel :: "int \<Rightarrow> int \<Rightarrow> rat \<Rightarrow> f64" where
  "calc_accel short long ratio =
     (let expected0 = fdiv (of_int64 long) (Fin ratio); eps = to_f64 (1 / 1000);
          expected = (if flt expected0 eps then eps else expected0);
          res = fdiv (of_int64 short) expected in
      if is_nan res \<or> is_inf res \<or> flt (Fin 1000) res then Fin 1000
      else if flt res (Fin 0) then Fin 0
      else fdiv (fround (fmul res (Fin 100))) (Fin 100))"

definition concentration :: "int \<Rightarrow> int \<Rightarrow> f64" where
  "concentration short long = (if 0 < long then fmin (Fin 1) (fdiv (of_int64 short) (of_int64 long)) else Fin 0)"

definition classify_velocity :: "velocity_thresholds \<Rightarrow> int \<Rightarrow> int \<Rightarrow> int \<Rightarrow> int \<Rightarrow> f64 \<Rightarrow> velocity_signal" where
  "classify_velocity t c10s c1m c5m s5m accel =
     (if vt_tx10s_high t \<le> c10s \<or> vt_tx1m_high t \<le> c1m \<or> vt_tx5m_high t \<le> c5m \<or> vt_amount5m_high t \<le> s5m \<or>
         fle (vt_acceleration_high t) accel then VelHighSignal
      else if vt_tx10s_suspicious t \<le> c10s \<or> vt_tx1m_suspicious t \<le> c1m \<or> vt_tx5m_suspicious t \<le> c5m \<or>
         vt_amount5m_suspicious t \<le> s5m \<or> fle (vt_acceleration_suspicious t) accel then VelSuspicious
      else if vt_tx10s_low t \<le> c10s \<or> vt_tx1m_low t \<le> c1m \<or> vt_tx5m_low t \<le> c5m \<or> vt_amount5m_low t \<le> s5m then VelLowSignal
      else VelNormal)"

definition velocity_of_events :: "gotime \<Rightarrow> string list \<Rightarrow> velocity_features" where
  "velocity_of_events now events =
     (let n = unix_milli now; ms = filter (\<lambda>m. n - 24 * 3600000 \<le> member_millis m) events;
          c = (\<lambda>w. window_count (n - w) ms); s = (\<lambda>w. window_sum (n - w) ms) in
      \<lparr>vf_tx_count_10s = c 10000, vf_tx_count_1m = c 60000, vf_tx_count_5m = c 300000, vf_tx_count_15m = c 900000,
       vf_tx_count_1h = c 3600000, vf_tx_count_6h = c (6 * 3600000), vf_tx_count_24h = c (24 * 3600000),
       vf_amount_sum_10s = s 10000, vf_amount_sum_1m = s 60000, vf_amount_sum_5m = s 300000, vf_amount_sum_15m = s 900000,
       vf_amount_sum_1h = s 3600000, vf_amount_sum_6h = s (6 * 3600000), vf_amount_sum_24h = s (24 * 3600000),
       vf_avg_amount_1m = avg_amount (s 60000) (c 60000), vf_avg_amount_5m = avg_amount (s 300000) (c 300000),
       vf_avg_amount_1h = avg_amount (s 3600000) (c 3600000), vf_avg_amount_24h = avg_amount (s (24 * 3600000)) (c (24 * 3600000)),
       vf_max_amount_1h = window_max (n - 3600000) ms, vf_max_amount_24h = window_max (n - 24 * 3600000) ms,
       vf_tx_rate_10s = tx_rate (c 10000) 10, vf_tx_rate_1m = tx_rate (c 60000) 60, vf_tx_rate_5m = tx_rate (c 300000) 300,
       vf_tx_rate_15m = tx_rate (c 900000) 900, vf_tx_rate_1h = tx_rate (c 3600000) 3600,
       vf_tx_acceleration_1m_15m = calc_accel (c 60000) (c 900000) 15, vf_tx_acceleration_5m_1h = calc_accel (c 300000) (c 3600000) 12,
       vf_tx_acceleration_15m_1h = calc_accel (c 900000) (c 3600000) 4,
       vf_amount_acceleration_5m_1h = calc_accel (s 300000) (s 3600000) 12,
       vf_amount_acceleration_15m_1h = calc_accel (s 900000) (s 3600000) 4,
       vf_amount_concentration_5m_1h = concentration (s 300000) (s 3600000),
       vf_amount_concentration_15m_24h = concentration (s 900000) (s (24 * 3600000)),
       vf_velocity_signal = classify_velocity global_velocity_thresholds (c 10000) (c 60000) (c 300000) (s 300000)
         (calc_accel (c 300000) (c 3600000) 12),
       vf_is_degraded = False, vf_degrade_reason = ''''\<rparr>)"

subsection \<open>The store\<close>

definition velocity_key :: "string \<Rightarrow> string \<Rightarrow> string" where
  "velocity_key tenant dev = tenant @ '':vel:dev:events:'' @ dev"

definition velocity_query :: "string \<Rightarrow> string \<Rightarrow> gotime \<Rightarrow> redis_cmd list" where
  "velocity_query tenant dev now =
     [ZRemRangeByScore (velocity_key tenant dev) ''-inf'' (float_millis (now - 25 * hour)),
      ZRangeByScore (velocity_key tenant dev) (itoa (unix_milli (now - 24 * hour))) (itoa (unix_milli now))]"

text \<open>Whether there is a client, and the answer of the pipeline, \<open>None\<close> on an error.\<close>

definition get_velocity_features ::
  "bool \<Rightarrow> string \<Rightarrow> string \<Rightarrow> gotime \<Rightarrow> string list option \<Rightarrow> velocity_features \<times> bool" where
  "get_velocity_features client tenant dev now answer =
     (if \<not> client \<or> dev = '''' \<or> tenant = '''' then (plain_velocity True velocity_unavailable, False)
      else (case answer of None \<Rightarrow> (plain_velocity True velocity_unavailable, True)
        | Some events \<Rightarrow> (velocity_of_events now events, False)))"

definition velocity_record :: "bool \<Rightarrow> string \<Rightarrow> string \<Rightarrow> string \<Rightarrow> int \<Rightarrow> gotime \<Rightarrow> redis_cmd list" where
  "velocity_record client tenant dev tx amount now =
     (if \<not> client \<or> dev = '''' \<or> tenant = '''' then []
      else [ZAdd (velocity_key tenant dev) (of_int64 (unix_milli now)) (velocity_member now tx amount),
        ZRemRangeByScore (velocity_key tenant dev) ''-inf'' (float_millis (now - 25 * hour)),
        Expire (velocity_key tenant dev) (26 * hour)])"

subsection \<open>What was recorded is what is counted\<close>

definition int64_ok :: "int \<Rightarrow> bool" where "int64_ok i \<longleftrightarrow> - (2 ^ 63) \<le> i \<and> i < 2 ^ 63"

lemma drop_sign_minus [simp]: "drop_sign (CHR ''-'' # s) = s"
  by (simp add: drop_sign_def)

lemma drop_sign_digit: "is_digit c \<Longrightarrow> drop_sign (c # s) = c # s"
  by (auto simp: drop_sign_def is_digit_def)

lemma digit_value_char: "n < 10 \<Longrightarrow> digit_value (char_of (48 + n :: nat)) = int n"
proof -
  assume n: "n < 10"
  have "(of_char (char_of (48 + n) :: char) :: int) = int (of_char (char_of (48 + n) :: char))" by (simp only: of_nat_of_char)
  also have "\<dots> = 48 + int n" using n by simp
  finally show ?thesis using n by (simp add: digit_value_def is_digit_char_of)
qed

lemma value_of_digits: "foldl (\<lambda>a c. a * 10 + digit_value c) 0 (nat_digits n) = int n"
proof (induction n rule: nat_digits.induct)
  case (1 n)
  show ?case
  proof (cases "n < 10")
    case True
    then show ?thesis by (subst nat_digits.simps) (simp add: digit_value_char)
  next
    case False
    then have "foldl (\<lambda>a c. a * 10 + digit_value c) 0 (nat_digits (n div 10)) = int (n div 10)" by (rule 1)
    moreover have "int (n div 10) * 10 + int (n mod 10) = int n"
      by (metis div_mult_mod_eq of_nat_add of_nat_mult of_nat_numeral)
    ultimately show ?thesis using False by (subst nat_digits.simps) (simp add: digit_value_char)
  qed
qed

lemma parse_itoa: "int64_ok i \<Longrightarrow> parse_int64 (itoa i) = Some i"
proof -
  assume ok: "int64_ok i"
  have digits: "list_all is_digit (nat_digits n)" for n by (auto simp: list_all_iff dest: nat_digits_digits)
  show ?thesis
  proof (cases "i < 0")
    case True
    then show ?thesis using ok digits
      by (simp add: itoa_def parse_int64_def has_prefix_def value_of_digits int64_ok_def)
  next
    case False
    obtain c cs where d: "nat_digits (nat i) = c # cs" by (cases "nat_digits (nat i)") auto
    have c: "is_digit c" using digits [of "nat i"] by (simp add: d)
    then have "\<not> has_prefix (c # cs) ''-''" by (auto simp: has_prefix_def is_digit_def)
    moreover have "drop_sign (c # cs) = c # cs" by (rule drop_sign_digit [OF c])
    ultimately show ?thesis using False ok digits [of "nat i"] value_of_digits [of "nat i"]
      by (simp add: itoa_def parse_int64_def d int64_ok_def)
  qed
qed

lemma itoa_plain: "c \<in> set (itoa i) \<Longrightarrow> c \<noteq> CHR ''_'' \<and> c \<noteq> CHR '':''"
  using itoa_chars [of c i] by (auto simp: is_digit_def)

lemma take_while_stop: "\<forall>d \<in> set u. d \<noteq> c \<Longrightarrow> takeWhile (\<lambda>d. d \<noteq> c) (u @ c # v) = u"
  by (induction u) auto

lemma str_index_stop: "\<forall>d \<in> set u. d \<noteq> c \<Longrightarrow> str_index c (u @ c # v) = Some (length u)"
  by (simp add: str_index_def take_while_stop Let_def)

lemma after_last_stop: "\<forall>d \<in> set v. d \<noteq> c \<Longrightarrow> v \<noteq> [] \<Longrightarrow> after_last c (u @ c # v) = Some v"
  using take_while_stop [of "rev v" c "rev u"] by (simp add: after_last_def Let_def)

lemma itoa_nonempty: "itoa i \<noteq> []"
  by (simp add: itoa_def)

lemma member_parts:
  assumes "int64_ok t" "int64_ok a"
  shows "member_millis (velocity_member t tx a) = go_div t 1000000" "member_amount (velocity_member t tx a) = a"
proof -
  have "str_index (CHR ''_'') (velocity_member t tx a) = Some (length (itoa t))"
    using str_index_stop [of "itoa t" "CHR ''_''" "tx @ '':'' @ itoa a"] itoa_plain by (auto simp: velocity_member_def)
  then show "member_millis (velocity_member t tx a) = go_div t 1000000"
    by (simp add: member_millis_def velocity_member_def parse_itoa [OF assms(1)])
  have "after_last (CHR '':'') (velocity_member t tx a) = Some (itoa a)"
    using after_last_stop [of "itoa a" "CHR '':''" "itoa t @ ''_'' @ tx"] itoa_plain itoa_nonempty by (auto simp: velocity_member_def)
  then show "member_amount (velocity_member t tx a) = a"
    by (simp add: member_amount_def parse_itoa [OF assms(2)])
qed

lemma add64_fold: "foldl add64 (signed_take_bit 63 b) xs = signed_take_bit 63 (b + sum_list xs)"
proof (induction xs arbitrary: b)
  case (Cons x xs)
  have "add64 (signed_take_bit 63 b) x = signed_take_bit 63 (b + x)"
    by (simp add: add64_def signed_take_bit_eq_take_bit_shift take_bit_eq_mod mod_simps ac_simps)
  then show ?case using Cons [of "b + x"] by (simp add: add.assoc)
qed simp

lemma window_sum_total: "window_sum cutoff ms = signed_take_bit 63 (sum_list (map member_amount (filter (\<lambda>m. cutoff \<le> member_millis m) ms)))"
  using add64_fold [of 0] by (simp add: window_sum_def)

text \<open>A transaction is its time, its identifier and its amount.\<close>

type_synonym device_tx = "gotime \<times> string \<times> int"

fun tx_member :: "device_tx \<Rightarrow> string" where "tx_member (t, tx, a) = velocity_member t tx a"

fun tx_ok :: "device_tx \<Rightarrow> bool" where "tx_ok (t, tx, a) = (0 \<le> t \<and> int64_ok t \<and> int64_ok a)"

definition tx_since :: "int \<Rightarrow> device_tx \<Rightarrow> bool" where "tx_since cutoff x = (cutoff \<le> unix_milli (fst x))"

lemma tx_member_parts:
  assumes "tx_ok x"
  shows "member_millis (tx_member x) = unix_milli (fst x)" "member_amount (tx_member x) = snd (snd x)"
proof -
  obtain t i a where x: "x = (t, i, a)" by (cases x)
  have ok: "int64_ok t" "int64_ok a" "0 \<le> t" using assms by (simp_all add: x)
  have "go_div t 1000000 = unix_milli t" using ok(3) by (simp add: go_div_nonneg unix_milli_def millisecond_def)
  then show "member_millis (tx_member x) = unix_milli (fst x)" by (simp add: x member_parts(1) [OF ok(1,2)])
  show "member_amount (tx_member x) = snd (snd x)" by (simp add: x member_parts(2) [OF ok(1,2)])
qed

lemma tx_member_inj: "tx_ok x \<Longrightarrow> tx_ok y \<Longrightarrow> tx_member x = tx_member y \<Longrightarrow> x = y"
proof -
  assume ok: "tx_ok x" "tx_ok y" and eq: "tx_member x = tx_member y"
  obtain t i a where x: "x = (t, i, a)" by (cases x)
  obtain u j b where y: "y = (u, j, b)" by (cases y)
  have a: "a = b" using tx_member_parts(2) [OF ok(1)] tx_member_parts(2) [OF ok(2)] eq by (simp add: x y)
  have "takeWhile (\<lambda>d. d \<noteq> CHR ''_'') (tx_member (s, k, c)) = itoa s" for s k c
    using take_while_stop [of "itoa s" "CHR ''_''" "k @ '':'' @ itoa c"] itoa_plain by (auto simp: velocity_member_def)
  then have "itoa t = itoa u" using eq unfolding x y by metis
  then have "t = u" by (rule itoa_inj)
  then show "x = y" using eq a by (simp add: x y velocity_member_def)
qed

text \<open>
  What the range query promises: the members that were recorded with a score between its bounds, each once.
\<close>

definition range_answer :: "gotime \<Rightarrow> device_tx list \<Rightarrow> string list \<Rightarrow> bool" where
  "range_answer now txs ms \<longleftrightarrow> distinct ms \<and>
     set ms = tx_member ` {x \<in> set txs. unix_milli (now - 24 * hour) \<le> unix_milli (fst x) \<and> unix_milli (fst x) \<le> unix_milli now}"

lemma milli_shift: "unix_milli (now - 24 * hour) = unix_milli now - 24 * 3600000"
  by (simp add: unix_milli_def hour_def minute_def second_def millisecond_def)

lemma answer_is_image:
  assumes "range_answer now txs ms" "distinct txs" "\<forall>x \<in> set txs. tx_ok x"
    "\<forall>x \<in> set txs. unix_milli (fst x) \<le> unix_milli now" "unix_milli now - 24 * 3600000 \<le> cutoff"
  shows "mset (filter (\<lambda>m. cutoff \<le> member_millis m) ms) = mset (map tx_member (filter (tx_since cutoff) txs))"
proof -
  let ?in = "filter (tx_since cutoff) txs"
  have inj: "inj_on tx_member (set txs)" by (rule inj_onI) (use assms(3) tx_member_inj in blast)
  have "distinct (map tx_member ?in)"
    using assms(2) inj by (auto simp: distinct_map intro: inj_on_subset)
  moreover have "distinct (filter (\<lambda>m. cutoff \<le> member_millis m) ms)" using assms(1) by (simp add: range_answer_def)
  moreover have "set (filter (\<lambda>m. cutoff \<le> member_millis m) ms) = set (map tx_member ?in)"
  proof (rule set_eqI)
    fix m
    have day: "m \<in> set ms \<longleftrightarrow> (\<exists>x \<in> set txs. unix_milli now - 24 * 3600000 \<le> unix_milli (fst x) \<and> m = tx_member x)"
      using assms(1,4) unfolding range_answer_def milli_shift by blast
    have at: "member_millis (tx_member x) = unix_milli (fst x)" if "x \<in> set txs" for x
      using assms(3) that tx_member_parts(1) by blast
    show "m \<in> set (filter (\<lambda>m. cutoff \<le> member_millis m) ms) \<longleftrightarrow> m \<in> set (map tx_member ?in)" (is "?l = ?r")
    proof
      assume l: ?l
      then obtain x where x: "x \<in> set txs" "m = tx_member x" using day by auto
      then have "cutoff \<le> unix_milli (fst x)" using l at [OF x(1)] by simp
      then show ?r using x by (simp add: tx_since_def)
    next
      assume ?r
      then obtain x where x: "x \<in> set txs" "m = tx_member x" "cutoff \<le> unix_milli (fst x)" by (auto simp: tx_since_def)
      then have "unix_milli now - 24 * 3600000 \<le> unix_milli (fst x)" using assms(5) by linarith
      then have "m \<in> set ms" using day x(1,2) by blast
      then show ?l using x at [OF x(1)] by simp
    qed
  qed
  ultimately show ?thesis using set_eq_iff_mset_eq_distinct by blast
qed

lemma windows_of_answer:
  assumes "range_answer now txs ms" "distinct txs" "\<forall>x \<in> set txs. tx_ok x"
    "\<forall>x \<in> set txs. unix_milli (fst x) \<le> unix_milli now" "unix_milli now - 24 * 3600000 \<le> cutoff"
  shows "window_count cutoff (filter (\<lambda>m. unix_milli now - 24 * 3600000 \<le> member_millis m) ms) = int (length (filter (tx_since cutoff) txs))"
    "window_sum cutoff (filter (\<lambda>m. unix_milli now - 24 * 3600000 \<le> member_millis m) ms) =
       signed_take_bit 63 (sum_list (map (snd \<circ> snd) (filter (tx_since cutoff) txs)))"
proof -
  have both: "filter (\<lambda>m. cutoff \<le> member_millis m) (filter (\<lambda>m. unix_milli now - 24 * 3600000 \<le> member_millis m) ms) =
      filter (\<lambda>m. cutoff \<le> member_millis m) ms"
    using assms(5) by (auto intro: filter_cong)
  note image = answer_is_image [OF assms]
  show "window_count cutoff (filter (\<lambda>m. unix_milli now - 24 * 3600000 \<le> member_millis m) ms) = int (length (filter (tx_since cutoff) txs))"
    using arg_cong [OF image, of size] by (simp only: window_count_def both size_mset length_map)
  have "sum_list (map member_amount (filter (\<lambda>m. cutoff \<le> member_millis m) ms)) =
      sum_list (map member_amount (map tx_member (filter (tx_since cutoff) txs)))"
    using arg_cong [OF image, of "\<lambda>M. sum_mset (image_mset member_amount M)"]
    by (simp only: mset_map [symmetric] sum_mset_sum_list)
  also have "map member_amount (map tx_member (filter (tx_since cutoff) txs)) = map (snd \<circ> snd) (filter (tx_since cutoff) txs)"
    using assms(3) tx_member_parts(2) by simp
  finally show "window_sum cutoff (filter (\<lambda>m. unix_milli now - 24 * 3600000 \<le> member_millis m) ms) =
      signed_take_bit 63 (sum_list (map (snd \<circ> snd) (filter (tx_since cutoff) txs)))"
    by (simp only: window_sum_total both)
qed



end
