(* ===== verification/Device_Reputation.thy ===== *)
theory Device_Reputation
  imports Device_Velocity
begin

text \<open>
  Reputation of a device, \<open>internal/features/device_reputation.go\<close>: outcomes of its transactions are members
  \<open>OUTCOME:transaction\<close> of a sorted set; rates, recent counts and a score between 0 (trusted) and 1 are
  computed from all of them.
\<close>

subsection \<open>Types\<close>

datatype outcome_type = OutSuccess | OutFailure | OutDispute | OutFraud | OutChargeback | OutRefund | OutTransaction

fun outcome_string :: "outcome_type \<Rightarrow> string" where
  "outcome_string OutSuccess = ''SUCCESS''" | "outcome_string OutFailure = ''FAILURE''"
| "outcome_string OutDispute = ''DISPUTE''" | "outcome_string OutFraud = ''FRAUD''"
| "outcome_string OutChargeback = ''CHARGEBACK''" | "outcome_string OutRefund = ''REFUND''"
| "outcome_string OutTransaction = ''TRANSACTION''"

record reputation_features =
  rf_total_transactions :: int
  rf_successful_transactions :: int
  rf_failed_transactions :: int
  rf_disputed_transactions :: int
  rf_fraud_transactions :: int
  rf_refunded_transactions :: int
  rf_chargeback_count :: int
  rf_dispute_rate :: f64
  rf_fraud_rate :: f64
  rf_refund_rate :: f64
  rf_success_rate :: f64
  rf_recent_dispute_count :: int
  rf_recent_fraud_count :: int
  rf_recent_chargeback_count :: int
  rf_days_since_first_seen :: f64
  rf_days_since_last_dispute :: f64
  rf_days_since_last_fraud :: f64
  rf_reputation_score :: f64
  rf_is_degraded :: bool
  rf_degrade_reason :: string

definition neutral_reputation :: "f64 \<Rightarrow> f64 \<Rightarrow> bool \<Rightarrow> string \<Rightarrow> reputation_features" where
  "neutral_reputation first_seen never degraded reason =
     \<lparr>rf_total_transactions = 0, rf_successful_transactions = 0, rf_failed_transactions = 0, rf_disputed_transactions = 0,
      rf_fraud_transactions = 0, rf_refunded_transactions = 0, rf_chargeback_count = 0, rf_dispute_rate = Fin 0,
      rf_fraud_rate = Fin 0, rf_refund_rate = Fin 0, rf_success_rate = Fin 0, rf_recent_dispute_count = 0,
      rf_recent_fraud_count = 0, rf_recent_chargeback_count = 0, rf_days_since_first_seen = first_seen,
      rf_days_since_last_dispute = never, rf_days_since_last_fraud = never, rf_reputation_score = Fin (1 / 2),
      rf_is_degraded = degraded, rf_degrade_reason = reason\<rparr>"

definition reputation_unavailable :: string where "reputation_unavailable = ''DEVICE_REPUTATION_FEATURE_STORE_UNAVAILABLE''"

subsection \<open>Counting\<close>

record outcome_counts =
  oc_total :: int
  oc_success :: int
  oc_failed :: int
  oc_disputes :: int
  oc_fraud :: int
  oc_chargebacks :: int
  oc_refunds :: int
  oc_recent_disputes :: int
  oc_recent_fraud :: int
  oc_recent_chargebacks :: int
  oc_last_dispute_ms :: int
  oc_last_fraud_ms :: int
  oc_seen :: "string list"

definition no_outcomes :: outcome_counts where
  "no_outcomes = \<lparr>oc_total = 0, oc_success = 0, oc_failed = 0, oc_disputes = 0, oc_fraud = 0, oc_chargebacks = 0, oc_refunds = 0,
     oc_recent_disputes = 0, oc_recent_fraud = 0, oc_recent_chargebacks = 0, oc_last_dispute_ms = -1, oc_last_fraud_ms = -1,
     oc_seen = []\<rparr>"

definition outcome_of :: "string \<Rightarrow> string" where
  "outcome_of member = takeWhile (\<lambda>c. c \<noteq> CHR '':'') member"

definition note_dispute :: "f64 \<Rightarrow> f64 \<Rightarrow> outcome_counts \<Rightarrow> outcome_counts" where
  "note_dispute cutoff score c =
     c\<lparr>oc_disputes := oc_disputes c + 1,
       oc_recent_disputes := (if fle cutoff score then oc_recent_disputes c + 1 else oc_recent_disputes c),
       oc_last_dispute_ms := max (oc_last_dispute_ms c) (to_int64 score)\<rparr>"

definition note_fraud :: "f64 \<Rightarrow> f64 \<Rightarrow> outcome_counts \<Rightarrow> outcome_counts" where
  "note_fraud cutoff score c =
     c\<lparr>oc_fraud := oc_fraud c + 1,
       oc_recent_fraud := (if fle cutoff score then oc_recent_fraud c + 1 else oc_recent_fraud c),
       oc_last_fraud_ms := max (oc_last_fraud_ms c) (to_int64 score)\<rparr>"

text \<open>One element of the answer: its member and its score.\<close>

definition count_outcome :: "f64 \<Rightarrow> string \<times> f64 \<Rightarrow> outcome_counts \<Rightarrow> outcome_counts" where
  "count_outcome cutoff = (\<lambda>(member, score) c0.
     if member \<in> set (oc_seen c0) then c0
     else (let c = c0\<lparr>oc_seen := oc_seen c0 @ [member]\<rparr>; out = outcome_of member in
       if out = ''TRANSACTION'' then c\<lparr>oc_total := oc_total c + 1\<rparr>
       else if out = ''SUCCESS'' then c\<lparr>oc_total := oc_total c + 1, oc_success := oc_success c + 1\<rparr>
       else if out = ''FAILURE'' then c\<lparr>oc_total := oc_total c + 1, oc_failed := oc_failed c + 1\<rparr>
       else if out = ''DISPUTE'' then note_dispute cutoff score c
       else if out = ''FRAUD'' then note_fraud cutoff score c
       else if out = ''CHARGEBACK'' then
         note_dispute cutoff score (c\<lparr>oc_chargebacks := oc_chargebacks c + 1,
           oc_recent_chargebacks := (if fle cutoff score then oc_recent_chargebacks c + 1 else oc_recent_chargebacks c)\<rparr>)
       else if out = ''REFUND'' then c\<lparr>oc_refunds := oc_refunds c + 1\<rparr>
       else c))"

definition count_outcomes :: "f64 \<Rightarrow> (string \<times> f64) list \<Rightarrow> outcome_counts" where
  "count_outcomes cutoff events = fold (count_outcome cutoff) events no_outcomes"

subsection \<open>The score\<close>

definition round_to :: "rat \<Rightarrow> f64 \<Rightarrow> f64" where
  "round_to k x = fdiv (fround (fmul x (Fin k))) (Fin k)"

definition outcome_rate :: "int \<Rightarrow> int \<Rightarrow> f64" where
  "outcome_rate k n = round_to 10000 (fdiv (of_int64 k) (fmax (Fin 1) (of_int64 n)))"

definition days_between :: "int \<Rightarrow> int \<Rightarrow> f64" where
  "days_between now_ms ms = round_to 100 (fdiv (of_int64 (now_ms - ms)) (Fin 86400000))"

definition days_since_last :: "int \<Rightarrow> int \<Rightarrow> f64" where
  "days_since_last now_ms ms = (if ms \<noteq> -1 then fmax (Fin 0) (days_between now_ms ms) else Fin (-1))"

definition capped :: "rat \<Rightarrow> int \<Rightarrow> rat \<Rightarrow> f64" where
  "capped cap n k = fmin (to_f64 cap) (fmul (of_int64 n) (to_f64 k))"

definition trust_discounts :: "int \<Rightarrow> f64 \<Rightarrow> f64 \<Rightarrow> f64" where
  "trust_discounts success tenure score =
     (let s1 = (if 0 < success then fsub score (capped (30 / 100) success (3 / 100)) else score) in
      if flt (Fin 0) tenure then fsub s1 (fmin (to_f64 (15 / 100)) (fmul tenure (to_f64 (5 / 1000)))) else s1)"

definition risk_penalties :: "outcome_counts \<Rightarrow> f64 \<Rightarrow> f64 \<Rightarrow> f64" where
  "risk_penalties c dispute_rate score =
     (let s1 = (if 0 < oc_fraud c
            then (let s = fadd score (Fin (1 / 2)) in if 0 < oc_recent_fraud c then fadd s (to_f64 (30 / 100)) else s) else score);
          s2 = (if 0 < oc_disputes c
            then (let s = fadd s1 (capped (1 / 2) (oc_disputes c) (1 / 4)) in
              if 0 < oc_recent_disputes c then fadd s (capped (20 / 100) (oc_recent_disputes c) (10 / 100)) else s) else s1);
          s3 = (if 0 < oc_failed c then fadd s2 (capped (20 / 100) (oc_failed c) (5 / 100)) else s2) in
      if 3 \<le> oc_total c \<and> fle (to_f64 (10 / 100)) dispute_rate then fadd s3 (to_f64 (20 / 100)) else s3)"

definition clamp_unit :: "f64 \<Rightarrow> f64" where
  "clamp_unit s = (if flt s (Fin 0) then Fin 0 else if flt (Fin 1) s then Fin 1 else s)"

definition reputation_score :: "outcome_counts \<Rightarrow> f64 \<Rightarrow> f64 \<Rightarrow> f64" where
  "reputation_score c tenure dispute_rate =
     round_to 1000 (clamp_unit (risk_penalties c dispute_rate (trust_discounts (oc_success c) tenure (Fin (1 / 2)))))"

definition reputation_of_events :: "gotime \<Rightarrow> f64 \<Rightarrow> (string \<times> f64) list \<Rightarrow> reputation_features" where
  "reputation_of_events now first_seen events =
     (if events = [] then neutral_reputation first_seen (Fin (-1)) False ''''
      else (let c = count_outcomes (of_int64 (unix_milli (now - 30 * 24 * hour))) events;
                rate = (\<lambda>k. outcome_rate k (oc_total c)) in
        \<lparr>rf_total_transactions = oc_total c, rf_successful_transactions = oc_success c, rf_failed_transactions = oc_failed c,
         rf_disputed_transactions = oc_disputes c, rf_fraud_transactions = oc_fraud c, rf_refunded_transactions = oc_refunds c,
         rf_chargeback_count = oc_chargebacks c, rf_dispute_rate = rate (oc_disputes c), rf_fraud_rate = rate (oc_fraud c),
         rf_refund_rate = rate (oc_refunds c), rf_success_rate = rate (oc_success c),
         rf_recent_dispute_count = oc_recent_disputes c, rf_recent_fraud_count = oc_recent_fraud c,
         rf_recent_chargeback_count = oc_recent_chargebacks c, rf_days_since_first_seen = first_seen,
         rf_days_since_last_dispute = days_since_last (unix_milli now) (oc_last_dispute_ms c),
         rf_days_since_last_fraud = days_since_last (unix_milli now) (oc_last_fraud_ms c),
         rf_reputation_score = reputation_score c first_seen (rate (oc_disputes c)),
         rf_is_degraded = False, rf_degrade_reason = ''''\<rparr>))"

subsection \<open>The store\<close>

definition first_seen_days :: "gotime \<Rightarrow> string option \<Rightarrow> f64" where
  "first_seen_days now stored =
     (case stored of None \<Rightarrow> Fin 0
      | Some s \<Rightarrow> (case parse_int64 s of None \<Rightarrow> Fin 0
          | Some ms \<Rightarrow> if ms \<le> unix_milli now then days_between (unix_milli now) ms else Fin 0))"

definition reputation_key :: "string \<Rightarrow> string \<Rightarrow> string" where
  "reputation_key tenant dev = tenant @ '':rep:dev:events:'' @ dev"

definition first_seen_key :: "string \<Rightarrow> string \<Rightarrow> string" where
  "first_seen_key tenant dev = tenant @ '':rep:dev:first_seen:'' @ dev"

definition reputation_query :: "string \<Rightarrow> string \<Rightarrow> gotime \<Rightarrow> redis_cmd list" where
  "reputation_query tenant dev now =
     [GetKey (first_seen_key tenant dev), ZRangeByScore (reputation_key tenant dev) ''-inf'' (itoa (unix_milli now))]"

definition get_reputation_features ::
  "bool \<Rightarrow> string \<Rightarrow> string \<Rightarrow> gotime \<Rightarrow> (string option \<times> (string \<times> f64) list) option \<Rightarrow> reputation_features \<times> bool" where
  "get_reputation_features client tenant dev now answer =
     (if \<not> client \<or> dev = '''' \<or> tenant = '''' then (neutral_reputation (Fin 0) (Fin (-1)) True reputation_unavailable, False)
      else (case answer of None \<Rightarrow> (neutral_reputation (Fin 0) (Fin (-1)) True reputation_unavailable, True)
        | Some (stored, events) \<Rightarrow> (reputation_of_events now (first_seen_days now stored) events, False)))"

definition outcome_record :: "bool \<Rightarrow> string \<Rightarrow> string \<Rightarrow> string \<Rightarrow> outcome_type \<Rightarrow> gotime \<Rightarrow> redis_cmd list" where
  "outcome_record client tenant dev tx out now =
     (if \<not> client \<or> dev = '''' \<or> tenant = '''' \<or> tx = '''' then []
      else [SetNX (first_seen_key tenant dev) (itoa (unix_milli now)) (365 * 24 * hour),
        ZAdd (reputation_key tenant dev) (of_int64 (unix_milli now)) (outcome_string out @ '':'' @ tx),
        ZRemRangeByScore (reputation_key tenant dev) ''-inf'' (float_millis (now - 90 * 24 * hour)),
        Expire (reputation_key tenant dev) (95 * 24 * hour)])"

subsection \<open>The score is a number between 0 and 1\<close>

lemma fadd_fin_not_nan: "\<not> is_nan x \<Longrightarrow> \<not> is_nan (fadd x (Fin y))"
  by (cases x) simp_all

lemma fsub_fin_not_nan: "\<not> is_nan x \<Longrightarrow> \<not> is_nan (fsub x (Fin y))"
  by (simp add: fsub_def fadd_fin_not_nan)

lemma fmin_cap: "fle (Fin 0) x \<Longrightarrow> \<exists>y. fmin (Fin a) x = Fin y"
  by (cases x) (auto simp: fmin_def)

lemma fmul_pos: "fle (Fin 0) x \<Longrightarrow> 0 < a \<Longrightarrow> fle (Fin 0) (fmul x (Fin a))"
  by (cases x) (auto intro: to_f64_nonneg simp: inf_of_sign_def)

lemma unit_constant: "0 \<le> x \<Longrightarrow> x \<le> 1 \<Longrightarrow> \<exists>c. to_f64 x = Fin c"
  using to_f64_unit by blast

lemma positive_constants:
  "\<exists>a. to_f64 (5 / 1000) = Fin a \<and> 0 < a" "\<exists>a. to_f64 (3 / 100) = Fin a \<and> 0 < a" "\<exists>a. to_f64 (1 / 4) = Fin a \<and> 0 < a"
  "\<exists>a. to_f64 (10 / 100) = Fin a \<and> 0 < a" "\<exists>a. to_f64 (5 / 100) = Fin a \<and> 0 < a"
proof -
  have f: "to_f64 (5 / 1000) = Fin (5764607523034235 / 1152921504606846976)" "to_f64 (3 / 100) = Fin (1080863910568919 / 36028797018963968)"
    "to_f64 (1 / 4) = Fin (1 / 4)" "to_f64 (10 / 100) = Fin (3602879701896397 / 36028797018963968)"
    "to_f64 (5 / 100) = Fin (3602879701896397 / 72057594037927936)"
    by code_simp+
  show "\<exists>a. to_f64 (5 / 1000) = Fin a \<and> 0 < a" "\<exists>a. to_f64 (3 / 100) = Fin a \<and> 0 < a" "\<exists>a. to_f64 (1 / 4) = Fin a \<and> 0 < a"
    "\<exists>a. to_f64 (10 / 100) = Fin a \<and> 0 < a" "\<exists>a. to_f64 (5 / 100) = Fin a \<and> 0 < a"
    unfolding f by (intro exI conjI, rule refl, simp)+
qed

lemma capped_fin:
  assumes "0 \<le> n" "\<exists>a. to_f64 k = Fin a \<and> 0 < a" "0 \<le> cap" "cap \<le> 1"
  shows "\<exists>y. capped cap n k = Fin y"
proof -
  obtain a where a: "to_f64 k = Fin a" "0 < a" using assms(2) by blast
  obtain c where c: "to_f64 cap = Fin c" using unit_constant [OF assms(3,4)] by blast
  have "fle (Fin 0) (of_int64 n)" using of_int64_mono [OF assms(1)] by (simp add: of_int64_exact)
  then show ?thesis unfolding capped_def a(1) c using a(2) by (intro fmin_cap fmul_pos)
qed

lemma trust_not_nan:
  assumes "\<not> is_nan s"
  shows "\<not> is_nan (trust_discounts n tenure s)"
proof -
  have cap: "\<not> is_nan (fsub x (capped (30 / 100) n (3 / 100)))" if "\<not> is_nan x" "0 < n" for x
    using capped_fin [of n "3 / 100" "30 / 100"] positive_constants(2) that by (auto simp: fsub_fin_not_nan)
  have ten: "\<not> is_nan (fsub x (fmin (to_f64 (15 / 100)) (fmul tenure (to_f64 (5 / 1000)))))" if "\<not> is_nan x" "flt (Fin 0) tenure" for x
  proof -
    obtain a where a: "to_f64 (5 / 1000) = Fin a" "0 < a" using positive_constants(1) by blast
    obtain c where c: "to_f64 (15 / 100) = Fin c" using unit_constant [of "15 / 100"] by auto
    have "fle (Fin 0) tenure" using that(2) by (cases tenure) auto
    then obtain y where "fmin (Fin c) (fmul tenure (Fin a)) = Fin y" using fmin_cap fmul_pos [OF _ a(2)] by blast
    then show ?thesis unfolding a(1) c using that(1) by (simp add: fsub_fin_not_nan)
  qed
  show ?thesis using assms cap ten by (simp add: trust_discounts_def Let_def)
qed

lemma penalties_not_nan:
  assumes "\<not> is_nan s"
  shows "\<not> is_nan (risk_penalties c rate s)"
proof -
  have add: "\<not> is_nan (fadd x y)" if "\<not> is_nan x" "is_fin y" for x y
    using that fadd_fin_not_nan by (cases y) simp_all
  have unit: "is_fin (to_f64 (30 / 100))" "is_fin (to_f64 (20 / 100))"
    using unit_constant [of "30 / 100"] unit_constant [of "20 / 100"] by auto
  have capped: "is_fin (capped (1 / 2) n (1 / 4))" "is_fin (capped (20 / 100) n (10 / 100))" "is_fin (capped (20 / 100) n (5 / 100))"
    if "0 < n" for n
    using capped_fin [of n "1 / 4" "1 / 2"] capped_fin [of n "10 / 100" "20 / 100"] capped_fin [of n "5 / 100" "20 / 100"]
      positive_constants(3-5) that by auto
  show ?thesis using assms by (simp add: risk_penalties_def Let_def add unit [simplified] capped [simplified])
qed

lemma clamp_unit_range: "\<not> is_nan s \<Longrightarrow> \<exists>x. clamp_unit s = Fin x \<and> 0 \<le> x \<and> x \<le> 1"
  by (cases s) (auto simp: clamp_unit_def)

lemma round_to_range:
  assumes "0 \<le> x" "x \<le> 1"
  shows "\<exists>y. round_to 1000 (Fin x) = Fin y \<and> 0 \<le> y \<and> y \<le> 1"
proof -
  have "fle (to_f64 (x * 1000)) (to_f64 1000)" by (rule to_f64_mono) (use assms in simp)
  moreover have "to_f64 1000 = Fin 1000" using to_f64_of_int [of 1000] by simp
  moreover have "fle (Fin 0) (to_f64 (x * 1000))" by (rule to_f64_nonneg) (use assms in simp)
  ultimately obtain z where z: "to_f64 (x * 1000) = Fin z" "0 \<le> z" "z \<le> 1000" by (cases "to_f64 (x * 1000)") auto
  have "0 \<le> \<lfloor>z + 1 / 2\<rfloor>" "\<lfloor>z + 1 / 2\<rfloor> \<le> 1000" using z(2,3) by (simp_all add: le_floor_iff floor_le_iff)
  then have r: "0 \<le> (of_int \<lfloor>z + 1 / 2\<rfloor> :: rat) / 1000" "(of_int \<lfloor>z + 1 / 2\<rfloor> :: rat) / 1000 \<le> 1" by simp_all
  then obtain y where "to_f64 (of_int \<lfloor>z + 1 / 2\<rfloor> / 1000) = Fin y" "0 \<le> y" "y \<le> 1" using to_f64_unit by blast
  then show ?thesis using z by (simp add: round_to_def)
qed

text \<open>
  the score of a device is a number between 0 and 1.  Whatever the server answers, malformed members and
  repeated ones included, the reputation score is finite and between 0 and 1.
\<close>

theorem reputation_score_in_unit:
  "\<exists>x. rf_reputation_score (fst (get_reputation_features client tenant dev now answer)) = Fin x \<and> 0 \<le> x \<and> x \<le> 1"
proof -
  have score: "\<exists>x. reputation_score c tenure rate = Fin x \<and> 0 \<le> x \<and> x \<le> 1" for c tenure rate
  proof -
    obtain s where s: "clamp_unit (risk_penalties c rate (trust_discounts (oc_success c) tenure (Fin (1 / 2)))) = Fin s" "0 \<le> s" "s \<le> 1"
      using clamp_unit_range [OF penalties_not_nan [OF trust_not_nan, of "Fin (1 / 2)"]] by fastforce
    show ?thesis unfolding reputation_score_def s(1) by (rule round_to_range [OF s(2,3)])
  qed
  have "\<exists>x. rf_reputation_score (reputation_of_events now first_seen events) = Fin x \<and> 0 \<le> x \<and> x \<le> 1" for first_seen events
    using score by (cases "events = []") (auto simp: reputation_of_events_def neutral_reputation_def Let_def intro: exI [of _ "1 / 2"])
  then show ?thesis
    by (auto simp: get_reputation_features_def neutral_reputation_def split: option.splits intro: exI [of _ "1 / 2"])
qed

end
