(* ===== verification/Go_Calendar.thy ===== *)
theory Go_Calendar
  imports Go_Float
begin

text \<open>
  The civil calendar behind \<open>time.Time\<close> in UTC: the date of a day number, the time of day, the day of
  the week and the text of \<open>time.RFC3339\<close>.  The day number is converted in cycles of 400 years.
\<close>

definition day_number :: "gotime \<Rightarrow> int" where
  "day_number t = t div (24 * hour)"

text \<open>Year, month and day of the days since the Unix epoch.\<close>

definition civil_from_days :: "int \<Rightarrow> int \<times> int \<times> int" where
  "civil_from_days n =
     (let z = n + 719468; era = z div 146097; doe = z mod 146097;
          yoe = (doe - doe div 1460 + doe div 36524 - doe div 146096) div 365;
          doy = doe - (365 * yoe + yoe div 4 - yoe div 100); mp = (5 * doy + 2) div 153;
          d = doy - (153 * mp + 2) div 5 + 1; m = (if mp < 10 then mp + 3 else mp - 9) in
      (yoe + era * 400 + (if m \<le> 2 then 1 else 0), m, d))"

definition hour_of :: "gotime \<Rightarrow> int" where "hour_of t = t div hour mod 24"
definition minute_of :: "gotime \<Rightarrow> int" where "minute_of t = t div minute mod 60"
definition second_of :: "gotime \<Rightarrow> int" where "second_of t = t div second mod 60"

text \<open>Sunday is 0; the first of January 1970 was a Thursday.\<close>

definition weekday_of :: "gotime \<Rightarrow> int" where "weekday_of t = (day_number t + 4) mod 7"

definition padded :: "nat \<Rightarrow> int \<Rightarrow> string" where
  "padded n i = (if i < 0 then ''-'' else '''') @ zpad n (nat_digits (nat \<bar>i\<bar>))"

definition rfc3339 :: "gotime \<Rightarrow> string" where
  "rfc3339 t = (case civil_from_days (day_number t) of (y, m, d) \<Rightarrow>
     padded 4 y @ ''-'' @ padded 2 m @ ''-'' @ padded 2 d @ ''T'' @ padded 2 (hour_of t) @ '':'' @
     padded 2 (minute_of t) @ '':'' @ padded 2 (second_of t) @ ''Z'')"

lemma calendar_examples:
  "rfc3339 0 = ''1970-01-01T00:00:00Z''"
  "rfc3339 (951782399 * 1000000000) = ''2000-02-28T23:59:59Z''"
  "rfc3339 (951782400 * 1000000000) = ''2000-02-29T00:00:00Z''"
  "rfc3339 (-62135596800 * 1000000000) = ''0001-01-01T00:00:00Z''"
  "weekday_of 0 = 4"
  by code_simp+

lemma hour_of_bounds: "0 \<le> hour_of t" "hour_of t < 24" by (simp_all add: hour_of_def)
lemma weekday_of_bounds: "0 \<le> weekday_of t" "weekday_of t < 7" by (simp_all add: weekday_of_def)

end
