(* ===== verification/Retraining_Trigger.thy ===== *)
theory Retraining_Trigger
  imports Retraining_Types Circuit_Breaker Go_Calendar
begin

text \<open>
  When drift starts a retraining, \<open>internal/riskengine/retraining_trigger.go\<close>, with the statuses and
  the measurement of \<open>drift_types.go\<close>.
\<close>

datatype drift_status = DsHealthy | DsWarning | DsDegraded | DsCritical

fun drift_status_string :: "drift_status \<Rightarrow> string" where
  "drift_status_string DsHealthy = ''HEALTHY''"
| "drift_status_string DsWarning = ''WARNING''"
| "drift_status_string DsDegraded = ''DEGRADED''"
| "drift_status_string DsCritical = ''CRITICAL''"

text \<open>The part of a measurement that the trigger reads; the detector extends it.\<close>

record drift_measurement =
  me_measurement_id :: string
  me_timestamp :: gotime
  me_model_version :: string
  me_baseline_id :: string
  me_evaluation_window :: int
  me_sample_count :: int
  me_overall_status :: drift_status
  me_max_psi :: f64
  me_max_jsd :: f64
  me_max_kl :: f64
  me_drifted_feature_count :: int
  me_critical_feature_count :: int

record trigger_engine =
  te_config :: retraining_config
  te_consecutive_drift_count :: int
  te_last_trigger_time :: "gotime option"
  te_last_trigger_reason :: string
  te_last_successful_training_time :: "gotime option"
  te_last_failure_time :: "gotime option"
  te_active_job_id :: string

definition new_trigger_engine :: "retraining_config \<Rightarrow> trigger_engine" where
  "new_trigger_engine cfg =
     \<lparr>te_config = validate_retraining_config cfg, te_consecutive_drift_count = 0, te_last_trigger_time = None,
      te_last_trigger_reason = '''', te_last_successful_training_time = None, te_last_failure_time = None,
      te_active_job_id = ''''\<rparr>"

definition te_update_config :: "retraining_config \<Rightarrow> trigger_engine \<Rightarrow> trigger_engine" where
  "te_update_config cfg e = e\<lparr>te_config := validate_retraining_config cfg\<rparr>"

subsection \<open>Evaluation of a measurement\<close>

datatype trigger_type = TrNone | TrCritical | TrSustained

fun trigger_type_string :: "trigger_type \<Rightarrow> string" where
  "trigger_type_string TrNone = ''NONE''"
| "trigger_type_string TrCritical = ''DRIFT_CRITICAL''"
| "trigger_type_string TrSustained = ''DRIFT_SUSTAINED''"

definition breaker_calm :: "cb_state \<Rightarrow> bool" where
  "breaker_calm st \<longleftrightarrow> st = CB_Healthy \<or> st = CB_Unset"

definition time_left :: "gotime \<Rightarrow> trigger_engine \<Rightarrow> duration" where
  "time_left now e = (case te_last_trigger_time e of None \<Rightarrow> 0
     | Some t \<Rightarrow> if time_sub now t < rtc_cooldown_duration (te_config e)
         then rtc_cooldown_duration (te_config e) - time_sub now t else 0)"

definition in_trigger_cooldown :: "gotime \<Rightarrow> trigger_engine \<Rightarrow> bool" where
  "in_trigger_cooldown now e \<longleftrightarrow> (case te_last_trigger_time e of None \<Rightarrow> False
     | Some t \<Rightarrow> time_sub now t < rtc_cooldown_duration (te_config e))"

definition is_drifted :: "retraining_config \<Rightarrow> drift_measurement \<Rightarrow> bool" where
  "is_drifted cfg m \<longleftrightarrow> fle (rtc_drift_threshold cfg) (me_max_psi m) \<or>
     me_overall_status m = DsCritical \<or> me_overall_status m = DsDegraded"

definition is_critical_drift :: "drift_measurement \<Rightarrow> bool" where
  "is_critical_drift m \<longleftrightarrow> me_overall_status m = DsCritical \<and> fle (to_f64 (30 / 100)) (me_max_psi m)"

text \<open>\<open>Duration.Minutes()\<close>.\<close>

definition dur_minutes :: "duration \<Rightarrow> f64" where
  "dur_minutes d = fadd (of_int64 (go_div d minute)) (fdiv (of_int64 (go_mod d minute)) (Fin 60000000000))"

text \<open>Why a measurement is not looked at, when it is not.\<close>

definition msg_disabled :: string where "msg_disabled = ''Retraining subsystem is disabled''"
definition msg_unhealthy :: "cb_state \<Rightarrow> string" where
  "msg_unhealthy st = ''Circuit breaker is not healthy ('' @ cb_state_string st @ ''); retraining suppressed''"
definition msg_job_active :: "string \<Rightarrow> string" where
  "msg_job_active j = ''Retraining job '' @ j @ '' is currently active; concurrent triggers rejected''"
definition msg_few_samples :: "int \<Rightarrow> 32 word \<Rightarrow> string" where
  "msg_few_samples n q = ''Sample count ('' @ itoa n @ '') below minimum required quorum ('' @ itoa (uint q) @ '')''"
definition msg_cooldown :: "duration \<Rightarrow> string" where
  "msg_cooldown d = ''In cooldown window; '' @ fmt_fixed 1 (dur_minutes d) @ '' minutes remaining''"
definition msg_stable :: string where "msg_stable = ''Traffic distribution is stable''"
definition msg_critical :: "drift_measurement \<Rightarrow> string" where
  "msg_critical m = ''CRITICAL drift detected (max PSI: '' @ fmt_fixed 4 (me_max_psi m) @
     '' >= 0.30, critical features: '' @ itoa (me_critical_feature_count m) @ '')''"
definition msg_sustained :: "int \<Rightarrow> drift_measurement \<Rightarrow> retraining_config \<Rightarrow> string" where
  "msg_sustained n m cfg = ''Sustained drift across '' @ itoa n @ '' consecutive evaluation windows (max PSI: '' @
     fmt_fixed 4 (me_max_psi m) @ '' >= '' @ fmt_fixed 2 (rtc_drift_threshold cfg) @ '')''"
definition msg_observed :: "int \<Rightarrow> int \<Rightarrow> string" where
  "msg_observed n w = ''Drift observed ('' @ itoa n @ ''/'' @ itoa w @ '' required consecutive windows)''"

definition suppressed_by :: "drift_measurement \<Rightarrow> cb_state \<Rightarrow> gotime \<Rightarrow> trigger_engine \<Rightarrow> string option" where
  "suppressed_by m st now e =
     (if \<not> rtc_enabled (te_config e) then Some msg_disabled
      else if \<not> breaker_calm st then Some (msg_unhealthy st)
      else if te_active_job_id e \<noteq> '''' then Some (msg_job_active (te_active_job_id e))
      else if word_of_int (me_sample_count m) < rtc_min_samples (te_config e)
      then Some (msg_few_samples (me_sample_count m) (rtc_min_samples (te_config e)))
      else if in_trigger_cooldown now e then Some (msg_cooldown (time_left now e)) else None)"

definition evaluate_drift ::
  "drift_measurement \<Rightarrow> cb_state \<Rightarrow> gotime \<Rightarrow> trigger_engine \<Rightarrow> (bool \<times> trigger_type \<times> string) \<times> trigger_engine" where
  "evaluate_drift m st now e =
     (case suppressed_by m st now e of Some why \<Rightarrow> ((False, TrNone, why), e)
      | None \<Rightarrow>
          if \<not> is_drifted (te_config e) m then ((False, TrNone, msg_stable), e\<lparr>te_consecutive_drift_count := 0\<rparr>)
          else (let n = te_consecutive_drift_count e + 1; e1 = e\<lparr>te_consecutive_drift_count := n\<rparr>;
                    w = rtc_required_consecutive_windows (te_config e) in
            if is_critical_drift m then ((True, TrCritical, msg_critical m), e1)
            else if w \<le> n then ((True, TrSustained, msg_sustained n m (te_config e)), e1)
            else ((False, TrNone, msg_observed n w), e1)))"

definition set_active_job :: "string \<Rightarrow> string \<Rightarrow> gotime \<Rightarrow> trigger_engine \<Rightarrow> trigger_engine" where
  "set_active_job j why now e = e\<lparr>te_active_job_id := j, te_last_trigger_time := Some now, te_last_trigger_reason := why\<rparr>"

definition clear_active_job :: "bool \<Rightarrow> gotime \<Rightarrow> trigger_engine \<Rightarrow> trigger_engine" where
  "clear_active_job success now e =
     (let e1 = e\<lparr>te_active_job_id := '''', te_consecutive_drift_count := 0\<rparr> in
      if success then e1\<lparr>te_last_successful_training_time := Some now\<rparr> else e1\<lparr>te_last_failure_time := Some now\<rparr>)"

definition can_trigger_manual :: "cb_state \<Rightarrow> trigger_engine \<Rightarrow> string option" where
  "can_trigger_manual st e =
     (if \<not> rtc_enabled (te_config e) then Some msg_disabled
      else if \<not> breaker_calm st then Some (''Circuit breaker is not healthy ('' @ cb_state_string st @ '')'')
      else if te_active_job_id e \<noteq> '''' then Some (''Retraining job '' @ te_active_job_id e @ '' is currently active'')
      else None)"

record retraining_summary =
  rs_enabled :: bool
  rs_state :: job_state
  rs_active_job_id :: "string option"
  rs_candidate_model :: "string option"
  rs_last_trigger :: string
  rs_last_successful_train :: string
  rs_last_failure :: string
  rs_cooldown_remaining_sec :: int

definition time_or_never :: "gotime option \<Rightarrow> string" where
  "time_or_never t = (case t of None \<Rightarrow> ''never'' | Some s \<Rightarrow> rfc3339 s)"

definition te_get_summary :: "job_state \<Rightarrow> string option \<Rightarrow> gotime \<Rightarrow> trigger_engine \<Rightarrow> retraining_summary" where
  "te_get_summary st cand now e =
     \<lparr>rs_enabled = rtc_enabled (te_config e), rs_state = st,
      rs_active_job_id = (if te_active_job_id e \<noteq> '''' then Some (te_active_job_id e) else None),
      rs_candidate_model = cand, rs_last_trigger = time_or_never (te_last_trigger_time e),
      rs_last_successful_train = time_or_never (te_last_successful_training_time e),
      rs_last_failure = time_or_never (te_last_failure_time e),
      rs_cooldown_remaining_sec = to_int64 (dur_seconds (time_left now e))\<rparr>"


subsection \<open>When it fires\<close>

text \<open>What a measurement says to an engine whose last job is forgotten, and a run of measurements.\<close>

definition drift_verdict :: "retraining_config \<Rightarrow> drift_measurement \<times> cb_state \<times> gotime \<Rightarrow> verdict" where
  "drift_verdict cfg = (\<lambda>(m, st, now).
     if \<not> rtc_enabled cfg \<or> \<not> breaker_calm st \<or> word_of_int (me_sample_count m) < rtc_min_samples cfg then Ignored
     else if is_drifted cfg m then Breach else Clean)"

definition drift_step :: "drift_measurement \<times> cb_state \<times> gotime \<Rightarrow> trigger_engine \<Rightarrow> trigger_engine" where
  "drift_step = (\<lambda>(m, st, now) e. snd (evaluate_drift m st now e))"

definition idle_engine :: "trigger_engine \<Rightarrow> bool" where
  "idle_engine e \<longleftrightarrow> te_active_job_id e = '''' \<and> te_last_trigger_time e = None"

lemma idle_suppressed:
  assumes "idle_engine e"
  shows "(suppressed_by m st now e = None) = (drift_verdict (te_config e) (m, st, now) \<noteq> Ignored)"
    "drift_verdict (te_config e) (m, st, now) \<noteq> Ignored \<Longrightarrow>
       (drift_verdict (te_config e) (m, st, now) = Breach) = is_drifted (te_config e) m"
  using assms by (auto simp: suppressed_by_def drift_verdict_def idle_engine_def in_trigger_cooldown_def split: if_splits)

lemma drift_step_facts:
  assumes "idle_engine e"
  shows "idle_engine (drift_step x e)" "te_config (drift_step x e) = te_config e"
    "te_consecutive_drift_count (drift_step x e) = (case drift_verdict (te_config e) x of
       Ignored \<Rightarrow> te_consecutive_drift_count e | Clean \<Rightarrow> 0 | Breach \<Rightarrow> te_consecutive_drift_count e + 1)"
proof -
  obtain m st now where x: "x = (m, st, now)" by (metis surj_pair)
  note s = idle_suppressed [OF assms, of m st now]
  show "idle_engine (drift_step x e)" "te_config (drift_step x e) = te_config e"
    using assms by (auto simp: x drift_step_def evaluate_drift_def idle_engine_def Let_def split: option.split)
  show "te_consecutive_drift_count (drift_step x e) = (case drift_verdict (te_config e) x of
       Ignored \<Rightarrow> te_consecutive_drift_count e | Clean \<Rightarrow> 0 | Breach \<Rightarrow> te_consecutive_drift_count e + 1)"
    using s by (auto simp: x drift_step_def evaluate_drift_def Let_def split: option.split verdict.split)
qed

lemma drift_run_facts:
  assumes "idle_engine e" "te_consecutive_drift_count e = 0"
  shows "idle_engine (fold drift_step xs e)" "te_config (fold drift_step xs e) = te_config e"
    "te_consecutive_drift_count (fold drift_step xs e) = trailing (map (drift_verdict (te_config e)) (rev xs))"
proof (induction xs rule: rev_induct)
  case (snoc x xs)
  {
    case 1 then show ?case using snoc drift_step_facts(1) by simp
  next
    case 2 then show ?case using snoc drift_step_facts(2) by simp
  next
    case 3 then show ?case using snoc drift_step_facts(3) [OF snoc(1), of x] by (simp split: verdict.split)
  }
qed (use assms in simp_all)

text \<open>
  C12: drift triggers when it is critical or sustained.  A fresh engine that has seen any measurements and
  started no job answers the next one with a trigger exactly when the measurement counts (engine
  enabled, breaker calm, quorum of samples), is drifted, and is critical or completes as many drifted
  measurements in a row as the configuration requires; measurements that do not count do not break
  the row, a stable one does.
\<close>

theorem trigger_fires_iff_drift_sustained:
  "fst (fst (evaluate_drift m st now (fold drift_step xs (new_trigger_engine cfg)))) \<longleftrightarrow>
     drift_verdict (validate_retraining_config cfg) (m, st, now) = Breach \<and>
     (is_critical_drift m \<or> rtc_required_consecutive_windows (validate_retraining_config cfg) \<le>
        trailing (map (drift_verdict (validate_retraining_config cfg)) (rev (xs @ [(m, st, now)]))))"
proof -
  let ?e = "fold drift_step xs (new_trigger_engine cfg)"
  have n: "idle_engine (new_trigger_engine cfg)" "te_consecutive_drift_count (new_trigger_engine cfg) = 0"
    "te_config (new_trigger_engine cfg) = validate_retraining_config cfg"
    by (simp_all add: new_trigger_engine_def idle_engine_def)
  note r = drift_run_facts [OF n(1,2), of xs, unfolded n(3)]
  show ?thesis
    using idle_suppressed [OF r(1), of m st now, unfolded r(2)] r(2,3)
    by (auto simp: evaluate_drift_def Let_def split: option.split)
qed

text \<open>Within the cooldown of the last start no measurement triggers or counts.\<close>

lemma cooldown_suppresses:
  assumes "te_last_trigger_time e = Some t" "time_sub now t < rtc_cooldown_duration (te_config e)"
  shows "fst (fst (evaluate_drift m st now e)) = False" "snd (evaluate_drift m st now e) = e"
proof -
  have "suppressed_by m st now e \<noteq> None" using assms by (simp add: suppressed_by_def in_trigger_cooldown_def)
  then obtain why where "suppressed_by m st now e = Some why" by blast
  then show "fst (fst (evaluate_drift m st now e)) = False" "snd (evaluate_drift m st now e) = e"
    by (simp_all add: evaluate_drift_def)
qed

end
