(* ===== verification/Model_Registry.thy ===== *)
theory Model_Registry
  imports Retraining_Types Artifact_Verifier Assoc_Lists "HOL-Library.Multiset"
begin

text \<open>
  The model registry, \<open>internal/riskengine/model_registry.go\<close>: the registered models, one entry per
  version, and the versions of production and fallback.  Every operation holds the registry's lock
  for its whole body.  An order argument is the order in which Go ranges over the models.
\<close>

datatype lifecycle_state = LcCandidate | LcValidated | LcShadow | LcApproved | LcCanary | LcPromoted | LcRejected
  | LcRolledBack | LcFailed

record registered_model =
  rm_model_id :: string
  rm_version :: string
  rm_parent_model_version :: string
  rm_feature_contract :: string
  rm_calibration_version :: string
  rm_artifact_uri :: string
  rm_artifact_checksum :: string
  rm_created_at :: gotime
  rm_promoted_at :: "gotime option"
  rm_validation_status :: string
  rm_shadow_status :: string
  rm_lifecycle_state :: lifecycle_state
  rm_is_production_active :: bool
  rm_is_fallback_active :: bool
  rm_provenance :: "provenance option"
  rm_metadata :: "(string \<times> string) list"

record model_registry =
  mr_models :: "(string \<times> registered_model) list"
  mr_production_model :: string
  mr_fallback_model :: string

definition production_baseline :: "gotime \<Rightarrow> registered_model" where
  "production_baseline now =
     \<lparr>rm_model_id = ''model_prod_25f_v3'', rm_version = ''fraud-xgb-25f-v3.0'',
      rm_parent_model_version = ''fraud-xgb-15f-v1.5'', rm_feature_contract = ''fraud-risk-25f-v2.5'',
      rm_calibration_version = ''beta-calibrated-v2.5'', rm_artifact_uri = ''file:///app/model/fraud_model_25f_v3.onnx'',
      rm_artifact_checksum = ''verified_prod_25f_v3_sha256'', rm_created_at = now, rm_promoted_at = Some now,
      rm_validation_status = ''PASSED'', rm_shadow_status = ''PASSED'', rm_lifecycle_state = LcPromoted,
      rm_is_production_active = True, rm_is_fallback_active = False,
      rm_provenance = Some
        \<lparr>pv_dataset_uri = ''s3://risk-datasets/training/baseline_25f_v3.parquet'',
         pv_dataset_checksum = ''dataset_sha256_verified_prod_25f_v3'', pv_dataset_version = ''v3.0-gold'',
         pv_dataset_row_count = 1500000, pv_training_config_hash = ''config_hash_xgb_25f_v3'',
         pv_training_job_id = ''job_train_baseline_prod_25f'', pv_parent_model_version = ''fraud-xgb-15f-v1.5'',
         pv_candidate_version = ''fraud-xgb-25f-v3.0'', pv_artifact_uri = ''file:///app/model/fraud_model_25f_v3.onnx'',
         pv_artifact_checksum = ''verified_prod_25f_v3_sha256'', pv_validation_report_hash = '''',
         pv_validation_passed = True, pv_shadow_evaluation_id = '''', pv_shadow_passed = True,
         pv_approval_actor = ''SYSTEM_BOOTSTRAP'', pv_approval_reason = ''Verified production baseline model'',
         pv_approved_at = Some now, pv_canary_stage_completed = 100, pv_promoted_at = Some now, pv_created_at = now\<rparr>,
      rm_metadata = []\<rparr>"

text \<open>The fallback model as \<open>Reconcile\<close> restores it, and as the registry starts with it.\<close>

definition fallback_baseline :: "gotime \<Rightarrow> registered_model" where
  "fallback_baseline now =
     \<lparr>rm_model_id = ''model_fallback_15f_v1'', rm_version = ''fraud-xgb-15f-v1.5'', rm_parent_model_version = ''none'',
      rm_feature_contract = ''fraud-risk-15f-v1.5'', rm_calibration_version = ''beta-calibrated-v1.5'',
      rm_artifact_uri = ''file:///app/model/backup/fraud_model_15f_v1.onnx'',
      rm_artifact_checksum = ''verified_fallback_15f_v1_sha256'', rm_created_at = now, rm_promoted_at = None,
      rm_validation_status = ''PASSED'', rm_shadow_status = ''PASSED'', rm_lifecycle_state = LcPromoted,
      rm_is_production_active = False, rm_is_fallback_active = True, rm_provenance = None, rm_metadata = []\<rparr>"

definition fallback_with_provenance :: "gotime \<Rightarrow> registered_model" where
  "fallback_with_provenance now = (fallback_baseline now)\<lparr>rm_provenance := Some
     \<lparr>pv_dataset_uri = ''s3://risk-datasets/training/fallback_15f_v1.parquet'',
      pv_dataset_checksum = ''dataset_sha256_verified_fallback_15f_v1'', pv_dataset_version = ''v1.5-gold'',
      pv_dataset_row_count = 850000, pv_training_config_hash = ''config_hash_xgb_15f_v1'',
      pv_training_job_id = ''job_train_fallback_15f_v1'', pv_parent_model_version = ''none'',
      pv_candidate_version = ''fraud-xgb-15f-v1.5'', pv_artifact_uri = ''file:///app/model/backup/fraud_model_15f_v1.onnx'',
      pv_artifact_checksum = ''verified_fallback_15f_v1_sha256'', pv_validation_report_hash = '''',
      pv_validation_passed = True, pv_shadow_evaluation_id = '''', pv_shadow_passed = True,
      pv_approval_actor = ''SYSTEM_BOOTSTRAP'', pv_approval_reason = ''Verified fallback model'',
      pv_approved_at = Some now, pv_canary_stage_completed = 100, pv_promoted_at = None, pv_created_at = now\<rparr>\<rparr>"

definition new_model_registry :: "gotime \<Rightarrow> model_registry" where
  "new_model_registry now =
     \<lparr>mr_models = [(''fraud-xgb-25f-v3.0'', production_baseline now), (''fraud-xgb-15f-v1.5'', fallback_with_provenance now)],
      mr_production_model = ''fraud-xgb-25f-v3.0'', mr_fallback_model = ''fraud-xgb-15f-v1.5''\<rparr>"

definition lookup_model :: "string \<Rightarrow> model_registry \<Rightarrow> registered_model option" where
  "lookup_model version r = map_of (mr_models r) version"

definition change_model :: "string \<Rightarrow> (registered_model \<Rightarrow> registered_model) \<Rightarrow> model_registry \<Rightarrow> model_registry" where
  "change_model version f r = r\<lparr>mr_models := AList.map_entry version f (mr_models r)\<rparr>"

definition register_candidate ::
  "model_candidate \<Rightarrow> string \<Rightarrow> string \<Rightarrow> gotime \<Rightarrow> model_registry \<Rightarrow> string option \<times> model_registry" where
  "register_candidate c uri checksum now r =
     (if mc_version c = '''' then (Some ''candidate version cannot be empty'', r)
      else if lookup_model (mc_version c) r \<noteq> None
      then (Some (''model version '' @ quoted (mc_version c) @ '' is already registered (immutability violation)''), r)
      else (None, r\<lparr>mr_models := AList.update (mc_version c)
        \<lparr>rm_model_id = mc_model_id c, rm_version = mc_version c, rm_parent_model_version = mc_parent_model_version c,
         rm_feature_contract = mc_feature_contract c, rm_calibration_version = mc_calibration_version c,
         rm_artifact_uri = uri, rm_artifact_checksum = checksum, rm_created_at = now, rm_promoted_at = None,
         rm_validation_status = ''PENDING'', rm_shadow_status = ''PENDING'', rm_lifecycle_state = LcCandidate,
         rm_is_production_active = False, rm_is_fallback_active = False, rm_provenance = None,
         rm_metadata = [(''training_job_id'', mc_training_job_id c), (''dataset_id'', mc_dataset_id c),
           (''config_hash'', mc_config_hash c)]\<rparr> (mr_models r)\<rparr>))"

definition not_in_registry :: "string \<Rightarrow> string" where
  "not_in_registry version = ''model version '' @ quoted version @ '' not found in registry''"

definition candidate_not_found :: "string \<Rightarrow> string" where
  "candidate_not_found version = ''candidate version '' @ quoted version @ '' not found in registry''"

definition update_lifecycle_state ::
  "string \<Rightarrow> lifecycle_state \<Rightarrow> model_registry \<Rightarrow> string option \<times> model_registry" where
  "update_lifecycle_state version st r =
     (case lookup_model version r of None \<Rightarrow> (Some (not_in_registry version), r)
      | Some _ \<Rightarrow> (None, change_model version (\<lambda>m.
          let m1 = m\<lparr>rm_lifecycle_state := st\<rparr> in
          if st = LcValidated then m1\<lparr>rm_validation_status := ''PASSED''\<rparr>
          else if st = LcShadow then m1\<lparr>rm_shadow_status := ''PASSED''\<rparr> else m1) r))"

definition get_model :: "string \<Rightarrow> model_registry \<Rightarrow> string + registered_model" where
  "get_model version r = (case lookup_model version r of None \<Rightarrow> Inl (not_in_registry version) | Some m \<Rightarrow> Inr m)"

definition get_production_model :: "model_registry \<Rightarrow> string + registered_model" where
  "get_production_model r = (case lookup_model (mr_production_model r) r of
     None \<Rightarrow> Inl (''production model '' @ quoted (mr_production_model r) @ '' not found in registry'') | Some m \<Rightarrow> Inr m)"

definition get_fallback_model :: "model_registry \<Rightarrow> string + registered_model" where
  "get_fallback_model r = (case lookup_model (mr_fallback_model r) r of
     None \<Rightarrow> Inl (''fallback model '' @ quoted (mr_fallback_model r) @ '' not found in registry'') | Some m \<Rightarrow> Inr m)"

definition list_models :: "(string list \<Rightarrow> string list) \<Rightarrow> model_registry \<Rightarrow> registered_model list" where
  "list_models order r = map (\<lambda>k. the (lookup_model k r)) (order (map fst (mr_models r)))"

text \<open>The previous production model and the candidate may be the same entry: the second change sees the first.\<close>

definition promote_model :: "string \<Rightarrow> gotime \<Rightarrow> model_registry \<Rightarrow> string option \<times> model_registry" where
  "promote_model version now r =
     (case lookup_model version r of None \<Rightarrow> (Some (candidate_not_found version), r)
      | Some cand \<Rightarrow>
          (case (if rm_provenance cand = None then None else validate_provenance_chain (rm_provenance cand)) of
             Some e \<Rightarrow> (Some (''promotion blocked: candidate '' @ quoted version @ '' has incomplete provenance: '' @ e), r)
           | None \<Rightarrow>
               (let r1 = (case lookup_model (mr_production_model r) r of None \<Rightarrow> r
                      | Some prev \<Rightarrow> (change_model (mr_production_model r)
                          (\<lambda>m. m\<lparr>rm_is_production_active := False, rm_is_fallback_active := True\<rparr>) r)
                          \<lparr>mr_fallback_model := rm_version prev\<rparr>);
                    r2 = change_model version (\<lambda>m. m\<lparr>rm_is_production_active := True, rm_is_fallback_active := False,
                          rm_lifecycle_state := LcPromoted, rm_promoted_at := Some now,
                          rm_provenance := map_option (\<lambda>p. p\<lparr>pv_promoted_at := Some now\<rparr>) (rm_provenance m)\<rparr>) r1 in
                (None, r2\<lparr>mr_production_model := version\<rparr>))))"

definition promote_conditional_canary :: "string \<Rightarrow> int \<Rightarrow> model_registry \<Rightarrow> string option \<times> model_registry" where
  "promote_conditional_canary version pct r =
     (if pct \<le> 0 \<or> 20 < pct
      then (Some (''invalid canary percentage '' @ itoa pct @ ''%: conditional canary must be between 1% and 20%''), r)
      else (case lookup_model version r of None \<Rightarrow> (Some (candidate_not_found version), r)
        | Some cand \<Rightarrow>
            (case (if rm_provenance cand = None then None else validate_conditional_provenance (rm_provenance cand)) of
               Some e \<Rightarrow> (Some (''conditional canary blocked: '' @ e), r)
             | None \<Rightarrow> (None, change_model version (\<lambda>m. m\<lparr>rm_lifecycle_state := LcCanary,
                 rm_provenance := map_option (\<lambda>p. p\<lparr>pv_canary_stage_completed := 1\<rparr>) (rm_provenance m)\<rparr>) r))))"

definition attach_provenance :: "string \<Rightarrow> provenance option \<Rightarrow> model_registry \<Rightarrow> string option \<times> model_registry" where
  "attach_provenance version p r =
     (case lookup_model version r of None \<Rightarrow> (Some (not_in_registry version), r)
      | Some _ \<Rightarrow> (None, change_model version (\<lambda>m. m\<lparr>rm_provenance := p\<rparr>) r))"

definition get_model_provenance :: "string \<Rightarrow> model_registry \<Rightarrow> string + provenance" where
  "get_model_provenance version r =
     (case lookup_model version r of None \<Rightarrow> Inl (not_in_registry version)
      | Some m \<Rightarrow> (case rm_provenance m of
          None \<Rightarrow> Inl (''provenance not recorded for model version '' @ quoted version) | Some p \<Rightarrow> Inr p))"

definition rollback_model :: "string \<Rightarrow> model_registry \<Rightarrow> string option \<times> model_registry" where
  "rollback_model version r =
     (case lookup_model version r of None \<Rightarrow> (Some (candidate_not_found version), r)
      | Some _ \<Rightarrow> (None, change_model version (\<lambda>m. m\<lparr>rm_lifecycle_state := LcRolledBack, rm_is_production_active := False\<rparr>) r))"


subsection \<open>Reconciliation\<close>

record reconciliation =
  rc_valid :: bool
  rc_repairs_made :: nat
  rc_production :: string
  rc_fallback :: string
  rc_violations :: "string list"
  rc_repairs :: "string list"

definition violation :: "string \<Rightarrow> reconciliation \<Rightarrow> reconciliation" where
  "violation v res = res\<lparr>rc_violations := rc_violations res @ [v]\<rparr>"

definition repair :: "string \<Rightarrow> reconciliation \<Rightarrow> reconciliation" where
  "repair v res = res\<lparr>rc_repairs := rc_repairs res @ [v], rc_repairs_made := Suc (rc_repairs_made res)\<rparr>"

text \<open>The texts of violations and repairs.\<close>

definition fallback_version :: string where "fallback_version = ''fraud-xgb-15f-v1.5''"

definition msg_no_fallback :: string where "msg_no_fallback = ''Fallback model unassigned or missing from registry''"
definition msg_fallback_restored :: string where
  "msg_fallback_restored = ''Restored default baseline fallback model (fraud-xgb-15f-v1.5)''"
definition msg_no_production :: "string \<Rightarrow> string" where
  "msg_no_production v = ''Production model '' @ quoted v @ '' missing from registry''"
definition msg_fallback_activated :: "string \<Rightarrow> string" where
  "msg_fallback_activated v = ''Activated fallback model '' @ quoted v @ '' as primary production''"
definition msg_corrupt_production :: "string \<Rightarrow> string option \<Rightarrow> string" where
  "msg_corrupt_production v e = ''Production model '' @ quoted v @ '' artifact verification failed: '' @
     (case e of None \<Rightarrow> ''<nil>'' | Some s \<Rightarrow> s)"
definition msg_failed_over :: "string \<Rightarrow> string" where
  "msg_failed_over v = ''Production artifact corrupted; safely failed over to fallback '' @ quoted v"
definition msg_extra_active :: "string \<Rightarrow> string \<Rightarrow> string" where
  "msg_extra_active v main = ''Model '' @ quoted v @ '' improperly marked active production while '' @ quoted main @
     '' is authoritative''"
definition msg_deactivated :: "string \<Rightarrow> string" where
  "msg_deactivated v = ''Deactivated extra production flag on model '' @ quoted v"
definition msg_flag_set :: "string \<Rightarrow> string" where
  "msg_flag_set v = ''Set IsProductionActive flag on primary model '' @ quoted v"
definition msg_corrupt_candidate :: "string \<Rightarrow> string" where
  "msg_corrupt_candidate v = ''Candidate model '' @ quoted v @ '' has corrupted/missing artifact''"
definition msg_candidate_failed :: "string \<Rightarrow> string" where
  "msg_candidate_failed v = ''Marked candidate '' @ quoted v @ '' as FAILED due to artifact integrity violation''"

definition set_active :: "bool \<Rightarrow> string \<Rightarrow> model_registry \<Rightarrow> model_registry" where
  "set_active b v r = change_model v (\<lambda>m. m\<lparr>rm_is_production_active := b\<rparr>) r"

text \<open>Step 1: the fallback model exists.\<close>

definition reconcile_fallback :: "gotime \<Rightarrow> model_registry \<times> reconciliation \<Rightarrow> model_registry \<times> reconciliation" where
  "reconcile_fallback now = (\<lambda>(r, res).
     if mr_fallback_model r = '''' \<or> lookup_model (mr_fallback_model r) r = None
     then (r\<lparr>mr_models := AList.update fallback_version (fallback_baseline now) (mr_models r),
             mr_fallback_model := fallback_version\<rparr>,
           repair msg_fallback_restored (violation msg_no_fallback res))
     else (r, res))"

text \<open>The condition under which an artifact is verified, and whether the verification fails.\<close>

definition verifiable :: "registered_model \<Rightarrow> bool" where
  "verifiable m \<longleftrightarrow> rm_artifact_uri m \<noteq> '''' \<and> rm_artifact_checksum m \<noteq> '''' \<and> has_prefix (rm_artifact_uri m) ''file://''"

definition verification :: "artifact_verifier \<Rightarrow> file_system \<Rightarrow> gotime \<Rightarrow> registered_model \<Rightarrow> artifact_record \<times> string option" where
  "verification av fs now m = verify_artifact av fs now (rm_model_id m) (rm_version m) (rm_artifact_uri m) (rm_artifact_checksum m)"

definition corrupted :: "artifact_verifier \<Rightarrow> file_system \<Rightarrow> gotime \<Rightarrow> registered_model \<Rightarrow> bool" where
  "corrupted av fs now m \<longleftrightarrow> verifiable m \<and>
     (snd (verification av fs now m) \<noteq> None \<or> \<not> ar_passed (fst (verification av fs now m)))"

text \<open>Step 2: the production model exists and its artifact is sound, or the fallback takes its place.\<close>

definition reconcile_production ::
  "artifact_verifier \<Rightarrow> file_system \<Rightarrow> gotime \<Rightarrow> model_registry \<times> reconciliation \<Rightarrow> model_registry \<times> reconciliation" where
  "reconcile_production av fs now = (\<lambda>(r, res).
     let prod = mr_production_model r; fb = mr_fallback_model r in
     case lookup_model prod r of
       None \<Rightarrow> (set_active True fb (r\<lparr>mr_production_model := fb\<rparr>),
                repair (msg_fallback_activated fb) (violation (msg_no_production prod) res))
     | Some m \<Rightarrow>
         if corrupted av fs now m
         then (let res1 = violation (msg_corrupt_production prod (snd (verification av fs now m))) res in
               if fb \<noteq> '''' \<and> fb \<noteq> prod
               then (set_active True fb (set_active False prod (r\<lparr>mr_production_model := fb\<rparr>)), repair (msg_failed_over fb) res1)
               else (r, res1))
         else (r, res))"

text \<open>Step 3: one active model.  The fold carries the number of active authoritative models.\<close>

definition check_active ::
  "string \<Rightarrow> model_registry \<times> reconciliation \<times> nat \<Rightarrow> model_registry \<times> reconciliation \<times> nat" where
  "check_active v = (\<lambda>(r, res, n).
     case lookup_model v r of
       None \<Rightarrow> (r, res, n)
     | Some m \<Rightarrow>
         if rm_is_production_active m
         then (if v \<noteq> mr_production_model r
               then (set_active False v r, repair (msg_deactivated v) (violation (msg_extra_active v (mr_production_model r)) res), n)
               else (r, res, Suc n))
         else (r, res, n))"

definition reconcile_single :: "string list \<Rightarrow> model_registry \<times> reconciliation \<Rightarrow> model_registry \<times> reconciliation" where
  "reconcile_single order = (\<lambda>(r, res).
     case fold check_active order (r, res, 0) of
       (r1, res1, n) \<Rightarrow>
         if n = 0 \<and> lookup_model (mr_production_model r1) r1 \<noteq> None
         then (set_active True (mr_production_model r1) r1, repair (msg_flag_set (mr_production_model r1)) res1)
         else (r1, res1))"

text \<open>Step 4: candidates whose artifact is gone or damaged fail.\<close>

definition check_candidate ::
  "artifact_verifier \<Rightarrow> file_system \<Rightarrow> gotime \<Rightarrow> string \<Rightarrow> model_registry \<times> reconciliation \<Rightarrow> model_registry \<times> reconciliation" where
  "check_candidate av fs now v = (\<lambda>(r, res).
     case lookup_model v r of
       None \<Rightarrow> (r, res)
     | Some m \<Rightarrow>
         if rm_lifecycle_state m \<in> {LcCandidate, LcValidated, LcShadow} \<and> corrupted av fs now m
         then (change_model v (\<lambda>m. m\<lparr>rm_lifecycle_state := LcFailed\<rparr>) r,
               repair (msg_candidate_failed v) (violation (msg_corrupt_candidate v) res))
         else (r, res))"

definition reconcile ::
  "artifact_verifier option \<Rightarrow> file_system \<Rightarrow> gotime \<Rightarrow> (string list \<Rightarrow> string list) \<Rightarrow> model_registry \<Rightarrow> reconciliation \<times> model_registry" where
  "reconcile avo fs now order r =
     (let av = (case avo of None \<Rightarrow> new_artifact_verifier | Some v \<Rightarrow> v);
          res0 = \<lparr>rc_valid = True, rc_repairs_made = 0, rc_production = '''', rc_fallback = '''', rc_violations = [], rc_repairs = []\<rparr>;
          s2 = reconcile_production av fs now (reconcile_fallback now (r, res0));
          s3 = reconcile_single (order (map fst (mr_models (fst s2)))) s2;
          (r4, res4) = fold (check_candidate av fs now) (order (map fst (mr_models (fst s3)))) s3;
          res5 = res4\<lparr>rc_production := mr_production_model r4, rc_fallback := mr_fallback_model r4\<rparr> in
      (if rc_violations res5 \<noteq> [] \<and> rc_repairs_made res5 = 0 then res5\<lparr>rc_valid := False\<rparr> else res5, r4))"


subsection \<open>Facts about the operations\<close>

lemma change_model_simps [simp]:
  "mr_production_model (change_model v f r) = mr_production_model r"
  "mr_fallback_model (change_model v f r) = mr_fallback_model r"
  "map fst (mr_models (change_model v f r)) = map fst (mr_models r)"
  by (simp_all add: change_model_def keys_map_entry)

lemma lookup_change [simp]:
  "lookup_model w (change_model v f r) = (if w = v then map_option f (lookup_model v r) else lookup_model w r)"
  by (simp add: lookup_model_def change_model_def map_of_map_entry)

lemma lookup_pointers [simp]:
  "lookup_model v (r\<lparr>mr_production_model := p\<rparr>) = lookup_model v r"
  "lookup_model v (r\<lparr>mr_fallback_model := p\<rparr>) = lookup_model v r"
  by (simp_all add: lookup_model_def)

lemma lookup_update [simp]:
  "lookup_model w (r\<lparr>mr_models := AList.update v m (mr_models r)\<rparr>) = (if w = v then Some m else lookup_model w r)"
  "lookup_model w (r\<lparr>mr_models := AList.update v m (mr_models r), mr_fallback_model := p\<rparr>) = (if w = v then Some m else lookup_model w r)"
  by (simp_all add: lookup_model_def update_conv)

lemmas set_active_simps [simp] = change_model_simps [of _ "\<lambda>m. m\<lparr>rm_is_production_active := _\<rparr>", folded set_active_def]

lemma lookup_set_active [simp]:
  "lookup_model w (set_active b v r) =
     (if w = v then map_option (\<lambda>m. m\<lparr>rm_is_production_active := b\<rparr>) (lookup_model v r) else lookup_model w r)"
  by (simp add: set_active_def)

lemma lookup_in_keys: "v \<in> set (map fst (mr_models r)) \<longleftrightarrow> lookup_model v r \<noteq> None"
  by (simp add: lookup_model_def map_of_eq_None_iff)

text \<open>The models marked active.\<close>

definition active :: "model_registry \<Rightarrow> string set" where
  "active r = {v. \<exists>m. lookup_model v r = Some m \<and> rm_is_production_active m}"

text \<open>
  The state every operation keeps: pointers to registered models, keys that are versions, and no active
  model but the one the production pointer names.
\<close>

definition registry_ok :: "model_registry \<Rightarrow> bool" where
  "registry_ok r \<longleftrightarrow> active r \<subseteq> {mr_production_model r} \<and> lookup_model (mr_production_model r) r \<noteq> None \<and>
     lookup_model (mr_fallback_model r) r \<noteq> None \<and> (\<forall>v m. lookup_model v r = Some m \<longrightarrow> rm_version m = v \<and> v \<noteq> '''')"

lemma active_set_active:
  "active (set_active b v r) = (if b \<and> lookup_model v r \<noteq> None then insert v (active r) else active r - {v})"
  by (auto simp: active_def)

lemma active_cong: "(\<And>v. map_option rm_is_production_active (lookup_model v r) = map_option rm_is_production_active (lookup_model v r')) \<Longrightarrow> active r = active r'"
proof -
  assume e: "\<And>v. map_option rm_is_production_active (lookup_model v r) = map_option rm_is_production_active (lookup_model v r')"
  have m: "active q = {v. map_option rm_is_production_active (lookup_model v q) = Some True}" for q by (auto simp: active_def)
  show ?thesis by (simp only: m e)
qed

subsection \<open>Reconciliation keeps and restores the state\<close>

lemma reconcile_fallback_facts:
  assumes "reconcile_fallback now (r, res) = (r1, res1)"
  shows "lookup_model (mr_fallback_model r1) r1 \<noteq> None" "registry_ok r \<Longrightarrow> r1 = r"
  using assms by (auto simp: reconcile_fallback_def registry_ok_def split: if_splits)

lemma reconcile_production_facts:
  assumes "reconcile_production av fs now (r, res) = (r1, res1)" "lookup_model (mr_fallback_model r) r \<noteq> None"
  shows "lookup_model (mr_production_model r1) r1 \<noteq> None" "lookup_model (mr_fallback_model r1) r1 \<noteq> None"
    "registry_ok r \<Longrightarrow> registry_ok r1"
proof -
  show "lookup_model (mr_production_model r1) r1 \<noteq> None" "lookup_model (mr_fallback_model r1) r1 \<noteq> None"
    using assms by (auto simp: reconcile_production_def Let_def split: option.splits if_splits)
  show "registry_ok r1" if ok: "registry_ok r"
  proof (cases "r1 = r")
    case False
    then have r1: "r1 = set_active True (mr_fallback_model r)
        (set_active False (mr_production_model r) (r\<lparr>mr_production_model := mr_fallback_model r\<rparr>))"
      and "mr_fallback_model r \<noteq> mr_production_model r"
      using assms ok by (auto simp: reconcile_production_def registry_ok_def Let_def split: option.splits if_splits)
    moreover have "active (r\<lparr>mr_production_model := mr_fallback_model r\<rparr>) = active r" by (rule active_cong) simp
    ultimately show ?thesis using ok by (auto simp: registry_ok_def active_set_active)
  qed (use ok in simp)
qed

text \<open>The fold over the models: which are active after it, and what it counts.\<close>

lemma check_active_frame:
  assumes "fold check_active order (r, res, n) = (r1, res1, n1)"
  shows "mr_production_model r1 = mr_production_model r" "mr_fallback_model r1 = mr_fallback_model r"
    "(lookup_model v r1 = None) = (lookup_model v r = None)"
    "map_option rm_version (lookup_model v r1) = map_option rm_version (lookup_model v r)"
    "active r1 = active r - (set order - {mr_production_model r})"
    "n1 = n + length (filter (\<lambda>v. v = mr_production_model r \<and> v \<in> active r) order)"
  using assms
proof (atomize (full), induction order arbitrary: r res n)
  case Nil
  then show ?case by simp
next
  case (Cons w order)
  obtain r' res' n' where s: "check_active w (r, res, n) = (r', res', n')" by (metis surj_pair)
  have p: "mr_production_model r' = mr_production_model r" "mr_fallback_model r' = mr_fallback_model r"
    using s by (auto simp: check_active_def split: option.splits if_splits)
  have l: "(lookup_model v r' = None) = (lookup_model v r = None)"
    "map_option rm_version (lookup_model v r') = map_option rm_version (lookup_model v r)" for v
    using s by (auto simp: check_active_def option.map_comp comp_def split: option.splits if_splits)
  have a: "active r' = active r - ({w} - {mr_production_model r})"
    using s by (auto simp: check_active_def active_set_active split: option.splits if_splits) (auto simp: active_def)
  have n: "n' = n + (if w = mr_production_model r \<and> w \<in> active r then 1 else 0)"
    using s by (auto simp: check_active_def active_def split: option.splits if_splits)
  have "fold check_active order (r', res', n') = (r1, res1, n1)" using Cons.prems s by simp
  from Cons.IH [OF this] show ?case by (simp add: p l a n) (auto intro: arg_cong [where f = length] filter_cong)
qed


lemma reconcile_single_facts:
  assumes "reconcile_single order (r, res) = (r1, res1)"
  shows "mr_production_model r1 = mr_production_model r" "mr_fallback_model r1 = mr_fallback_model r"
    "(lookup_model v r1 = None) = (lookup_model v r = None)"
    "map_option rm_version (lookup_model v r1) = map_option rm_version (lookup_model v r)"
    "active r1 \<subseteq> insert (mr_production_model r) (active r - set order)"
    "lookup_model (mr_production_model r) r \<noteq> None \<Longrightarrow> mr_production_model r \<in> active r1"
proof -
  obtain r' res' n where f: "fold check_active order (r, res, 0) = (r', res', n)" by (metis surj_pair)
  note c = check_active_frame [OF f]
  have r1: "r1 = (if n = 0 \<and> lookup_model (mr_production_model r) r \<noteq> None then set_active True (mr_production_model r) r' else r')"
    using assms f c(1) c(3) [of "mr_production_model r"] by (auto simp: reconcile_single_def split: if_splits)
  show "mr_production_model r1 = mr_production_model r" "mr_fallback_model r1 = mr_fallback_model r"
    "(lookup_model v r1 = None) = (lookup_model v r = None)"
    using c by (auto simp: r1)
  show "map_option rm_version (lookup_model v r1) = map_option rm_version (lookup_model v r)"
    using c(4) [of v] by (auto simp: r1 option.map_comp comp_def)
  show "active r1 \<subseteq> insert (mr_production_model r) (active r - set order)"
    using c(5) by (auto simp: r1 active_set_active)
  show "mr_production_model r \<in> active r1" if reg: "lookup_model (mr_production_model r) r \<noteq> None"
  proof (cases "n = 0")
    case True
    then show ?thesis using reg c(3) [of "mr_production_model r"] by (simp add: r1 active_set_active)
  next
    case False
    then have "filter (\<lambda>v. v = mr_production_model r \<and> v \<in> active r) order \<noteq> []" using c(6) by force
    then have "mr_production_model r \<in> active r" by (auto simp: filter_empty_conv)
    then show ?thesis using False c(5) by (simp add: r1)
  qed
qed

lemma check_candidate_frame:
  assumes "fold (check_candidate av fs now) order (r, res) = (r1, res1)"
  shows "mr_production_model r1 = mr_production_model r" "mr_fallback_model r1 = mr_fallback_model r"
    "(lookup_model v r1 = None) = (lookup_model v r = None)"
    "map_option rm_version (lookup_model v r1) = map_option rm_version (lookup_model v r)"
    "active r1 = active r"
  using assms
proof (atomize (full), induction order arbitrary: r res)
  case Nil
  then show ?case by simp
next
  case (Cons w order)
  obtain r' res' where s: "check_candidate av fs now w (r, res) = (r', res')" by (metis surj_pair)
  have p: "mr_production_model r' = mr_production_model r" "mr_fallback_model r' = mr_fallback_model r"
    using s by (auto simp: check_candidate_def split: option.splits if_splits)
  have l: "(lookup_model v r' = None) = (lookup_model v r = None)"
    "map_option rm_version (lookup_model v r') = map_option rm_version (lookup_model v r)"
    "map_option rm_is_production_active (lookup_model v r') = map_option rm_is_production_active (lookup_model v r)" for v
    using s by (auto simp: check_candidate_def option.map_comp comp_def split: option.splits if_splits)
  have a: "active r' = active r" by (rule active_cong) (rule l)
  have "fold (check_candidate av fs now) order (r', res') = (r1, res1)" using Cons.prems s by simp
  from Cons.IH [OF this] show ?case by (simp add: p l a)
qed

lemma registry_ok_cong:
  assumes "registry_ok r" "mr_production_model r1 = mr_production_model r" "mr_fallback_model r1 = mr_fallback_model r"
    "\<And>v. (lookup_model v r1 = None) = (lookup_model v r = None)"
    "\<And>v. map_option rm_version (lookup_model v r1) = map_option rm_version (lookup_model v r)"
    "active r1 \<subseteq> {mr_production_model r}"
  shows "registry_ok r1"
proof -
  have "rm_version m = v \<and> v \<noteq> ''''" if l: "lookup_model v r1 = Some m" for v m
  proof -
    obtain m0 where "lookup_model v r = Some m0" "rm_version m = rm_version m0"
      using l assms(4) [of v] assms(5) [of v] by (cases "lookup_model v r") auto
    then show ?thesis using assms(1) by (auto simp: registry_ok_def)
  qed
  then show ?thesis using assms by (simp add: registry_ok_def)
qed

lemma reconcile_stages:
  assumes "reconcile avo fs now order r = (rc, r4)"
  obtains r2 res2 r3 res3 res4 av rf resf where
    "reconcile_fallback now (r, \<lparr>rc_valid = True, rc_repairs_made = 0, rc_production = '''', rc_fallback = '''', rc_violations = [], rc_repairs = []\<rparr>) = (rf, resf)"
    "reconcile_production av fs now (rf, resf) = (r2, res2)"
    "reconcile_single (order (map fst (mr_models r2))) (r2, res2) = (r3, res3)"
    "fold (check_candidate av fs now) (order (map fst (mr_models r3))) (r3, res3) = (r4, res4)"
  using assms that unfolding reconcile_def Let_def split_beta by (metis prod.collapse snd_conv)

lemma reconciled_registry:
  assumes "\<And>ks. mset (order ks) = mset ks" "reconcile avo fs now order r = (rc, r')"
  shows "active r' = {mr_production_model r'} \<and> lookup_model (mr_production_model r') r' \<noteq> None \<and>
    lookup_model (mr_fallback_model r') r' \<noteq> None"
proof -
  obtain r2 res2 r3 res3 res4 av rf resf where
    "reconcile_fallback now (r, \<lparr>rc_valid = True, rc_repairs_made = 0, rc_production = '''', rc_fallback = '''', rc_violations = [], rc_repairs = []\<rparr>) = (rf, resf)"
    "reconcile_production av fs now (rf, resf) = (r2, res2)"
    "reconcile_single (order (map fst (mr_models r2))) (r2, res2) = (r3, res3)"
    "fold (check_candidate av fs now) (order (map fst (mr_models r3))) (r3, res3) = (r', res4)"
    using reconcile_stages [OF assms(2)] by metis
  note f = reconcile_fallback_facts(1) [OF this(1)] and s = reconcile_single_facts [OF this(3)]
    and c = check_candidate_frame [OF this(4)] and pr = reconcile_production_facts(1,2) [OF this(2)]
  have "set (order (map fst (mr_models r2))) = set (map fst (mr_models r2))" by (metis assms(1) set_mset_mset)
  moreover have "active r2 \<subseteq> set (map fst (mr_models r2))" using lookup_in_keys by (fastforce simp: active_def)
  ultimately have "active r3 \<subseteq> {mr_production_model r2}" using s(5) by blast
  then show ?thesis using s(1,2,3,6) c(1,2,3,5) pr f by auto
qed


text \<open>
  C29: reconciliation restores the single production model.  From any state of the registry, whatever order
  the models are ranged over in and whatever the file system holds, exactly one model is marked
  active after it: the one the production pointer names, and it and the fallback are registered.
\<close>

theorem reconcile_restores_single_production:
  assumes "\<And>ks. mset (order ks) = mset ks" "reconcile avo fs now order r = (rc, r')"
  shows "active r' = {mr_production_model r'} \<and> lookup_model (mr_production_model r') r' \<noteq> None \<and>
    lookup_model (mr_fallback_model r') r' \<noteq> None"
  by (rule reconciled_registry [OF assms])

lemma reconcile_restores_single_production_witness:
  "let r = new_model_registry 7; r1 = set_active True ''fraud-xgb-15f-v1.5'' (set_active False ''fraud-xgb-25f-v3.0'' r);
       r2 = snd (reconcile None (\<lambda>_. NoFile ''gone'') 9 id r1) in
   active r2 = {mr_production_model r2} \<and> lookup_model (mr_production_model r2) r2 \<noteq> None \<and>
     lookup_model (mr_fallback_model r2) r2 \<noteq> None"
  unfolding Let_def
  by (rule reconcile_restores_single_production
        [of id None "\<lambda>_. NoFile ''gone''" 9
            "set_active True ''fraud-xgb-15f-v1.5'' (set_active False ''fraud-xgb-25f-v3.0'' (new_model_registry 7))"])
     (simp, rule prod.collapse [symmetric])

subsection \<open>Every operation\<close>

datatype registry_op = OpRegister model_candidate string string gotime | OpLifecycle string lifecycle_state
  | OpPromote string gotime | OpCanary string int | OpAttach string "provenance option" | OpRollback string
  | OpReconcile "artifact_verifier option" file_system gotime "string list \<Rightarrow> string list"

fun registry_run :: "registry_op \<Rightarrow> model_registry \<Rightarrow> model_registry" where
  "registry_run (OpRegister c u k now) r = snd (register_candidate c u k now r)"
| "registry_run (OpLifecycle v st) r = snd (update_lifecycle_state v st r)"
| "registry_run (OpPromote v now) r = snd (promote_model v now r)"
| "registry_run (OpCanary v pct) r = snd (promote_conditional_canary v pct r)"
| "registry_run (OpAttach v p) r = snd (attach_provenance v p r)"
| "registry_run (OpRollback v) r = snd (rollback_model v r)"
| "registry_run (OpReconcile avo fs now order) r = snd (reconcile avo fs now order r)"

lemma registry_ok_change:
  assumes "registry_ok r" "\<And>m. rm_version (f m) = rm_version m" "\<And>m. rm_is_production_active (f m) \<Longrightarrow> rm_is_production_active m"
  shows "registry_ok (change_model v f r)"
proof (rule registry_ok_cong [OF assms(1)])
  show "active (change_model v f r) \<subseteq> {mr_production_model r}"
    using assms(1,3) by (fastforce simp: active_def registry_ok_def split: if_splits)
qed (simp_all add: option.map_comp comp_def assms(2))

lemma registry_ok_register: "registry_ok r \<Longrightarrow> registry_ok (snd (register_candidate c u k now r))"
  by (auto simp: register_candidate_def registry_ok_def active_def split: if_splits)

lemma promote_model_state:
  assumes "registry_ok r" "promote_model v now r = (None, r')"
  shows "mr_production_model r' = v" "mr_fallback_model r' = mr_production_model r" "active r' = {v}" "registry_ok r'"
proof -
  obtain prev where prev: "lookup_model (mr_production_model r) r = Some prev" "rm_version prev = mr_production_model r"
    using assms(1) by (auto simp: registry_ok_def)
  let ?f = "\<lambda>m. m\<lparr>rm_is_production_active := False, rm_is_fallback_active := True\<rparr>"
  let ?g = "\<lambda>m. m\<lparr>rm_is_production_active := True, rm_is_fallback_active := False, rm_lifecycle_state := LcPromoted,
     rm_promoted_at := Some now, rm_provenance := map_option (\<lambda>p. p\<lparr>pv_promoted_at := Some now\<rparr>) (rm_provenance m)\<rparr>"
  have r': "r' = (change_model v ?g ((change_model (mr_production_model r) ?f r)\<lparr>mr_fallback_model := mr_production_model r\<rparr>))
      \<lparr>mr_production_model := v\<rparr>" and reg: "lookup_model v r \<noteq> None"
    using assms(2) prev by (auto simp: promote_model_def Let_def split: option.splits if_splits)
  show p: "mr_production_model r' = v" "mr_fallback_model r' = mr_production_model r" by (simp_all add: r')
  show a: "active r' = {v}"
    using assms(1) reg by (fastforce simp: r' active_def registry_ok_def split: if_splits)
  show "registry_ok r'"
    unfolding registry_ok_def p a
    using assms(1) reg by (auto simp: r' registry_ok_def split: if_splits)
qed

lemma registry_ok_reconcile: "registry_ok r \<Longrightarrow> registry_ok (snd (reconcile avo fs now order r))"
proof -
  assume ok: "registry_ok r"
  obtain rc r' where rc: "reconcile avo fs now order r = (rc, r')" by (metis surj_pair)
  obtain r2 res2 r3 res3 res4 av rf resf where
    st: "reconcile_fallback now (r, \<lparr>rc_valid = True, rc_repairs_made = 0, rc_production = '''', rc_fallback = '''', rc_violations = [], rc_repairs = []\<rparr>) = (rf, resf)"
    "reconcile_production av fs now (rf, resf) = (r2, res2)"
    "reconcile_single (order (map fst (mr_models r2))) (r2, res2) = (r3, res3)"
    "fold (check_candidate av fs now) (order (map fst (mr_models r3))) (r3, res3) = (r', res4)"
    using reconcile_stages [OF rc] by metis
  note s = reconcile_single_facts [OF st(3)] and c = check_candidate_frame [OF st(4)]
  have "rf = r" by (rule reconcile_fallback_facts(2) [OF st(1) ok])
  then have ok2: "registry_ok r2" using reconcile_production_facts(3) [OF st(2)] reconcile_fallback_facts(1) [OF st(1)] ok by simp
  then have "active r3 \<subseteq> {mr_production_model r2}" using s(5) by (auto simp: registry_ok_def)
  then show ?thesis using registry_ok_cong [OF ok2] s(1,2,3,4) c by (simp add: rc)
qed

lemma registry_ok_step: "registry_ok r \<Longrightarrow> registry_ok (registry_run op r)"
proof (cases op)
  case (OpPromote v now)
  assume ok: "registry_ok r"
  obtain e r' where p: "promote_model v now r = (e, r')" by (metis surj_pair)
  show ?thesis
  proof (cases e)
    case None
    then show ?thesis using promote_model_state(4) [OF ok] p OpPromote by simp
  next
    case (Some x)
    then have "r' = r" using p by (auto simp: promote_model_def Let_def split: option.splits)
    then show ?thesis using ok p OpPromote by simp
  qed
qed (auto simp: registry_ok_register registry_ok_reconcile update_lifecycle_state_def promote_conditional_canary_def
      attach_provenance_def rollback_model_def Let_def split: option.splits if_splits intro!: registry_ok_change)

lemma registry_ok_new: "registry_ok (new_model_registry now)"
  by (auto simp: registry_ok_def active_def lookup_model_def new_model_registry_def production_baseline_def
        fallback_with_provenance_def fallback_baseline_def split: if_splits)

lemma registry_ok_pointers:
  assumes "registry_ok r"
  shows "active r \<subseteq> {mr_production_model r} \<and> (\<exists>p f. get_production_model r = Inr p \<and> get_fallback_model r = Inr f)"
proof -
  obtain p f where "lookup_model (mr_production_model r) r = Some p" "lookup_model (mr_fallback_model r) r = Some f"
    using assms by (auto simp: registry_ok_def)
  then show ?thesis using assms by (simp add: registry_ok_def get_production_model_def get_fallback_model_def)
qed

text \<open>
  C28: at most one production model.  Whatever operations run on a new registry, in whatever order, at most
  one model is marked active and it is the one the production pointer names; the production and the
  fallback pointer always name registered models.
\<close>

theorem registry_at_most_one_production:
  "let r = fold registry_run ops (new_model_registry now) in
   active r \<subseteq> {mr_production_model r} \<and> (\<exists>p f. get_production_model r = Inr p \<and> get_fallback_model r = Inr f)"
proof -
  have "registry_ok (fold registry_run ops r)" if "registry_ok r" for r
    using that by (induction ops arbitrary: r) (simp_all add: registry_ok_step)
  from registry_ok_pointers [OF this [OF registry_ok_new]] show ?thesis by (simp add: Let_def)
qed

text \<open>
  C30: the promotion gate.  In every state the operations reach, a promotion succeeds exactly for the
  registered versions whose provenance is complete or missing; it then makes that version the one
  active model and the previous production model the fallback, and a refused one changes nothing.
\<close>

theorem promotion_gate:
  "let r = fold registry_run ops (new_model_registry t0); res = promote_model v now r in
   (if (\<exists>m. lookup_model v r = Some m \<and> (rm_provenance m = None \<or> validate_provenance_chain (rm_provenance m) = None))
    then fst res = None \<and> mr_production_model (snd res) = v \<and> mr_fallback_model (snd res) = mr_production_model r \<and>
         active (snd res) = {v}
    else fst res \<noteq> None \<and> snd res = r)"
proof -
  have ok: "registry_ok (fold registry_run ops r)" if "registry_ok r" for r
    using that by (induction ops arbitrary: r) (simp_all add: registry_ok_step)
  let ?r = "fold registry_run ops (new_model_registry t0)"
  have g: "(fst (promote_model v now ?r) = None) = (\<exists>m. lookup_model v ?r = Some m \<and> (rm_provenance m = None \<or> validate_provenance_chain (rm_provenance m) = None))"
    by (auto simp: promote_model_def Let_def split: option.splits)
  have n: "fst (promote_model v now ?r) \<noteq> None \<Longrightarrow> snd (promote_model v now ?r) = ?r"
    by (auto simp: promote_model_def Let_def split: option.splits)
  show ?thesis
  proof (cases "fst (promote_model v now ?r) = None")
    case True
    then have e: "promote_model v now ?r = (None, snd (promote_model v now ?r))" by (simp add: prod_eq_iff)
    show ?thesis using promote_model_state(1-3) [OF ok [OF registry_ok_new] e] True g by (simp add: Let_def)
  next
    case False
    with g have ng: "\<not> (\<exists>m. lookup_model v ?r = Some m \<and>
        (rm_provenance m = None \<or> validate_provenance_chain (rm_provenance m) = None))" by simp
    show ?thesis unfolding Let_def if_not_P [OF ng] using False n by blast
  qed
qed

lemma lifecycle_through_single:
  "fold check_active order (r, res, n) = (r1, res1, n1) \<Longrightarrow>
     map_option rm_lifecycle_state (lookup_model v r1) = map_option rm_lifecycle_state (lookup_model v r)"
proof (induction order arbitrary: r res n)
  case (Cons w order)
  obtain r' res' n' where s: "check_active w (r, res, n) = (r', res', n')" by (metis surj_pair)
  then have "map_option rm_lifecycle_state (lookup_model v r') = map_option rm_lifecycle_state (lookup_model v r)"
    by (auto simp: check_active_def option.map_comp comp_def split: option.splits if_splits)
  then show ?case using Cons.IH Cons.prems s by simp
qed simp

lemma rolled_back_through_candidates:
  "fold (check_candidate av fs now) order (r, res) = (r1, res1) \<Longrightarrow>
     map_option rm_lifecycle_state (lookup_model v r) = Some LcRolledBack \<Longrightarrow>
     map_option rm_lifecycle_state (lookup_model v r1) = Some LcRolledBack"
proof (induction order arbitrary: r res)
  case (Cons w order)
  obtain r' res' where s: "check_candidate av fs now w (r, res) = (r', res')" by (metis surj_pair)
  then have "map_option rm_lifecycle_state (lookup_model v r') = Some LcRolledBack"
    using Cons.prems(2) by (auto simp: check_candidate_def split: option.splits if_splits)
  then show ?case using Cons.IH Cons.prems s by simp
qed simp

lemma corrupted_flags: "corrupted av fs now (m\<lparr>rm_lifecycle_state := s, rm_is_production_active := b\<rparr>) = corrupted av fs now m"
  by (simp add: corrupted_def verifiable_def verification_def)

lemma reconcile_production_sound:
  "lookup_model (mr_production_model r) r = Some m \<Longrightarrow> \<not> corrupted av fs now m \<Longrightarrow>
     reconcile_production av fs now (r, res) = (r, res)"
  by (simp add: reconcile_production_def Let_def)

text \<open>
  a rollback of the production model is undone.  Rolling back the version in production leaves the
  production pointer on it, and when its artifact is sound the next reconciliation marks it active
  again although its state is rolled back.
\<close>

theorem rolled_back_production_reactivated:
  assumes "registry_ok r" "lookup_model (mr_production_model r) r = Some m"
    "\<not> corrupted (case avo of None \<Rightarrow> new_artifact_verifier | Some v \<Rightarrow> v) fs now m"
  shows "let r1 = snd (rollback_model (mr_production_model r) r); r2 = snd (reconcile avo fs now order r1) in
    active r1 = {} \<and> mr_production_model r2 = mr_production_model r \<and> mr_production_model r \<in> active r2 \<and>
    map_option rm_lifecycle_state (lookup_model (mr_production_model r) r2) = Some LcRolledBack"
proof -
  let ?p = "mr_production_model r" and ?f = "\<lambda>m. m\<lparr>rm_lifecycle_state := LcRolledBack, rm_is_production_active := False\<rparr>"
  let ?r1 = "change_model ?p ?f r"
  have r1: "snd (rollback_model ?p r) = ?r1" using assms(2) by (simp add: rollback_model_def)
  have fb: "mr_fallback_model r \<noteq> ''''" "lookup_model (mr_fallback_model r) r \<noteq> None"
    using assms(1) by (auto simp: registry_ok_def)
  then have fb1: "\<not> (mr_fallback_model ?r1 = '''' \<or> lookup_model (mr_fallback_model ?r1) ?r1 = None)" using assms(2) by auto
  obtain rc r' where rc: "reconcile avo fs now order ?r1 = (rc, r')" by (metis surj_pair)
  let ?res0 = "\<lparr>rc_valid = True, rc_repairs_made = 0, rc_production = '''', rc_fallback = '''', rc_violations = [], rc_repairs = []\<rparr>"
  let ?av = "case avo of None \<Rightarrow> new_artifact_verifier | Some v \<Rightarrow> v"
  have s1: "reconcile_fallback now (?r1, ?res0) = (?r1, ?res0)"
    unfolding reconcile_fallback_def prod.case if_not_P [OF fb1] by (rule refl)
  have s2: "reconcile_production ?av fs now (?r1, ?res0) = (?r1, ?res0)"
    by (rule reconcile_production_sound [where m = "?f m"]) (use assms(2,3) in \<open>simp_all add: corrupted_flags\<close>)
  obtain r3 res3 where s3: "reconcile_single (order (map fst (mr_models ?r1))) (?r1, ?res0) = (r3, res3)" by (metis surj_pair)
  obtain r4 res4 where s4: "fold (check_candidate ?av fs now) (order (map fst (mr_models r3))) (r3, res3) = (r4, res4)"
    by (metis surj_pair)
  have r4: "r4 = r'" using rc unfolding reconcile_def Let_def s1 s2 fst_conv s3 s4 prod.case by simp
  obtain r3' res3' n where f3: "fold check_active (order (map fst (mr_models ?r1))) (?r1, ?res0, 0) = (r3', res3', n)"
    by (metis surj_pair)
  have l3: "map_option rm_lifecycle_state (lookup_model ?p r3) = Some LcRolledBack"
    using s3 f3 lifecycle_through_single [OF f3, of ?p] assms(2)
    by (auto simp: reconcile_single_def option.map_comp comp_def split: if_splits)
  have "active ?r1 = {}" using assms(1) by (auto simp: active_def registry_ok_def split: if_splits)
  then show ?thesis
    using reconcile_single_facts(1,6) [OF s3] check_candidate_frame(1,5) [OF s4] assms(2)
      rolled_back_through_candidates [OF s4 l3] by (simp add: r1 rc r4)
qed

lemma rolled_back_production_reactivated_witness:
  "let r = new_model_registry 7; r1 = snd (rollback_model ''fraud-xgb-25f-v3.0'' r);
       r2 = snd (reconcile None (\<lambda>_. NoFile ''gone'') 9 id r1) in
   active r1 = {} \<and> mr_production_model r2 = ''fraud-xgb-25f-v3.0'' \<and> ''fraud-xgb-25f-v3.0'' \<in> active r2"
proof -
  have p: "mr_production_model (new_model_registry 7) = ''fraud-xgb-25f-v3.0''" by (simp add: new_model_registry_def)
  have m: "lookup_model ''fraud-xgb-25f-v3.0'' (new_model_registry 7) = Some (production_baseline 7)"
    by (simp add: lookup_model_def new_model_registry_def)
  have c: "\<not> corrupted new_artifact_verifier (\<lambda>_. NoFile ''gone'') 9 (production_baseline 7)"
    by (simp add: corrupted_def verification_def verify_artifact_outcome preloaded_def production_baseline_def
          resolve_file_path_def has_prefix_def)
  show ?thesis
    using rolled_back_production_reactivated [OF registry_ok_new [of 7], of "production_baseline 7" None "\<lambda>_. NoFile ''gone''" 9 id]
    by (simp add: p m c Let_def)
qed

end
