(* ===== verification/Retraining_Coordinator.thy ===== *)
theory Retraining_Coordinator
  imports Retraining_Trigger Candidate_Gates Canary_Router Model_Registry
begin

text \<open>
  The coordinator of the model lifecycle, \<open>internal/riskengine/retraining_coordinator.go\<close>: a drift or an
  operator starts a job, a goroutine trains and validates a candidate, an operator approves it, and a
  rollout raises its share of the traffic in stages until it becomes the production model.

  A step of the model is one section of code under the coordinator's lock (or under the lock of the
  registry or the router it calls), so that operators, the goroutines of several jobs and the traffic
  interleave as they do in the program.  Jobs and candidates are shared by reference: they live in a
  store, and the goroutine of a job works on its own copy of the job, as the code does.
\<close>

subsection \<open>State\<close>

datatype training_state = TrQueued | TrRunning | TrSucceeded | TrFailed | TrCancelled

fun training_state_string :: "training_state \<Rightarrow> string" where
  "training_state_string TrQueued = ''QUEUED''"
| "training_state_string TrRunning = ''RUNNING''"
| "training_state_string TrSucceeded = ''SUCCEEDED''"
| "training_state_string TrFailed = ''FAILED''"
| "training_state_string TrCancelled = ''CANCELLED''"

record training_job =
  tj_job_id :: string
  tj_state :: training_state
  tj_artifact_path :: string
  tj_artifact_checksum :: string
  tj_candidate :: model_candidate
  tj_validation_metrics :: validation_metrics
  tj_logs :: string
  tj_error :: string

record lifecycle_event =
  le_event_id :: string
  le_timestamp :: gotime
  le_model_id :: string
  le_model_version :: string
  le_previous_state :: job_state
  le_new_state :: job_state
  le_trigger :: string
  le_actor :: string
  le_reason :: string

record canary_metric =
  cmr_metric_id :: string
  cmr_timestamp :: gotime
  cmr_rollout_id :: string
  cmr_candidate_model_version :: string
  cmr_stage_percentage :: "8 word"
  cmr_sample_count :: "32 word"
  cmr_error_rate :: f64
  cmr_fallback_rate :: f64
  cmr_p95_latency_ms :: f64
  cmr_p99_latency_ms :: f64
  cmr_decision_change_rate :: f64
  cmr_passed :: "8 word"
  cmr_action :: string

text \<open>What is sent to the audit store; each insert runs in a goroutine of its own.\<close>

datatype audit_entry = JobLogged retraining_job | CandidateLogged model_candidate | ValidationLogged validation_gate
  | ShadowLogged shadow_gate | CanaryMetricLogged canary_metric | LifecycleLogged lifecycle_event

record persisted_state =
  pe_production_model_version :: string
  pe_fallback_model_version :: string
  pe_models :: "(string \<times> registered_model) list"
  pe_active_job :: "retraining_job option"
  pe_active_candidate :: "model_candidate option"
  pe_current_state :: job_state
  pe_job_history :: "retraining_job list"
  pe_canary_stage :: int
  pe_maintenance_mode :: bool
  pe_model_frozen :: bool
  pe_retraining_paused :: bool
  pe_canary_paused :: bool
  pe_saved_at :: gotime

type_synonym ref = nat

record coordinator =
  co_config :: retraining_config
  co_trigger :: trigger_engine
  co_router :: "canary_router option"
  co_registry :: "model_registry option"
  co_has_audit :: bool
  co_has_store :: bool
  co_state :: job_state
  co_active_job :: "ref option"
  co_active_candidate :: "ref option"
  co_candidates :: "string \<rightharpoonup> ref"
  co_history :: "retraining_job list"
  co_maintenance :: bool
  co_frozen :: bool
  co_retraining_paused :: bool
  co_canary_paused :: bool
  co_closed :: bool
  co_metrics :: "string \<Rightarrow> int"
  co_jobs :: "ref \<rightharpoonup> retraining_job"
  co_cands :: "ref \<rightharpoonup> model_candidate"
  co_next :: ref
  co_audit :: "audit_entry list"
  co_saved :: "persisted_state option"

definition new_retraining_coordinator :: "retraining_config \<Rightarrow> canary_router option \<Rightarrow> bool \<Rightarrow> gotime \<Rightarrow> coordinator" where
  "new_retraining_coordinator cfg router has_audit now =
     \<lparr>co_config = validate_retraining_config cfg, co_trigger = new_trigger_engine (validate_retraining_config cfg),
      co_router = router, co_registry = Some (new_model_registry now), co_has_audit = has_audit, co_has_store = False,
      co_state = JsIdle, co_active_job = None, co_active_candidate = None, co_candidates = Map.empty, co_history = [],
      co_maintenance = False, co_frozen = False, co_retraining_paused = False, co_canary_paused = False,
      co_closed = False, co_metrics = (\<lambda>_. 0), co_jobs = Map.empty, co_cands = Map.empty, co_next = 0,
      co_audit = [], co_saved = None\<rparr>"

subsection \<open>Logging, metrics and persistence\<close>

definition send_audit :: "audit_entry \<Rightarrow> coordinator \<Rightarrow> coordinator" where
  "send_audit a c = (if co_has_audit c then c\<lparr>co_audit := co_audit c @ [a]\<rparr> else c)"

definition log_lifecycle_event ::
  "string \<Rightarrow> string \<Rightarrow> job_state \<Rightarrow> job_state \<Rightarrow> string \<Rightarrow> string \<Rightarrow> string \<Rightarrow> gotime \<Rightarrow> coordinator \<Rightarrow> coordinator" where
  "log_lifecycle_event model_id version prev new trigger actor reason now =
     send_audit (LifecycleLogged \<lparr>le_event_id = ''evt_life_'' @ itoa now, le_timestamp = now, le_model_id = model_id,
       le_model_version = version, le_previous_state = prev, le_new_state = new, le_trigger = trigger,
       le_actor = actor, le_reason = reason\<rparr>)"

definition increment_metric :: "string \<Rightarrow> coordinator \<Rightarrow> coordinator" where
  "increment_metric name c = c\<lparr>co_metrics := (co_metrics c)(name := co_metrics c name + 1)\<rparr>"

definition deref_job :: "ref option \<Rightarrow> coordinator \<Rightarrow> retraining_job option" where
  "deref_job r c = Option.bind r (co_jobs c)"

definition deref_cand :: "ref option \<Rightarrow> coordinator \<Rightarrow> model_candidate option" where
  "deref_cand r c = Option.bind r (co_cands c)"

definition build_persisted_state :: "gotime \<Rightarrow> coordinator \<Rightarrow> persisted_state" where
  "build_persisted_state now c =
     \<lparr>pe_production_model_version = (case co_registry c of None \<Rightarrow> ''fraud-xgb-25f-v3.0'' | Some r \<Rightarrow> mr_production_model r),
      pe_fallback_model_version = (case co_registry c of None \<Rightarrow> ''fraud-xgb-15f-v1.5'' | Some r \<Rightarrow> mr_fallback_model r),
      pe_models = (case co_registry c of None \<Rightarrow> [] | Some r \<Rightarrow> mr_models r),
      pe_active_job = deref_job (co_active_job c) c, pe_active_candidate = deref_cand (co_active_candidate c) c,
      pe_current_state = co_state c, pe_job_history = co_history c,
      pe_canary_stage = (case co_router c of None \<Rightarrow> 0 | Some r \<Rightarrow> get_percentage r),
      pe_maintenance_mode = co_maintenance c, pe_model_frozen = co_frozen c,
      pe_retraining_paused = co_retraining_paused c, pe_canary_paused = co_canary_paused c, pe_saved_at = now\<rparr>"

text \<open>An error of the store is ignored; it then keeps what it had, which the model does not follow.\<close>

definition persist_state :: "gotime \<Rightarrow> coordinator \<Rightarrow> coordinator" where
  "persist_state now c = (if co_has_store c then c\<lparr>co_saved := Some (build_persisted_state now c)\<rparr> else c)"

definition set_state_store :: "bool \<Rightarrow> coordinator \<Rightarrow> coordinator" where
  "set_state_store b c = c\<lparr>co_has_store := b\<rparr>"

definition set_model_registry :: "model_registry option \<Rightarrow> coordinator \<Rightarrow> coordinator" where
  "set_model_registry r c = c\<lparr>co_registry := r\<rparr>"

subsection \<open>Operational controls\<close>

definition toggle_reason :: "string \<Rightarrow> bool \<Rightarrow> string \<Rightarrow> string" where
  "toggle_reason what b reason = what @ ''='' @ fmt_bool b @ '': '' @ reason"

definition log_toggle :: "string \<Rightarrow> string \<Rightarrow> bool \<Rightarrow> string \<Rightarrow> string \<Rightarrow> gotime \<Rightarrow> coordinator \<Rightarrow> coordinator" where
  "log_toggle event what b actor reason now c =
     persist_state now (log_lifecycle_event '''' '''' (co_state c) (co_state c) event actor (toggle_reason what b reason) now c)"

definition set_maintenance_mode :: "bool \<Rightarrow> string \<Rightarrow> string \<Rightarrow> gotime \<Rightarrow> coordinator \<Rightarrow> coordinator" where
  "set_maintenance_mode b actor reason now c =
     log_toggle ''MAINTENANCE_MODE_TOGGLED'' ''enabled'' b actor reason now (c\<lparr>co_maintenance := b\<rparr>)"

definition set_model_frozen :: "bool \<Rightarrow> string \<Rightarrow> string \<Rightarrow> gotime \<Rightarrow> coordinator \<Rightarrow> coordinator" where
  "set_model_frozen b actor reason now c =
     log_toggle ''MODEL_FREEZE_TOGGLED'' ''frozen'' b actor reason now (c\<lparr>co_frozen := b\<rparr>)"

definition set_retraining_paused :: "bool \<Rightarrow> string \<Rightarrow> string \<Rightarrow> gotime \<Rightarrow> coordinator \<Rightarrow> coordinator" where
  "set_retraining_paused b actor reason now c =
     log_toggle ''RETRAINING_PAUSE_TOGGLED'' ''paused'' b actor reason now (c\<lparr>co_retraining_paused := b\<rparr>)"

definition set_canary_paused :: "bool \<Rightarrow> string \<Rightarrow> string \<Rightarrow> gotime \<Rightarrow> coordinator \<Rightarrow> coordinator" where
  "set_canary_paused b actor reason now c =
     log_toggle ''CANARY_PAUSE_TOGGLED'' ''paused'' b actor reason now (c\<lparr>co_canary_paused := b\<rparr>)"

definition get_operational_controls :: "coordinator \<Rightarrow> string \<rightharpoonup> bool" where
  "get_operational_controls c =
     [''maintenance_mode'' \<mapsto> co_maintenance c, ''model_frozen'' \<mapsto> co_frozen c,
      ''retraining_paused'' \<mapsto> co_retraining_paused c, ''canary_paused'' \<mapsto> co_canary_paused c]"


subsection \<open>Transitions of a job\<close>

definition upd_job :: "ref option \<Rightarrow> (retraining_job \<Rightarrow> retraining_job) \<Rightarrow> coordinator \<Rightarrow> coordinator" where
  "upd_job r f c = (case r of None \<Rightarrow> c | Some j \<Rightarrow> c\<lparr>co_jobs := (co_jobs c)(j := map_option f (co_jobs c j))\<rparr>)"

definition upd_cand :: "ref option \<Rightarrow> (model_candidate \<Rightarrow> model_candidate) \<Rightarrow> coordinator \<Rightarrow> coordinator" where
  "upd_cand r f c = (case r of None \<Rightarrow> c | Some j \<Rightarrow> c\<lparr>co_cands := (co_cands c)(j := map_option f (co_cands c j))\<rparr>)"

definition new_job :: "retraining_job \<Rightarrow> coordinator \<Rightarrow> ref \<times> coordinator" where
  "new_job j c = (co_next c, c\<lparr>co_jobs := (co_jobs c)(co_next c \<mapsto> j), co_next := Suc (co_next c)\<rparr>)"

definition new_cand :: "model_candidate \<Rightarrow> coordinator \<Rightarrow> ref \<times> coordinator" where
  "new_cand m c = (co_next c, c\<lparr>co_cands := (co_cands c)(co_next c \<mapsto> m), co_next := Suc (co_next c)\<rparr>)"

definition on_registry :: "(model_registry \<Rightarrow> model_registry) \<Rightarrow> coordinator \<Rightarrow> coordinator" where
  "on_registry f c = c\<lparr>co_registry := map_option f (co_registry c)\<rparr>"

text \<open>The configuration of the router, whose error the callers ignore.\<close>

definition configure_router :: "bool \<Rightarrow> int \<Rightarrow> string \<Rightarrow> string \<Rightarrow> gotime \<Rightarrow> coordinator \<Rightarrow> coordinator" where
  "configure_router enabled pct actor reason now c =
     c\<lparr>co_router := map_option (\<lambda>r. case update_config enabled pct actor reason now r of Inl _ \<Rightarrow> r | Inr r' \<Rightarrow> r') (co_router c)\<rparr>"

definition breaker_state :: "coordinator \<Rightarrow> cb_state" where
  "breaker_state c = (case co_router c of None \<Rightarrow> CB_Healthy | Some r \<Rightarrow> cb_get_state (cr_breaker r))"

definition log_job :: "ref option \<Rightarrow> coordinator \<Rightarrow> coordinator" where
  "log_job r c = (case deref_job r c of None \<Rightarrow> c | Some j \<Rightarrow> send_audit (JobLogged j) c)"

definition transition_job_state ::
  "ref option \<Rightarrow> job_state \<Rightarrow> string \<Rightarrow> string \<Rightarrow> gotime \<Rightarrow> coordinator \<Rightarrow> bool \<times> coordinator" where
  "transition_job_state job target reason actor now c =
     (if \<not> can_transition_to (co_state c) target then (False, c)
      else (True, persist_state now (log_lifecycle_event '''' '''' (co_state c) target ''STATE_ADVANCE'' actor reason now
        (upd_cand (co_active_candidate c) (\<lambda>m. m\<lparr>mc_state := target\<rparr>)
          (upd_job job (\<lambda>j. j\<lparr>rj_state := target\<rparr>) (c\<lparr>co_state := target\<rparr>))))))"

text \<open>The end of a job: its copy is closed, kept in the history and logged.\<close>

definition close_job :: "ref option \<Rightarrow> job_state \<Rightarrow> string \<Rightarrow> gotime \<Rightarrow> coordinator \<Rightarrow> coordinator" where
  "close_job job st err now c =
     (case deref_job job c of None \<Rightarrow> c
      | Some j \<Rightarrow>
          (let c1 = upd_job job (\<lambda>j. j\<lparr>rj_state := st, rj_completed_at := now, rj_error := err\<rparr>) c in
           log_job job (c1\<lparr>co_history := co_history c1 @ [the (deref_job job c1)]\<rparr>)))"

definition clear_active :: "bool \<Rightarrow> gotime \<Rightarrow> coordinator \<Rightarrow> coordinator" where
  "clear_active success now c = c\<lparr>co_trigger := clear_active_job success now (co_trigger c), co_active_job := None\<rparr>"

definition cand_name :: "ref option \<Rightarrow> coordinator \<Rightarrow> string \<times> string" where
  "cand_name cand c = (case deref_cand cand c of None \<Rightarrow> ('''', '''') | Some m \<Rightarrow> (mc_model_id m, mc_version m))"

definition fail_job :: "ref option \<Rightarrow> string \<Rightarrow> string \<Rightarrow> gotime \<Rightarrow> coordinator \<Rightarrow> coordinator" where
  "fail_job job reason actor now c =
     persist_state now (log_lifecycle_event '''' '''' (co_state c) JsFailed ''JOB_FAILED'' actor reason now
       (clear_active False now (close_job job JsFailed reason now (c\<lparr>co_state := JsFailed\<rparr>))))"

definition reject_candidate :: "ref option \<Rightarrow> ref option \<Rightarrow> string \<Rightarrow> string \<Rightarrow> gotime \<Rightarrow> coordinator \<Rightarrow> coordinator" where
  "reject_candidate job cand reason actor now c =
     (let (model_id, version) = cand_name cand c;
          c1 = close_job job JsRejected reason now (upd_cand cand (\<lambda>m. m\<lparr>mc_state := JsRejected\<rparr>) (c\<lparr>co_state := JsRejected\<rparr>));
          c2 = (if cand = None then c1 else on_registry (\<lambda>r. snd (update_lifecycle_state version LcRejected r)) c1) in
      persist_state now (log_lifecycle_event model_id version (co_state c) JsRejected ''VALIDATION_REJECTION'' actor reason now
        (clear_active False now (increment_metric ''candidate_rejections'' c2))))"

definition msg_automatic_rollback :: "string \<Rightarrow> string" where
  "msg_automatic_rollback reason = ''AUTOMATIC ROLLBACK: '' @ reason"

definition rollback_candidate :: "ref option \<Rightarrow> ref option \<Rightarrow> string \<Rightarrow> string \<Rightarrow> gotime \<Rightarrow> coordinator \<Rightarrow> coordinator" where
  "rollback_candidate job cand reason actor now c =
     (let (model_id, version) = cand_name cand c;
          c1 = close_job job JsRolledBack reason now
                 (upd_cand cand (\<lambda>m. m\<lparr>mc_state := JsRolledBack\<rparr>) (c\<lparr>co_state := JsRolledBack\<rparr>));
          c2 = configure_router False 0 actor (msg_automatic_rollback reason) now c1;
          c3 = (if cand = None then c2 else on_registry (\<lambda>r. snd (rollback_model version r)) c2) in
      persist_state now (log_lifecycle_event model_id version (co_state c) JsRolledBack ''SAFETY_GATE_BREACH'' actor reason now
        (clear_active False now (increment_metric ''candidate_rollbacks'' c3))))"

text \<open>
  The promotion.  A job of \<open>nil\<close> is dereferenced: \<open>None\<close> is the panic that ends the process.  A
  maintenance mode or a freeze turns it into a rollback, which the caller runs as its next step.
\<close>

definition msg_promoted :: string where
  "msg_promoted = ''Promotion completed; candidate promoted to primary production''"
definition msg_promotion :: "model_candidate \<Rightarrow> string" where
  "msg_promotion m = ''Model '' @ mc_version m @ '' promoted to primary production (parent '' @ mc_parent_model_version m @
     '' preserved as fallback)''"
definition msg_promotion_blocked :: string where
  "msg_promotion_blocked = ''Model promotion blocked: system in MAINTENANCE_MODE or model is FROZEN''"

definition append_history :: "ref option \<Rightarrow> coordinator \<Rightarrow> coordinator" where
  "append_history job c = (case deref_job job c of None \<Rightarrow> c | Some j \<Rightarrow> c\<lparr>co_history := co_history c @ [j]\<rparr>)"

definition promotion :: "ref option \<Rightarrow> ref \<Rightarrow> model_candidate \<Rightarrow> string \<Rightarrow> gotime \<Rightarrow> gotime \<Rightarrow> coordinator \<Rightarrow> coordinator" where
  "promotion job cand m actor started now c =
     (let c1 = upd_cand (Some cand) (\<lambda>m. m\<lparr>mc_state := JsPromoted\<rparr>) (c\<lparr>co_state := JsPromoted\<rparr>);
          c2 = upd_job job (\<lambda>j. j\<lparr>rj_state := JsPromoted, rj_completed_at := now,
                 rj_duration_ms := of_int64 (go_div (time_sub now started) millisecond)\<rparr>) c1;
          c3 = configure_router False 0 actor msg_promoted now c2;
          c4 = on_registry (\<lambda>r. snd (promote_model (mc_version m) now r)) c3;
          c5 = clear_active True now (increment_metric ''candidate_promotions'' c4) in
      persist_state now (log_lifecycle_event (mc_model_id m) (mc_version m) (co_state c) JsPromoted
        ''CANARY_COMPLETED_100'' actor (msg_promotion m) now (log_job job (append_history job c5))))"

definition promote_candidate ::
  "ref option \<Rightarrow> ref \<Rightarrow> string \<Rightarrow> gotime \<Rightarrow> gotime \<Rightarrow> coordinator \<Rightarrow> coordinator option" where
  "promote_candidate job cand actor started now c =
     (if job = None then None
      else map_option (\<lambda>m. promotion job cand m actor started now c) (co_cands c cand))"

subsection \<open>Gates\<close>

definition shadow_violations :: "retraining_config \<Rightarrow> string list" where
  "shadow_violations cfg =
     (if flt (to_f64 (5 / 100)) (to_f64 (2 / 100))
      then [''Score divergence rate ('' @ fmt_fixed 4 (to_f64 (2 / 100)) @ '') exceeds threshold 0.05''] else []) @
     (if flt (rtc_max_decision_change_rate cfg) (to_f64 (15 / 1000))
      then [''Decision change rate ('' @ fmt_fixed 4 (to_f64 (15 / 1000)) @ '') exceeds maximum threshold '' @
            fmt_fixed 4 (rtc_max_decision_change_rate cfg)] else []) @
     (if flt (rtc_max_error_rate cfg) (Fin 0)
      then [''Candidate error rate ('' @ fmt_fixed 4 (Fin 0) @ '') exceeds limit '' @ fmt_fixed 4 (rtc_max_error_rate cfg)] else [])"

text \<open>The metrics of the shadow evaluation are constants of the code.\<close>

definition evaluate_shadow_gates :: "retraining_config \<Rightarrow> string \<Rightarrow> gotime \<Rightarrow> shadow_gate" where
  "evaluate_shadow_gates cfg version now =
     (let vs = shadow_violations cfg in
      \<lparr>sh_evaluation_id = ''shadow_eval_'' @ version @ ''_'' @ itoa (now div second), sh_timestamp = now,
       sh_candidate_model_version = version, sh_production_model_version = ''fraud-xgb-25f-v3.0'',
       sh_samples_evaluated = 100, sh_score_divergence_rate = to_f64 (2 / 100),
       sh_decision_change_rate = to_f64 (15 / 1000), sh_error_rate = Fin 0, sh_fallback_rate = Fin 0,
       sh_avg_score_delta = to_f64 (8 / 1000), sh_p95_latency_ms = to_f64 (58 / 10), sh_passed = (vs = []),
       sh_violations = vs,
       sh_gate_details = (if vs = [] then ''ALL_SHADOW_GATES_PASSED'' else ''SHADOW_FAILED: '' @ fmt_slice vs)\<rparr>)"


subsection \<open>Goroutines\<close>

text \<open>
  Where a goroutine stands.  A stage is the position in the list of percentages.  The first six belong
  to the start of a job and to operators; \<open>PcPanic\<close> is a process that has ended with a panic.
\<close>

datatype pc =
    PcCreate string string "32 word" | PcFail string | PcReject string | PcRollback string | PcDone | PcPanic
  | PcQueue | PcTrain | PcStart | PcWait training_job | PcRegister training_job | PcStore training_job
  | PcToValidating training_job | PcValidate training_job | PcMarkValidated | PcToShadow | PcShadow | PcMarkShadow
  | PcApproval | PcMarkApproved | PcToCanary | PcMarkCanary | PcStage nat | PcPaused nat | PcSetTraffic nat
  | PcObserve nat | PcPromote

record goroutine =
  go_pc :: pc
  go_job :: "ref option"
  go_cand :: "ref option"
  go_actor :: string
  go_started :: gotime
  go_rollout :: gotime

text \<open>What the training service answers in a step.\<close>

record training_answer =
  ta_started :: "string + training_job"
  ta_status :: "training_job option"

definition canary_stages :: "int list" where "canary_stages = [1, 5, 10, 25, 50, 100]"

definition starts_allowed :: "coordinator \<Rightarrow> bool" where
  "starts_allowed c \<longleftrightarrow> co_active_job c = None \<and> co_state c \<in> {JsIdle, JsPromoted, JsFailed, JsRejected, JsRolledBack}"

definition production_version :: "coordinator \<Rightarrow> string" where
  "production_version c = (case co_registry c of None \<Rightarrow> ''fraud-xgb-25f-v3.0''
     | Some r \<Rightarrow> (case get_production_model r of Inl _ \<Rightarrow> ''fraud-xgb-25f-v3.0'' | Inr m \<Rightarrow> rm_version m))"

definition msg_in_maintenance :: string where "msg_in_maintenance = ''retraining rejected: system is in MAINTENANCE_MODE''"
definition msg_paused :: string where "msg_paused = ''retraining rejected: retraining subsystem is PAUSED''"
definition msg_concurrent :: string where
  "msg_concurrent = ''a retraining job is currently active; concurrent triggers rejected''"

definition job_id_at :: "gotime \<Rightarrow> string" where "job_id_at now = ''job_retrain_'' @ itoa now"

definition triggered_job :: "string \<Rightarrow> string \<Rightarrow> 32 word \<Rightarrow> string \<Rightarrow> gotime \<Rightarrow> retraining_job" where
  "triggered_job trigger reason samples production now =
     \<lparr>rj_job_id = job_id_at now, rj_triggered_at = now, rj_state = JsTriggered, rj_trigger_type = trigger,
      rj_trigger_reason = reason, rj_parent_model_version = production, rj_candidate_model_version = '''',
      rj_dataset_id = ''dataset_drift_window_'' @ itoa (now div second), rj_sample_count = samples,
      rj_completed_at = zero_time, rj_duration_ms = Fin 0, rj_error = ''''\<rparr>"

lemma job_id_nonempty [simp]: "job_id_at now \<noteq> ''''"
  by (simp add: job_id_at_def)

definition create_and_start_job ::
  "string \<Rightarrow> string \<Rightarrow> string \<Rightarrow> 32 word \<Rightarrow> gotime \<Rightarrow> coordinator \<Rightarrow> (string + ref) \<times> coordinator" where
  "create_and_start_job trigger reason actor samples now c =
     (if co_maintenance c then (Inl msg_in_maintenance, c)
      else if co_retraining_paused c then (Inl msg_paused, c)
      else if \<not> starts_allowed c then (Inl msg_concurrent, c)
      else
        (let (r, c1) = new_job (triggered_job trigger reason samples (production_version c) now) c;
             c2 = c1\<lparr>co_state := JsTriggered, co_active_job := Some r,
                    co_trigger := set_active_job (job_id_at now) reason now (co_trigger c1)\<rparr> in
         (Inr r, persist_state now (log_lifecycle_event '''' '''' JsIdle JsTriggered trigger actor reason now
            (log_job (Some r) (increment_metric ''training_jobs_started'' c2))))))"

text \<open>The texts of the transitions and failures.\<close>

definition why_queued :: string where "why_queued = ''Retraining job accepted into execution queue''"
definition why_training :: string where "why_training = ''Executing candidate model training''"
definition why_validating :: string where "why_validating = ''Executing offline validation gates''"
definition why_shadow :: string where "why_shadow = ''Initiating live shadow scoring evaluation''"
definition why_approval :: string where "why_approval = ''Awaiting operator approval for Canary rollout''"
definition no_transition :: "job_state \<Rightarrow> string" where
  "no_transition s = ''Failed to transition to '' @ job_state_string s @ '' state''"
definition why_start_failed :: "string \<Rightarrow> string" where "why_start_failed e = ''Training execution failed: '' @ e"
definition why_training_failed :: "training_job \<Rightarrow> string" where
  "why_training_failed j = ''Training process failed ('' @ training_state_string (tj_state j) @ ''): '' @ tj_error j"
definition why_offline_failed :: "validation_gate \<Rightarrow> string" where
  "why_offline_failed g = ''Offline validation failed: '' @ vg_gate_details g"
definition why_shadow_failed :: "shadow_gate \<Rightarrow> string" where
  "why_shadow_failed g = ''Shadow evaluation failed: '' @ sh_gate_details g"
definition why_stage :: "int \<Rightarrow> string" where "why_stage p = ''Retraining pipeline canary stage: '' @ itoa p @ ''%''"
definition why_update_failed :: "int \<Rightarrow> string \<Rightarrow> string" where
  "why_update_failed p e = ''Canary update failed at '' @ itoa p @ ''%: '' @ e"
definition why_tripped :: "int \<Rightarrow> cb_state \<Rightarrow> string" where
  "why_tripped p st = ''Circuit breaker tripped during canary stage '' @ itoa p @ ''% ('' @ cb_state_string st @ '')''"

definition stage_metric :: "int \<Rightarrow> string \<Rightarrow> gotime \<Rightarrow> gotime \<Rightarrow> canary_metric" where
  "stage_metric p version started now =
     \<lparr>cmr_metric_id = ''metric_'' @ version @ ''_'' @ itoa p @ ''_'' @ itoa now, cmr_timestamp = now,
      cmr_rollout_id = ''rollout_'' @ version @ ''_'' @ itoa (started div second),
      cmr_candidate_model_version = version, cmr_stage_percentage = word_of_int p, cmr_sample_count = word_of_int (p * 20),
      cmr_error_rate = Fin 0, cmr_fallback_rate = Fin 0, cmr_p95_latency_ms = to_f64 (61 / 10),
      cmr_p99_latency_ms = to_f64 (82 / 10), cmr_decision_change_rate = to_f64 (12 / 1000), cmr_passed = 1,
      cmr_action = ''STAGE_ADVANCED''\<rparr>"

definition advance :: "job_state \<Rightarrow> string \<Rightarrow> pc \<Rightarrow> gotime \<Rightarrow> goroutine \<Rightarrow> coordinator \<Rightarrow> goroutine \<times> coordinator" where
  "advance target why next now g c =
     (case transition_job_state (go_job g) target why (go_actor g) now c of
        (True, c') \<Rightarrow> (g\<lparr>go_pc := next\<rparr>, c')
      | (False, c') \<Rightarrow> (g\<lparr>go_pc := PcFail (no_transition target)\<rparr>, c'))"

definition mark_lifecycle :: "lifecycle_state \<Rightarrow> goroutine \<Rightarrow> coordinator \<Rightarrow> coordinator" where
  "mark_lifecycle st g c = (case deref_cand (go_cand g) c of None \<Rightarrow> c
     | Some m \<Rightarrow> on_registry (\<lambda>r. snd (update_lifecycle_state (mc_version m) st r)) c)"

definition rollout_paused :: "coordinator \<Rightarrow> bool" where
  "rollout_paused c \<longleftrightarrow> co_canary_paused c \<or> co_maintenance c \<or> co_frozen c"


text \<open>
  One step of a goroutine.  A rejection marks the candidate in the registry and counts it within the
  step that finds the violation.
\<close>

definition create_step :: "string \<Rightarrow> string \<Rightarrow> 32 word \<Rightarrow> gotime \<Rightarrow> goroutine \<Rightarrow> coordinator \<Rightarrow> goroutine \<times> coordinator" where
  "create_step trigger reason samples now g c =
     (case create_and_start_job trigger reason (go_actor g) samples now c of
        (Inl _, c1) \<Rightarrow> (g\<lparr>go_pc := PcDone\<rparr>, c1)
      | (Inr r, c1) \<Rightarrow>
          (case co_jobs c1 r of None \<Rightarrow> (g\<lparr>go_pc := PcDone\<rparr>, c1)
           | Some j \<Rightarrow> (let (copy, c2) = new_job j c1 in (g\<lparr>go_pc := PcQueue, go_job := Some copy, go_started := now\<rparr>, c2))))"

definition wait_step :: "training_answer \<Rightarrow> training_job \<Rightarrow> goroutine \<Rightarrow> coordinator \<Rightarrow> goroutine \<times> coordinator" where
  "wait_step a j g c =
     (if tj_state j = TrRunning \<or> tj_state j = TrQueued
      then (g\<lparr>go_pc := PcWait (case ta_status a of None \<Rightarrow> j | Some j' \<Rightarrow> j')\<rparr>, c)
      else if tj_state j \<noteq> TrSucceeded
      then (g\<lparr>go_pc := PcFail (why_training_failed j)\<rparr>, increment_metric ''training_jobs_failed'' c)
      else (g\<lparr>go_pc := PcRegister j\<rparr>, increment_metric ''training_jobs_completed'' c))"

definition register_step :: "training_job \<Rightarrow> gotime \<Rightarrow> goroutine \<Rightarrow> coordinator \<Rightarrow> goroutine \<times> coordinator" where
  "register_step j now g c =
     (g\<lparr>go_pc := PcStore j\<rparr>,
      on_registry (\<lambda>r. snd (register_candidate (tj_candidate j) (tj_artifact_path j) (tj_artifact_checksum j) now r))
        (upd_job (go_job g) (\<lambda>job. job\<lparr>rj_candidate_model_version := mc_version (tj_candidate j)\<rparr>) c))"

definition store_step :: "training_job \<Rightarrow> goroutine \<Rightarrow> coordinator \<Rightarrow> goroutine \<times> coordinator" where
  "store_step j g c =
     (let (r, c1) = new_cand (tj_candidate j) c;
          c2 = c1\<lparr>co_candidates := (co_candidates c1)(mc_model_id (tj_candidate j) \<mapsto> r), co_active_candidate := Some r\<rparr> in
      (g\<lparr>go_pc := PcToValidating j, go_cand := Some r\<rparr>, send_audit (CandidateLogged (tj_candidate j)) c2))"

definition validate_step :: "training_job \<Rightarrow> gotime \<Rightarrow> goroutine \<Rightarrow> coordinator \<Rightarrow> goroutine \<times> coordinator" where
  "validate_step j now g c =
     (let cand = (case deref_cand (go_cand g) c of None \<Rightarrow> tj_candidate j | Some m \<Rightarrow> m);
          gate = validate_candidate (co_config c) cand (tj_validation_metrics j) default_production_baseline_metrics now;
          c1 = send_audit (ValidationLogged gate) (upd_cand (go_cand g) (\<lambda>m. m\<lparr>mc_validation_result := Some gate\<rparr>) c) in
      if vg_passed gate then (g\<lparr>go_pc := PcMarkValidated\<rparr>, c1)
      else (g\<lparr>go_pc := PcReject (why_offline_failed gate)\<rparr>, mark_lifecycle LcRejected g
             (increment_metric ''candidate_rejections'' (increment_metric ''offline_validation_failures'' c1))))"

definition shadow_step :: "gotime \<Rightarrow> goroutine \<Rightarrow> coordinator \<Rightarrow> goroutine \<times> coordinator" where
  "shadow_step now g c =
     (let gate = evaluate_shadow_gates (co_config c) (snd (cand_name (go_cand g) c)) now;
          c1 = send_audit (ShadowLogged gate) (upd_cand (go_cand g) (\<lambda>m. m\<lparr>mc_shadow_result := Some gate\<rparr>) c) in
      if sh_passed gate then (g\<lparr>go_pc := PcMarkShadow\<rparr>, c1)
      else (g\<lparr>go_pc := PcReject (why_shadow_failed gate)\<rparr>, mark_lifecycle LcRejected g
             (increment_metric ''candidate_rejections'' (increment_metric ''shadow_validation_failures'' c1))))"

definition to_canary_step :: "gotime \<Rightarrow> goroutine \<Rightarrow> coordinator \<Rightarrow> goroutine \<times> coordinator" where
  "to_canary_step now g c =
     (if co_state c = JsCanary then (g\<lparr>go_pc := PcMarkCanary\<rparr>, c)
      else if \<not> can_transition_to (co_state c) JsCanary then (g\<lparr>go_pc := PcFail (no_transition JsCanary)\<rparr>, c)
      else (g\<lparr>go_pc := PcMarkCanary\<rparr>, persist_state now (upd_cand (go_cand g) (\<lambda>m. m\<lparr>mc_state := JsCanary\<rparr>)
             (upd_job (go_job g) (\<lambda>j. j\<lparr>rj_state := JsCanary\<rparr>) (c\<lparr>co_state := JsCanary\<rparr>)))))"

definition stage_step :: "nat \<Rightarrow> goroutine \<Rightarrow> coordinator \<Rightarrow> goroutine \<times> coordinator" where
  "stage_step i g c =
     (if length canary_stages \<le> i then (g\<lparr>go_pc := PcPromote\<rparr>, c)
      else if rollout_paused c then (g\<lparr>go_pc := PcPaused i\<rparr>, c) else (g\<lparr>go_pc := PcSetTraffic i\<rparr>, c))"

definition paused_step :: "nat \<Rightarrow> goroutine \<Rightarrow> coordinator \<Rightarrow> goroutine \<times> coordinator" where
  "paused_step i g c =
     (if co_closed c then (g\<lparr>go_pc := PcDone\<rparr>, c)
      else if \<not> rollout_paused c then (g\<lparr>go_pc := PcSetTraffic i\<rparr>, c) else (g, c))"

definition traffic_step :: "nat \<Rightarrow> gotime \<Rightarrow> goroutine \<Rightarrow> coordinator \<Rightarrow> goroutine \<times> coordinator" where
  "traffic_step i now g c =
     (let pct = canary_stages ! i in
      case co_router c of None \<Rightarrow> (g\<lparr>go_pc := PcObserve i\<rparr>, c)
      | Some r \<Rightarrow> (case update_config True pct (go_actor g) (why_stage pct) now r of
          Inl e \<Rightarrow> (g\<lparr>go_pc := PcRollback (why_update_failed pct e)\<rparr>, c)
        | Inr r' \<Rightarrow> (g\<lparr>go_pc := PcObserve i\<rparr>, c\<lparr>co_router := Some r'\<rparr>)))"

definition observe_step :: "nat \<Rightarrow> gotime \<Rightarrow> goroutine \<Rightarrow> coordinator \<Rightarrow> goroutine \<times> coordinator" where
  "observe_step i now g c =
     (if breaker_state c = CB_Failed \<or> breaker_state c = CB_RolledBack
      then (g\<lparr>go_pc := PcRollback (why_tripped (canary_stages ! i) (breaker_state c))\<rparr>, c)
      else (g\<lparr>go_pc := PcStage (Suc i)\<rparr>,
            send_audit (CanaryMetricLogged (stage_metric (canary_stages ! i) (snd (cand_name (go_cand g) c)) (go_rollout g) now)) c))"

definition promote_step :: "gotime \<Rightarrow> goroutine \<Rightarrow> coordinator \<Rightarrow> goroutine \<times> coordinator" where
  "promote_step now g c =
     (if co_maintenance c \<or> co_frozen c then (g\<lparr>go_pc := PcRollback msg_promotion_blocked\<rparr>, c)
      else (case Option.bind (go_cand g) (\<lambda>m. promote_candidate (go_job g) m (go_actor g) (go_started g) now c) of
          None \<Rightarrow> (g\<lparr>go_pc := PcPanic\<rparr>, c) | Some c' \<Rightarrow> (g\<lparr>go_pc := PcDone\<rparr>, c')))"

definition goroutine_step :: "training_answer \<Rightarrow> gotime \<Rightarrow> goroutine \<Rightarrow> coordinator \<Rightarrow> goroutine \<times> coordinator" where
  "goroutine_step a now g c =
     (case go_pc g of
        PcCreate trigger reason samples \<Rightarrow> create_step trigger reason samples now g c
      | PcFail why \<Rightarrow> (g\<lparr>go_pc := PcDone\<rparr>, fail_job (go_job g) why (go_actor g) now c)
      | PcReject why \<Rightarrow> (g\<lparr>go_pc := PcDone\<rparr>, reject_candidate (go_job g) (go_cand g) why (go_actor g) now c)
      | PcRollback why \<Rightarrow> (g\<lparr>go_pc := PcDone\<rparr>, rollback_candidate (go_job g) (go_cand g) why (go_actor g) now c)
      | PcDone \<Rightarrow> (g, c) | PcPanic \<Rightarrow> (g, c)
      | PcQueue \<Rightarrow> advance JsQueued why_queued PcTrain now g c
      | PcTrain \<Rightarrow> advance JsTraining why_training PcStart now g c
      | PcStart \<Rightarrow> (case ta_started a of
          Inl e \<Rightarrow> (g\<lparr>go_pc := PcFail (why_start_failed e)\<rparr>, increment_metric ''training_jobs_failed'' c)
        | Inr j \<Rightarrow> (g\<lparr>go_pc := PcWait j\<rparr>, c))
      | PcWait j \<Rightarrow> wait_step a j g c
      | PcRegister j \<Rightarrow> register_step j now g c
      | PcStore j \<Rightarrow> store_step j g c
      | PcToValidating j \<Rightarrow> advance JsValidating why_validating (PcValidate j) now g c
      | PcValidate j \<Rightarrow> validate_step j now g c
      | PcMarkValidated \<Rightarrow> (g\<lparr>go_pc := PcToShadow\<rparr>, mark_lifecycle LcValidated g c)
      | PcToShadow \<Rightarrow> advance JsShadowEvaluation why_shadow PcShadow now g c
      | PcShadow \<Rightarrow> shadow_step now g c
      | PcMarkShadow \<Rightarrow> (g\<lparr>go_pc := (if rtc_auto_approve_canary (co_config c) then PcToCanary else PcApproval)\<rparr>,
                         mark_lifecycle LcShadow g c)
      | PcApproval \<Rightarrow> advance JsAwaitingApproval why_approval PcMarkApproved now g c
      | PcMarkApproved \<Rightarrow> (g\<lparr>go_pc := PcDone\<rparr>, mark_lifecycle LcApproved g c)
      | PcToCanary \<Rightarrow> to_canary_step now g c
      | PcMarkCanary \<Rightarrow> (g\<lparr>go_pc := PcStage 0, go_rollout := now\<rparr>, mark_lifecycle LcCanary g c)
      | PcStage i \<Rightarrow> stage_step i g c
      | PcPaused i \<Rightarrow> paused_step i g c
      | PcSetTraffic i \<Rightarrow> traffic_step i now g c
      | PcObserve i \<Rightarrow> observe_step i now g c
      | PcPromote \<Rightarrow> promote_step now g c)"


subsection \<open>Requests of operators and of the drift detector\<close>

text \<open>A request answers an error, or nothing, or starts a goroutine that does the rest.\<close>

definition start_goroutine :: "pc \<Rightarrow> ref option \<Rightarrow> ref option \<Rightarrow> string \<Rightarrow> gotime \<Rightarrow> goroutine" where
  "start_goroutine p job cand actor now =
     \<lparr>go_pc = p, go_job = job, go_cand = cand, go_actor = actor, go_started = now, go_rollout = now\<rparr>"

definition on_drift_evaluated :: "drift_measurement \<Rightarrow> gotime \<Rightarrow> coordinator \<Rightarrow> goroutine option \<times> coordinator" where
  "on_drift_evaluated m now c =
     (if co_maintenance c \<or> co_retraining_paused c then (None, c)
      else (case evaluate_drift m (breaker_state c) now (co_trigger c) of
          ((False, _, _), e) \<Rightarrow> (None, c\<lparr>co_trigger := e\<rparr>)
        | ((True, ty, why), e) \<Rightarrow>
            (Some (start_goroutine (PcCreate (trigger_type_string ty) why (word_of_int (me_sample_count m)))
               None None ''AUTOMATED_DRIFT_DETECTOR'' now), c\<lparr>co_trigger := e\<rparr>)))"

definition msg_reason_required :: string where
  "msg_reason_required = ''non-empty reason required for manual retraining trigger''"
definition msg_manual_rejected :: "string \<Rightarrow> string" where
  "msg_manual_rejected why = ''manual trigger rejected: '' @ why"

definition trigger_manual :: "string \<Rightarrow> string \<Rightarrow> gotime \<Rightarrow> coordinator \<Rightarrow> string + goroutine" where
  "trigger_manual actor0 reason now c =
     (let actor = (if actor0 = '''' then ''ADMIN_OPERATOR'' else actor0) in
      if reason = '''' then Inl msg_reason_required
      else (case can_trigger_manual (breaker_state c) (co_trigger c) of
          Some why \<Rightarrow> Inl (msg_manual_rejected why)
        | None \<Rightarrow> Inr (start_goroutine (PcCreate ''MANUAL_OPERATOR'' reason 1000) None None actor now)))"

definition msg_cancelled :: "string \<Rightarrow> string \<Rightarrow> string" where
  "msg_cancelled actor reason = ''Cancelled by operator ('' @ actor @ ''): '' @ reason"
definition msg_not_active :: "string \<Rightarrow> string" where
  "msg_not_active j = ''job '' @ quoted j @ '' is not active or does not exist''"

definition cancel_job :: "string \<Rightarrow> string \<Rightarrow> string \<Rightarrow> gotime \<Rightarrow> coordinator \<Rightarrow> string + goroutine" where
  "cancel_job job_id actor reason now c =
     (case deref_job (co_active_job c) c of
        Some j \<Rightarrow> if rj_job_id j = job_id
          then Inr (start_goroutine (PcFail (msg_cancelled actor reason)) (co_active_job c) None actor now)
          else Inl (msg_not_active job_id)
      | None \<Rightarrow> Inl (msg_not_active job_id))"

definition msg_already_approved :: "string \<Rightarrow> job_state \<Rightarrow> string" where
  "msg_already_approved cid st = ''candidate '' @ cid @ '' is already approved (current state: '' @ job_state_string st @ '')''"
definition msg_cannot :: "string \<Rightarrow> job_state \<Rightarrow> string" where
  "msg_cannot verb st = ''cannot '' @ verb @ '' candidate; current state is '' @ job_state_string st @ '' (expected AWAITING_APPROVAL)''"
definition msg_candidate_unknown :: "string \<Rightarrow> string" where
  "msg_candidate_unknown cid = ''candidate '' @ cid @ '' not found''"

definition approve_candidate ::
  "string \<Rightarrow> string \<Rightarrow> string \<Rightarrow> gotime \<Rightarrow> coordinator \<Rightarrow> (string + goroutine) \<times> coordinator" where
  "approve_candidate cid actor reason now c =
     (if co_state c \<noteq> JsAwaitingApproval
      then (Inl (if co_state c = JsCanary \<or> co_state c = JsPromoted then msg_already_approved cid (co_state c)
                 else msg_cannot ''approve'' (co_state c)), c)
      else (case co_candidates c cid of None \<Rightarrow> (Inl (msg_candidate_unknown cid), c)
        | Some r \<Rightarrow>
            (let c1 = upd_job (co_active_job c) (\<lambda>j. j\<lparr>rj_state := JsCanary\<rparr>)
                        (upd_cand (Some r) (\<lambda>m. m\<lparr>mc_state := JsCanary\<rparr>) (c\<lparr>co_state := JsCanary\<rparr>));
                 (model_id, version) = cand_name (Some r) c in
             (Inr (start_goroutine PcToCanary (co_active_job c) (Some r) actor now),
              persist_state now (log_lifecycle_event model_id version JsAwaitingApproval JsCanary ''OPERATOR_APPROVAL''
                actor reason now c1)))))"

definition msg_already_rejected :: "string \<Rightarrow> string" where
  "msg_already_rejected cid = ''candidate '' @ cid @ '' is already rejected''"
definition msg_operator_rejection :: "string \<Rightarrow> string \<Rightarrow> string" where
  "msg_operator_rejection actor reason = ''Operator manual rejection ('' @ actor @ ''): '' @ reason"

definition reject_by_operator :: "string \<Rightarrow> string \<Rightarrow> string \<Rightarrow> gotime \<Rightarrow> coordinator \<Rightarrow> string + goroutine" where
  "reject_by_operator cid actor reason now c =
     (if co_state c \<noteq> JsAwaitingApproval
      then Inl (if co_state c = JsRejected then msg_already_rejected cid else msg_cannot ''reject'' (co_state c))
      else (case co_candidates c cid of None \<Rightarrow> Inl (msg_candidate_unknown cid)
        | Some r \<Rightarrow> Inr (start_goroutine (PcReject (msg_operator_rejection actor reason)) (co_active_job c) (Some r) actor now)))"

subsection \<open>Queries\<close>

definition get_summary :: "gotime \<Rightarrow> coordinator \<Rightarrow> retraining_summary" where
  "get_summary now c = te_get_summary (co_state c) (map_option mc_version (deref_cand (co_active_candidate c) c)) now (co_trigger c)"

definition get_candidate_by_id :: "string \<Rightarrow> coordinator \<Rightarrow> string + model_candidate option" where
  "get_candidate_by_id cid c = (case co_candidates c cid of
     None \<Rightarrow> Inl (''candidate '' @ quoted cid @ '' not found'') | Some r \<Rightarrow> Inr (co_cands c r))"

definition get_history :: "coordinator \<Rightarrow> retraining_job list" where
  "get_history c = co_history c"

definition get_job_by_id :: "string \<Rightarrow> coordinator \<Rightarrow> string + retraining_job" where
  "get_job_by_id job_id c =
     (case (case deref_job (co_active_job c) c of Some j \<Rightarrow> if rj_job_id j = job_id then Some j else None | None \<Rightarrow> None) of
        Some j \<Rightarrow> Inr j
      | None \<Rightarrow> (case find (\<lambda>j. rj_job_id j = job_id) (co_history c) of
          Some j \<Rightarrow> Inr j | None \<Rightarrow> Inl (''job '' @ quoted job_id @ '' not found'')))"

definition get_observability_metrics :: "coordinator \<Rightarrow> string \<Rightarrow> int" where
  "get_observability_metrics c = co_metrics c"

subsection \<open>The system\<close>

record lifecycle_system =
  ls_co :: coordinator
  ls_go :: "goroutine list"

datatype lifecycle_step =
    StDrift drift_measurement gotime | StManual string string gotime | StGo nat training_answer gotime
  | StApprove string string string gotime | StReject string string string gotime | StCancel string string string gotime
  | StMaintenance bool string string gotime | StFreeze bool string string gotime
  | StPauseRetraining bool string string gotime | StPauseCanary bool string string gotime
  | StTraffic router_op gotime

definition spawn :: "goroutine option \<Rightarrow> coordinator \<Rightarrow> lifecycle_system \<Rightarrow> lifecycle_system" where
  "spawn g c s = s\<lparr>ls_co := c, ls_go := ls_go s @ (case g of None \<Rightarrow> [] | Some t \<Rightarrow> [t])\<rparr>"

definition right :: "'a + 'b \<Rightarrow> 'b option" where
  "right x = (case x of Inl _ \<Rightarrow> None | Inr b \<Rightarrow> Some b)"

definition panicked :: "lifecycle_system \<Rightarrow> bool" where
  "panicked s \<longleftrightarrow> list_ex (\<lambda>g. go_pc g = PcPanic) (ls_go s)"

fun lifecycle_run :: "lifecycle_step \<Rightarrow> lifecycle_system \<Rightarrow> lifecycle_system" where
  "lifecycle_run (StDrift m now) s = (case on_drift_evaluated m now (ls_co s) of (g, c) \<Rightarrow> spawn g c s)"
| "lifecycle_run (StManual actor reason now) s = spawn (right (trigger_manual actor reason now (ls_co s))) (ls_co s) s"
| "lifecycle_run (StGo i a now) s =
     (if i < length (ls_go s)
      then (case goroutine_step a now (ls_go s ! i) (ls_co s) of (g, c) \<Rightarrow> s\<lparr>ls_co := c, ls_go := (ls_go s)[i := g]\<rparr>) else s)"
| "lifecycle_run (StApprove cid actor reason now) s =
     (case approve_candidate cid actor reason now (ls_co s) of (g, c) \<Rightarrow> spawn (right g) c s)"
| "lifecycle_run (StReject cid actor reason now) s = spawn (right (reject_by_operator cid actor reason now (ls_co s))) (ls_co s) s"
| "lifecycle_run (StCancel j actor reason now) s = spawn (right (cancel_job j actor reason now (ls_co s))) (ls_co s) s"
| "lifecycle_run (StMaintenance b actor reason now) s = s\<lparr>ls_co := set_maintenance_mode b actor reason now (ls_co s)\<rparr>"
| "lifecycle_run (StFreeze b actor reason now) s = s\<lparr>ls_co := set_model_frozen b actor reason now (ls_co s)\<rparr>"
| "lifecycle_run (StPauseRetraining b actor reason now) s = s\<lparr>ls_co := set_retraining_paused b actor reason now (ls_co s)\<rparr>"
| "lifecycle_run (StPauseCanary b actor reason now) s = s\<lparr>ls_co := set_canary_paused b actor reason now (ls_co s)\<rparr>"
| "lifecycle_run (StTraffic op now) s = s\<lparr>ls_co := (ls_co s)\<lparr>co_router := map_option (router_step (op, now)) (co_router (ls_co s))\<rparr>\<rparr>"

text \<open>The states that any interleaving can reach; a panic ends the process.\<close>

inductive lifecycle_reachable :: "lifecycle_system \<Rightarrow> lifecycle_system \<Rightarrow> bool" where
  lr_start: "lifecycle_reachable s s"
| lr_step: "lifecycle_reachable s s' \<Longrightarrow> \<not> panicked s' \<Longrightarrow> lifecycle_reachable s (lifecycle_run st s')"

inductive_cases lifecycle_reachableE: "lifecycle_reachable s s'"

end
