(* ===== verification/Retraining_Lifecycle.thy ===== *)
theory Retraining_Lifecycle
  imports Retraining_Coordinator
begin

text \<open>
  What the coordinator's steps keep, in every interleaving: the registry's production pointer while
  promotions are blocked, one active job at a time, and that no goroutine panics.
\<close>

subsection \<open>What the helpers leave alone\<close>

lemmas helper_defs = send_audit_def log_lifecycle_event_def increment_metric_def persist_state_def upd_job_def upd_cand_def
  log_job_def

text \<open>The references in use.\<close>

definition live_jobs :: "coordinator \<Rightarrow> ref set" where "live_jobs c = dom (co_jobs c)"
definition live_cands :: "coordinator \<Rightarrow> ref set" where "live_cands c = dom (co_cands c)"

lemma live_record [simp]:
  "live_jobs (c\<lparr>co_state := a\<rparr>) = live_jobs c" "live_cands (c\<lparr>co_state := a\<rparr>) = live_cands c"
  "live_jobs (c\<lparr>co_active_job := b\<rparr>) = live_jobs c" "live_cands (c\<lparr>co_active_job := b\<rparr>) = live_cands c"
  "live_jobs (c\<lparr>co_trigger := e\<rparr>) = live_jobs c" "live_cands (c\<lparr>co_trigger := e\<rparr>) = live_cands c"
  "live_jobs (c\<lparr>co_history := h\<rparr>) = live_jobs c" "live_cands (c\<lparr>co_history := h\<rparr>) = live_cands c"
  "live_jobs (c\<lparr>co_router := r\<rparr>) = live_jobs c" "live_cands (c\<lparr>co_router := r\<rparr>) = live_cands c"
  "live_jobs (c\<lparr>co_next := n\<rparr>) = live_jobs c" "live_cands (c\<lparr>co_next := n\<rparr>) = live_cands c"
  "live_jobs (c\<lparr>co_candidates := k\<rparr>) = live_jobs c" "live_cands (c\<lparr>co_candidates := k\<rparr>) = live_cands c"
  "live_jobs (c\<lparr>co_active_candidate := l\<rparr>) = live_jobs c" "live_cands (c\<lparr>co_active_candidate := l\<rparr>) = live_cands c"
  "live_jobs (c\<lparr>co_jobs := (co_jobs c)(i \<mapsto> j)\<rparr>) = insert i (live_jobs c)" "live_cands (c\<lparr>co_jobs := js\<rparr>) = live_cands c"
  "live_cands (c\<lparr>co_cands := (co_cands c)(i \<mapsto> m)\<rparr>) = insert i (live_cands c)" "live_jobs (c\<lparr>co_cands := ms\<rparr>) = live_jobs c"
  by (simp_all add: live_jobs_def live_cands_def)

lemma helper_frames [simp]:
  "co_registry (send_audit a c) = co_registry c" "co_registry (log_lifecycle_event i v p n t ac w now c) = co_registry c"
  "co_registry (increment_metric m c) = co_registry c" "co_registry (persist_state now c) = co_registry c"
  "co_registry (upd_job j fj c) = co_registry c" "co_registry (upd_cand j fc c) = co_registry c" "co_registry (log_job j c) = co_registry c"
  "co_state (send_audit a c) = co_state c" "co_state (log_lifecycle_event i v p n t ac w now c) = co_state c"
  "co_state (increment_metric m c) = co_state c" "co_state (persist_state now c) = co_state c"
  "co_state (upd_job j fj c) = co_state c" "co_state (upd_cand j fc c) = co_state c" "co_state (log_job j c) = co_state c"
  "co_active_job (send_audit a c) = co_active_job c" "co_active_job (log_lifecycle_event i v p n t ac w now c) = co_active_job c"
  "co_active_job (increment_metric m c) = co_active_job c" "co_active_job (persist_state now c) = co_active_job c"
  "co_active_job (upd_job j fj c) = co_active_job c" "co_active_job (upd_cand j fc c) = co_active_job c" "co_active_job (log_job j c) = co_active_job c"
  "co_trigger (send_audit a c) = co_trigger c" "co_trigger (log_lifecycle_event i v p n t ac w now c) = co_trigger c"
  "co_trigger (increment_metric m c) = co_trigger c" "co_trigger (persist_state now c) = co_trigger c"
  "co_trigger (upd_job j fj c) = co_trigger c" "co_trigger (upd_cand j fc c) = co_trigger c" "co_trigger (log_job j c) = co_trigger c"
  by (simp_all add: helper_defs split: option.split)

lemma helper_frames2 [simp]:
  "co_frozen (send_audit a c) = co_frozen c" "co_frozen (log_lifecycle_event i v p n t ac w now c) = co_frozen c"
  "co_frozen (increment_metric m c) = co_frozen c" "co_frozen (persist_state now c) = co_frozen c"
  "co_frozen (upd_job j fj c) = co_frozen c" "co_frozen (upd_cand j fc c) = co_frozen c" "co_frozen (log_job j c) = co_frozen c"
  "co_maintenance (send_audit a c) = co_maintenance c" "co_maintenance (log_lifecycle_event i v p n t ac w now c) = co_maintenance c"
  "co_maintenance (increment_metric m c) = co_maintenance c" "co_maintenance (persist_state now c) = co_maintenance c"
  "co_maintenance (upd_job j fj c) = co_maintenance c" "co_maintenance (upd_cand j fc c) = co_maintenance c" "co_maintenance (log_job j c) = co_maintenance c"
  "live_jobs (send_audit a c) = live_jobs c" "live_jobs (log_lifecycle_event i v p n t ac w now c) = live_jobs c"
  "live_jobs (increment_metric m c) = live_jobs c" "live_jobs (persist_state now c) = live_jobs c"
  "live_jobs (upd_job j fj c) = live_jobs c" "live_jobs (upd_cand j fc c) = live_jobs c" "live_jobs (log_job j c) = live_jobs c"
  "live_cands (send_audit a c) = live_cands c" "live_cands (log_lifecycle_event i v p n t ac w now c) = live_cands c"
  "live_cands (increment_metric m c) = live_cands c" "live_cands (persist_state now c) = live_cands c"
  "live_cands (upd_job j fj c) = live_cands c" "live_cands (upd_cand j fc c) = live_cands c" "live_cands (log_job j c) = live_cands c"
  by (auto simp: helper_defs live_jobs_def live_cands_def split: option.splits if_splits)

lemma helper_frames3 [simp]:
  "co_candidates (send_audit a c) = co_candidates c" "co_candidates (log_lifecycle_event i v p n t ac w now c) = co_candidates c"
  "co_candidates (increment_metric m c) = co_candidates c" "co_candidates (persist_state now c) = co_candidates c"
  "co_candidates (upd_job j fj c) = co_candidates c" "co_candidates (upd_cand j fc c) = co_candidates c" "co_candidates (log_job j c) = co_candidates c"
  by (simp_all add: helper_defs split: option.split)


lemma registry_helper_frames [simp]:
  "co_state (on_registry f c) = co_state c" "co_active_job (on_registry f c) = co_active_job c"
  "co_trigger (on_registry f c) = co_trigger c" "co_frozen (on_registry f c) = co_frozen c"
  "co_maintenance (on_registry f c) = co_maintenance c" "co_jobs (on_registry f c) = co_jobs c" "live_jobs (on_registry f c) = live_jobs c" "live_cands (on_registry f c) = live_cands c"
  "co_cands (on_registry f c) = co_cands c" "co_candidates (on_registry f c) = co_candidates c"
  "co_registry (on_registry f c) = map_option f (co_registry c)"
  "co_state (configure_router e p a w t c) = co_state c" "co_active_job (configure_router e p a w t c) = co_active_job c"
  "co_trigger (configure_router e p a w t c) = co_trigger c" "co_frozen (configure_router e p a w t c) = co_frozen c"
  "co_maintenance (configure_router e p a w t c) = co_maintenance c" "co_jobs (configure_router e p a w t c) = co_jobs c" "live_jobs (configure_router e p a w t c) = live_jobs c" "live_cands (configure_router e p a w t c) = live_cands c"
  "co_cands (configure_router e p a w t c) = co_cands c" "co_candidates (configure_router e p a w t c) = co_candidates c"
  "co_registry (configure_router e p a w t c) = co_registry c"
  by (simp_all add: on_registry_def configure_router_def live_jobs_def live_cands_def)

lemma mark_frames [simp]:
  "co_state (mark_lifecycle l g c) = co_state c" "co_active_job (mark_lifecycle l g c) = co_active_job c"
  "co_trigger (mark_lifecycle l g c) = co_trigger c" "co_frozen (mark_lifecycle l g c) = co_frozen c"
  "co_maintenance (mark_lifecycle l g c) = co_maintenance c" "co_jobs (mark_lifecycle l g c) = co_jobs c" "live_jobs (mark_lifecycle l g c) = live_jobs c" "live_cands (mark_lifecycle l g c) = live_cands c"
  "co_cands (mark_lifecycle l g c) = co_cands c" "co_candidates (mark_lifecycle l g c) = co_candidates c"
  by (simp_all add: mark_lifecycle_def split: option.split)

lemma close_job_frames [simp]:
  "co_state (close_job j st e t c) = co_state c" "co_active_job (close_job j st e t c) = co_active_job c"
  "co_trigger (close_job j st e t c) = co_trigger c" "co_frozen (close_job j st e t c) = co_frozen c"
  "co_maintenance (close_job j st e t c) = co_maintenance c" "live_jobs (close_job j st e t c) = live_jobs c"
  "live_cands (close_job j st e t c) = live_cands c" "co_candidates (close_job j st e t c) = co_candidates c"
  "co_registry (close_job j st e t c) = co_registry c"
  by (simp_all add: close_job_def Let_def split: option.split)

lemma append_history_frames [simp]:
  "co_state (append_history j c) = co_state c" "co_active_job (append_history j c) = co_active_job c"
  "co_trigger (append_history j c) = co_trigger c" "co_frozen (append_history j c) = co_frozen c"
  "co_maintenance (append_history j c) = co_maintenance c" "live_jobs (append_history j c) = live_jobs c"
  "live_cands (append_history j c) = live_cands c" "co_candidates (append_history j c) = co_candidates c"
  "co_registry (append_history j c) = co_registry c"
  by (simp_all add: append_history_def split: option.split)

text \<open>The production version the registry names.\<close>

definition production_pointer :: "coordinator \<Rightarrow> string option" where
  "production_pointer c = map_option mr_production_model (co_registry c)"

lemma registry_calls_keep_pointer [simp]:
  "mr_production_model (snd (update_lifecycle_state v st r)) = mr_production_model r"
  "mr_production_model (snd (register_candidate m u k now r)) = mr_production_model r"
  "mr_production_model (snd (rollback_model v r)) = mr_production_model r"
  by (simp_all add: update_lifecycle_state_def register_candidate_def rollback_model_def Let_def split: option.split)

lemma pointer_frames [simp]:
  "production_pointer (send_audit a c) = production_pointer c"
  "production_pointer (log_lifecycle_event i v p n t ac w now c) = production_pointer c"
  "production_pointer (increment_metric m c) = production_pointer c" "production_pointer (persist_state now c) = production_pointer c"
  "production_pointer (upd_job j fj c) = production_pointer c" "production_pointer (upd_cand j fc c) = production_pointer c"
  "production_pointer (log_job j c) = production_pointer c" "production_pointer (configure_router en pct ac w now c) = production_pointer c"
  "production_pointer (close_job j s w now c) = production_pointer c" "production_pointer (clear_active b now c) = production_pointer c"
  by (simp_all add: production_pointer_def clear_active_def)

lemma pointer_on_registry:
  "(\<And>r. mr_production_model (f r) = mr_production_model r) \<Longrightarrow> production_pointer (on_registry f c) = production_pointer c"
  by (simp add: production_pointer_def option.map_comp comp_def)

lemma pointer_mark [simp]: "production_pointer (mark_lifecycle l g c) = production_pointer c"
  by (simp add: mark_lifecycle_def pointer_on_registry split: option.split)

lemma pointer_record [simp]:
  "production_pointer (c\<lparr>co_state := s\<rparr>) = production_pointer c"
  "production_pointer (c\<lparr>co_trigger := e\<rparr>) = production_pointer c"
  "production_pointer (c\<lparr>co_router := x_router\<rparr>) = production_pointer c"
  "production_pointer (c\<lparr>co_active_job := x_active_job\<rparr>) = production_pointer c"
  "production_pointer (c\<lparr>co_active_candidate := x_active_candidate\<rparr>) = production_pointer c"
  "production_pointer (c\<lparr>co_candidates := x_candidates\<rparr>) = production_pointer c"
  "production_pointer (c\<lparr>co_history := x_history\<rparr>) = production_pointer c"
  "production_pointer (c\<lparr>co_jobs := x_jobs\<rparr>) = production_pointer c"
  "production_pointer (c\<lparr>co_cands := x_cands\<rparr>) = production_pointer c"
  "production_pointer (c\<lparr>co_next := x_next\<rparr>) = production_pointer c"
  "production_pointer (c\<lparr>co_frozen := x_frozen\<rparr>) = production_pointer c"
  "production_pointer (c\<lparr>co_maintenance := x_maintenance\<rparr>) = production_pointer c"
  "production_pointer (c\<lparr>co_retraining_paused := x_retraining_paused\<rparr>) = production_pointer c"
  "production_pointer (c\<lparr>co_canary_paused := x_canary_paused\<rparr>) = production_pointer c"
  by (simp_all add: production_pointer_def)

lemma clear_active_frames [simp]:
  "co_state (clear_active b now c) = co_state c" "co_active_job (clear_active b now c) = None"
  "co_trigger (clear_active b now c) = clear_active_job b now (co_trigger c)"
  "co_frozen (clear_active b now c) = co_frozen c" "co_maintenance (clear_active b now c) = co_maintenance c"
  "co_jobs (clear_active b now c) = co_jobs c" "live_jobs (clear_active b now c) = live_jobs c" "live_cands (clear_active b now c) = live_cands c" "co_cands (clear_active b now c) = co_cands c"
  "co_candidates (clear_active b now c) = co_candidates c" "co_registry (clear_active b now c) = co_registry c"
  by (simp_all add: clear_active_def live_jobs_def live_cands_def)

subsection \<open>While promotions are blocked\<close>

definition blocked :: "coordinator \<Rightarrow> bool" where
  "blocked c \<longleftrightarrow> co_frozen c \<or> co_maintenance c"

lemma create_keeps:
  "snd (create_and_start_job t w a n now c) = c' \<Longrightarrow>
     production_pointer c' = production_pointer c \<and> co_frozen c' = co_frozen c \<and> co_maintenance c' = co_maintenance c"
  by (auto simp: create_and_start_job_def new_job_def Let_def production_pointer_def split: if_splits)

lemma goroutine_step_keeps:
  assumes "goroutine_step a now g c = (g', c')"
  shows "co_frozen c' = co_frozen c" "co_maintenance c' = co_maintenance c"
    "go_pc g \<noteq> PcPromote \<or> blocked c \<Longrightarrow> production_pointer c' = production_pointer c"
proof -
  have "co_frozen c' = co_frozen c \<and> co_maintenance c' = co_maintenance c \<and>
    (go_pc g \<noteq> PcPromote \<or> blocked c \<longrightarrow> production_pointer c' = production_pointer c)"
  proof (cases "go_pc g")
    case (PcCreate t w n)
    show ?thesis
      using assms PcCreate create_keeps [of t w "go_actor g" n now c]
      by (auto simp: goroutine_step_def create_step_def new_job_def production_pointer_def Let_def split: sum.splits option.splits prod.splits)
  next
    case PcPromote
    then show ?thesis using assms
      by (auto simp: goroutine_step_def promote_step_def promote_candidate_def promotion_def blocked_def Let_def
            split: option.splits if_splits bind_splits)
  qed (use assms in \<open>auto simp: goroutine_step_def advance_def transition_job_state_def wait_step_def register_step_def
      store_step_def new_cand_def validate_step_def shadow_step_def to_canary_step_def stage_step_def paused_step_def
      traffic_step_def observe_step_def fail_job_def reject_candidate_def rollback_candidate_def
      pointer_on_registry Let_def split: option.splits if_splits sum.splits prod.splits\<close>)
  then show "co_frozen c' = co_frozen c" "co_maintenance c' = co_maintenance c"
    "go_pc g \<noteq> PcPromote \<or> blocked c \<Longrightarrow> production_pointer c' = production_pointer c" by blast+
qed


fun lifts_block :: "lifecycle_step \<Rightarrow> bool" where
  "lifts_block (StMaintenance b _ _ _) = (\<not> b)"
| "lifts_block (StFreeze b _ _ _) = (\<not> b)"
| "lifts_block _ = False"

lemma toggle_frames [simp]:
  "production_pointer (set_maintenance_mode b ac w now c) = production_pointer c" "co_maintenance (set_maintenance_mode b ac w now c) = b"
  "co_frozen (set_maintenance_mode b ac w now c) = co_frozen c"
  "production_pointer (set_model_frozen b ac w now c) = production_pointer c" "co_frozen (set_model_frozen b ac w now c) = b"
  "co_maintenance (set_model_frozen b ac w now c) = co_maintenance c"
  "production_pointer (set_retraining_paused b ac w now c) = production_pointer c" "co_frozen (set_retraining_paused b ac w now c) = co_frozen c"
  "co_maintenance (set_retraining_paused b ac w now c) = co_maintenance c"
  "production_pointer (set_canary_paused b ac w now c) = production_pointer c" "co_frozen (set_canary_paused b ac w now c) = co_frozen c"
  "co_maintenance (set_canary_paused b ac w now c) = co_maintenance c"
  by (simp_all add: set_maintenance_mode_def set_model_frozen_def set_retraining_paused_def set_canary_paused_def log_toggle_def)

lemma approve_frames:
  assumes "approve_candidate cid ac w now c = (g, c')"
  shows "production_pointer c' = production_pointer c" "co_frozen c' = co_frozen c" "co_maintenance c' = co_maintenance c"
  using assms by (auto simp: approve_candidate_def Let_def split: if_splits option.splits prod.splits)

lemma drift_frames:
  assumes "on_drift_evaluated m now c = (g, c')"
  obtains e where "c' = c\<lparr>co_trigger := e\<rparr>" | "c' = c"
  using assms by (auto simp: on_drift_evaluated_def split: if_splits prod.splits bool.splits)

lemma blocked_step:
  assumes "blocked (ls_co s)" "\<not> lifts_block st"
  shows "production_pointer (ls_co (lifecycle_run st s)) = production_pointer (ls_co s) \<and> blocked (ls_co (lifecycle_run st s))"
proof (cases st)
  case (StDrift m now)
  obtain g c' where d: "on_drift_evaluated m now (ls_co s) = (g, c')" by (metis surj_pair)
  show ?thesis by (rule drift_frames [OF d]) (use assms d StDrift in \<open>auto simp: spawn_def blocked_def\<close>)
next
  case (StGo i a now)
  obtain g c' where "goroutine_step a now (ls_go s ! i) (ls_co s) = (g, c')" by (metis surj_pair)
  with goroutine_step_keeps [OF this] show ?thesis using assms StGo by (auto simp: blocked_def)
next
  case (StApprove cid ac w now)
  obtain g c' where "approve_candidate cid ac w now (ls_co s) = (g, c')" by (metis surj_pair)
  with approve_frames [OF this] show ?thesis using assms StApprove by (simp add: spawn_def blocked_def)
qed (use assms in \<open>auto simp: spawn_def blocked_def\<close>)

lemma blocked_run:
  "blocked (ls_co s) \<Longrightarrow> \<forall>st \<in> set sts. \<not> lifts_block st \<Longrightarrow>
     production_pointer (ls_co (fold lifecycle_run sts s)) = production_pointer (ls_co s) \<and>
     blocked (ls_co (fold lifecycle_run sts s))"
  by (induction sts arbitrary: s) (simp_all add: blocked_step)


definition fresh_system :: lifecycle_system where
  "fresh_system = \<lparr>ls_co = new_retraining_coordinator default_retraining_config
     (Some (new_canary_router default_canary_config False)) False 1000, ls_go = []\<rparr>"


subsection \<open>One active job\<close>

definition resting :: "job_state \<Rightarrow> bool" where
  "resting st \<longleftrightarrow> st \<in> {JsIdle, JsPromoted, JsFailed, JsRejected, JsRolledBack}"

definition coordinator_ok :: "coordinator \<Rightarrow> bool" where
  "coordinator_ok c \<longleftrightarrow> (co_active_job c = None \<longleftrightarrow> resting (co_state c)) \<and>
     (te_active_job_id (co_trigger c) = '''' \<longleftrightarrow> co_active_job c = None) \<and> (\<forall>cid r. co_candidates c cid = Some r \<longrightarrow> r \<in> live_cands c) \<and>
     set_option (co_active_job c) \<subseteq> live_jobs c"

text \<open>The references a goroutine needs for the rest of its way.\<close>

fun goroutine_ok :: "coordinator \<Rightarrow> goroutine \<Rightarrow> bool" where
  "goroutine_ok c g = (case go_pc g of
      PcCreate _ _ _ \<Rightarrow> True | PcFail _ \<Rightarrow> True | PcReject _ \<Rightarrow> True | PcRollback _ \<Rightarrow> True | PcDone \<Rightarrow> True
    | PcPanic \<Rightarrow> False
    | PcQueue \<Rightarrow> go_job g \<noteq> None | PcTrain \<Rightarrow> go_job g \<noteq> None | PcStart \<Rightarrow> go_job g \<noteq> None | PcWait _ \<Rightarrow> go_job g \<noteq> None
    | PcRegister _ \<Rightarrow> go_job g \<noteq> None | PcStore _ \<Rightarrow> go_job g \<noteq> None
    | _ \<Rightarrow> go_job g \<noteq> None \<and> go_cand g \<in> Some ` live_cands c)"

lemma transition_keeps_ok:
  assumes "coordinator_ok c" "\<not> resting target" "target \<noteq> JsTriggered"
  shows "coordinator_ok (snd (transition_job_state j target w a now c))"
proof -
  have "\<not> resting (co_state c)" if "can_transition_to (co_state c) target"
    using that assms(2,3) by (cases "co_state c") (auto simp: resting_def)
  then show ?thesis using assms by (auto simp: transition_job_state_def coordinator_ok_def)
qed

lemma clear_active_ok [simp]: "te_active_job_id (clear_active_job b now e) = ''''"
  by (simp add: clear_active_job_def Let_def)

lemma closing_ok:
  assumes "coordinator_ok c"
  shows "coordinator_ok (fail_job j w a now c)" "coordinator_ok (reject_candidate j m w a now c)"
    "coordinator_ok (rollback_candidate j m w a now c)"
  using assms by (auto simp: coordinator_ok_def fail_job_def reject_candidate_def rollback_candidate_def resting_def
      Let_def split: prod.split)

lemma create_ok:
  assumes "coordinator_ok c" "create_and_start_job t w a n now c = (x, c')"
  shows "coordinator_ok c'" "live_cands c' = live_cands c"
  using assms by (auto simp: coordinator_ok_def create_and_start_job_def new_job_def starts_allowed_def set_active_job_def
      resting_def Let_def split: if_splits)

lemma promotion_frames [simp]:
  "co_state (promotion j m k a st now c) = JsPromoted" "co_active_job (promotion j m k a st now c) = None"
  "te_active_job_id (co_trigger (promotion j m k a st now c)) = ''''" "live_cands (promotion j m k a st now c) = live_cands c"
  "co_candidates (promotion j m k a st now c) = co_candidates c"
  by (simp_all add: promotion_def Let_def)

lemma promote_ok:
  assumes "coordinator_ok c" "promote_candidate j m a st now c = Some c'"
  shows "coordinator_ok c'" "live_cands c' = live_cands c"
proof -
  obtain k where "c' = promotion j m k a st now c" using assms(2) by (auto simp: promote_candidate_def split: if_splits)
  then show "coordinator_ok c'" "live_cands c' = live_cands c" using assms(1) by (simp_all add: coordinator_ok_def resting_def)
qed

lemma create_starts:
  assumes "\<not> co_maintenance c" "\<not> co_retraining_paused c" "starts_allowed c"
  shows "co_state (snd (create_step t w n now g c)) = JsTriggered"
  using assms by (simp add: create_step_def create_and_start_job_def new_job_def Let_def split: option.split)

lemma promote_defined: "j \<noteq> None \<Longrightarrow> m \<in> live_cands c \<Longrightarrow> promote_candidate j m a st now c \<noteq> None"
  by (auto simp: promote_candidate_def live_cands_def)


lemma advance_ok:
  assumes "advance target w next now g c = (g', c')"
  shows "live_cands c' = live_cands c \<and> (g' = g\<lparr>go_pc := next\<rparr> \<or> g' = g\<lparr>go_pc := PcFail (no_transition target)\<rparr>) \<and>
    (coordinator_ok c \<and> \<not> resting target \<and> target \<noteq> JsTriggered \<longrightarrow> coordinator_ok c')"
proof -
  obtain b c1 where tr: "transition_job_state (go_job g) target w (go_actor g) now c = (b, c1)" by (metis surj_pair)
  have "live_cands c1 = live_cands c" using tr by (auto simp: transition_job_state_def split: if_splits)
  moreover have "coordinator_ok c \<and> \<not> resting target \<and> target \<noteq> JsTriggered \<Longrightarrow> coordinator_ok c1"
    using transition_keeps_ok [of c target "go_job g" w "go_actor g" now] tr by simp
  ultimately show ?thesis using assms tr by (auto simp: advance_def split: bool.splits)
qed

lemma ok_frames [simp]:
  "coordinator_ok (increment_metric m c) = coordinator_ok c" "coordinator_ok (send_audit a c) = coordinator_ok c"
  "coordinator_ok (upd_job j fj c) = coordinator_ok c" "coordinator_ok (upd_cand j fc c) = coordinator_ok c"
  "coordinator_ok (on_registry fr c) = coordinator_ok c" "coordinator_ok (mark_lifecycle l g c) = coordinator_ok c"
  "coordinator_ok (c\<lparr>co_router := r\<rparr>) = coordinator_ok c"
  by (simp_all add: coordinator_ok_def)

lemma closing_frames [simp]:
  "live_cands (fail_job j w a now c) = live_cands c" "live_cands (reject_candidate j m w a now c) = live_cands c"
  "live_cands (rollback_candidate j m w a now c) = live_cands c"
  by (simp_all add: fail_job_def reject_candidate_def rollback_candidate_def Let_def split: prod.split)

lemma goroutine_step_ok:
  assumes "coordinator_ok c" "goroutine_ok c g" "goroutine_step a now g c = (g', c')"
  shows "coordinator_ok c' \<and> goroutine_ok c' g' \<and> live_cands c \<subseteq> live_cands c'"
proof (cases "go_pc g")
  case (PcCreate t w n)
  obtain x c1 where cr: "create_and_start_job t w (go_actor g) n now c = (x, c1)" by (metis surj_pair)
  note ok = create_ok [OF assms(1) cr]
  show ?thesis
  proof (cases x)
    case (Inl e)
    then show ?thesis using assms(3) PcCreate cr ok by (auto simp: goroutine_step_def create_step_def)
  next
    case (Inr r)
    then show ?thesis using assms(3) PcCreate cr ok
      by (auto simp: goroutine_step_def create_step_def new_job_def coordinator_ok_def split: option.splits)
  qed
next
  case PcPromote
  then obtain m where m: "go_cand g = Some m" "m \<in> live_cands c" "go_job g \<noteq> None" using assms(2) by auto
  obtain c1 where c1: "promote_candidate (go_job g) m (go_actor g) (go_started g) now c = Some c1"
    using promote_defined [OF m(3,2)] by blast
  show ?thesis using assms PcPromote m(1) c1 promote_ok [OF assms(1) c1]
    by (auto simp: goroutine_step_def promote_step_def split: if_splits)
next
  case (PcStore j)
  then show ?thesis using assms
    by (auto simp: goroutine_step_def store_step_def new_cand_def coordinator_ok_def Let_def split: if_splits)
next
  case PcToCanary
  have "\<not> resting (co_state c)" if "can_transition_to (co_state c) JsCanary"
    using that by (cases "co_state c") (auto simp: resting_def)
  then show ?thesis using assms PcToCanary
    by (auto simp: goroutine_step_def to_canary_step_def coordinator_ok_def resting_def split: if_splits)
qed (use assms closing_ok [OF assms(1)] in
  \<open>auto simp: goroutine_step_def wait_step_def register_step_def validate_step_def shadow_step_def
     stage_step_def paused_step_def traffic_step_def observe_step_def resting_def Let_def
     split: option.splits if_splits sum.splits dest!: advance_ok\<close>)

lemma goroutine_ok_mono: "goroutine_ok c g \<Longrightarrow> live_cands c \<subseteq> live_cands c' \<Longrightarrow> goroutine_ok c' g"
  by (auto split: pc.splits)

lemma toggle_ok:
  assumes "coordinator_ok c"
  shows "coordinator_ok (set_maintenance_mode b a w now c) \<and> coordinator_ok (set_model_frozen b a w now c) \<and>
    coordinator_ok (set_retraining_paused b a w now c) \<and> coordinator_ok (set_canary_paused b a w now c)"
    "live_cands (set_maintenance_mode b a w now c) = live_cands c" "live_cands (set_model_frozen b a w now c) = live_cands c"
    "live_cands (set_retraining_paused b a w now c) = live_cands c" "live_cands (set_canary_paused b a w now c) = live_cands c"
proof -
  have [simp]: "live_cands (c\<lparr>co_maintenance := b\<rparr>) = live_cands c" "live_cands (c\<lparr>co_frozen := b\<rparr>) = live_cands c"
    "live_cands (c\<lparr>co_retraining_paused := b\<rparr>) = live_cands c" "live_cands (c\<lparr>co_canary_paused := b\<rparr>) = live_cands c"
    "live_jobs (c\<lparr>co_maintenance := b\<rparr>) = live_jobs c" "live_jobs (c\<lparr>co_frozen := b\<rparr>) = live_jobs c"
    "live_jobs (c\<lparr>co_retraining_paused := b\<rparr>) = live_jobs c" "live_jobs (c\<lparr>co_canary_paused := b\<rparr>) = live_jobs c"
    by (simp_all add: live_cands_def live_jobs_def)
  note defs = set_maintenance_mode_def set_model_frozen_def set_retraining_paused_def set_canary_paused_def log_toggle_def
  show "coordinator_ok (set_maintenance_mode b a w now c) \<and> coordinator_ok (set_model_frozen b a w now c) \<and>
    coordinator_ok (set_retraining_paused b a w now c) \<and> coordinator_ok (set_canary_paused b a w now c)"
    using assms by (simp add: defs coordinator_ok_def)
  show "live_cands (set_maintenance_mode b a w now c) = live_cands c" "live_cands (set_model_frozen b a w now c) = live_cands c"
    "live_cands (set_retraining_paused b a w now c) = live_cands c" "live_cands (set_canary_paused b a w now c) = live_cands c"
    by (simp_all add: defs)
qed

lemma drift_ok:
  assumes "coordinator_ok c" "on_drift_evaluated m now c = (g, c')"
  shows "coordinator_ok c' \<and> live_cands c' = live_cands c \<and> (\<forall>t. g = Some t \<longrightarrow> goroutine_ok c' t)"
proof -
  have e: "te_active_job_id (snd (evaluate_drift m st now e)) = te_active_job_id e" for st e
    by (auto simp: evaluate_drift_def Let_def split: option.split)
  show ?thesis using assms e [of "breaker_state c" "co_trigger c"]
    by (auto simp: on_drift_evaluated_def start_goroutine_def coordinator_ok_def split: if_splits prod.splits bool.splits)
qed

lemma approve_ok:
  assumes "coordinator_ok c" "approve_candidate cid a w now c = (x, c')"
  shows "coordinator_ok c' \<and> live_cands c' = live_cands c \<and> (\<forall>t. x = Inr t \<longrightarrow> goroutine_ok c' t)"
  using assms by (auto simp: approve_candidate_def start_goroutine_def coordinator_ok_def resting_def Let_def
      split: if_splits option.splits prod.splits)

definition system_ok :: "lifecycle_system \<Rightarrow> bool" where
  "system_ok s \<longleftrightarrow> coordinator_ok (ls_co s) \<and> (\<forall>g \<in> set (ls_go s). goroutine_ok (ls_co s) g)"

lemma spawn_ok:
  assumes "system_ok s" "coordinator_ok c" "live_cands (ls_co s) \<subseteq> live_cands c" "\<And>t. g = Some t \<Longrightarrow> goroutine_ok c t"
  shows "system_ok (spawn g c s)"
  using assms goroutine_ok_mono [OF _ assms(3)] by (auto simp: system_ok_def spawn_def split: option.split)

lemma update_ok:
  "system_ok s \<Longrightarrow> coordinator_ok c \<Longrightarrow> live_cands (ls_co s) \<subseteq> live_cands c \<Longrightarrow> system_ok (s\<lparr>ls_co := c\<rparr>)"
  using goroutine_ok_mono [of "ls_co s" _ c] by (simp add: system_ok_def del: goroutine_ok.simps)

lemma spawn_same: "system_ok s \<Longrightarrow> (\<And>t. g = Some t \<Longrightarrow> goroutine_ok (ls_co s) t) \<Longrightarrow> system_ok (spawn g (ls_co s) s)"
  by (rule spawn_ok) (simp_all add: system_ok_def del: goroutine_ok.simps)

lemma goroutine_ok_starts [simp]:
  "goroutine_ok c (start_goroutine (PcCreate t w n) j m a now)" "goroutine_ok c (start_goroutine (PcFail w) j m a now)"
  "goroutine_ok c (start_goroutine (PcReject w) j m a now)"
  by (simp_all add: start_goroutine_def)

lemma requests_ok:
  "right (trigger_manual a w now c) = Some t \<Longrightarrow> goroutine_ok c t"
  "right (cancel_job j a w now c) = Some t \<Longrightarrow> goroutine_ok c t"
  "right (reject_by_operator cid a w now c) = Some t \<Longrightarrow> goroutine_ok c t"
  by (auto simp: right_def trigger_manual_def cancel_job_def reject_by_operator_def Let_def
      simp del: goroutine_ok.simps split: sum.splits option.splits if_splits)

lemma system_ok_step: "system_ok s \<Longrightarrow> system_ok (lifecycle_run st s)"
proof (cases st)
  case (StDrift m now)
  assume ok: "system_ok s"
  obtain g c where d: "on_drift_evaluated m now (ls_co s) = (g, c)" by (metis surj_pair)
  show ?thesis using spawn_ok [OF ok, of c g] drift_ok [OF _ d] ok d StDrift by (simp add: system_ok_def del: goroutine_ok.simps)
next
  case (StApprove cid a w now)
  assume ok: "system_ok s"
  obtain g c where d: "approve_candidate cid a w now (ls_co s) = (g, c)" by (metis surj_pair)
  show ?thesis using spawn_ok [OF ok, of c "right g"] approve_ok [OF _ d] ok d StApprove
    by (auto simp: system_ok_def right_def simp del: goroutine_ok.simps split: sum.splits)
next
  case (StGo i a now)
  assume ok: "system_ok s"
  obtain g c where d: "goroutine_step a now (ls_go s ! i) (ls_co s) = (g, c)" by (metis surj_pair)
  show ?thesis
  proof (cases "i < length (ls_go s)")
    case True
    then have "coordinator_ok c \<and> goroutine_ok c g \<and> live_cands (ls_co s) \<subseteq> live_cands c"
      using goroutine_step_ok [OF _ _ d] ok by (simp add: system_ok_def del: goroutine_ok.simps)
    then show ?thesis using ok d StGo goroutine_ok_mono [of "ls_co s" _ c] set_update_subset_insert [of "ls_go s" i g]
      by (auto simp: system_ok_def simp del: goroutine_ok.simps)
  qed (use ok StGo in simp)
next
  case (StTraffic op now)
  assume ok: "system_ok s"
  have "live_cands ((ls_co s)\<lparr>co_router := r\<rparr>) = live_cands (ls_co s)" for r by simp
  then show ?thesis using StTraffic update_ok [OF ok] ok by (simp add: system_ok_def coordinator_ok_def del: goroutine_ok.simps)
next
  case (StManual a w now)
  assume ok: "system_ok s"
  then show ?thesis using StManual spawn_same [OF ok requests_ok(1)] by simp
next
  case (StReject cid a w now)
  assume ok: "system_ok s"
  then show ?thesis using StReject spawn_same [OF ok requests_ok(3)] by simp
next
  case (StCancel j a w now)
  assume ok: "system_ok s"
  then show ?thesis using StCancel spawn_same [OF ok requests_ok(2)] by simp
next
  case (StMaintenance b a w now)
  assume ok: "system_ok s"
  then show ?thesis using StMaintenance update_ok [OF ok] toggle_ok [of "ls_co s" b a w now] by (simp add: system_ok_def)
next
  case (StFreeze b a w now)
  assume ok: "system_ok s"
  then show ?thesis using StFreeze update_ok [OF ok] toggle_ok [of "ls_co s" b a w now] by (simp add: system_ok_def)
next
  case (StPauseRetraining b a w now)
  assume ok: "system_ok s"
  then show ?thesis using StPauseRetraining update_ok [OF ok] toggle_ok [of "ls_co s" b a w now] by (simp add: system_ok_def)
next
  case (StPauseCanary b a w now)
  assume ok: "system_ok s"
  then show ?thesis using StPauseCanary update_ok [OF ok] toggle_ok [of "ls_co s" b a w now] by (simp add: system_ok_def)
qed

definition initial_system :: "retraining_config \<Rightarrow> canary_router option \<Rightarrow> bool \<Rightarrow> gotime \<Rightarrow> lifecycle_system" where
  "initial_system cfg router audited t = \<lparr>ls_co = new_retraining_coordinator cfg router audited t, ls_go = []\<rparr>"

lemma initial_ok: "system_ok (initial_system cfg router audited t)"
  by (simp add: system_ok_def initial_system_def coordinator_ok_def new_retraining_coordinator_def new_trigger_engine_def resting_def)

lemma reachable_ok: "lifecycle_reachable s s' \<Longrightarrow> system_ok s \<Longrightarrow> system_ok s'"
  by (induction rule: lifecycle_reachable.induct) (simp_all add: system_ok_step)



end
