(* ===== verification/Rollout.thy ===== *)
theory Rollout
  imports Retraining_Lifecycle
begin

text \<open>
  The rollout of a candidate, step by step: what it needs to reach the promotion, and what does not
  stop it.
\<close>

subsection \<open>A goroutine that runs alone\<close>

definition run_alone :: "(training_answer \<times> gotime) list \<Rightarrow> goroutine \<times> coordinator \<Rightarrow> goroutine \<times> coordinator" where
  "run_alone = fold (\<lambda>(a, now) (g, c). goroutine_step a now g c)"

lemma run_alone_simps [simp]:
  "run_alone [] s = s" "run_alone ((a, now) # xs) (g, c) = run_alone xs (goroutine_step a now g c)"
  by (simp_all add: run_alone_def)

lemma run_alone_append: "run_alone (xs @ ys) s = run_alone ys (run_alone xs s)"
  by (simp add: run_alone_def)

text \<open>What the rollout of a version needs: nothing paused, a calm breaker; to reach production, the version in the registry.\<close>

definition rollout_clear :: "ref \<Rightarrow> string \<Rightarrow> coordinator \<Rightarrow> bool" where
  "rollout_clear r v c \<longleftrightarrow> map_option mc_version (co_cands c r) = Some v \<and> \<not> rollout_paused c \<and>
     breaker_state c \<notin> {CB_Failed, CB_RolledBack}"

definition rollout_ready :: "ref \<Rightarrow> string \<Rightarrow> coordinator \<Rightarrow> bool" where
  "rollout_ready r v c \<longleftrightarrow> rollout_clear r v c \<and>
     (\<exists>reg. co_registry c = Some reg \<and> map_option rm_provenance (lookup_model v reg) = Some None)"

lemma breaker_after_update:
  assumes "update_config e p a w t rt = Inr rt'" "cb_get_state (cr_breaker rt) \<notin> {CB_Failed, CB_RolledBack}"
  shows "cb_get_state (cr_breaker rt') \<notin> {CB_Failed, CB_RolledBack}"
  using assms by (auto simp: update_config_def log_rollout_event_def cb_get_state_def cb_reset_def Let_def split: if_splits)

lemma clear_frames [simp]:
  "rollout_clear r v (send_audit x c) = rollout_clear r v c" "rollout_clear r v (log_lifecycle_event i w p n t ac y now c) = rollout_clear r v c"
  "rollout_clear r v (increment_metric mn c) = rollout_clear r v c" "rollout_clear r v (persist_state now c) = rollout_clear r v c"
  "rollout_clear r v (upd_job j fj c) = rollout_clear r v c" "rollout_clear r v (log_job j c) = rollout_clear r v c"
  "rollout_clear r v (c\<lparr>co_state := st\<rparr>) = rollout_clear r v c" "rollout_clear r v (c\<lparr>co_history := h\<rparr>) = rollout_clear r v c"
  "rollout_clear r v (clear_active b now c) = rollout_clear r v c" "rollout_clear r v (on_registry fr c) = rollout_clear r v c"
  by (simp_all add: rollout_clear_def rollout_paused_def breaker_state_def helper_defs clear_active_def on_registry_def
      split: option.split)

lemma registry_frames [simp]:
  "co_registry (send_audit x c) = co_registry c" "co_registry (log_lifecycle_event i w p n t ac y now c) = co_registry c"
  "co_registry (increment_metric mn c) = co_registry c" "co_registry (persist_state now c) = co_registry c"
  "co_registry (upd_job j fj c) = co_registry c" "co_registry (upd_cand j fc c) = co_registry c"
  "co_registry (log_job j c) = co_registry c" "co_registry (clear_active b now c) = co_registry c"
  by (simp_all add: helper_defs clear_active_def upd_cand_def split: option.split)

lemma clear_cand: "(\<And>m. mc_version (f m) = mc_version m) \<Longrightarrow> rollout_clear r v (upd_cand k f c) = rollout_clear r v c"
  by (auto simp: rollout_clear_def rollout_paused_def breaker_state_def upd_cand_def option.map_comp comp_def split: option.split)

lemma lifecycle_keeps_provenance:
  "map_option rm_provenance (lookup_model v (snd (update_lifecycle_state w st reg))) = map_option rm_provenance (lookup_model v reg)"
  by (auto simp: update_lifecycle_state_def Let_def option.map_comp comp_def split: option.split)

lemma ready_lifecycle:
  "rollout_ready r v c \<Longrightarrow> rollout_ready r v (on_registry (\<lambda>reg. snd (update_lifecycle_state w st reg)) c)"
  by (auto simp: rollout_ready_def on_registry_def lifecycle_keeps_provenance rollout_clear_def rollout_paused_def
      breaker_state_def simp del: map_option_eq_Some)

lemma ready_fail [simp]: "rollout_ready r v (fail_job j w a now c) = rollout_ready r v c"
  by (simp add: rollout_ready_def fail_job_def close_job_def Let_def split: option.split)

subsection \<open>From a stage to the promotion\<close>

lemma stage_runs:
  assumes "go_pc g = PcStage i" "i < 6" "rollout_clear r v c"
  obtains c' where "run_alone [x, y, z] (g, c) = (g\<lparr>go_pc := PcStage (Suc i)\<rparr>, c')" "rollout_clear r v c'"
    "co_registry c' = co_registry c"
proof -
  obtain a1 t1 a2 t2 a3 t3 where xyz: "x = (a1, t1)" "y = (a2, t2)" "z = (a3, t3)" by (metis surj_pair)
  let ?p = "canary_stages ! i"
  have p: "0 < ?p" "?p \<le> 100" "length canary_stages = 6"
    using assms(2) by (auto simp: canary_stages_def less_Suc_eq numeral_eq_Suc)
  have s1: "goroutine_step a1 t1 g c = (g\<lparr>go_pc := PcSetTraffic i\<rparr>, c)"
    using assms p(3) by (simp add: goroutine_step_def stage_step_def rollout_clear_def)
  obtain c2 where s2: "goroutine_step a2 t2 (g\<lparr>go_pc := PcSetTraffic i\<rparr>) c = (g\<lparr>go_pc := PcObserve i\<rparr>, c2)"
    and r2: "rollout_clear r v c2" "co_registry c2 = co_registry c"
  proof (cases "co_router c")
    case None
    then show ?thesis using that assms(3) by (simp add: goroutine_step_def traffic_step_def)
  next
    case (Some rt)
    obtain rt' where u: "update_config True ?p (go_actor g) (why_stage ?p) t2 rt = Inr rt'"
      using p by (simp add: update_config_def Let_def)
    have "rollout_clear r v (c\<lparr>co_router := Some rt'\<rparr>)"
      using assms(3) breaker_after_update [OF u] Some by (auto simp: rollout_clear_def rollout_paused_def breaker_state_def)
    then show ?thesis using that Some u by (simp add: goroutine_step_def traffic_step_def)
  qed
  let ?c3 = "send_audit (CanaryMetricLogged (stage_metric ?p (snd (cand_name (go_cand g) c2)) (go_rollout g) t3)) c2"
  have s3: "goroutine_step a3 t3 (g\<lparr>go_pc := PcObserve i\<rparr>) c2 = (g\<lparr>go_pc := PcStage (Suc i)\<rparr>, ?c3)"
    using r2 by (simp add: goroutine_step_def observe_step_def rollout_clear_def)
  have "run_alone [x, y, z] (g, c) = (g\<lparr>go_pc := PcStage (Suc i)\<rparr>, ?c3)" by (simp only: xyz run_alone_simps s1 s2 s3)
  from that [OF this] show ?thesis using r2 by simp
qed

lemma stages_run:
  assumes "go_pc g = PcStage i" "i \<le> 6" "rollout_clear r v c" "length xs = 3 * (6 - i) + 1"
  obtains c' where "run_alone xs (g, c) = (g\<lparr>go_pc := PcPromote\<rparr>, c')" "rollout_clear r v c'" "co_registry c' = co_registry c"
  using assms
proof (induction "6 - i" arbitrary: i g c xs thesis)
  case 0
  then obtain a t where xs: "xs = [(a, t)]" by (auto simp: length_Suc_conv)
  have "goroutine_step a t g c = (g\<lparr>go_pc := PcPromote\<rparr>, c)"
    using 0 by (simp add: goroutine_step_def stage_step_def canary_stages_def)
  then show ?case using 0 xs by simp
next
  case (Suc n)
  have "length xs = Suc (Suc (Suc (3 * (6 - Suc i) + 1)))" using Suc.prems(5) Suc.hyps(2) by linarith
  then obtain x y z ys where xs: "xs = x # y # z # ys" "length ys = 3 * (6 - Suc i) + 1"
    by (auto simp: length_Suc_conv)
  have "i < 6" using Suc.hyps(2) by linarith
  then obtain c2 where st: "run_alone [x, y, z] (g, c) = (g\<lparr>go_pc := PcStage (Suc i)\<rparr>, c2)" "rollout_clear r v c2"
    "co_registry c2 = co_registry c"
    using stage_runs [OF Suc.prems(2) _ Suc.prems(4)] by metis
  have run: "run_alone xs (g, c) = run_alone ys (g\<lparr>go_pc := PcStage (Suc i)\<rparr>, c2)"
    using st(1) run_alone_append [of "[x, y, z]" ys] xs(1) by simp
  obtain c3 where "run_alone ys (g\<lparr>go_pc := PcStage (Suc i)\<rparr>, c2) = (g\<lparr>go_pc := PcStage (Suc i)\<rparr>\<lparr>go_pc := PcPromote\<rparr>, c3)"
    "rollout_clear r v c3" "co_registry c3 = co_registry c2"
  proof (rule Suc.hyps(1) [of "Suc i" ys "g\<lparr>go_pc := PcStage (Suc i)\<rparr>" c2])
  qed (use Suc.hyps(2) st(2) xs(2) in auto)
  then show ?case using Suc.prems(1) [of c3] run st(3) by simp
qed

lemma promotion_pointer:
  assumes "rollout_ready r v c" "co_cands c r = Some m"
  shows "production_pointer (promotion j r m a st now c) = Some v"
proof -
  obtain reg rm where reg: "co_registry c = Some reg" "lookup_model v reg = Some rm" "rm_provenance rm = None"
    using assms(1) by (auto simp: rollout_ready_def)
  have v: "mc_version m = v" using assms by (simp add: rollout_ready_def rollout_clear_def)
  then have "mr_production_model (snd (promote_model v now reg)) = v"
    using reg by (simp add: promote_model_def Let_def)
  then show "production_pointer (promotion j r m a st now c) = Some v"
    using reg v by (simp add: promotion_def Let_def production_pointer_def)
qed

lemma rollout_completes:
  assumes "go_pc g = PcStage i" "i \<le> 6" "rollout_ready r v c" "go_cand g = Some r" "go_job g \<noteq> None"
    "length xs = 3 * (6 - i) + 2"
  shows "co_state (snd (run_alone xs (g, c))) = JsPromoted \<and> production_pointer (snd (run_alone xs (g, c))) = Some v"
proof -
  obtain ys a t where xs: "xs = ys @ [(a, t)]" "length ys = 3 * (6 - i) + 1"
    using assms(6) by (cases xs rule: rev_cases) auto
  have "rollout_clear r v c" using assms(3) by (simp add: rollout_ready_def)
  then obtain c' where run: "run_alone ys (g, c) = (g\<lparr>go_pc := PcPromote\<rparr>, c')" and "rollout_clear r v c'"
    "co_registry c' = co_registry c"
    using stages_run [OF assms(1,2) _ xs(2)] by metis
  then have ready: "rollout_ready r v c'" and paused: "\<not> rollout_paused c'" using assms(3) by (simp_all add: rollout_ready_def rollout_clear_def)
  then obtain m where m: "co_cands c' r = Some m" by (auto simp: rollout_ready_def rollout_clear_def)
  have "goroutine_step a t (g\<lparr>go_pc := PcPromote\<rparr>) c' =
      (g\<lparr>go_pc := PcDone\<rparr>, promotion (go_job g) r m (go_actor g) (go_started g) t c')"
    using assms(4,5) m paused by (auto simp: goroutine_step_def promote_step_def promote_candidate_def rollout_paused_def)
  then show ?thesis using promotion_pointer [OF ready m] by (simp add: xs run_alone_append run)
qed

text \<open>The first two steps of a goroutine that an approval starts.\<close>

lemma approval_starts:
  assumes "co_state c = JsAwaitingApproval" "co_candidates c cid = Some r" "rollout_clear r v c"
  obtains g c1 c2 where "approve_candidate cid actor reason now c = (Inr g, c1)"
    "run_alone [x, y] (g, c1) = (g\<lparr>go_pc := PcStage 0, go_rollout := snd y\<rparr>, c2)"
    "g = start_goroutine PcToCanary (co_active_job c) (Some r) actor now" "rollout_clear r v c2"
    "rollout_ready r v c \<longrightarrow> rollout_ready r v c2"
proof -
  obtain a1 t1 a2 t2 where xy: "x = (a1, t1)" "y = (a2, t2)" by (metis surj_pair)
  let ?g = "start_goroutine PcToCanary (co_active_job c) (Some r) actor now"
  obtain c1 where ap: "approve_candidate cid actor reason now c = (Inr ?g, c1)" and st: "co_state c1 = JsCanary"
    and clear: "rollout_clear r v c1" "co_registry c1 = co_registry c"
    using assms by (simp add: approve_candidate_def clear_cand split_beta)
  let ?c2 = "mark_lifecycle LcCanary ?g c1"
  have "goroutine_step a1 t1 ?g c1 = (?g\<lparr>go_pc := PcMarkCanary\<rparr>, c1)"
    using st by (simp add: goroutine_step_def to_canary_step_def start_goroutine_def)
  moreover have "goroutine_step a2 t2 (?g\<lparr>go_pc := PcMarkCanary\<rparr>) c1 = (?g\<lparr>go_pc := PcStage 0, go_rollout := t2\<rparr>, ?c2)"
    by (simp add: goroutine_step_def start_goroutine_def mark_lifecycle_def)
  ultimately have run: "run_alone [x, y] (?g, c1) = (?g\<lparr>go_pc := PcStage 0, go_rollout := snd y\<rparr>, ?c2)" by (simp add: xy)
  have "rollout_clear r v ?c2" using clear by (simp add: mark_lifecycle_def split: option.split)
  moreover have "rollout_ready r v ?c2" if "rollout_ready r v c"
  proof -
    have "rollout_ready r v c1" using that clear by (simp add: rollout_ready_def)
    then show ?thesis by (simp add: mark_lifecycle_def ready_lifecycle split: option.split)
  qed
  ultimately show ?thesis using that [OF ap run refl] by blast
qed

subsection \<open>An approval\<close>


text \<open>A rollout whose job is missing runs to its end and dereferences it there.\<close>

lemma jobless_approval_panics:
  assumes "co_state c = JsAwaitingApproval" "co_candidates c cid = Some r" "co_active_job c = None" "rollout_clear r v c"
    and "length xs = 22"
  shows "\<exists>g c1. approve_candidate cid actor reason now c = (Inr g, c1) \<and> go_pc (fst (run_alone xs (g, c1))) = PcPanic"
proof -
  obtain x y zs where xs0: "xs = x # y # zs" "length zs = Suc 19"
    using assms(5) by (cases xs; cases "tl xs") auto
  obtain ys z where zs: "zs = ys @ [z]" "length ys = 19"
    using xs0(2) by (cases zs rule: rev_cases) auto
  have xs: "xs = [x, y] @ ys @ [z]" by (simp add: xs0 zs)
  obtain g c1 c2 where ap: "approve_candidate (cid) actor reason now c = (Inr g, c1)"
    and run: "run_alone [x, y] (g, c1) = (g\<lparr>go_pc := PcStage 0, go_rollout := snd y\<rparr>, c2)"
    and g: "g = start_goroutine PcToCanary (co_active_job c) (Some r) actor now" and clear2: "rollout_clear r v c2"
    using approval_starts [OF assms(1,2,4)] by metis
  let ?g2 = "g\<lparr>go_pc := PcStage 0, go_rollout := snd y\<rparr>"
  have "length ys = 3 * (6 - 0) + 1" using zs(2) by simp
  then obtain c3 where run2: "run_alone ys (?g2, c2) = (?g2\<lparr>go_pc := PcPromote\<rparr>, c3)" and clear3: "rollout_clear r v c3"
    using stages_run [OF _ _ clear2, of ?g2 0 ys] by (metis (no_types) goroutine.simps(1) goroutine.simps(7) le0 goroutine.select_convs(1) goroutine.surjective goroutine.update_convs(1) goroutine.update_convs(6))
  obtain a t where z: "z = (a, t)" by (cases z)
  have "go_pc (fst (goroutine_step a t (?g2\<lparr>go_pc := PcPromote\<rparr>) c3)) = PcPanic"
    using g assms(3) clear3 by (auto simp: goroutine_step_def promote_step_def promote_candidate_def rollout_clear_def
        rollout_paused_def start_goroutine_def)
  moreover have "run_alone xs (g, c1) = goroutine_step a t (?g2\<lparr>go_pc := PcPromote\<rparr>) c3"
    by (simp only: xs z run_alone_append run run2 run_alone_simps)
  ultimately show ?thesis using ap by (intro exI [of _ g] exI [of _ c1]) simp
qed

subsection \<open>A cancellation\<close>

text \<open>
  C13: a cancelled rollout goes on.  Cancelling the active job during its rollout closes the job and puts
  the coordinator in the state FAILED, but the goroutine of the rollout does not look at either: left
  alone it goes through its remaining stages and promotes the candidate.
\<close>

theorem cancelled_rollout_still_promotes:
  assumes "go_pc g = PcStage i" "i \<le> 6" "go_job g \<noteq> None" "go_cand g = Some r" "rollout_ready r v c"
    and "cancel_job job_id actor reason now c = Inr gc" "goroutine_step a now' gc c = (gc', c1)"
    and "length xs = 3 * (6 - i) + 2"
  shows "co_state c1 = JsFailed \<and> co_active_job c1 = None \<and>
    co_state (snd (run_alone xs (g, c1))) = JsPromoted \<and> production_pointer (snd (run_alone xs (g, c1))) = Some v"
proof -
  obtain w j where gc: "gc = start_goroutine (PcFail w) j None actor now"
    using assms(6) by (auto simp: cancel_job_def split: option.splits if_splits)
  then have c1: "c1 = fail_job j w actor now' c" using assms(7) by (simp add: goroutine_step_def start_goroutine_def)
  have "co_state c1 = JsFailed" "co_active_job c1 = None" by (simp_all add: c1 fail_job_def)
  moreover have "rollout_ready r v c1" using assms(5) by (simp add: c1)
  ultimately show ?thesis using rollout_completes [OF assms(1,2) _ assms(4,3,8)] by simp
qed

subsection \<open>The two on concrete states\<close>

text \<open>A candidate whose offline validation found inference errors, and a coordinator that knows it.\<close>

definition failed_metrics :: validation_metrics where
  "failed_metrics = default_production_baseline_metrics\<lparr>vm_inference_errors := 3\<rparr>"

definition rejected_candidate :: model_candidate where
  "rejected_candidate =
     (let m = \<lparr>mc_model_id = ''model_a'', mc_version = ''a'', mc_parent_model_version = ''fraud-xgb-25f-v3.0'',
        mc_feature_contract = ''v2.5'', mc_calibration_version = ''beta'', mc_training_job_id = ''job_1'', mc_dataset_id = ''d'',
        mc_created_at = 1000, mc_artifact_checksum = ''k'', mc_config_hash = ''h'', mc_state = JsRejected,
        mc_validation_result = None, mc_shadow_result = None\<rparr> in
      m\<lparr>mc_validation_result := Some (validate_candidate default_retraining_config m failed_metrics
          default_production_baseline_metrics 1500)\<rparr>)"

definition waiting_coordinator :: coordinator where
  "waiting_coordinator =
     (new_retraining_coordinator default_retraining_config None False 1000)
       \<lparr>co_state := JsAwaitingApproval, co_active_job := Some 1, co_candidates := [''model_a'' \<mapsto> 0],
        co_cands := [0 \<mapsto> rejected_candidate], co_jobs := [1 \<mapsto> triggered_job ''MANUAL_OPERATOR'' ''r'' 1000 ''p'' 1000], co_next := 2,
        co_registry := Some (snd (register_candidate rejected_candidate ''/a'' ''k'' 1000 (new_model_registry 1000)))\<rparr>"

lemma rejected_candidate_failed:
  "map_option vg_passed (mc_validation_result rejected_candidate) = Some False" "mc_version rejected_candidate = ''a''"
  by (simp_all add: rejected_candidate_def validate_candidate_def offline_violations_def failed_metrics_def Let_def)

lemma waiting_ready: "rollout_ready 0 ''a'' waiting_coordinator"
  by (simp add: rollout_ready_def rollout_clear_def waiting_coordinator_def rejected_candidate_failed rollout_paused_def breaker_state_def
      new_retraining_coordinator_def register_candidate_def lookup_model_def new_model_registry_def update_conv)


lemma cancelled_rollout_still_promotes_witness:
  "\<exists>gc gc' c1. cancel_job (job_id_at 1000) ''op'' ''stop'' 2000 waiting_coordinator = Inr gc \<and>
     goroutine_step undefined 2100 gc waiting_coordinator = (gc', c1) \<and> co_state c1 = JsFailed \<and>
     co_state (snd (run_alone (replicate 14 (undefined, 3000)) (start_goroutine (PcStage 2) (Some 1) (Some 0) ''op'' 1500, c1))) = JsPromoted"
proof -
  let ?g = "start_goroutine (PcStage 2) (Some 1) (Some 0) ''op'' 1500"
  obtain gc where gc: "cancel_job (job_id_at 1000) ''op'' ''stop'' 2000 waiting_coordinator = Inr gc"
    by (simp add: cancel_job_def waiting_coordinator_def deref_job_def triggered_job_def)
  obtain gc' c1 where st: "goroutine_step undefined 2100 gc waiting_coordinator = (gc', c1)" by (metis surj_pair)
  show ?thesis
    using cancelled_rollout_still_promotes [OF _ _ _ _ waiting_ready gc st, of ?g 2 "replicate 14 (undefined, 3000)"] gc st
    by (auto simp: start_goroutine_def)
qed

end
