(* ===== verification/Recovery_Manager.thy ===== *)
theory Recovery_Manager
  imports Rollout
begin

text \<open>
  The recovery of the lifecycle after a restart, \<open>ReconcileOnStartup\<close> of
  \<open>internal/riskengine/recovery_manager.go\<close>, called with a coordinator and its registry.  What the store
  loads is an argument: no store, an error, nothing saved, or a saved state with one of the twelve
  state texts.  The third result is the state it saves.
\<close>

datatype recovery_action = RaNone | RaRestoredClean | RaInFlightJobFailed | RaCanaryResetToIdle | RaCandidatePreserved
  | RaFallbackModelRestored

record recovery_result =
  rr_previous_state :: job_state
  rr_reconciled_state :: job_state
  rr_production_model_version :: string
  rr_fallback_model_version :: string
  rr_action_taken :: recovery_action
  rr_message :: string
  rr_active_candidate_id :: string

definition simple_result :: "job_state \<Rightarrow> recovery_action \<Rightarrow> string \<Rightarrow> recovery_result" where
  "simple_result prev act msg =
     \<lparr>rr_previous_state = prev, rr_reconciled_state = JsIdle, rr_production_model_version = '''',
      rr_fallback_model_version = '''', rr_action_taken = act, rr_message = msg, rr_active_candidate_id = ''''\<rparr>"

definition msg_no_store :: string where "msg_no_store = ''No state store configured; using default baseline models''"
definition msg_corrupted :: "string \<Rightarrow> string" where "msg_corrupted e = ''Corrupted state file ignored: '' @ e"
definition msg_first_startup :: string where "msg_first_startup = ''Clean first startup; initial baselines active''"
definition msg_interrupted :: "job_state \<Rightarrow> string" where
  "msg_interrupted s = ''Interrupted during '' @ job_state_string s @ '' when process restarted; safely transitioned to FAILED''"
definition msg_recovered :: string where
  "msg_recovered = ''Candidate model in AWAITING_APPROVAL successfully recovered and awaiting operator review''"
definition msg_canary_reset :: string where
  "msg_canary_reset = ''Server restarted during Canary rollout; canary traffic safely reset to 0%, candidate returned to AWAITING_APPROVAL''"
definition msg_clean :: "job_state \<Rightarrow> string" where "msg_clean s = ''Clean state '' @ job_state_string s @ '' restored successfully''"
definition msg_restart :: string where "msg_restart = ''Retraining process interrupted by server restart''"
definition msg_traffic_reset :: string where "msg_traffic_reset = ''Canary traffic reset to 0% following server restart''"

definition restore_registry :: "persisted_state \<Rightarrow> model_registry \<Rightarrow> model_registry" where
  "restore_registry st r0 =
     (let r1 = r0\<lparr>mr_models := fold (\<lambda>(k, v). AList.update k v) (pe_models st) (mr_models r0)\<rparr>;
          p = pe_production_model_version st; f = pe_fallback_model_version st;
          r2 = (if p \<noteq> '''' \<and> lookup_model p r1 \<noteq> None
                then change_model p (\<lambda>m. m\<lparr>rm_is_production_active := True\<rparr>) (r1\<lparr>mr_production_model := p\<rparr>) else r1) in
      if f \<noteq> '''' \<and> lookup_model f r2 \<noteq> None
      then change_model f (\<lambda>m. m\<lparr>rm_is_fallback_active := True\<rparr>) (r2\<lparr>mr_fallback_model := f\<rparr>) else r2)"

text \<open>The saved candidate and the controls; the candidate gets a reference of its own.\<close>

definition restore_controls :: "persisted_state \<Rightarrow> coordinator \<Rightarrow> coordinator" where
  "restore_controls st c0 =
     (let c1 = (case pe_active_candidate st of None \<Rightarrow> c0
        | Some m \<Rightarrow> (let (r, c) = new_cand m c0 in
            c\<lparr>co_candidates := (co_candidates c)(mc_model_id m \<mapsto> r), co_active_candidate := Some r\<rparr>)) in
      c1\<lparr>co_maintenance := pe_maintenance_mode st, co_frozen := pe_model_frozen st,
         co_retraining_paused := pe_retraining_paused st, co_canary_paused := pe_canary_paused st\<rparr>)"

definition restore_state ::
  "persisted_state \<Rightarrow> gotime \<Rightarrow> coordinator \<Rightarrow> (job_state \<times> recovery_action \<times> string) \<times> coordinator" where
  "restore_state st now c =
     (let s = pe_current_state st in
      if s \<in> {JsTriggered, JsQueued, JsTraining, JsValidating, JsShadowEvaluation}
      then (let c1 = c\<lparr>co_state := JsFailed\<rparr> in
        ((JsFailed, RaInFlightJobFailed, msg_interrupted s),
         (case pe_active_job st of None \<Rightarrow> c1
          | Some j \<Rightarrow> clear_active False now (c1\<lparr>co_history := co_history c1 @
              [j\<lparr>rj_state := JsFailed, rj_error := msg_restart, rj_completed_at := now\<rparr>]\<rparr>))))
      else if s = JsAwaitingApproval
      then (if pe_active_candidate st = None then ((JsIdle, RaNone, ''''), c\<lparr>co_state := JsIdle\<rparr>)
        else ((JsAwaitingApproval, RaCandidatePreserved, msg_recovered),
          (case pe_active_job st of None \<Rightarrow> c\<lparr>co_state := JsAwaitingApproval, co_active_job := None\<rparr>
           | Some j \<Rightarrow> (let (r, c1) = new_job j c in c1\<lparr>co_state := JsAwaitingApproval, co_active_job := Some r\<rparr>))))
      else if s = JsCanary
      then ((JsAwaitingApproval, RaCanaryResetToIdle, msg_canary_reset),
            configure_router False 0 ''SYSTEM_RECOVERY'' msg_traffic_reset now (c\<lparr>co_state := JsAwaitingApproval\<rparr>))
      else ((s, RaRestoredClean, msg_clean s), clear_active False now (c\<lparr>co_state := s\<rparr>)))"

definition reconcile_on_startup ::
  "(string + persisted_state option) option \<Rightarrow> gotime \<Rightarrow> coordinator \<Rightarrow> recovery_result \<times> coordinator \<times> persisted_state option" where
  "reconcile_on_startup loaded now c =
     (case loaded of
        None \<Rightarrow> (simple_result JsIdle RaNone msg_no_store, c, None)
      | Some (Inl e) \<Rightarrow> (simple_result JsFailed RaFallbackModelRestored (msg_corrupted e), c, None)
      | Some (Inr None) \<Rightarrow> (simple_result JsIdle RaNone msg_first_startup, c, None)
      | Some (Inr (Some st)) \<Rightarrow>
          (let c1 = restore_controls st (on_registry (restore_registry st) c);
               ((s, act, msg), c2) = restore_state st now c1 in
           (\<lparr>rr_previous_state = pe_current_state st, rr_reconciled_state = s,
             rr_production_model_version = pe_production_model_version st,
             rr_fallback_model_version = pe_fallback_model_version st, rr_action_taken = act, rr_message = msg,
             rr_active_candidate_id = (case pe_active_candidate st of None \<Rightarrow> '''' | Some m \<Rightarrow> mc_model_id m)\<rparr>,
            c2, Some (build_persisted_state now c2))))"

subsection \<open>After a restart\<close>

lemma reconciled:
  assumes "reconcile_on_startup (Some (Inr (Some st))) now c = (res, c', saved)"
  obtains act msg where "restore_state st now (restore_controls st (on_registry (restore_registry st) c)) =
      ((rr_reconciled_state res, act, msg), c')"
  using assms that by (auto simp: reconcile_on_startup_def Let_def split: prod.splits)

lemma restore_controls_frames [simp]:
  "co_state (restore_controls st c) = co_state c" "co_active_job (restore_controls st c) = co_active_job c"
  "co_registry (restore_controls st c) = co_registry c" "co_router (restore_controls st c) = co_router c"
  by (simp_all add: restore_controls_def new_cand_def Let_def split: option.split)

text \<open>
  a restart leaves no job running.  Whatever state was saved, a coordinator that starts from it is at
  rest or waits for an approval, and the traffic of an interrupted rollout is zero.
\<close>

theorem recovered_state_is_safe:
  assumes "reconcile_on_startup (Some (Inr (Some st))) now c = (res, c', saved)"
  shows "co_state c' = rr_reconciled_state res \<and>
    co_state c' \<in> {JsIdle, JsAwaitingApproval, JsPromoted, JsRejected, JsFailed, JsRolledBack} \<and>
    (pe_current_state st = JsCanary \<longrightarrow> (\<forall>r. co_router c' = Some r \<longrightarrow> get_percentage r = 0))"
proof -
  obtain act msg d where rs: "restore_state st now d = ((rr_reconciled_state res, act, msg), c')"
    using reconciled [OF assms] by metis
  then have "co_state c' = rr_reconciled_state res \<and>
      co_state c' \<in> {JsIdle, JsAwaitingApproval, JsPromoted, JsRejected, JsFailed, JsRolledBack}"
    by (cases "pe_current_state st") (auto simp: restore_state_def new_job_def Let_def split: option.splits if_splits)
  moreover have "get_percentage r = 0" if "pe_current_state st = JsCanary" "co_router c' = Some r" for r
    using rs that by (auto simp: restore_state_def configure_router_def update_config_def log_rollout_event_def
        get_percentage_def Let_def)
  ultimately show ?thesis by blast
qed

lemma canary_restored:
  assumes "reconcile_on_startup (Some (Inr (Some st))) now c = (res, c', saved)"
    and "pe_current_state st = JsCanary" "pe_active_candidate st = Some m" "co_active_job c = None"
    and "\<not> pe_maintenance_mode st" "\<not> pe_model_frozen st" "\<not> pe_canary_paused st"
  obtains r where "co_state c' = JsAwaitingApproval" "co_candidates c' (mc_model_id m) = Some r" "co_active_job c' = None"
    "rollout_clear r (mc_version m) c'"
proof -
  obtain act msg where rs: "restore_state st now (restore_controls st (on_registry (restore_registry st) c)) =
      ((rr_reconciled_state res, act, msg), c')"
    using reconciled [OF assms(1)] by metis
  show ?thesis
    using rs assms(2-) that [of "co_next c"]
    by (auto simp: restore_state_def restore_controls_def new_cand_def on_registry_def configure_router_def Let_def
        rollout_clear_def rollout_paused_def breaker_state_def update_config_def log_rollout_event_def cb_get_state_def
        cb_reset_def split: option.splits)
qed

text \<open>
  approving a recovered rollout ends the process.  A state saved during a rollout is restored without
  its job; the candidate waits for approval again, but when an operator approves it the goroutine goes
  through all stages and then dereferences the missing job: after 22 steps it has panicked.
\<close>

theorem recovered_rollout_panics:
  assumes "pe_current_state st = JsCanary" "pe_active_candidate st = Some m" "co_active_job c = None"
    and "reconcile_on_startup (Some (Inr (Some st))) now c = (res, c', saved)"
    and "\<not> pe_maintenance_mode st" "\<not> pe_model_frozen st" "\<not> pe_canary_paused st" "length xs = 22"
  shows "\<exists>g c1. approve_candidate (mc_model_id m) actor reason now' c' = (Inr g, c1) \<and> go_pc (fst (run_alone xs (g, c1))) = PcPanic"
proof -
  obtain r where "co_state c' = JsAwaitingApproval" "co_candidates c' (mc_model_id m) = Some r" "co_active_job c' = None"
    "rollout_clear r (mc_version m) c'"
    using assms(1,2,3,5-7) canary_restored [OF assms(4)] by metis
  then show ?thesis using jobless_approval_panics assms(8) by metis
qed

subsection \<open>Witnesses\<close>

definition interrupted_rollout :: persisted_state where
  "interrupted_rollout = build_persisted_state 3000 (waiting_coordinator\<lparr>co_state := JsCanary, co_active_candidate := Some 0\<rparr>)"

definition restarted_coordinator :: coordinator where
  "restarted_coordinator = new_retraining_coordinator default_retraining_config
     (Some (new_canary_router default_canary_config False)) False 4000"

lemma interrupted_rollout_facts:
  "pe_current_state interrupted_rollout = JsCanary" "pe_active_candidate interrupted_rollout = Some rejected_candidate"
  "pe_active_job interrupted_rollout \<noteq> None"
  "\<not> pe_maintenance_mode interrupted_rollout" "\<not> pe_model_frozen interrupted_rollout" "\<not> pe_canary_paused interrupted_rollout"
  by (simp_all add: interrupted_rollout_def build_persisted_state_def waiting_coordinator_def deref_cand_def deref_job_def
      new_retraining_coordinator_def)

lemma recovered_rollout_panics_witness:
  "\<exists>res c' saved g c1. reconcile_on_startup (Some (Inr (Some interrupted_rollout))) 4000 restarted_coordinator = (res, c', saved) \<and>
     approve_candidate (mc_model_id rejected_candidate) ''op'' ''go on'' 5000 c' = (Inr g, c1) \<and>
     go_pc (fst (run_alone (replicate 22 (undefined, 6000)) (g, c1))) = PcPanic"
proof -
  obtain res c' saved where r: "reconcile_on_startup (Some (Inr (Some interrupted_rollout))) 4000 restarted_coordinator = (res, c', saved)"
    by (metis surj_pair)
  have "co_active_job restarted_coordinator = None" by (simp add: restarted_coordinator_def new_retraining_coordinator_def)
  then show ?thesis
    using recovered_rollout_panics [OF interrupted_rollout_facts(1,2) _ r interrupted_rollout_facts(4-6),
        of "replicate 22 (undefined, 6000)" "''op''" "''go on''" 5000] r
    by (metis length_replicate)
qed

lemma recovered_state_is_safe_witness:
  "\<exists>res c' saved rt. reconcile_on_startup (Some (Inr (Some interrupted_rollout))) 4000 restarted_coordinator = (res, c', saved) \<and>
     co_state c' = JsAwaitingApproval \<and> co_router c' = Some rt \<and> get_percentage rt = 0"
proof -
  obtain res c' saved where r: "reconcile_on_startup (Some (Inr (Some interrupted_rollout))) 4000 restarted_coordinator = (res, c', saved)"
    by (metis surj_pair)
  have st: "co_state c' = JsAwaitingApproval" "\<exists>rt. co_router c' = Some rt"
    using r interrupted_rollout_facts by (auto simp: reconcile_on_startup_def restore_state_def configure_router_def
        restarted_coordinator_def new_retraining_coordinator_def on_registry_def restore_controls_def new_cand_def Let_def)
  then show ?thesis using recovered_state_is_safe [OF r] r interrupted_rollout_facts(1) by metis
qed

end
