(* ===== verification/Disaster_Recovery.thy ===== *)
theory Disaster_Recovery
  imports Recovery_Manager
begin

text \<open>
  The recovery the process runs when it starts, \<open>ExecuteRecovery\<close> of
  \<open>internal/riskengine/disaster_recovery.go\<close>.  As in \<open>cmd/api/main.go\<close> it is called with the coordinator's own
  registry and canary router, so that they are parts of the coordinator here.  What the store loads, the
  files the verifier sees and the order in which the registry is ranged over are arguments.
\<close>

subsection \<open>The recovery\<close>

record dr_report =
  dr_timestamp :: gotime
  dr_status :: string
  dr_previous_state :: job_state
  dr_reconciled_state :: job_state
  dr_production_model_version :: string
  dr_fallback_model_version :: string
  dr_repairs_made :: nat
  dr_violations :: "string list"
  dr_repairs :: "string list"
  dr_audit_synced :: bool

definition msg_state_corrupted :: "string \<Rightarrow> string" where "msg_state_corrupted e = ''Persistent state corrupted: '' @ e"
definition msg_quarantined :: string where
  "msg_quarantined = ''Corrupted state file quarantined; recovering from registry baseline''"
definition msg_baseline :: string where "msg_baseline = ''Constructed safe baseline state from in-memory registry''"
definition msg_candidate_corrupted :: "string \<Rightarrow> string" where
  "msg_candidate_corrupted cid = ''Candidate '' @ cid @ '' artifact corrupted; safely cleared active candidate''"
definition msg_job_interrupted :: "job_state \<Rightarrow> string" where
  "msg_job_interrupted s = ''Crash recovery: Job interrupted in state '' @ job_state_string s @ '' during backend restart''"
definition msg_machine_failed :: "job_state \<Rightarrow> string" where
  "msg_machine_failed s = ''Interrupted '' @ job_state_string s @ '' state machine safely transitioned to FAILED''"
definition msg_rollout_reset :: string where
  "msg_rollout_reset = ''Interrupted canary rollout safely reset to 0% and state transitioned to IDLE''"

definition repaired :: "string \<Rightarrow> dr_report \<Rightarrow> dr_report" where
  "repaired msg rep = rep\<lparr>dr_repairs := dr_repairs rep @ [msg], dr_repairs_made := Suc (dr_repairs_made rep)\<rparr>"

definition baseline_state :: "gotime \<Rightarrow> coordinator \<Rightarrow> persisted_state" where
  "baseline_state now c =
     (let version = (\<lambda>get. case co_registry c of None \<Rightarrow> '''' | Some r \<Rightarrow> (case get r of Inl _ \<Rightarrow> '''' | Inr m \<Rightarrow> rm_version m)) in
      \<lparr>pe_production_model_version = version get_production_model, pe_fallback_model_version = version get_fallback_model,
       pe_models = [], pe_active_job = None, pe_active_candidate = None, pe_current_state = JsIdle, pe_job_history = [],
       pe_canary_stage = 0, pe_maintenance_mode = False, pe_model_frozen = False, pe_retraining_paused = False,
       pe_canary_paused = False, pe_saved_at = now\<rparr>)"

definition dr_load ::
  "(string + persisted_state option) option \<Rightarrow> gotime \<Rightarrow> coordinator \<Rightarrow> dr_report \<Rightarrow> persisted_state \<times> dr_report" where
  "dr_load loaded now c rep =
     (case loaded of
        Some (Inr (Some st)) \<Rightarrow> (st, rep)
      | Some (Inl e) \<Rightarrow> (baseline_state now c, repaired msg_baseline
          (repaired msg_quarantined (rep\<lparr>dr_violations := dr_violations rep @ [msg_state_corrupted e]\<rparr>)))
      | _ \<Rightarrow> (baseline_state now c, repaired msg_baseline rep))"

definition dr_controls :: "persisted_state \<Rightarrow> coordinator \<Rightarrow> coordinator" where
  "dr_controls st c = restore_controls st (c\<lparr>co_history := co_history c @ pe_job_history st\<rparr>)"

definition merge_registry :: "persisted_state \<Rightarrow> model_registry \<Rightarrow> model_registry" where
  "merge_registry st r =
     (let r1 = r\<lparr>mr_models := fold (\<lambda>(k, v). AList.update k v) (pe_models st) (mr_models r)\<rparr>;
          r2 = (if pe_production_model_version st \<noteq> '''' then r1\<lparr>mr_production_model := pe_production_model_version st\<rparr> else r1) in
      if pe_fallback_model_version st \<noteq> '''' then r2\<lparr>mr_fallback_model := pe_fallback_model_version st\<rparr> else r2)"

definition dr_registry ::
  "artifact_verifier \<Rightarrow> file_system \<Rightarrow> (string list \<Rightarrow> string list) \<Rightarrow> persisted_state \<Rightarrow> gotime \<Rightarrow>
     coordinator \<times> dr_report \<Rightarrow> coordinator \<times> dr_report" where
  "dr_registry av fs order st now s =
     (case co_registry (fst s) of None \<Rightarrow> s
      | Some r \<Rightarrow>
          (let (rc, r') = reconcile (Some av) fs now order (merge_registry st r) in
           ((fst s)\<lparr>co_registry := Some r'\<rparr>,
            (snd s)\<lparr>dr_violations := dr_violations (snd s) @ rc_violations rc, dr_repairs := dr_repairs (snd s) @ rc_repairs rc,
              dr_repairs_made := dr_repairs_made (snd s) + rc_repairs_made rc,
              dr_production_model_version := rc_production rc, dr_fallback_model_version := rc_fallback rc\<rparr>)))"

definition candidate_corrupted :: "model_candidate \<Rightarrow> bool" where
  "candidate_corrupted m \<longleftrightarrow> mc_artifact_checksum m \<noteq> '''' \<and>
     (case mc_validation_result m of None \<Rightarrow> False | Some g \<Rightarrow> has_prefix (vg_gate_details g) ''corrupted'')"

definition dr_candidate :: "coordinator \<times> dr_report \<Rightarrow> coordinator \<times> dr_report" where
  "dr_candidate s =
     (case deref_cand (co_active_candidate (fst s)) (fst s) of None \<Rightarrow> s
      | Some m \<Rightarrow> if candidate_corrupted m
          then ((upd_cand (co_active_candidate (fst s)) (\<lambda>m. m\<lparr>mc_state := JsFailed\<rparr>) (fst s))\<lparr>co_active_candidate := None\<rparr>,
                repaired (msg_candidate_corrupted (mc_model_id m)) (snd s))
          else s)"

definition zero_traffic :: "gotime \<Rightarrow> coordinator \<Rightarrow> coordinator" where
  "zero_traffic now c = c\<lparr>co_router := map_option (set_percentage 0 now) (co_router c)\<rparr>"

definition dr_state :: "job_state \<Rightarrow> gotime \<Rightarrow> coordinator \<times> dr_report \<Rightarrow> coordinator \<times> dr_report" where
  "dr_state cur now s =
     (if cur \<in> {JsTriggered, JsQueued, JsTraining, JsValidating, JsShadowEvaluation} then
        (let c1 = (fst s)\<lparr>co_state := JsFailed\<rparr>;
             c2 = (case deref_job (co_active_job c1) c1 of None \<Rightarrow> c1
               | Some j \<Rightarrow> (let j' = j\<lparr>rj_state := JsFailed, rj_completed_at := now, rj_error := msg_job_interrupted cur\<rparr> in
                   (upd_job (co_active_job c1) (\<lambda>_. j') c1)\<lparr>co_history := co_history c1 @ [j'], co_active_job := None\<rparr>)) in
         (c2, repaired (msg_machine_failed cur) ((snd s)\<lparr>dr_reconciled_state := JsFailed\<rparr>)))
      else if cur = JsCanary then
        ((zero_traffic now (fst s))\<lparr>co_state := JsIdle\<rparr>, repaired msg_rollout_reset ((snd s)\<lparr>dr_reconciled_state := JsIdle\<rparr>))
      else s)"

definition execute_recovery ::
  "(string + persisted_state option) option \<Rightarrow> artifact_verifier \<Rightarrow> file_system \<Rightarrow> (string list \<Rightarrow> string list) \<Rightarrow> bool \<Rightarrow>
     gotime \<Rightarrow> coordinator \<Rightarrow> dr_report \<times> coordinator" where
  "execute_recovery loaded av fs order audited now c =
     (let rep0 = \<lparr>dr_timestamp = now, dr_status = ''READY'', dr_previous_state = JsIdle, dr_reconciled_state = JsIdle,
            dr_production_model_version = '''', dr_fallback_model_version = '''', dr_repairs_made = 0, dr_violations = [],
            dr_repairs = [], dr_audit_synced = False\<rparr>;
          (st, rep1) = dr_load loaded now c rep0;
          rep2 = rep1\<lparr>dr_previous_state := pe_current_state st, dr_reconciled_state := pe_current_state st,
            dr_production_model_version := pe_production_model_version st,
            dr_fallback_model_version := pe_fallback_model_version st\<rparr>;
          (c3, rep3) = dr_state (pe_current_state st) now
            (dr_candidate (dr_registry av fs order st now (dr_controls st c, rep2)));
          c4 = (if dr_reconciled_state rep3 \<noteq> JsCanary then zero_traffic now c3 else c3) in
      (rep3\<lparr>dr_audit_synced := audited\<rparr>, persist_state now (c4\<lparr>co_state := dr_reconciled_state rep3\<rparr>)))"

subsection \<open>After the recovery\<close>

lemma zero_traffic_frames [simp]:
  "co_state (zero_traffic now c) = co_state c" "co_candidates (zero_traffic now c) = co_candidates c"
  "co_cands (zero_traffic now c) = co_cands c" "co_active_job (zero_traffic now c) = co_active_job c"
  "co_registry (zero_traffic now c) = co_registry c" "rollout_paused (zero_traffic now c) = rollout_paused c"
  by (simp_all add: zero_traffic_def rollout_paused_def)

lemma set_percentage_0: "get_percentage (set_percentage 0 now r) = 0" "cb_get_state (cr_breaker (set_percentage 0 now r)) = CB_Healthy"
  by (simp_all add: set_percentage_def update_config_def log_rollout_event_def get_percentage_def cb_get_state_def cb_reset_def Let_def)

lemma zero_traffic_router:
  "co_router (zero_traffic now c) = Some rt \<Longrightarrow> get_percentage rt = 0" "breaker_state (zero_traffic now c) = CB_Healthy"
  by (auto simp: zero_traffic_def breaker_state_def set_percentage_0 split: option.split)

definition interrupted :: "job_state \<Rightarrow> bool" where
  "interrupted s \<longleftrightarrow> s \<in> {JsTriggered, JsQueued, JsTraining, JsValidating, JsShadowEvaluation}"

lemma job_failed_frames:
  assumes "interrupted cur"
  shows "co_registry (fst (dr_state cur now s)) = co_registry (fst s)" "co_candidates (fst (dr_state cur now s)) = co_candidates (fst s)"
    "co_cands (fst (dr_state cur now s)) = co_cands (fst s)" "rollout_paused (fst (dr_state cur now s)) = rollout_paused (fst s)"
    "dr_reconciled_state (snd (dr_state cur now s)) = JsFailed"
    "co_active_job (fst s) = None \<Longrightarrow> co_active_job (fst (dr_state cur now s)) = None"
  using assms unfolding interrupted_def dr_state_def
  by (simp_all add: repaired_def deref_job_def upd_job_def rollout_paused_def Let_def split: option.split)

lemma dr_state_frames:
  assumes "dr_state cur now s = (c', rep)"
  shows "co_registry c' = co_registry (fst s)" "co_candidates c' = co_candidates (fst s)" "co_cands c' = co_cands (fst s)"
    "rollout_paused c' = rollout_paused (fst s)" "co_active_job (fst s) = None \<Longrightarrow> co_active_job c' = None"
    "dr_reconciled_state (snd s) = cur \<Longrightarrow>
       dr_reconciled_state rep \<in> {JsIdle, JsAwaitingApproval, JsPromoted, JsRejected, JsFailed, JsRolledBack}"
    "cur = JsAwaitingApproval \<Longrightarrow> dr_reconciled_state rep = dr_reconciled_state (snd s)"
proof -
  have other: "\<not> interrupted cur \<Longrightarrow> dr_state cur now s = (if cur = JsCanary
      then ((zero_traffic now (fst s))\<lparr>co_state := JsIdle\<rparr>, repaired msg_rollout_reset ((snd s)\<lparr>dr_reconciled_state := JsIdle\<rparr>)) else s)"
    by (simp add: dr_state_def interrupted_def)
  have frames: "rollout_paused (d\<lparr>co_state := x\<rparr>) = rollout_paused d" for d x by (simp add: rollout_paused_def)
  show "co_registry c' = co_registry (fst s)" "co_candidates c' = co_candidates (fst s)" "co_cands c' = co_cands (fst s)"
    "rollout_paused c' = rollout_paused (fst s)" "co_active_job (fst s) = None \<Longrightarrow> co_active_job c' = None"
    using assms job_failed_frames [where cur = cur and now = now and s = s] other frames by (cases "interrupted cur"; auto split: if_splits)+
  show "dr_reconciled_state (snd s) = cur \<Longrightarrow>
       dr_reconciled_state rep \<in> {JsIdle, JsAwaitingApproval, JsPromoted, JsRejected, JsFailed, JsRolledBack}"
    using assms job_failed_frames(5) [of cur now s] other
    by (cases "interrupted cur"; cases cur) (auto simp: repaired_def interrupted_def)
  show "cur = JsAwaitingApproval \<Longrightarrow> dr_reconciled_state rep = dr_reconciled_state (snd s)"
    using assms other by (auto simp: interrupted_def)
qed

lemma dr_candidate_frames [simp]:
  "co_registry (fst (dr_candidate s)) = co_registry (fst s)" "co_candidates (fst (dr_candidate s)) = co_candidates (fst s)"
  "rollout_paused (fst (dr_candidate s)) = rollout_paused (fst s)" "co_active_job (fst (dr_candidate s)) = co_active_job (fst s)"
  "dr_reconciled_state (snd (dr_candidate s)) = dr_reconciled_state (snd s)"
  "map_option mc_version (co_cands (fst (dr_candidate s)) r) = map_option mc_version (co_cands (fst s) r)"
  by (simp_all add: dr_candidate_def upd_cand_def rollout_paused_def repaired_def option.map_comp comp_def split: option.split)

lemma dr_registry_frames [simp]:
  "co_candidates (fst (dr_registry av fs order st now s)) = co_candidates (fst s)"
  "co_cands (fst (dr_registry av fs order st now s)) = co_cands (fst s)"
  "rollout_paused (fst (dr_registry av fs order st now s)) = rollout_paused (fst s)"
  "co_active_job (fst (dr_registry av fs order st now s)) = co_active_job (fst s)"
  "dr_reconciled_state (snd (dr_registry av fs order st now s)) = dr_reconciled_state (snd s)"
  by (simp_all add: dr_registry_def rollout_paused_def split_beta split: option.split)

lemma dr_registry_some: "co_registry (dr_controls st c) \<noteq> None \<Longrightarrow> co_registry (fst (dr_registry av fs order st now (dr_controls st c, rep))) \<noteq> None"
  by (auto simp: dr_registry_def split_beta split: option.split)

lemma persisted_registry:
  "co_registry (persist_state now ((if b then zero_traffic now c else c)\<lparr>co_state := x\<rparr>)) = co_registry c"
  "co_registry (dr_controls st c) = co_registry c"
  by (simp_all add: dr_controls_def)

lemma dr_controls_facts:
  "co_active_job (dr_controls st c) = co_active_job c"
  "rollout_paused (dr_controls st c) = (pe_canary_paused st \<or> pe_maintenance_mode st \<or> pe_model_frozen st)"
  "pe_active_candidate st = Some m \<Longrightarrow> co_candidates (dr_controls st c) (mc_model_id m) = Some (co_next c) \<and>
     co_cands (dr_controls st c) (co_next c) = Some m"
  by (auto simp: dr_controls_def restore_controls_def new_cand_def rollout_paused_def Let_def split: option.split)

lemma recovery_stages:
  assumes "execute_recovery loaded av fs order audited now c = (rep, c')"
  obtains st rep1 c3 rep3 where
    "dr_state (pe_current_state st) now (dr_candidate (dr_registry av fs order st now (dr_controls st c, rep1))) = (c3, rep3)"
    "dr_reconciled_state rep1 = pe_current_state st" "\<And>st'. loaded = Some (Inr (Some st')) \<Longrightarrow> st = st'"
    "c' = persist_state now ((if dr_reconciled_state rep3 \<noteq> JsCanary then zero_traffic now c3 else c3)\<lparr>co_state := dr_reconciled_state rep3\<rparr>)"
proof -
  define rep0 where "rep0 = \<lparr>dr_timestamp = now, dr_status = ''READY'', dr_previous_state = JsIdle, dr_reconciled_state = JsIdle,
      dr_production_model_version = '''', dr_fallback_model_version = '''', dr_repairs_made = 0, dr_violations = [],
      dr_repairs = [], dr_audit_synced = False\<rparr>"
  obtain st rep1 where l: "dr_load loaded now c rep0 = (st, rep1)" by (metis surj_pair)
  define rep2 where "rep2 = rep1\<lparr>dr_previous_state := pe_current_state st, dr_reconciled_state := pe_current_state st,
      dr_production_model_version := pe_production_model_version st, dr_fallback_model_version := pe_fallback_model_version st\<rparr>"
  obtain c3 rep3 where s: "dr_state (pe_current_state st) now
      (dr_candidate (dr_registry av fs order st now (dr_controls st c, rep2))) = (c3, rep3)" by (metis surj_pair)
  have "c' = persist_state now ((if dr_reconciled_state rep3 \<noteq> JsCanary then zero_traffic now c3 else c3)\<lparr>co_state := dr_reconciled_state rep3\<rparr>)"
    using assms l s by (simp add: execute_recovery_def rep0_def rep2_def Let_def)
  moreover have "\<And>st'. loaded = Some (Inr (Some st')) \<Longrightarrow> st = st'" using l by (simp add: dr_load_def)
  ultimately show ?thesis using that [OF s] by (simp add: rep2_def)
qed


text \<open>
  an approval after a restart ends the process.  A restart while a candidate waits for its approval restores
  the candidate but not the job; once an operator approves it, the rollout goes through all its stages
  and the promotion dereferences the missing job: after 22 steps the process has panicked.
\<close>

theorem recovered_approval_panics:
  assumes "execute_recovery (Some (Inr (Some st))) av fs order audited now c = (rep, c')" "co_active_job c = None"
    and "pe_current_state st = JsAwaitingApproval" "pe_active_candidate st = Some m"
    and "\<not> pe_maintenance_mode st" "\<not> pe_model_frozen st" "\<not> pe_canary_paused st" "length xs = 22"
  shows "\<exists>g c1. approve_candidate (mc_model_id m) actor reason now' c' = (Inr g, c1) \<and> go_pc (fst (run_alone xs (g, c1))) = PcPanic"
proof -
  obtain rep1 c3 rep3 where s: "dr_state JsAwaitingApproval now (dr_candidate (dr_registry av fs order st now (dr_controls st c, rep1))) = (c3, rep3)"
    and rep1: "dr_reconciled_state rep1 = JsAwaitingApproval"
    and c': "c' = persist_state now ((if dr_reconciled_state rep3 \<noteq> JsCanary then zero_traffic now c3 else c3)\<lparr>co_state := dr_reconciled_state rep3\<rparr>)"
    using recovery_stages [OF assms(1)] assms(3) by metis
  note f = dr_state_frames [OF s]
  have rs: "dr_reconciled_state rep3 = JsAwaitingApproval" using f(7) rep1 by simp
  have "map_option mc_version (co_cands c3 (co_next c)) = Some (mc_version m)"
    unfolding f(3) using dr_controls_facts(3) [OF assms(4), of c] by simp
  then have "rollout_clear (co_next c) (mc_version m) (zero_traffic now c3)"
    using f(4) assms(5-7) zero_traffic_router(2) [of now c3] by (simp add: rollout_clear_def dr_controls_facts)
  then have clear: "rollout_clear (co_next c) (mc_version m) c'" using c' rs by simp
  have "co_state c' = JsAwaitingApproval" "co_candidates c' (mc_model_id m) = Some (co_next c)" "co_active_job c' = None"
    using c' rs f(2,5) assms(2) dr_controls_facts(3) [OF assms(4), of c] by (simp_all add: dr_controls_facts)
  then show ?thesis using clear jobless_approval_panics assms(8) by metis
qed

subsection \<open>Witnesses\<close>

definition saved_while_waiting :: persisted_state where
  "saved_while_waiting = build_persisted_state 3000 (waiting_coordinator\<lparr>co_active_candidate := Some 0\<rparr>)"

lemma saved_while_waiting_facts:
  "pe_current_state saved_while_waiting = JsAwaitingApproval" "pe_active_candidate saved_while_waiting = Some rejected_candidate"
  "pe_active_job saved_while_waiting \<noteq> None"
  "\<not> pe_maintenance_mode saved_while_waiting" "\<not> pe_model_frozen saved_while_waiting" "\<not> pe_canary_paused saved_while_waiting"
  by (simp_all add: saved_while_waiting_def build_persisted_state_def waiting_coordinator_def deref_cand_def deref_job_def
      new_retraining_coordinator_def)

lemma recovered_approval_panics_witness:
  "\<exists>rep c' g c1. execute_recovery (Some (Inr (Some saved_while_waiting))) new_artifact_verifier (\<lambda>_. NoFile ''gone'') id True 4000
       restarted_coordinator = (rep, c') \<and>
     approve_candidate (mc_model_id rejected_candidate) ''op'' ''go on'' 5000 c' = (Inr g, c1) \<and>
     go_pc (fst (run_alone (replicate 22 (undefined, 6000)) (g, c1))) = PcPanic"
proof -
  obtain rep c' where r: "execute_recovery (Some (Inr (Some saved_while_waiting))) new_artifact_verifier (\<lambda>_. NoFile ''gone'') id True 4000
      restarted_coordinator = (rep, c')" by (metis surj_pair)
  have "co_active_job restarted_coordinator = None" by (simp add: restarted_coordinator_def new_retraining_coordinator_def)
  then show ?thesis
    using recovered_approval_panics [OF r _ saved_while_waiting_facts(1,2,4-6),
        of "replicate 22 (undefined, 6000)" "''op''" "''go on''" 5000] r
    by (metis length_replicate)
qed


end
