(* ===== verification/Lease_Lock.thy ===== *)
theory Lease_Lock
  imports Prelude
begin

text \<open>
  The contract of a lock with leases (\<open>DistributedLock\<close> of
  \<open>internal/riskengine/distributed_lock.go\<close>): who holds a key at an instant, and what the operations
  of others may do to it.  Proved from it: mutual exclusion over any run of operations.
\<close>

record lock_lease =
  ls_resource_key :: string
  ls_token :: string
  ls_owner_id :: string
  ls_acquired_at :: gotime
  ls_expires_at :: gotime

text \<open>\<open>IsExpired\<close>.\<close>

definition lease_is_expired :: "lock_lease \<Rightarrow> gotime \<Rightarrow> bool" where
  "lease_is_expired l now \<longleftrightarrow> ls_expires_at l < now"

text \<open>The calls of the interface; \<open>Acq\<close> has the fresh random token as its first argument.\<close>

datatype lock_call = Acq string string string duration | Rel lock_lease | Ext lock_lease duration

fun foreign :: "string \<Rightarrow> string \<Rightarrow> lock_call \<Rightarrow> bool" where
  "foreign token key (Acq t k owner ttl) = True"
| "foreign token key (Rel l) = (ls_token l \<noteq> token \<or> ls_resource_key l \<noteq> key)"
| "foreign token key (Ext l d) = (ls_token l \<noteq> token \<or> ls_resource_key l \<noteq> key)"

locale lease_lock =
  fixes call :: "lock_call \<Rightarrow> gotime \<Rightarrow> 's \<Rightarrow> bool \<times> 's"
    and holder :: "'s \<Rightarrow> gotime \<Rightarrow> string \<Rightarrow> string option"
    and ok :: "'s \<Rightarrow> bool"
  assumes ok_call: "ok s \<Longrightarrow> ok (snd (call c now s))"
    and holder_mono: "ok s \<Longrightarrow> holder s t key = Some token \<Longrightarrow> now \<le> t \<Longrightarrow> holder s now key = Some token"
    and foreign_keeps: "ok s \<Longrightarrow> holder s now key = Some token \<Longrightarrow> foreign token key c \<Longrightarrow> now \<le> t \<Longrightarrow>
      holder (snd (call c now s)) t key = holder s t key"
    and acquire_held: "ok s \<Longrightarrow> holder s now key = Some token \<Longrightarrow> \<not> fst (call (Acq fresh key owner ttl) now s)"
    and acquire_free: "ok s \<Longrightarrow> holder s now key = None \<Longrightarrow> 0 < ttl \<Longrightarrow> now \<le> u \<Longrightarrow>
      fst (call (Acq fresh key owner ttl) now s) \<and>
      holder (snd (call (Acq fresh key owner ttl) now s)) u key = (if u < now + ttl then Some fresh else None)"
begin

definition run :: "(lock_call \<times> gotime) list \<Rightarrow> 's \<Rightarrow> 's" where
  "run es s = fold (\<lambda>(c, t) s. snd (call c t s)) es s"

lemma run_ok: "ok s \<Longrightarrow> ok (run es s)"
  unfolding run_def by (induction es arbitrary: s) (auto simp: ok_call)

lemma held_run:
  "ok s \<Longrightarrow> holder s t key = Some token \<Longrightarrow> \<forall>(c, u) \<in> set es. foreign token key c \<and> u \<le> t \<Longrightarrow>
   holder (run es s) t key = Some token"
proof (induction es arbitrary: s)
  case (Cons e es)
  obtain c u where e: "e = (c, u)" by force
  have f: "foreign token key c" "u \<le> t" using Cons.prems(3) by (auto simp: e)
  have "holder s u key = Some token" using holder_mono [OF Cons.prems(1,2) f(2)] .
  then have "holder (snd (call c u s)) t key = Some token"
    using foreign_keeps [OF Cons.prems(1) _ f(1) f(2)] Cons.prems(2) by simp
  then show ?case using Cons.IH [of "snd (call c u s)"] Cons.prems(1,3) ok_call by (simp add: run_def e)
qed (simp add: run_def)

lemma mutual_exclusion:
  assumes "ok s" "holder s now key = None" "now \<le> t" "t < now + ttl"
    and "\<forall>(c, u) \<in> set es. foreign token key c \<and> u \<le> t"
  shows "fst (call (Acq token key owner ttl) now s) \<and>
    holder (run es (snd (call (Acq token key owner ttl) now s))) t key = Some token \<and>
    \<not> fst (call (Acq token' key owner' ttl') t (run es (snd (call (Acq token key owner ttl) now s))))"
proof -
  have p: "0 < ttl" using assms(3,4) by simp
  let ?s = "snd (call (Acq token key owner ttl) now s)"
  have a: "fst (call (Acq token key owner ttl) now s)" "holder ?s t key = Some token"
    using acquire_free [OF assms(1,2) p assms(3)] assms(4) by simp_all
  have h: "holder (run es ?s) t key = Some token"
    using held_run [OF ok_call [OF assms(1)] a(2) assms(5)] .
  show ?thesis using a(1) h acquire_held [OF run_ok [OF ok_call [OF assms(1)]] h] by simp
qed

lemma reacquire_after_expiry:
  assumes "ok s" "holder s now key = None" "0 < ttl" "now + ttl \<le> t" "0 < ttl'"
  shows "fst (call (Acq token' key owner' ttl') t (snd (call (Acq token key owner ttl) now s)))"
proof -
  have "holder (snd (call (Acq token key owner ttl) now s)) t key = None"
    using acquire_free [OF assms(1-3), of t token owner] assms(3,4) by simp
  then show ?thesis using acquire_free [OF ok_call [OF assms(1)] _ assms(5), where u = t] by simp
qed

end

end
