(* ===== verification/Distributed_Lock.thy ===== *)
theory Distributed_Lock
  imports Lease_Lock
begin

text \<open>
  The two locks of \<open>internal/riskengine/distributed_lock.go\<close>: the in-memory one, every method of which
  runs under its mutex, and the Redis one.  The random token of \<open>generateLockToken\<close> is an
  argument.  Redis itself is a parameter: the commands the client and its two Lua scripts use, on a
  state of the server's own, with what Redis documents of them as the predicate \<open>redis_ok\<close>.
  Client and server read one clock.
\<close>

datatype lock_error = LockHeld | LockExpired | InvalidLease | LockStoreOffline | RedisLockError string

subsection \<open>The local lock\<close>

record local_entry =
  le_token :: string
  le_owner_id :: string
  le_expires_at :: gotime

record local_lock =
  ll_locks :: "string \<rightharpoonup> local_entry"
  ll_acquired :: int
  ll_released :: int
  ll_conflicts :: int

definition new_local_lock :: local_lock where
  "new_local_lock = \<lparr>ll_locks = Map.empty, ll_acquired = 0, ll_released = 0, ll_conflicts = 0\<rparr>"

definition local_acquire ::
  "string \<Rightarrow> string \<Rightarrow> string \<Rightarrow> duration \<Rightarrow> gotime \<Rightarrow> local_lock \<Rightarrow> (lock_error + lock_lease) \<times> local_lock" where
  "local_acquire token key owner ttl now l =
     (let grant = (\<lambda>l. (Inr \<lparr>ls_resource_key = key, ls_token = token, ls_owner_id = owner,
                        ls_acquired_at = now, ls_expires_at = now + ttl\<rparr>,
            l\<lparr>ll_locks := (ll_locks l)(key \<mapsto> \<lparr>le_token = token, le_owner_id = owner, le_expires_at = now + ttl\<rparr>),
              ll_acquired := ll_acquired l + 1\<rparr>)) in
      case ll_locks l key of
        Some e \<Rightarrow> if now < le_expires_at e then (Inl LockHeld, l\<lparr>ll_conflicts := ll_conflicts l + 1\<rparr>)
                  else grant (l\<lparr>ll_locks := (ll_locks l)(key := None)\<rparr>)
      | None \<Rightarrow> grant l)"

definition local_release :: "lock_lease option \<Rightarrow> local_lock \<Rightarrow> lock_error option \<times> local_lock" where
  "local_release lease l =
     (case lease of None \<Rightarrow> (Some InvalidLease, l)
      | Some ls \<Rightarrow>
          (case ll_locks l (ls_resource_key ls) of
             None \<Rightarrow> (Some InvalidLease, l)
           | Some e \<Rightarrow> if le_token e \<noteq> ls_token ls then (Some InvalidLease, l)
               else (None, l\<lparr>ll_locks := (ll_locks l)(ls_resource_key ls := None),
                      ll_released := ll_released l + 1\<rparr>)))"

text \<open>The lease is the caller's: \<open>Extend\<close> moves its deadline too.\<close>

definition local_extend ::
  "lock_lease option \<Rightarrow> duration \<Rightarrow> gotime \<Rightarrow> local_lock \<Rightarrow> (lock_error + lock_lease) \<times> local_lock" where
  "local_extend lease extra now l =
     (case lease of None \<Rightarrow> (Inl InvalidLease, l)
      | Some ls \<Rightarrow>
          (case ll_locks l (ls_resource_key ls) of
             None \<Rightarrow> (Inl InvalidLease, l)
           | Some e \<Rightarrow>
               if le_token e \<noteq> ls_token ls then (Inl InvalidLease, l)
               else if le_expires_at e < now then (Inl LockExpired, l)
               else (let e' = e\<lparr>le_expires_at := le_expires_at e + extra\<rparr> in
                 (Inr (ls\<lparr>ls_expires_at := le_expires_at e'\<rparr>),
                  l\<lparr>ll_locks := (ll_locks l)(ls_resource_key ls \<mapsto> e')\<rparr>))))"

definition local_stats :: "local_lock \<Rightarrow> int \<times> int \<times> int" where
  "local_stats l = (ll_acquired l, ll_released l, ll_conflicts l)"

fun local_call :: "lock_call \<Rightarrow> gotime \<Rightarrow> local_lock \<Rightarrow> bool \<times> local_lock" where
  "local_call (Acq token key owner ttl) now l =
     (case local_acquire token key owner ttl now l of (r, l') \<Rightarrow> (\<exists>x. r = Inr x, l'))"
| "local_call (Rel ls) now l = (case local_release (Some ls) l of (r, l') \<Rightarrow> (r = None, l'))"
| "local_call (Ext ls extra) now l = (case local_extend (Some ls) extra now l of (r, l') \<Rightarrow> (\<exists>x. r = Inr x, l'))"

definition local_holder :: "local_lock \<Rightarrow> gotime \<Rightarrow> string \<Rightarrow> string option" where
  "local_holder l now key =
     (case ll_locks l key of Some e \<Rightarrow> if now < le_expires_at e then Some (le_token e) else None | None \<Rightarrow> None)"

interpretation local_lease: lease_lock local_call local_holder "\<lambda>_. True"
proof
  fix l :: local_lock and now t u :: gotime and key token tok owner :: string and c :: lock_call and ttl :: duration
  show "local_holder l t key = Some token \<Longrightarrow> now \<le> t \<Longrightarrow> local_holder l now key = Some token"
    by (auto simp: local_holder_def split: option.splits if_splits)
  show "local_holder l now key = Some token \<Longrightarrow> foreign token key c \<Longrightarrow> now \<le> t \<Longrightarrow>
      local_holder (snd (local_call c now l)) t key = local_holder l t key"
    by (cases c) (auto simp: local_holder_def local_acquire_def local_release_def local_extend_def Let_def
        split: option.splits if_splits prod.splits)
  show "local_holder l now key = Some token \<Longrightarrow> \<not> fst (local_call (Acq tok key owner ttl) now l)"
    by (auto simp: local_holder_def local_acquire_def Let_def split: option.splits if_splits)
  show "local_holder l now key = None \<Longrightarrow> 0 < ttl \<Longrightarrow> now \<le> u \<Longrightarrow>
      fst (local_call (Acq tok key owner ttl) now l) \<and>
      local_holder (snd (local_call (Acq tok key owner ttl) now l)) u key = (if u < now + ttl then Some tok else None)"
    by (auto simp: local_holder_def local_acquire_def Let_def split: option.splits if_splits)
qed simp

subsection \<open>The Redis lock\<close>

record 's redis =
  rd_get :: "'s \<Rightarrow> gotime \<Rightarrow> string \<Rightarrow> string option"
  rd_setnx :: "'s \<Rightarrow> gotime \<Rightarrow> string \<Rightarrow> string \<Rightarrow> duration \<Rightarrow> bool \<times> 's"
  rd_del :: "'s \<Rightarrow> gotime \<Rightarrow> string \<Rightarrow> int \<times> 's"
  rd_pexpire :: "'s \<Rightarrow> gotime \<Rightarrow> string \<Rightarrow> int \<Rightarrow> int \<times> 's"

text \<open>
  What Redis documents: \<open>SET NX\<close> with an expiry sets an absent key, for the time to live, and leaves a
  present one; \<open>DEL\<close> removes a key and counts it; \<open>PEXPIRE\<close> sets the time to live of a present key to
  so many milliseconds from now; no command touches another key; a value is gone when its time
  has come and not before.
\<close>

definition redis_ok :: "'s redis \<Rightarrow> bool" where
  "redis_ok R \<longleftrightarrow>
     (\<forall>s now t k v. rd_get R s t k = Some v \<and> now \<le> t \<longrightarrow> rd_get R s now k = Some v) \<and>
     (\<forall>s now t k v ttl k'. now \<le> t \<longrightarrow>
        fst (rd_setnx R s now k v ttl) = (rd_get R s now k = None) \<and>
        (k' \<noteq> k \<or> rd_get R s now k \<noteq> None \<longrightarrow> rd_get R (snd (rd_setnx R s now k v ttl)) t k' = rd_get R s t k') \<and>
        (0 < ttl \<and> rd_get R s now k = None \<longrightarrow>
          rd_get R (snd (rd_setnx R s now k v ttl)) t k = (if t < now + ttl then Some v else None))) \<and>
     (\<forall>s now t k k'. now \<le> t \<longrightarrow>
        fst (rd_del R s now k) = (if rd_get R s now k = None then 0 else 1) \<and>
        rd_get R (snd (rd_del R s now k)) t k' = (if k' = k then None else rd_get R s t k')) \<and>
     (\<forall>s now t k ms k'. now \<le> t \<longrightarrow>
        fst (rd_pexpire R s now k ms) = (if rd_get R s now k = None then 0 else 1) \<and>
        rd_get R (snd (rd_pexpire R s now k ms)) t k' =
          (if k' = k then (if t < now + ms * millisecond then rd_get R s now k else None) else rd_get R s t k'))"

definition redis_lock_key :: "string \<Rightarrow> string" where
  "redis_lock_key k = ''lock:'' @ k"

text \<open>A lost connection is the argument of type \<open>string option\<close>; \<open>client\<close> is false for a nil one.\<close>

definition redis_acquire ::
  "'s redis \<Rightarrow> bool \<Rightarrow> string option \<Rightarrow> string \<Rightarrow> string \<Rightarrow> string \<Rightarrow> duration \<Rightarrow> gotime \<Rightarrow> 's \<Rightarrow>
   (lock_error + lock_lease) \<times> 's" where
  "redis_acquire R client err token key owner ttl now s =
     (if \<not> client then (Inl LockStoreOffline, s)
      else (case err of Some e \<Rightarrow> (Inl (RedisLockError e), s)
        | None \<Rightarrow>
            (let (set, s') = rd_setnx R s now (redis_lock_key key) token ttl in
             if \<not> set then (Inl LockHeld, s')
             else (Inr \<lparr>ls_resource_key = key, ls_token = token, ls_owner_id = owner, ls_acquired_at = now,
                     ls_expires_at = now + ttl\<rparr>, s'))))"

definition release_script :: "'s redis \<Rightarrow> string \<Rightarrow> string \<Rightarrow> gotime \<Rightarrow> 's \<Rightarrow> int \<times> 's" where
  "release_script R key token now s =
     (if rd_get R s now key = Some token then rd_del R s now key else (0, s))"

definition redis_release ::
  "'s redis \<Rightarrow> bool \<Rightarrow> string option \<Rightarrow> lock_lease option \<Rightarrow> gotime \<Rightarrow> 's \<Rightarrow> lock_error option \<times> 's" where
  "redis_release R client err lease now s =
     (if \<not> client then (Some LockStoreOffline, s)
      else (case lease of None \<Rightarrow> (Some InvalidLease, s)
        | Some ls \<Rightarrow>
            (case err of Some e \<Rightarrow> (Some (RedisLockError e), s)
             | None \<Rightarrow>
                 (let (n, s') = release_script R (redis_lock_key (ls_resource_key ls)) (ls_token ls) now s in
                  (if n = 0 then Some InvalidLease else None, s')))))"

definition extend_script :: "'s redis \<Rightarrow> string \<Rightarrow> string \<Rightarrow> int \<Rightarrow> gotime \<Rightarrow> 's \<Rightarrow> int \<times> 's" where
  "extend_script R key token ms now s =
     (if rd_get R s now key = Some token then rd_pexpire R s now key ms else (0, s))"

definition redis_extend ::
  "'s redis \<Rightarrow> bool \<Rightarrow> string option \<Rightarrow> lock_lease option \<Rightarrow> duration \<Rightarrow> gotime \<Rightarrow> 's \<Rightarrow>
   (lock_error + lock_lease) \<times> 's" where
  "redis_extend R client err lease extra now s =
     (if \<not> client then (Inl LockStoreOffline, s)
      else (case lease of None \<Rightarrow> (Inl InvalidLease, s)
        | Some ls \<Rightarrow>
            (case err of Some e \<Rightarrow> (Inl (RedisLockError e), s)
             | None \<Rightarrow>
                 (let (n, s') = extend_script R (redis_lock_key (ls_resource_key ls)) (ls_token ls)
                        (go_div extra millisecond) now s in
                  if n = 0 then (Inl LockExpired, s')
                  else (Inr (ls\<lparr>ls_expires_at := ls_expires_at ls + extra\<rparr>), s')))))"

fun redis_call :: "'s redis \<Rightarrow> lock_call \<Rightarrow> gotime \<Rightarrow> 's \<Rightarrow> bool \<times> 's" where
  "redis_call R (Acq token key owner ttl) now s =
     (case redis_acquire R True None token key owner ttl now s of (r, s') \<Rightarrow> (\<exists>x. r = Inr x, s'))"
| "redis_call R (Rel ls) now s = (case redis_release R True None (Some ls) now s of (r, s') \<Rightarrow> (r = None, s'))"
| "redis_call R (Ext ls extra) now s =
     (case redis_extend R True None (Some ls) extra now s of (r, s') \<Rightarrow> (\<exists>x. r = Inr x, s'))"

definition redis_holder :: "'s redis \<Rightarrow> 's \<Rightarrow> gotime \<Rightarrow> string \<Rightarrow> string option" where
  "redis_holder R s now key = rd_get R s now (redis_lock_key key)"

lemma redis_lock_key_inj [simp]: "redis_lock_key a = redis_lock_key b \<longleftrightarrow> a = b"
  by (simp add: redis_lock_key_def)

lemma redis_okD:
  assumes "redis_ok R"
  shows "rd_get R s t k = Some v \<Longrightarrow> now \<le> t \<Longrightarrow> rd_get R s now k = Some v"
    and "fst (rd_setnx R s now k v ttl) \<longleftrightarrow> rd_get R s now k = None"
    and "now \<le> t \<Longrightarrow> k' \<noteq> k \<or> rd_get R s now k \<noteq> None \<Longrightarrow>
      rd_get R (snd (rd_setnx R s now k v ttl)) t k' = rd_get R s t k'"
    and "now \<le> t \<Longrightarrow> 0 < ttl \<Longrightarrow> rd_get R s now k = None \<Longrightarrow>
      rd_get R (snd (rd_setnx R s now k v ttl)) t k = (if t < now + ttl then Some v else None)"
    and "fst (rd_del R s now k) = (if rd_get R s now k = None then 0 else 1)"
    and "now \<le> t \<Longrightarrow> rd_get R (snd (rd_del R s now k)) t k' = (if k' = k then None else rd_get R s t k')"
    and "fst (rd_pexpire R s now k ms) = (if rd_get R s now k = None then 0 else 1)"
    and "now \<le> t \<Longrightarrow> rd_get R (snd (rd_pexpire R s now k ms)) t k' =
      (if k' = k then (if t < now + ms * millisecond then rd_get R s now k else None) else rd_get R s t k')"
proof -
  note r = assms [unfolded redis_ok_def]
  note r1 = conjunct1 [OF r]
  note r2 = conjunct1 [OF conjunct2 [OF r], rule_format]
  note r3 = conjunct1 [OF conjunct2 [OF conjunct2 [OF r]], rule_format]
  note r4 = conjunct2 [OF conjunct2 [OF conjunct2 [OF r]], rule_format]
  show "rd_get R s t k = Some v \<Longrightarrow> now \<le> t \<Longrightarrow> rd_get R s now k = Some v" using r1 by blast
  show "fst (rd_setnx R s now k v ttl) \<longleftrightarrow> rd_get R s now k = None"
    using r2 [of now now s k v ttl k] by simp
  show "now \<le> t \<Longrightarrow> k' \<noteq> k \<or> rd_get R s now k \<noteq> None \<Longrightarrow>
      rd_get R (snd (rd_setnx R s now k v ttl)) t k' = rd_get R s t k'"
    using r2 [where now = now and t = t and s = s and k = k and v = v and ttl = ttl and k' = k'] by blast
  show "now \<le> t \<Longrightarrow> 0 < ttl \<Longrightarrow> rd_get R s now k = None \<Longrightarrow>
      rd_get R (snd (rd_setnx R s now k v ttl)) t k = (if t < now + ttl then Some v else None)"
    using r2 [where now = now and t = t and s = s and k = k and v = v and ttl = ttl] by blast
  show "fst (rd_del R s now k) = (if rd_get R s now k = None then 0 else 1)"
    using r3 [where now = now and t = now and s = s and k = k] by blast
  show "now \<le> t \<Longrightarrow> rd_get R (snd (rd_del R s now k)) t k' = (if k' = k then None else rd_get R s t k')"
    using r3 [where now = now and t = t and s = s and k = k and k' = k'] by blast
  show "fst (rd_pexpire R s now k ms) = (if rd_get R s now k = None then 0 else 1)"
    using r4 [where now = now and t = now and s = s and k = k and ms = ms] by blast
  show "now \<le> t \<Longrightarrow> rd_get R (snd (rd_pexpire R s now k ms)) t k' =
      (if k' = k then (if t < now + ms * millisecond then rd_get R s now k else None) else rd_get R s t k')"
    using r4 [where now = now and t = t and s = s and k = k and ms = ms and k' = k'] by blast
qed

text \<open>The Redis lock provides the interface, whatever the server, as long as it does what it documents.\<close>

lemma redis_call_results:
  "fst (redis_call R (Acq token key owner ttl) now s) = fst (rd_setnx R s now (redis_lock_key key) token ttl)"
  "snd (redis_call R (Acq token key owner ttl) now s) = snd (rd_setnx R s now (redis_lock_key key) token ttl)"
  "snd (redis_call R (Rel ls) now s) = snd (release_script R (redis_lock_key (ls_resource_key ls)) (ls_token ls) now s)"
  "snd (redis_call R (Ext ls d) now s) =
    snd (extend_script R (redis_lock_key (ls_resource_key ls)) (ls_token ls) (go_div d millisecond) now s)"
  by (simp_all add: redis_acquire_def redis_release_def redis_extend_def split: prod.splits)

lemma redis_provides: "redis_ok R \<Longrightarrow> lease_lock (redis_call R) (redis_holder R) (\<lambda>_. True)"
proof
  fix s and now t u :: gotime and key token tok owner :: string and c :: lock_call and ttl :: duration
  assume R: "redis_ok R"
  note D = redis_okD [OF R]
  show "redis_holder R s t key = Some token \<Longrightarrow> now \<le> t \<Longrightarrow> redis_holder R s now key = Some token"
    unfolding redis_holder_def by (rule D(1))
  show "redis_holder R s now key = Some token \<Longrightarrow> foreign token key c \<Longrightarrow> now \<le> t \<Longrightarrow>
      redis_holder R (snd (redis_call R c now s)) t key = redis_holder R s t key"
  proof (cases c)
    case (Acq tk k o' d)
    assume h: "redis_holder R s now key = Some token" "now \<le> t"
    then have "redis_lock_key key \<noteq> redis_lock_key k \<or> rd_get R s now (redis_lock_key k) \<noteq> None"
      by (auto simp: redis_holder_def)
    then show ?thesis using D(3) [OF h(2)] by (simp only: Acq redis_call_results redis_holder_def)
  next
    case (Rel ls)
    assume "redis_holder R s now key = Some token" "foreign token key c" "now \<le> t"
    then show ?thesis
      by (auto simp: Rel redis_call_results redis_holder_def release_script_def D(6) simp del: redis_call.simps)
  next
    case (Ext ls d)
    assume "redis_holder R s now key = Some token" "foreign token key c" "now \<le> t"
    then show ?thesis
      by (auto simp: Ext redis_call_results redis_holder_def extend_script_def D(8) simp del: redis_call.simps)
  qed
  show "redis_holder R s now key = Some token \<Longrightarrow> \<not> fst (redis_call R (Acq tok key owner ttl) now s)"
    by (simp add: redis_call_results D(2) redis_holder_def del: redis_call.simps)
  show "redis_holder R s now key = None \<Longrightarrow> 0 < ttl \<Longrightarrow> now \<le> u \<Longrightarrow>
      fst (redis_call R (Acq tok key owner ttl) now s) \<and>
      redis_holder R (snd (redis_call R (Acq tok key owner ttl) now s)) u key = (if u < now + ttl then Some tok else None)"
    by (simp add: redis_call_results D(2,4) redis_holder_def del: redis_call.simps)
qed simp

text \<open>A server that does what Redis documents: keys with their values and deadlines.\<close>

definition kv_get :: "(string \<rightharpoonup> string \<times> gotime option) \<Rightarrow> gotime \<Rightarrow> string \<Rightarrow> string option" where
  "kv_get s now k = (case s k of Some (v, d) \<Rightarrow> (case d of None \<Rightarrow> Some v | Some e \<Rightarrow> if now < e then Some v else None)
     | None \<Rightarrow> None)"

definition kv_redis :: "(string \<rightharpoonup> string \<times> gotime option) redis" where
  "kv_redis = \<lparr>rd_get = kv_get,
     rd_setnx = (\<lambda>s now k v ttl. if kv_get s now k = None
        then (True, s(k \<mapsto> (v, if 0 < ttl then Some (now + ttl) else None))) else (False, s)),
     rd_del = (\<lambda>s now k. (if kv_get s now k = None then 0 else 1, s(k := None))),
     rd_pexpire = (\<lambda>s now k ms. case kv_get s now k of None \<Rightarrow> (0, s(k := None))
        | Some v \<Rightarrow> (1, s(k \<mapsto> (v, Some (now + ms * millisecond)))))\<rparr>"

lemma kv_redis_ok: "redis_ok kv_redis"
  unfolding redis_ok_def kv_redis_def redis.simps
proof (intro conjI allI impI)
  fix s :: "string \<rightharpoonup> string \<times> gotime option" and now t :: gotime and k k' v :: string and ttl ms :: int
  show "kv_get s t k = Some v \<and> now \<le> t \<Longrightarrow> kv_get s now k = Some v"
    by (auto simp: kv_get_def split: option.splits if_splits)
qed (auto simp: kv_get_def split: option.splits if_splits prod.splits)

subsection \<open>Properties\<close>

text \<open>
  mutual exclusion of the in-memory lock.  An acquisition of a free key succeeds, and from then until
  its lease ends, whatever others do in whatever order (acquisitions of any key, releases
  and extensions with any other token, stale ones included), the key is still the holder's and every
  further acquisition of it fails.
\<close>

theorem local_lock_mutual_exclusion:
  assumes "local_holder l now key = None" "now \<le> t" "t < now + ttl"
    and "\<forall>(c, u) \<in> set es. foreign token key c \<and> u \<le> t"
    and "l1 = snd (local_acquire token key owner ttl now l)"
    and "l2 = fold (\<lambda>(c, u) l. snd (local_call c u l)) es l1"
  shows "(\<exists>ls. fst (local_acquire token key owner ttl now l) = Inr ls \<and> ls_expires_at ls = now + ttl) \<and>
    local_holder l2 t key = Some token \<and> fst (local_acquire token' key owner' ttl' t l2) = Inl LockHeld"
proof -
  have e: "snd (local_call (Acq token key owner ttl) now l) = l1"
    using assms(5) by (simp split: prod.splits)
  note m = local_lease.mutual_exclusion [OF TrueI assms(1-4), of owner token' owner' ttl',
      unfolded local_lease.run_def e, folded assms(6)]
  have "fst (local_acquire token key owner ttl now l) = Inr ls \<Longrightarrow> ls_expires_at ls = now + ttl" for ls
    by (auto simp: local_acquire_def Let_def split: option.splits if_splits)
  moreover have "fst (local_acquire token' key owner' ttl' t l2) = Inl e \<Longrightarrow> e = LockHeld" for e
    by (auto simp: local_acquire_def Let_def split: option.splits if_splits)
  ultimately show ?thesis using m
    by (cases "fst (local_acquire token' key owner' ttl' t l2)") (auto split: prod.splits)
qed

definition stale_lease :: lock_lease where
  "stale_lease = \<lparr>ls_resource_key = ''retrain'', ls_token = ''old'', ls_owner_id = ''w0'', ls_acquired_at = 0, ls_expires_at = 10\<rparr>"

lemma local_lock_mutual_exclusion_witness:
  "fst (local_acquire ''tok2'' ''retrain'' ''w2'' 50 30
     (fold (\<lambda>(c, u) l. snd (local_call c u l)) [(Rel stale_lease, 25), (Acq ''tok3'' ''retrain'' ''w3'' 5, 26)]
       (snd (local_acquire ''tok1'' ''retrain'' ''w1'' 20 20 new_local_lock)))) = Inl LockHeld"
  using local_lock_mutual_exclusion [of new_local_lock 20 "''retrain''" 30 20
      "[(Rel stale_lease, 25), (Acq ''tok3'' ''retrain'' ''w3'' 5, 26)]" "''tok1''" _ "''w1''" _ "''tok2''" "''w2''" 50, OF _ _ _ _ refl refl]
  by (simp add: local_holder_def new_local_lock_def stale_lease_def)

text \<open>
  C5: mutual exclusion of the Redis lock, for every server that does what Redis documents, with a lease
  longer than nothing: as for the in-memory lock, from the acquisition to the end of its time to
  live no other worker acquires the key.
\<close>

theorem redis_lock_mutual_exclusion:
  assumes "redis_ok R" "rd_get R s now (redis_lock_key key) = None" "now \<le> t" "t < now + ttl"
    and "\<forall>(c, u) \<in> set es. foreign token key c \<and> u \<le> t"
    and "s1 = snd (redis_acquire R True None token key owner ttl now s)"
    and "s2 = fold (\<lambda>(c, u) s. snd (redis_call R c u s)) es s1"
  shows "(\<exists>ls. fst (redis_acquire R True None token key owner ttl now s) = Inr ls) \<and>
    rd_get R s2 t (redis_lock_key key) = Some token \<and>
    fst (redis_acquire R True None token' key owner' ttl' t s2) = Inl LockHeld"
proof -
  have e: "snd (redis_call R (Acq token key owner ttl) now s) = s1"
    using assms(6) by (simp split: prod.splits)
  have h: "redis_holder R s now key = None" using assms(2) by (simp add: redis_holder_def)
  note m = lease_lock.mutual_exclusion [OF redis_provides [OF assms(1)] TrueI h assms(3-5), of owner token' owner' ttl',
      unfolded lease_lock.run_def [OF redis_provides [OF assms(1)]] e, folded assms(7)]
  have "fst (redis_acquire R True None token' key owner' ttl' t s2) = Inl e \<Longrightarrow> e = LockHeld" for e
    by (auto simp: redis_acquire_def split: prod.splits if_splits)
  then show ?thesis using m
    by (cases "fst (redis_acquire R True None token' key owner' ttl' t s2)") (auto simp: redis_holder_def split: prod.splits)
qed

lemma redis_lock_mutual_exclusion_witness:
  "fst (redis_acquire kv_redis True None ''tok2'' ''retrain'' ''w2'' 50 30
     (fold (\<lambda>(c, u) s. snd (redis_call kv_redis c u s)) [(Rel stale_lease, 25), (Acq ''tok3'' ''retrain'' ''w3'' 5, 26)]
       (snd (redis_acquire kv_redis True None ''tok1'' ''retrain'' ''w1'' 20 20 Map.empty)))) = Inl LockHeld"
  using redis_lock_mutual_exclusion [of kv_redis Map.empty 20 "''retrain''" 30 20
      "[(Rel stale_lease, 25), (Acq ''tok3'' ''retrain'' ''w3'' 5, 26)]" "''tok1''" _ "''w1''" _ "''tok2''" "''w2''" 50,
      OF kv_redis_ok _ _ _ _ refl refl]
  by (simp add: kv_redis_def kv_get_def stale_lease_def)

text \<open>
  an extended Redis lease outlives its lock.  \<open>Extend\<close> adds the extra time to the deadline of the
  lease, but sets the key to expire that long from now.  So whenever it succeeds with whole
  milliseconds before the old deadline, there is a time at which the lease is not expired for its holder
  and the key is free: another worker acquires it, and both hold the lock.
\<close>

theorem redis_extend_breaks_exclusion:
  assumes "redis_ok R" "redis_extend R True None (Some ls) extra now s = (Inr ls', s')"
    and "0 < extra" "extra = k * millisecond" "now < ls_expires_at ls" "0 < ttl"
  shows "\<not> lease_is_expired ls' (now + extra) \<and>
    (\<exists>other. fst (redis_acquire R True None token (ls_resource_key ls) owner ttl (now + extra) s') = Inr other) \<and>
    now + extra < ls_expires_at ls'"
proof -
  note D = redis_okD [OF assms(1)]
  let ?k = "redis_lock_key (ls_resource_key ls)"
  have k: "go_div extra millisecond = k"
    using assms(3,4) by (simp add: go_div_nonneg millisecond_def)
  have g: "rd_get R s now ?k = Some (ls_token ls)" and s': "s' = snd (rd_pexpire R s now ?k k)"
    and ls': "ls' = ls\<lparr>ls_expires_at := ls_expires_at ls + extra\<rparr>"
    using assms(2) k by (auto simp: redis_extend_def extend_script_def split: prod.splits if_splits)
  have "rd_get R s' (now + extra) ?k = None" using assms(3,4) by (simp add: s' D(8))
  then have "fst (rd_setnx R s' (now + extra) ?k token ttl)" by (simp add: D(2))
  then show ?thesis using assms(5)
    by (auto simp: ls' lease_is_expired_def redis_acquire_def split: prod.splits)
qed

definition held_lease :: lock_lease where
  "held_lease = \<lparr>ls_resource_key = ''retrain'', ls_token = ''tok1'', ls_owner_id = ''w1'', ls_acquired_at = 0,
     ls_expires_at = 30 * second\<rparr>"

lemma redis_extend_breaks_exclusion_witness:
  "\<exists>ls' s'. redis_extend kv_redis True None (Some held_lease) (10 * second) second
       (snd (redis_acquire kv_redis True None ''tok1'' ''retrain'' ''w1'' (30 * second) 0 Map.empty)) = (Inr ls', s') \<and>
     \<not> lease_is_expired ls' (11 * second) \<and>
     (\<exists>other. fst (redis_acquire kv_redis True None ''tok2'' ''retrain'' ''w2'' (30 * second) (11 * second) s') = Inr other)"
proof -
  let ?s = "snd (redis_acquire kv_redis True None ''tok1'' ''retrain'' ''w1'' (30 * second) 0 Map.empty)"
  obtain ls' s' where e: "redis_extend kv_redis True None (Some held_lease) (10 * second) second ?s = (Inr ls', s')"
    by (simp add: redis_extend_def extend_script_def redis_acquire_def kv_redis_def kv_get_def held_lease_def second_def)
  have "\<not> lease_is_expired ls' (second + 10 * second) \<and>
    (\<exists>other. fst (redis_acquire kv_redis True None ''tok2'' (ls_resource_key held_lease) ''w2'' (30 * second)
       (second + 10 * second) s') = Inr other) \<and> second + 10 * second < ls_expires_at ls'"
    by (rule redis_extend_breaks_exclusion [OF kv_redis_ok e, where k = 10000])
      (simp_all add: held_lease_def second_def millisecond_def)
  then show ?thesis using e by (simp add: held_lease_def second_def)
qed

end
