(* ===== verification/SLO_Engine.thy ===== *)
theory SLO_Engine
  imports Ring_Buffer Latency_Reservoir Assoc_Lists Go_Duration Retraining_Trigger
begin

text \<open>
  The service level objectives of \<open>internal/riskengine/slo_engine.go\<close> and \<open>slo_types.go\<close>: rings of recent
  evaluations and of shadow comparisons, counters of jobs, rollouts and probes, and the status, error
  budget and burn rate of ten objectives computed from them.  The counters of probes are association
  lists; the objectives are evaluated in the order of the code.
\<close>

subsection \<open>Types\<close>

datatype slo_status = SloHealthy | SloWarning | SloBreached | SloUnknown

record slo_definition =
  sd_id :: string
  sd_name :: string
  sd_description :: string
  sd_target :: f64
  sd_warning_threshold :: f64
  sd_breach_threshold :: f64
  sd_window_duration :: duration
  sd_is_upper_bound :: bool
  sd_unit :: string

record slo_metric =
  sm_slo_id :: string
  sm_name :: string
  sm_current_value :: f64
  sm_target :: f64
  sm_status :: slo_status
  sm_error_budget :: f64
  sm_error_budget_remaining :: f64
  sm_burn_rate :: f64
  sm_measurement_window :: string
  sm_sample_count :: int
  sm_violations_count :: int
  sm_calculated_at :: gotime
  sm_violations :: "string list"

record slo_summary =
  ss_overall_status :: slo_status
  ss_total_slos :: int
  ss_healthy_count :: int
  ss_warning_count :: int
  ss_breached_count :: int
  ss_calculated_at :: gotime
  ss_measurements :: "(string \<times> slo_metric) list"

record eval_sample =
  es_timestamp :: gotime
  es_latency_ms :: f64
  es_is_success :: bool
  es_is_fallback :: bool
  es_is_infer_error :: bool

record slo_engine =
  se_window_duration :: duration
  se_evals :: "eval_sample ring"
  se_divergence :: "bool ring"
  se_last_max_psi :: f64
  se_last_drift_state :: "drift_status option"
  se_last_drift_time :: gotime
  se_retraining_total :: int
  se_retraining_success :: int
  se_canary_rollbacks :: int
  se_canary_total :: int
  se_dep_total :: "(string \<times> int) list"
  se_dep_success :: "(string \<times> int) list"
  se_definitions :: "(string \<times> slo_definition) list"

subsection \<open>The objectives\<close>

definition slo_availability :: "duration \<Rightarrow> slo_definition" where
  "slo_availability w = \<lparr>sd_id = ''slo_availability'', sd_name = ''Risk Evaluation Availability'',
     sd_description = ''Percentage of risk evaluation requests processed successfully'',
     sd_target = to_f64 (999 / 1000), sd_warning_threshold = to_f64 (9995 / 10000), sd_breach_threshold = to_f64 (9990 / 10000),
     sd_window_duration = w, sd_is_upper_bound = False, sd_unit = ''fraction''\<rparr>"

definition slo_p95_latency :: "duration \<Rightarrow> slo_definition" where
  "slo_p95_latency w = \<lparr>sd_id = ''slo_p95_latency'', sd_name = ''Risk Evaluation P95 Latency'',
     sd_description = ''95th percentile latency of synchronous risk evaluations'',
     sd_target = Fin 100, sd_warning_threshold = Fin 75, sd_breach_threshold = Fin 100,
     sd_window_duration = w, sd_is_upper_bound = True, sd_unit = ''ms''\<rparr>"

definition slo_p99_latency :: "duration \<Rightarrow> slo_definition" where
  "slo_p99_latency w = \<lparr>sd_id = ''slo_p99_latency'', sd_name = ''Risk Evaluation P99 Latency'',
     sd_description = ''99th percentile latency of synchronous risk evaluations'',
     sd_target = Fin 250, sd_warning_threshold = Fin 150, sd_breach_threshold = Fin 250,
     sd_window_duration = w, sd_is_upper_bound = True, sd_unit = ''ms''\<rparr>"

definition slo_inference_error_rate :: "duration \<Rightarrow> slo_definition" where
  "slo_inference_error_rate w = \<lparr>sd_id = ''slo_inference_error_rate'', sd_name = ''Model Inference Error Rate'',
     sd_description = ''Fraction of model predictions encountering execution errors'',
     sd_target = to_f64 (5 / 1000), sd_warning_threshold = to_f64 (2 / 1000), sd_breach_threshold = to_f64 (5 / 1000),
     sd_window_duration = w, sd_is_upper_bound = True, sd_unit = ''fraction''\<rparr>"

definition slo_fallback_rate :: "duration \<Rightarrow> slo_definition" where
  "slo_fallback_rate w = \<lparr>sd_id = ''slo_fallback_rate'', sd_name = ''Emergency Fallback Execution Rate'',
     sd_description = ''Fraction of transactions routed to heuristic fallback model'',
     sd_target = to_f64 (10 / 1000), sd_warning_threshold = to_f64 (5 / 1000), sd_breach_threshold = to_f64 (10 / 1000),
     sd_window_duration = w, sd_is_upper_bound = True, sd_unit = ''fraction''\<rparr>"

definition slo_model_decision_divergence :: "duration \<Rightarrow> slo_definition" where
  "slo_model_decision_divergence w = \<lparr>sd_id = ''slo_model_decision_divergence'', sd_name = ''Shadow Model Decision Divergence'',
     sd_description = ''Rate of differing decisions between candidate and production model'',
     sd_target = to_f64 (50 / 1000), sd_warning_threshold = to_f64 (30 / 1000), sd_breach_threshold = to_f64 (50 / 1000),
     sd_window_duration = w, sd_is_upper_bound = True, sd_unit = ''fraction''\<rparr>"

definition slo_drift_health :: "duration \<Rightarrow> slo_definition" where
  "slo_drift_health w = \<lparr>sd_id = ''slo_drift_health'', sd_name = ''Feature Distribution Stability (Max PSI)'',
     sd_description = ''Maximum population stability index across 25 production features'',
     sd_target = to_f64 (200 / 1000), sd_warning_threshold = to_f64 (100 / 1000), sd_breach_threshold = to_f64 (250 / 1000),
     sd_window_duration = w, sd_is_upper_bound = True, sd_unit = ''psi''\<rparr>"

definition slo_retraining_success_rate :: slo_definition where
  "slo_retraining_success_rate = \<lparr>sd_id = ''slo_retraining_success_rate'', sd_name = ''Retraining Pipeline Success Rate'',
     sd_description = ''Percentage of retraining candidate generation jobs completing cleanly'',
     sd_target = to_f64 (950 / 1000), sd_warning_threshold = to_f64 (980 / 1000), sd_breach_threshold = to_f64 (950 / 1000),
     sd_window_duration = 24 * hour, sd_is_upper_bound = False, sd_unit = ''fraction''\<rparr>"

definition slo_canary_rollback_rate :: slo_definition where
  "slo_canary_rollback_rate = \<lparr>sd_id = ''slo_canary_rollback_rate'', sd_name = ''Canary Rollback Rate'',
     sd_description = ''Fraction of canary rollouts requiring safety gate rollbacks'',
     sd_target = to_f64 (50 / 1000), sd_warning_threshold = to_f64 (20 / 1000), sd_breach_threshold = to_f64 (50 / 1000),
     sd_window_duration = 24 * hour, sd_is_upper_bound = True, sd_unit = ''fraction''\<rparr>"

definition slo_dependency_availability :: "duration \<Rightarrow> slo_definition" where
  "slo_dependency_availability w = \<lparr>sd_id = ''slo_dependency_availability'', sd_name = ''Upstream Dependency Availability'',
     sd_description = ''Combined availability across PostgreSQL, Redis, ClickHouse, and ML Runtime'',
     sd_target = to_f64 (995 / 1000), sd_warning_threshold = to_f64 (998 / 1000), sd_breach_threshold = to_f64 (995 / 1000),
     sd_window_duration = w, sd_is_upper_bound = False, sd_unit = ''fraction''\<rparr>"

definition default_definitions :: "duration \<Rightarrow> (string \<times> slo_definition) list" where
  "default_definitions w = map (\<lambda>d. (sd_id d, d))
     [slo_availability w, slo_p95_latency w, slo_p99_latency w, slo_inference_error_rate w, slo_fallback_rate w,
      slo_model_decision_divergence w, slo_drift_health w, slo_retraining_success_rate, slo_canary_rollback_rate,
      slo_dependency_availability w]"

definition blank_sample :: eval_sample where
  "blank_sample = \<lparr>es_timestamp = zero_time, es_latency_ms = Fin 0, es_is_success = False, es_is_fallback = False,
     es_is_infer_error = False\<rparr>"

definition new_slo_engine :: "duration \<Rightarrow> slo_engine" where
  "new_slo_engine w0 =
     (let w = (if w0 \<le> 0 then 5 * minute else w0) in
      \<lparr>se_window_duration = w, se_evals = ring_new 2000 blank_sample, se_divergence = ring_new 500 False,
       se_last_max_psi = Fin 0, se_last_drift_state = None, se_last_drift_time = zero_time, se_retraining_total = 0,
       se_retraining_success = 0, se_canary_rollbacks = 0, se_canary_total = 0, se_dep_total = [], se_dep_success = [],
       se_definitions = default_definitions w\<rparr>)"

subsection \<open>Recording\<close>

definition record_evaluation :: "f64 \<Rightarrow> bool \<Rightarrow> bool \<Rightarrow> bool \<Rightarrow> gotime \<Rightarrow> slo_engine \<Rightarrow> slo_engine" where
  "record_evaluation latency success fallback infer_error now e =
     e\<lparr>se_evals := ring_push \<lparr>es_timestamp = now, es_latency_ms = latency, es_is_success = success,
        es_is_fallback = fallback, es_is_infer_error = infer_error\<rparr> (se_evals e)\<rparr>"

definition record_model_divergence :: "bool \<Rightarrow> slo_engine \<Rightarrow> slo_engine" where
  "record_model_divergence d e = e\<lparr>se_divergence := ring_push d (se_divergence e)\<rparr>"

definition record_drift_metrics :: "f64 \<Rightarrow> drift_status \<Rightarrow> gotime \<Rightarrow> slo_engine \<Rightarrow> slo_engine" where
  "record_drift_metrics psi st now e = e\<lparr>se_last_max_psi := psi, se_last_drift_state := Some st, se_last_drift_time := now\<rparr>"

definition record_retraining_outcome :: "bool \<Rightarrow> slo_engine \<Rightarrow> slo_engine" where
  "record_retraining_outcome success e =
     e\<lparr>se_retraining_total := se_retraining_total e + 1,
       se_retraining_success := se_retraining_success e + (if success then 1 else 0)\<rparr>"

definition record_canary_rollback :: "slo_engine \<Rightarrow> slo_engine" where
  "record_canary_rollback e = e\<lparr>se_canary_rollbacks := se_canary_rollbacks e + 1, se_canary_total := se_canary_total e + 1\<rparr>"

definition record_canary_completed :: "slo_engine \<Rightarrow> slo_engine" where
  "record_canary_completed e = e\<lparr>se_canary_total := se_canary_total e + 1\<rparr>"

definition count_of :: "string \<Rightarrow> (string \<times> int) list \<Rightarrow> int" where
  "count_of k m = (case map_of m k of None \<Rightarrow> 0 | Some n \<Rightarrow> n)"

definition bump :: "string \<Rightarrow> (string \<times> int) list \<Rightarrow> (string \<times> int) list" where
  "bump k m = AList.update k (count_of k m + 1) m"

definition record_dependency_check :: "string \<Rightarrow> bool \<Rightarrow> slo_engine \<Rightarrow> slo_engine" where
  "record_dependency_check dep healthy e =
     e\<lparr>se_dep_total := bump dep (se_dep_total e),
       se_dep_success := (if healthy then bump dep (se_dep_success e) else se_dep_success e)\<rparr>"

subsection \<open>One objective\<close>

definition msg_breaches :: "f64 \<Rightarrow> f64 \<Rightarrow> string" where
  "msg_breaches v t = ''Value '' @ fmt_fixed 4 v @ '' breaches threshold '' @ fmt_fixed 4 t"
definition msg_exceeds :: "f64 \<Rightarrow> f64 \<Rightarrow> string" where
  "msg_exceeds v t = ''Value '' @ fmt_fixed 4 v @ '' exceeds warning threshold '' @ fmt_fixed 4 t"
definition msg_below :: "f64 \<Rightarrow> f64 \<Rightarrow> string" where
  "msg_below v t = ''Value '' @ fmt_fixed 4 v @ '' falls below breach target '' @ fmt_fixed 4 t"
definition msg_zone :: "f64 \<Rightarrow> f64 \<Rightarrow> string" where
  "msg_zone v t = ''Value '' @ fmt_fixed 4 v @ '' is in warning zone below '' @ fmt_fixed 4 t"

definition slo_verdict :: "slo_definition \<Rightarrow> f64 \<Rightarrow> slo_status \<times> string list" where
  "slo_verdict d v =
     (if sd_is_upper_bound d
      then (if flt (sd_breach_threshold d) v then (SloBreached, [msg_breaches v (sd_breach_threshold d)])
            else if flt (sd_warning_threshold d) v then (SloWarning, [msg_exceeds v (sd_warning_threshold d)])
            else (SloHealthy, []))
      else (if flt v (sd_breach_threshold d) then (SloBreached, [msg_below v (sd_breach_threshold d)])
            else if flt v (sd_warning_threshold d) then (SloWarning, [msg_zone v (sd_warning_threshold d)])
            else (SloHealthy, [])))"

text \<open>The error budget, what remains of it in percent, and the burn rate.\<close>

definition budget_left :: "f64 \<Rightarrow> f64 \<Rightarrow> f64 \<times> f64" where
  "budget_left used budget =
     (if fle used (Fin 0) then (Fin 100, Fin 0)
      else (let frac = fsub (Fin 1) (fdiv used budget); frac = (if flt frac (Fin 0) then Fin 0 else frac) in
        (fmul frac (Fin 100), fdiv used budget)))"

definition slo_budget :: "slo_definition \<Rightarrow> f64" where
  "slo_budget d =
     (if sd_is_upper_bound d then (if fle (sd_target d) (Fin 0) then Fin 1 else sd_target d)
      else (let b = fsub (Fin 1) (sd_target d) in if fle b (Fin 0) then to_f64 (1 / 10000) else b))"

definition slo_used :: "slo_definition \<Rightarrow> f64 \<Rightarrow> f64" where
  "slo_used d v = (if sd_is_upper_bound d then v else fsub (Fin 1) v)"

definition round_cents :: "f64 \<Rightarrow> f64" where
  "round_cents x = fdiv (fround (fmul x (Fin 100))) (Fin 100)"

definition slo_metric_of :: "slo_definition \<Rightarrow> f64 \<Rightarrow> int \<Rightarrow> int \<Rightarrow> gotime \<Rightarrow> slo_metric" where
  "slo_metric_of d v samples viols now =
     (let (status, texts) = slo_verdict d v; (remaining, burn) = budget_left (slo_used d v) (slo_budget d) in
      \<lparr>sm_slo_id = sd_id d, sm_name = sd_name d, sm_current_value = v, sm_target = sd_target d, sm_status = status,
       sm_error_budget = slo_budget d, sm_error_budget_remaining = round_cents remaining, sm_burn_rate = round_cents burn,
       sm_measurement_window = duration_string (sd_window_duration d), sm_sample_count = samples,
       sm_violations_count = viols, sm_calculated_at = now, sm_violations = texts\<rparr>)"

definition eval_single_slo :: "string \<Rightarrow> f64 \<Rightarrow> int \<Rightarrow> int \<Rightarrow> gotime \<Rightarrow> slo_engine \<Rightarrow> (string \<times> slo_metric) list" where
  "eval_single_slo slo v samples viols now e =
     (case map_of (se_definitions e) slo of None \<Rightarrow> [] | Some d \<Rightarrow> [(slo, slo_metric_of d v samples viols now)])"

subsection \<open>All objectives\<close>

definition slo_percentile :: "f64 list \<Rightarrow> f64 \<Rightarrow> f64" where
  "slo_percentile xs p =
     (if xs = [] then Fin 0
      else if length xs = 1 then xs ! 0
      else
        (let idx = to_int64 (fceil (fmul p (of_int64 (int (length xs))))) - 1;
             idx = (if idx < 0 then 0 else idx);
             idx = (if int (length xs) \<le> idx then int (length xs) - 1 else idx)
         in xs ! nat idx))"

text \<open>A rate, and its value while nothing was counted.\<close>

definition rate_or :: "f64 \<Rightarrow> int \<Rightarrow> int \<Rightarrow> f64" where
  "rate_or dflt k n = (if 0 < n then fdiv (of_int64 k) (of_int64 n) else dflt)"

definition recent_samples :: "gotime \<Rightarrow> slo_engine \<Rightarrow> eval_sample list" where
  "recent_samples now e = filter (\<lambda>s. now - se_window_duration e < es_timestamp s) (ring_live (se_evals e))"

definition count_if :: "('a \<Rightarrow> bool) \<Rightarrow> 'a list \<Rightarrow> int" where
  "count_if P xs = int (length (filter P xs))"

definition dep_totals :: "slo_engine \<Rightarrow> int \<times> int" where
  "dep_totals e = foldl (\<lambda>(t, s) (dep, n). (t + n, s + count_of dep (se_dep_success e))) (0, 0) (se_dep_total e)"

definition slo_measurements :: "gotime \<Rightarrow> slo_engine \<Rightarrow> (string \<times> slo_metric) list" where
  "slo_measurements now e =
     (let recent = recent_samples now e; total = int (length recent);
          ok = count_if es_is_success recent; fb = count_if es_is_fallback recent; err = count_if es_is_infer_error recent;
          lats = sort (map es_latency_ms recent);
          div_n = int (rg_count (se_divergence e)); div_k = count_if (\<lambda>d. d) (ring_live (se_divergence e));
          (dep_n, dep_k) = dep_totals e in
      eval_single_slo ''slo_availability'' (rate_or (Fin 1) ok total) total (total - ok) now e @
      eval_single_slo ''slo_p95_latency'' (slo_percentile lats (to_f64 (95 / 100))) (int (length lats)) 0 now e @
      eval_single_slo ''slo_p99_latency'' (slo_percentile lats (to_f64 (99 / 100))) (int (length lats)) 0 now e @
      eval_single_slo ''slo_inference_error_rate'' (rate_or (Fin 0) err total) total err now e @
      eval_single_slo ''slo_fallback_rate'' (rate_or (Fin 0) fb total) total fb now e @
      eval_single_slo ''slo_model_decision_divergence'' (rate_or (Fin 0) div_k div_n) div_n 0 now e @
      eval_single_slo ''slo_drift_health'' (se_last_max_psi e) 1 0 now e @
      eval_single_slo ''slo_retraining_success_rate'' (rate_or (Fin 1) (se_retraining_success e) (se_retraining_total e))
        (se_retraining_total e) (se_retraining_total e - se_retraining_success e) now e @
      eval_single_slo ''slo_canary_rollback_rate'' (rate_or (Fin 0) (se_canary_rollbacks e) (se_canary_total e))
        (se_canary_total e) (se_canary_rollbacks e) now e @
      eval_single_slo ''slo_dependency_availability'' (rate_or (Fin 1) dep_k dep_n) dep_n (dep_n - dep_k) now e)"

definition count_status :: "slo_metric \<Rightarrow> slo_summary \<Rightarrow> slo_summary" where
  "count_status m s =
     (case sm_status m of
        SloHealthy \<Rightarrow> s\<lparr>ss_healthy_count := ss_healthy_count s + 1\<rparr>
      | SloWarning \<Rightarrow> s\<lparr>ss_warning_count := ss_warning_count s + 1,
          ss_overall_status := (if ss_overall_status s \<noteq> SloBreached then SloWarning else ss_overall_status s)\<rparr>
      | SloBreached \<Rightarrow> s\<lparr>ss_breached_count := ss_breached_count s + 1, ss_overall_status := SloBreached\<rparr>
      | SloUnknown \<Rightarrow> s)"

definition slo_evaluate :: "gotime \<Rightarrow> gotime \<Rightarrow> slo_engine \<Rightarrow> slo_summary" where
  "slo_evaluate clock now0 e =
     (let now = (if now0 = zero_time then clock else now0); ms = slo_measurements now e in
      fold count_status (map snd ms)
        \<lparr>ss_overall_status = SloHealthy, ss_total_slos = int (length ms), ss_healthy_count = 0, ss_warning_count = 0,
         ss_breached_count = 0, ss_calculated_at = now, ss_measurements = ms\<rparr>)"

subsection \<open>What is measured\<close>

text \<open>The summary counts the statuses, and its own status is the worst of them.\<close>

lemma fold_count_status:
  "ss_measurements (fold count_status ms s) = ss_measurements s \<and>
   ss_calculated_at (fold count_status ms s) = ss_calculated_at s \<and>
   ss_total_slos (fold count_status ms s) = ss_total_slos s \<and>
   ss_healthy_count (fold count_status ms s) = ss_healthy_count s + count_if (\<lambda>m. sm_status m = SloHealthy) ms \<and>
   ss_warning_count (fold count_status ms s) = ss_warning_count s + count_if (\<lambda>m. sm_status m = SloWarning) ms \<and>
   ss_breached_count (fold count_status ms s) = ss_breached_count s + count_if (\<lambda>m. sm_status m = SloBreached) ms"
  by (induction ms arbitrary: s) (simp_all add: count_status_def count_if_def split: slo_status.split)

lemma fold_overall_status:
  "ss_overall_status (fold count_status ms s) =
     (if ss_overall_status s = SloBreached \<or> (\<exists>m \<in> set ms. sm_status m = SloBreached) then SloBreached
      else if \<exists>m \<in> set ms. sm_status m = SloWarning then SloWarning else ss_overall_status s)"
  by (induction ms arbitrary: s) (auto simp: count_status_def split: slo_status.split)

lemma measurements_of_evaluate: "ss_measurements (slo_evaluate clock now e) =
    slo_measurements (if now = zero_time then clock else now) e"
  by (simp add: slo_evaluate_def fold_count_status Let_def)

lemma overall_of_evaluate:
  "ss_overall_status (slo_evaluate clock now e) =
     (if \<exists>m \<in> snd ` set (ss_measurements (slo_evaluate clock now e)). sm_status m = SloBreached then SloBreached
      else if \<exists>m \<in> snd ` set (ss_measurements (slo_evaluate clock now e)). sm_status m = SloWarning then SloWarning
      else SloHealthy)"
  by (simp add: measurements_of_evaluate) (simp add: slo_evaluate_def fold_overall_status Let_def)

lemma slo_percentile_calc: "slo_percentile xs p = (if xs = [] then Fin 0 else calc_pct xs p)"
  by (simp add: slo_percentile_def calc_pct_def)

text \<open>A run of recorded evaluations, each with its arrival time.\<close>

definition record_sample :: "eval_sample \<Rightarrow> slo_engine \<Rightarrow> slo_engine" where
  "record_sample s = record_evaluation (es_latency_ms s) (es_is_success s) (es_is_fallback s) (es_is_infer_error s) (es_timestamp s)"

lemma record_sample_push: "record_sample s e = e\<lparr>se_evals := ring_push s (se_evals e)\<rparr>"
  by (cases s) (simp add: record_sample_def record_evaluation_def)

lemma record_samples:
  "fold record_sample xs e = e\<lparr>se_evals := fold ring_push xs (se_evals e)\<rparr>"
  by (induction xs arbitrary: e) (simp_all add: record_sample_push)

definition engine_ok :: "slo_engine \<Rightarrow> bool" where
  "engine_ok e \<longleftrightarrow> ring_ok (se_evals e) \<and> ring_cap (se_evals e) = 2000 \<and> ring_ok (se_divergence e) \<and>
     se_definitions e = default_definitions (se_window_duration e)"

lemma new_engine_ok: "engine_ok (new_slo_engine w)" "ring_items (se_evals (new_slo_engine w)) = []"
  by (simp_all add: engine_ok_def new_slo_engine_def ring_new_ok ring_new_items Let_def)

lemma engine_ok_sample: "engine_ok e \<Longrightarrow> engine_ok (record_sample s e)"
  by (simp add: engine_ok_def record_sample_push ring.ok_push)

text \<open>The live samples in the order they were recorded; the code sees them in the order of the ring.\<close>

definition window_samples :: "gotime \<Rightarrow> slo_engine \<Rightarrow> eval_sample list" where
  "window_samples now e = filter (\<lambda>s. now - se_window_duration e < es_timestamp s) (ring_items (se_evals e))"

lemma recent_mset: "engine_ok e \<Longrightarrow> mset (recent_samples now e) = mset (window_samples now e)"
  by (simp add: recent_samples_def window_samples_def ring_live_mset engine_ok_def)

lemma count_if_mset: "mset xs = mset ys \<Longrightarrow> count_if P xs = count_if P ys"
  by (metis count_if_def mset_filter size_mset)

lemma sort_mset: "mset xs = mset ys \<Longrightarrow> sort xs = sort (ys :: 'a::linorder list)"
  by (metis properties_for_sort mset_sort sorted_sort)

lemma recent_statistics:
  assumes "engine_ok e"
  shows "length (recent_samples now e) = length (window_samples now e)"
    "count_if P (recent_samples now e) = count_if P (window_samples now e)"
    "sort (map f (recent_samples now e)) = sort (map f (window_samples now e) :: f64 list)"
proof -
  note m = recent_mset [OF assms, of now]
  show "length (recent_samples now e) = length (window_samples now e)" using m by (metis size_mset)
  show "count_if P (recent_samples now e) = count_if P (window_samples now e)" using m by (rule count_if_mset)
  have "mset (map f (recent_samples now e)) = mset (map f (window_samples now e))" using m by simp
  then show "sort (map f (recent_samples now e)) = sort (map f (window_samples now e) :: f64 list)" by (rule sort_mset)
qed

definition measured :: "string \<Rightarrow> gotime \<Rightarrow> slo_engine \<Rightarrow> slo_metric option" where
  "measured slo now e = map_of (slo_measurements now e) slo"

lemma measured_simps:
  assumes "engine_ok e"
  shows "map fst (slo_measurements now e) = map fst (default_definitions (se_window_duration e))"
    and "measured ''slo_availability'' now e = Some (slo_metric_of (slo_availability (se_window_duration e))
        (rate_or (Fin 1) (count_if es_is_success (window_samples now e)) (int (length (window_samples now e))))
        (int (length (window_samples now e)))
        (int (length (window_samples now e)) - count_if es_is_success (window_samples now e)) now)"
    and "measured ''slo_p95_latency'' now e = Some (slo_metric_of (slo_p95_latency (se_window_duration e))
        (slo_percentile (sort (map es_latency_ms (window_samples now e))) (to_f64 (95 / 100)))
        (int (length (window_samples now e))) 0 now)"
    and "measured ''slo_p99_latency'' now e = Some (slo_metric_of (slo_p99_latency (se_window_duration e))
        (slo_percentile (sort (map es_latency_ms (window_samples now e))) (to_f64 (99 / 100)))
        (int (length (window_samples now e))) 0 now)"
    and "measured ''slo_fallback_rate'' now e = Some (slo_metric_of (slo_fallback_rate (se_window_duration e))
        (rate_or (Fin 0) (count_if es_is_fallback (window_samples now e)) (int (length (window_samples now e))))
        (int (length (window_samples now e))) (count_if es_is_fallback (window_samples now e)) now)"
    and "measured ''slo_drift_health'' now e = Some (slo_metric_of (slo_drift_health (se_window_duration e)) (se_last_max_psi e) 1 0 now)"
proof -
  have d: "se_definitions e = default_definitions (se_window_duration e)" using assms by (simp add: engine_ok_def)
  note defs = slo_measurements_def measured_def eval_single_slo_def d default_definitions_def Let_def split_beta
    slo_availability_def slo_p95_latency_def slo_p99_latency_def slo_inference_error_rate_def slo_fallback_rate_def
    slo_model_decision_divergence_def slo_drift_health_def slo_retraining_success_rate_def slo_canary_rollback_rate_def
    slo_dependency_availability_def
  show "map fst (slo_measurements now e) = map fst (default_definitions (se_window_duration e))" by (simp add: defs)
  show "measured ''slo_availability'' now e = Some (slo_metric_of (slo_availability (se_window_duration e))
        (rate_or (Fin 1) (count_if es_is_success (window_samples now e)) (int (length (window_samples now e))))
        (int (length (window_samples now e)))
        (int (length (window_samples now e)) - count_if es_is_success (window_samples now e)) now)"
    by (simp add: defs recent_statistics [OF assms])
  show "measured ''slo_p95_latency'' now e = Some (slo_metric_of (slo_p95_latency (se_window_duration e))
        (slo_percentile (sort (map es_latency_ms (window_samples now e))) (to_f64 (95 / 100)))
        (int (length (window_samples now e))) 0 now)"
    "measured ''slo_p99_latency'' now e = Some (slo_metric_of (slo_p99_latency (se_window_duration e))
        (slo_percentile (sort (map es_latency_ms (window_samples now e))) (to_f64 (99 / 100)))
        (int (length (window_samples now e))) 0 now)"
    by (simp_all add: defs recent_statistics [OF assms])
  show "measured ''slo_fallback_rate'' now e = Some (slo_metric_of (slo_fallback_rate (se_window_duration e))
        (rate_or (Fin 0) (count_if es_is_fallback (window_samples now e)) (int (length (window_samples now e))))
        (int (length (window_samples now e))) (count_if es_is_fallback (window_samples now e)) now)"
    "measured ''slo_drift_health'' now e = Some (slo_metric_of (slo_drift_health (se_window_duration e)) (se_last_max_psi e) 1 0 now)"
    by (simp_all add: defs recent_statistics [OF assms])
qed

lemma window_of_run:
  "window_samples now (fold record_sample xs (new_slo_engine w)) =
     filter (\<lambda>s. now - se_window_duration (new_slo_engine w) < es_timestamp s) (last_n 2000 xs)"
proof -
  have "ring_items (fold ring_push xs (se_evals (new_slo_engine w))) = last_n 2000 xs"
    using ring.items_pushes [of "se_evals (new_slo_engine w)" xs] new_engine_ok [of w] by (simp add: engine_ok_def)
  then show ?thesis by (simp add: window_samples_def record_samples)
qed

lemma run_engine_ok: "engine_ok (fold record_sample xs (new_slo_engine w))"
  using new_engine_ok(1) engine_ok_sample by (induction xs rule: rev_induct) simp_all

text \<open>
  C23: the objectives are computed from the newest two thousand evaluations of the window.  After any run of
  recorded evaluations, whatever the ring has overwritten, availability is the share of successes among
  those of the newest 2000 that are younger than the window, and the two latencies are their percentiles.
\<close>

theorem slo_window_semantics:
  "let live = filter (\<lambda>s. now - se_window_duration (new_slo_engine w) < es_timestamp s) (last_n 2000 xs);
       e = fold record_sample xs (new_slo_engine w); win = se_window_duration (new_slo_engine w); n = int (length live) in
   measured ''slo_availability'' now e = Some (slo_metric_of (slo_availability win)
     (rate_or (Fin 1) (count_if es_is_success live) n) n (n - count_if es_is_success live) now) \<and>
   measured ''slo_fallback_rate'' now e = Some (slo_metric_of (slo_fallback_rate win)
     (rate_or (Fin 0) (count_if es_is_fallback live) n) n (count_if es_is_fallback live) now) \<and>
   measured ''slo_p95_latency'' now e = Some (slo_metric_of (slo_p95_latency win)
     (slo_percentile (sort (map es_latency_ms live)) (to_f64 (95 / 100))) n 0 now) \<and>
   measured ''slo_p99_latency'' now e = Some (slo_metric_of (slo_p99_latency win)
     (slo_percentile (sort (map es_latency_ms live)) (to_f64 (99 / 100))) n 0 now)"
proof -
  have win: "se_window_duration (fold record_sample xs (new_slo_engine w)) = se_window_duration (new_slo_engine w)"
    by (simp add: record_samples)
  show ?thesis
    unfolding Let_def
    using measured_simps [OF run_engine_ok [of xs w], of now, unfolded win window_of_run] by blast
qed

subsection \<open>The error budget\<close>

text \<open>Nothing remains of the budget once it is used up.\<close>

lemma fdiv_ge_1: "0 < b \<Longrightarrow> b \<le> a \<Longrightarrow> fle (Fin 1) (fdiv (Fin a) (Fin b))"
  using to_f64_mono [of 1 "a / b"] to_f64_of_int [of 1] by simp

lemma used_up:
  assumes "0 < b" "b \<le> a"
  shows "fst (budget_left (Fin a) (Fin b)) = Fin 0"
proof -
  have "fle (Fin 1) (fdiv (Fin a) (Fin b))" by (rule fdiv_ge_1 [OF assms])
  then have "fle (fsub (Fin 1) (fdiv (Fin a) (Fin b))) (Fin 0)"
    using to_f64_mono [of "1 - x" 0 for x] by (cases "fdiv (Fin a) (Fin b)") (auto simp: fsub_def)
  then show ?thesis
    using assms
    by (cases "fsub (Fin 1) (fdiv (Fin a) (Fin b))") (auto simp: budget_left_def Let_def split: if_splits)
qed

lemma round_cents_0 [simp]: "round_cents (Fin 0) = Fin 0"
proof -
  have "\<lfloor>1 / 2 :: rat\<rfloor> = 0" by (simp add: floor_eq_iff)
  then show ?thesis by (simp only: round_cents_def fmul.simps fdiv.simps fround.simps) simp
qed

end
