(* ===== verification/Error_Budget_Policy.thy ===== *)
theory Error_Budget_Policy
  imports SLO_Engine Retraining_Lifecycle
begin

text \<open>
  The error budget policy of \<open>internal/riskengine/error_budget_policy.go\<close>: it evaluates the objectives, takes
  the least remaining budget and freezes the models of the coordinator when it is nearly used up.  The
  order in which Go ranges over the measurements is an argument: the keys in that order.
\<close>

subsection \<open>Evaluation\<close>

datatype budget_action = BudgetHealthy | ThrottlePromotions | FreezePromotions | EmergencyModelFreeze

record budget_evaluation =
  be_timestamp :: gotime
  be_min_remaining_budget :: f64
  be_constrained_slo :: string
  be_action :: budget_action
  be_promotion_permitted :: bool
  be_auto_frozen_enacted :: bool
  be_reason :: string

definition fresh_evaluation :: "gotime \<Rightarrow> budget_evaluation" where
  "fresh_evaluation now = \<lparr>be_timestamp = now, be_min_remaining_budget = Fin 100, be_constrained_slo = '''',
     be_action = BudgetHealthy, be_promotion_permitted = True, be_auto_frozen_enacted = False, be_reason = ''''\<rparr>"

text \<open>The engine, with its evaluator, its coordinator and its last evaluation.\<close>

record budget_engine =
  bp_slo :: "slo_engine option"
  bp_coordinator :: "coordinator option"
  bp_last_eval :: budget_evaluation

definition new_budget_engine :: "slo_engine option \<Rightarrow> coordinator option \<Rightarrow> gotime \<Rightarrow> budget_engine" where
  "new_budget_engine slo co now = \<lparr>bp_slo = slo, bp_coordinator = co, bp_last_eval = fresh_evaluation now\<rparr>"

definition msg_no_slo_engine :: string where "msg_no_slo_engine = ''SLO engine not configured; defaulting to permitted''"
definition msg_exhausted :: "string \<Rightarrow> f64 \<Rightarrow> string" where
  "msg_exhausted slo r = ''Error budget exhausted on '' @ slo @ '' ('' @ fmt_fixed 2 r @ ''% remaining); enacting emergency model freeze''"
definition msg_low :: "string \<Rightarrow> f64 \<Rightarrow> string" where
  "msg_low slo r = ''Error budget critically low on '' @ slo @ '' ('' @ fmt_fixed 2 r @ ''% remaining); freezing model promotions''"
definition msg_throttled :: "string \<Rightarrow> f64 \<Rightarrow> string" where
  "msg_throttled slo r = ''Error budget warning on '' @ slo @ '' ('' @ fmt_fixed 2 r @ ''% remaining); non-essential promotions blocked''"
definition msg_all_healthy :: string where "msg_all_healthy = ''All SLO error budgets healthy''"

text \<open>The least remaining budget below 100 and its objective.\<close>

definition constrain :: "(string \<times> slo_metric) list \<Rightarrow> string \<Rightarrow> f64 \<times> string \<Rightarrow> f64 \<times> string" where
  "constrain ms k best =
     (case map_of ms k of None \<Rightarrow> best
      | Some m \<Rightarrow> if flt (sm_error_budget_remaining m) (fst best) then (sm_error_budget_remaining m, k) else best)"

definition most_constrained :: "string list \<Rightarrow> (string \<times> slo_metric) list \<Rightarrow> f64 \<times> string" where
  "most_constrained order ms = fold (constrain ms) order (Fin 100, '''')"

definition freeze_models :: "string \<Rightarrow> gotime \<Rightarrow> coordinator option \<Rightarrow> bool \<times> coordinator option" where
  "freeze_models reason now co =
     (case co of None \<Rightarrow> (False, None)
      | Some c \<Rightarrow> if get_operational_controls c ''model_frozen'' = Some True then (False, Some c)
          else (True, Some (set_model_frozen True ''ERROR_BUDGET_POLICY'' reason now c)))"

definition apply_policy ::
  "gotime \<Rightarrow> f64 \<times> string \<Rightarrow> coordinator option \<Rightarrow> budget_evaluation \<times> coordinator option" where
  "apply_policy now constrained co =
     (let (remaining, slo) = constrained;
          ev = (fresh_evaluation now)\<lparr>be_min_remaining_budget := remaining, be_constrained_slo := slo\<rparr> in
      if fle remaining (Fin 0) then
        (let (enacted, co') = freeze_models (msg_exhausted slo remaining) now co in
         (ev\<lparr>be_action := EmergencyModelFreeze, be_promotion_permitted := False, be_reason := msg_exhausted slo remaining,
            be_auto_frozen_enacted := enacted\<rparr>, co'))
      else if flt remaining (Fin 10) then
        (let (enacted, co') = freeze_models (msg_low slo remaining) now co in
         (ev\<lparr>be_action := FreezePromotions, be_promotion_permitted := False, be_reason := msg_low slo remaining,
            be_auto_frozen_enacted := enacted\<rparr>, co'))
      else if flt remaining (Fin 25) then
        (ev\<lparr>be_action := ThrottlePromotions, be_promotion_permitted := False, be_reason := msg_throttled slo remaining\<rparr>, co)
      else (ev\<lparr>be_action := BudgetHealthy, be_promotion_permitted := True, be_reason := msg_all_healthy\<rparr>, co))"

definition budget_evaluate :: "string list \<Rightarrow> gotime \<Rightarrow> budget_engine \<Rightarrow> budget_evaluation \<times> budget_engine" where
  "budget_evaluate order now pe =
     (case bp_slo pe of
        None \<Rightarrow> (let ev = (fresh_evaluation now)\<lparr>be_reason := msg_no_slo_engine\<rparr> in (ev, pe\<lparr>bp_last_eval := ev\<rparr>))
      | Some e \<Rightarrow>
          (let ms = ss_measurements (slo_evaluate now now e);
               (ev, co) = apply_policy now (most_constrained order ms) (bp_coordinator pe) in
           (ev, pe\<lparr>bp_coordinator := co, bp_last_eval := ev\<rparr>)))"

definition get_last_evaluation :: "budget_engine \<Rightarrow> budget_evaluation" where
  "get_last_evaluation = bp_last_eval"

subsection \<open>The least remaining budget\<close>

lemma constrain_fst:
  "fst (constrain ms k b) = (case map_of ms k of None \<Rightarrow> fst b | Some m \<Rightarrow>
     if flt (sm_error_budget_remaining m) (fst b) then sm_error_budget_remaining m else fst b)"
  by (simp add: constrain_def split: option.split)

lemma flt_trans_le: "fle x y \<Longrightarrow> flt y z \<Longrightarrow> flt x z" "flt x y \<Longrightarrow> fle y z \<Longrightarrow> flt x z"
  by (auto simp: flt_le intro: fle_trans dest: fle_antisym)

lemma fold_constrain:
  assumes "fst b \<noteq> NaN"
  shows "fle (fst (fold (constrain ms) order b)) (fst b) \<and>
    (\<forall>k m. k \<in> set order \<longrightarrow> map_of ms k = Some m \<longrightarrow> \<not> flt (sm_error_budget_remaining m) (fst (fold (constrain ms) order b)))"
  using assms
proof (induction order arbitrary: b)
  case Nil
  then show ?case by (simp add: fle_refl_iff)
next
  case (Cons k ks)
  have step: "fle (fst (constrain ms k b)) (fst b)" "fst (constrain ms k b) \<noteq> NaN"
    using Cons.prems by (auto simp: constrain_fst fle_refl_iff flt_le dest: fle_not_nan split: option.split)
  have here: "\<not> flt (sm_error_budget_remaining m) (fst (constrain ms k b))" if "map_of ms k = Some m" for m
    using that by (auto simp: constrain_fst flt_le)
  have "\<not> flt (sm_error_budget_remaining m) (fst (fold (constrain ms) ks (constrain ms k b)))"
    if "map_of ms k = Some m" for m
    using here [OF that] Cons.IH [OF step(2)] flt_trans_le(2) by blast
  then show ?case using Cons.IH [OF step(2)] step(1) by (auto intro: fle_trans)
qed

text \<open>One objective with a used up budget is enough for the emergency, in whatever order it is met.\<close>

lemma most_constrained_le:
  assumes "slo \<in> set order" "map_of ms slo = Some m" "fle (sm_error_budget_remaining m) x"
  shows "fle (fst (most_constrained order ms)) x"
proof -
  have "fst (most_constrained order ms) \<noteq> NaN"
    using fold_constrain [of "(Fin 100, '''')" ms order] fle_not_nan by (fastforce simp: most_constrained_def)
  moreover have "\<not> flt (sm_error_budget_remaining m) (fst (most_constrained order ms))"
    using fold_constrain [of "(Fin 100, '''')" ms order] assms(1,2) by (auto simp: most_constrained_def)
  ultimately have "fle (fst (most_constrained order ms)) (sm_error_budget_remaining m)"
    using not_flt [of "sm_error_budget_remaining m"] fle_not_nan [OF assms(3)] by blast
  then show ?thesis using assms(3) by (rule fle_trans)
qed

subsection \<open>What a low budget does\<close>

lemma freeze_models_freezes:
  assumes "freeze_models why now (Some c) = (b, co)"
  obtains c' where "co = Some c'" "co_frozen c'" "production_pointer c' = production_pointer c"
  using assms that by (auto simp: freeze_models_def get_operational_controls_def split: if_splits)

lemma set_frozen_frames [simp]:
  "co_frozen (set_model_frozen b a w now c) = b"
  "production_pointer (set_model_frozen b a w now c) = production_pointer c"
  by (simp_all add: set_model_frozen_def log_toggle_def)


lemma emergency_action:
  assumes "bp_slo pe = Some e" "fle (fst (most_constrained order (slo_measurements now e))) (Fin 0)"
  shows "be_action (fst (budget_evaluate order now pe)) = EmergencyModelFreeze"
  using assms by (auto simp: budget_evaluate_def measurements_of_evaluate apply_policy_def Let_def split: prod.splits)

lemma emergency_freezes:
  assumes "bp_slo pe = Some e" "fle (fst (most_constrained order (slo_measurements now e))) (Fin 0)" "bp_coordinator pe = Some c"
  shows "be_action (fst (budget_evaluate order now pe)) = EmergencyModelFreeze \<and>
    map_option co_frozen (bp_coordinator (snd (budget_evaluate order now pe))) = Some True"
proof -
  obtain r slo where m: "most_constrained order (slo_measurements now e) = (r, slo)" by (metis surj_pair)
  obtain b co where f: "freeze_models (msg_exhausted slo r) now (Some c) = (b, co)" by (metis surj_pair)
  obtain c' where "co = Some c'" "co_frozen c'" by (rule freeze_models_freezes [OF f])
  then show ?thesis
    using emergency_action [OF assms(1,2)] assms m f
    by (simp add: budget_evaluate_def measurements_of_evaluate apply_policy_def Let_def)
qed

subsection \<open>The first failure\<close>

lemma availability_target: "to_f64 (999 / 1000) = Fin (8998192055486251 / 9007199254740992)"
  by code_simp

lemma availability_used_up:
  assumes "0 \<le> k" "k < n" "n \<le> 1000"
  shows "sm_error_budget_remaining (slo_metric_of (slo_availability w) (rate_or (Fin 1) k n) s v now) = Fin 0"
proof -
  have le: "(of_int k :: rat) / of_int n \<le> 999 / 1000"
  proof -
    have "1000 * k \<le> 999 * n" using assms by linarith
    then have "(1000 :: rat) * of_int k \<le> 999 * of_int n" by (metis of_int_le_iff of_int_mult of_int_numeral)
    then show ?thesis using assms by (simp add: field_simps)
  qed
  have ge: "0 \<le> (of_int k :: rat) / of_int n" using assms by simp
  obtain a where a: "to_f64 (of_int k / of_int n) = Fin a" "0 \<le> a" "a \<le> 1"
    using to_f64_unit [OF ge] order.trans [OF le, of 1] by auto
  let ?t = "8998192055486251 / 9007199254740992 :: rat"
  have at: "a \<le> ?t" using to_f64_mono [OF le] a availability_target by simp
  obtain b where b: "to_f64 (1 - ?t) = Fin b" "0 < b"
  proof -
    have "to_f64 (1 - ?t) = Fin (9007199254741 / 9007199254740992)" by code_simp
    then show ?thesis by (rule that) simp
  qed
  obtain u where u: "to_f64 (1 - a) = Fin u" using to_f64_unit [of "1 - a"] a by fastforce
  have bu: "b \<le> u" using to_f64_mono [of "1 - ?t" "1 - a"] at b u by simp
  have rate: "rate_or (Fin 1) k n = Fin a"
    using assms a by (simp add: rate_or_def of_int64_exact)
  have d: "sd_is_upper_bound (slo_availability w) = False" "sd_target (slo_availability w) = Fin ?t"
    by (simp_all add: slo_availability_def availability_target)
  have "slo_used (slo_availability w) (Fin a) = Fin u" "slo_budget (slo_availability w) = Fin b"
    using u b by (simp_all add: slo_used_def slo_budget_def d Let_def)
  then show ?thesis
    using used_up [OF b(2) bu] by (simp add: slo_metric_of_def rate split_beta)
qed

lemma failure_exhausts_budget:
  assumes "\<forall>s \<in> set xs. now - se_window_duration (new_slo_engine w) < es_timestamp s" "length xs \<le> 1000"
    and "\<exists>s \<in> set xs. \<not> es_is_success s" "''slo_availability'' \<in> set order"
  shows "fle (fst (most_constrained order (slo_measurements now (fold record_sample xs (new_slo_engine w))))) (Fin 0)"
proof -
  let ?e = "fold record_sample xs (new_slo_engine w)"
  have win: "window_samples now ?e = xs"
    using assms(1,2) by (simp add: window_of_run last_n_all)
  have less: "count_if es_is_success xs < int (length xs)"
    using assms(3) by (auto simp: count_if_def intro: length_filter_less)
  have "0 \<le> count_if es_is_success xs" "int (length xs) \<le> 1000" using assms(2) by (simp_all add: count_if_def)
  note used = availability_used_up [OF this(1) less this(2)]
  have "map_of (slo_measurements now ?e) ''slo_availability'' = Some (slo_metric_of (slo_availability (se_window_duration ?e))
      (rate_or (Fin 1) (count_if es_is_success xs) (int (length xs))) (int (length xs)) (int (length xs) - count_if es_is_success xs) now)"
    using measured_simps(2) [OF run_engine_ok [of xs w], of now] by (simp only: measured_def win)
  then show ?thesis by (rule most_constrained_le [OF assms(4)]) (simp add: used)
qed

text \<open>
  C17: one failure among the first thousand requests freezes the models.  The objective of 99.9 percent is
  judged from the first sample on: as long as the window holds at most a thousand evaluations, a single
  failed one uses up the whole budget, and the policy answers with the emergency freeze.
\<close>

theorem one_early_failure_freezes:
  assumes "bp_slo pe = Some (fold record_sample xs (new_slo_engine w))" "bp_coordinator pe = Some c"
    and "\<forall>s \<in> set xs. now - se_window_duration (new_slo_engine w) < es_timestamp s" "length xs \<le> 1000"
    and "\<exists>s \<in> set xs. \<not> es_is_success s" "''slo_availability'' \<in> set order"
  shows "be_action (fst (budget_evaluate order now pe)) = EmergencyModelFreeze \<and>
    map_option co_frozen (bp_coordinator (snd (budget_evaluate order now pe))) = Some True"
  using emergency_freezes [OF assms(1) failure_exhausts_budget [OF assms(3-6)] assms(2)] .

subsection \<open>An emergency without a breach\<close>

lemma drift_target: "to_f64 (200 / 1000) = Fin (3602879701896397 / 18014398509481984)" by code_simp
lemma drift_breach: "to_f64 (250 / 1000) = Fin (1 / 4)" by code_simp
lemma drift_warning: "to_f64 (100 / 1000) = Fin (3602879701896397 / 36028797018963968)" by code_simp

lemmas drift_constants = drift_target drift_breach drift_warning

text \<open>
  the policy freezes the models while the objective is only in its warning zone.  The budget of the drift
  objective is its target of 0.20, but it is breached only above 0.25: in between the objective has the
  status WARNING and no budget left.
\<close>

theorem drift_warning_is_emergency:
  assumes "bp_slo pe = Some e" "engine_ok e" "se_last_max_psi e = Fin p" "fle (to_f64 (200 / 1000)) (Fin p)" "p \<le> 1 / 4"
    and "''slo_drift_health'' \<in> set order"
  shows "map_option sm_status (measured ''slo_drift_health'' now e) = Some SloWarning \<and>
    be_action (fst (budget_evaluate order now pe)) = EmergencyModelFreeze"
proof -
  let ?d = "slo_drift_health (se_window_duration e)"
  have m: "measured ''slo_drift_health'' now e = Some (slo_metric_of ?d (Fin p) 1 0 now)"
    using measured_simps(6) [OF assms(2)] assms(3) by simp
  have d: "sd_is_upper_bound ?d" "sd_target ?d = Fin (3602879701896397 / 18014398509481984)" "sd_breach_threshold ?d = Fin (1 / 4)"
    "sd_warning_threshold ?d = Fin (3602879701896397 / 36028797018963968)"
    by (simp_all add: slo_drift_health_def drift_constants [simplified])
  have p: "3602879701896397 / 18014398509481984 \<le> p" using assms(4) by (simp add: drift_constants [simplified])
  have "sm_status (slo_metric_of ?d (Fin p) 1 0 now) = SloWarning"
    using d p assms(5) by (simp add: slo_metric_of_def slo_verdict_def split_beta)
  moreover have rem: "sm_error_budget_remaining (slo_metric_of ?d (Fin p) 1 0 now) = Fin 0"
    using used_up [OF _ p] d by (simp add: slo_metric_of_def slo_used_def slo_budget_def split_beta)
  have "fle (fst (most_constrained order (slo_measurements now e))) (Fin 0)"
    by (rule most_constrained_le [OF assms(6) m [unfolded measured_def]]) (simp only: rem fle.simps order_refl)
  ultimately show ?thesis using m emergency_action [OF assms(1)] by simp
qed

text \<open>The freeze is not lifted when the budget recovers.\<close>

lemma recovery_keeps_freeze:
  assumes "bp_coordinator pe = Some c" "co_frozen c"
  shows "map_option co_frozen (bp_coordinator (snd (budget_evaluate order now pe))) = Some True"
  using assms by (auto simp: budget_evaluate_def apply_policy_def freeze_models_def get_operational_controls_def Let_def
      split: option.split prod.splits if_splits)

subsection \<open>Witnesses\<close>

definition one_failure :: "eval_sample list" where
  "one_failure = [\<lparr>es_timestamp = 5000 * second, es_latency_ms = Fin 12, es_is_success = False, es_is_fallback = True,
     es_is_infer_error = False\<rparr>]"

definition policy_after_failure :: budget_engine where
  "policy_after_failure = new_budget_engine (Some (fold record_sample one_failure (new_slo_engine 0)))
     (Some (ls_co fresh_system)) 1000"

lemma one_early_failure_freezes_witness:
  "be_action (fst (budget_evaluate [''slo_availability''] (5001 * second) policy_after_failure)) = EmergencyModelFreeze \<and>
   map_option co_frozen (bp_coordinator (snd (budget_evaluate [''slo_availability''] (5001 * second) policy_after_failure))) = Some True"
  by (rule one_early_failure_freezes [of _ one_failure 0])
     (simp_all add: policy_after_failure_def new_budget_engine_def one_failure_def new_slo_engine_def Let_def minute_def second_def)


lemma drift_warning_is_emergency_witness:
  "let e = record_drift_metrics (Fin (22 / 100)) DsDegraded 1000 (new_slo_engine 0) in
   be_action (fst (budget_evaluate [''slo_drift_health''] 2000 (new_budget_engine (Some e) None 1000))) = EmergencyModelFreeze"
  using drift_warning_is_emergency [of "new_budget_engine (Some (record_drift_metrics (Fin (22 / 100)) DsDegraded 1000 (new_slo_engine 0))) None 1000"
      "record_drift_metrics (Fin (22 / 100)) DsDegraded 1000 (new_slo_engine 0)" "22 / 100" "[''slo_drift_health'']" 2000]
    new_engine_ok(1) [of 0]
  by (simp add: new_budget_engine_def record_drift_metrics_def engine_ok_def drift_constants [simplified])

end
