(* ===== verification/Feature_Stores.thy ===== *)
theory Feature_Stores
  imports Device_Velocity Device_Identity
begin

text \<open>
  The remaining feature stores of \<open>internal/features\<close>: velocity of addresses and tokens (\<open>velocity.go\<close>), counts
  of a device (\<open>device_redis.go\<close>), accounts and devices (\<open>account_device.go\<close>), payment tokens and devices
  (\<open>payment_token.go\<close>).  As in \<open>Device_Velocity\<close> the pipelines are lists of commands and the answers of
  the server are arguments; \<open>None\<close> is an error of the pipeline.
\<close>

subsection \<open>Addresses and tokens\<close>

record velocity_metrics =
  vm_txn_count_ip_1h :: int
  vm_txn_count_token_24h :: int

definition ip_velocity_key :: "string \<Rightarrow> string \<Rightarrow> string" where "ip_velocity_key tenant ip = tenant @ '':velocity:ip:'' @ ip"
definition token_velocity_key :: "string \<Rightarrow> string \<Rightarrow> string" where
  "token_velocity_key tenant tok = tenant @ '':velocity:token:'' @ tok"

definition velocity_event_record :: "string \<Rightarrow> string \<Rightarrow> string \<Rightarrow> int \<Rightarrow> gotime \<Rightarrow> redis_cmd list" where
  "velocity_event_record tenant ip tok amount now =
     (let m = itoa now @ '':'' @ itoa amount; score = of_int64 (unix_milli now) in
      (if ip = '''' then []
       else [ZAdd (ip_velocity_key tenant ip) score m, ZRemRangeByScore (ip_velocity_key tenant ip) ''-inf'' (float_millis (now - 2 * hour)),
         Expire (ip_velocity_key tenant ip) (3 * hour)]) @
      (if tok = '''' then []
       else [ZAdd (token_velocity_key tenant tok) score m,
         ZRemRangeByScore (token_velocity_key tenant tok) ''-inf'' (float_millis (now - 25 * hour)),
         Expire (token_velocity_key tenant tok) (26 * hour)]))"

definition velocity_metrics_query :: "string \<Rightarrow> string \<Rightarrow> string \<Rightarrow> gotime \<Rightarrow> redis_cmd list" where
  "velocity_metrics_query tenant ip tok now =
     (if ip = '''' then [] else [ZCount (ip_velocity_key tenant ip) (itoa (unix_milli (now - hour))) (itoa (unix_milli now))]) @
     (if tok = '''' then []
      else [ZCount (token_velocity_key tenant tok) (itoa (unix_milli (now - 24 * hour))) (itoa (unix_milli now))])"

text \<open>The answer has the two counts; a count that was not asked for stays 0.\<close>

definition get_velocity_metrics :: "bool \<Rightarrow> string \<Rightarrow> string \<Rightarrow> (int \<times> int) option \<Rightarrow> velocity_metrics option" where
  "get_velocity_metrics client ip tok answer =
     (if \<not> client then Some \<lparr>vm_txn_count_ip_1h = 0, vm_txn_count_token_24h = 0\<rparr>
      else map_option (\<lambda>(i, t). \<lparr>vm_txn_count_ip_1h = (if ip = '''' then 0 else i),
        vm_txn_count_token_24h = (if tok = '''' then 0 else t)\<rparr>) answer)"

subsection \<open>Sanitizing accounts and tokens\<close>

definition clean_text :: "string \<Rightarrow> string option" where
  "clean_text raw =
     (let t = trim_space raw in
      if t = '''' \<or> 256 < length t then None
      else (case utf8_runes t of None \<Rightarrow> None
        | Some rs \<Rightarrow> if \<exists>r \<in> set rs. r = 0 \<or> is_control r \<and> r \<noteq> 9 then None else Some t))"

definition sanitize_account_id :: "string \<Rightarrow> string option" where "sanitize_account_id = clean_text"

definition raw_pan :: "string \<Rightarrow> bool" where
  "raw_pan t \<longleftrightarrow> 13 \<le> length t \<and> length t \<le> 19 \<and> list_all is_digit t"

definition sanitize_payment_token :: "string \<Rightarrow> string option" where
  "sanitize_payment_token raw = (case clean_text raw of None \<Rightarrow> None | Some t \<Rightarrow> if raw_pan t then None else Some t)"

definition hash_payment_token :: "string \<Rightarrow> string \<Rightarrow> string" where
  "hash_payment_token tenant tok = sha256_hex (tenant @ '':'' @ tok)"

subsection \<open>Counts of a device\<close>

record device_features =
  df_tx_count_1m :: int
  df_tx_count_1h :: int
  df_tx_count_24h :: int
  df_amount_sum_24h :: int
  df_unique_accounts_24h :: int
  df_unique_tokens_24h :: int
  df_seen_before :: int
  df_is_degraded :: bool
  df_degrade_reason :: string

definition plain_device_features :: "bool \<Rightarrow> string \<Rightarrow> device_features" where
  "plain_device_features degraded reason = \<lparr>df_tx_count_1m = 0, df_tx_count_1h = 0, df_tx_count_24h = 0, df_amount_sum_24h = 0,
     df_unique_accounts_24h = 0, df_unique_tokens_24h = 0, df_seen_before = 0, df_is_degraded = degraded, df_degrade_reason = reason\<rparr>"

definition device_unavailable :: string where "device_unavailable = ''DEVICE_FEATURE_STORE_UNAVAILABLE''"

definition key_of :: "string \<Rightarrow> string \<Rightarrow> string \<Rightarrow> string" where "key_of tenant kind ident = tenant @ '':'' @ kind @ '':'' @ ident"

record device_answer =
  da_count_1m :: int
  da_count_1h :: int
  da_events_24h :: "string list"
  da_accounts :: int
  da_tokens :: int
  da_known :: int

definition device_query :: "string \<Rightarrow> string \<Rightarrow> gotime \<Rightarrow> redis_cmd list" where
  "device_query tenant dev now =
     (let ago = (\<lambda>d. itoa (unix_milli (now - d))); n = itoa (unix_milli now) in
      [ZCount (key_of tenant ''vel:dev:1m'' dev) (ago minute) n, ZCount (key_of tenant ''vel:dev:1h'' dev) (ago hour) n,
       ZRangeByScore (key_of tenant ''vel:dev:24h'' dev) (ago (24 * hour)) n,
       ZRemRangeByScore (key_of tenant ''dev:acc24'' dev) ''-inf'' (ago (24 * hour)), ZCard (key_of tenant ''dev:acc24'' dev),
       ZRemRangeByScore (key_of tenant ''dev:tok24'' dev) ''-inf'' (ago (24 * hour)), ZCard (key_of tenant ''dev:tok24'' dev),
       Exists (key_of tenant ''dev:known'' dev)])"

definition get_device_features :: "bool \<Rightarrow> string \<Rightarrow> string \<Rightarrow> device_answer option \<Rightarrow> device_features \<times> bool" where
  "get_device_features client tenant dev answer =
     (if \<not> client \<or> dev = '''' \<or> tenant = '''' then (plain_device_features True device_unavailable, False)
      else (case answer of None \<Rightarrow> (plain_device_features True device_unavailable, True)
        | Some a \<Rightarrow> (\<lparr>df_tx_count_1m = da_count_1m a, df_tx_count_1h = da_count_1h a,
            df_tx_count_24h = int (length (da_events_24h a)), df_amount_sum_24h = foldl add64 0 (map member_amount (da_events_24h a)),
            df_unique_accounts_24h = da_accounts a, df_unique_tokens_24h = da_tokens a,
            df_seen_before = (if 0 < da_known a then 1 else 0), df_is_degraded = False, df_degrade_reason = ''''\<rparr>, False)))"

definition windowed_add :: "string \<Rightarrow> f64 \<Rightarrow> string \<Rightarrow> string \<Rightarrow> duration \<Rightarrow> redis_cmd list" where
  "windowed_add key score m oldest ttl = [ZAdd key score m, ZRemRangeByScore key ''-inf'' oldest, Expire key ttl]"

definition device_record ::
  "bool \<Rightarrow> string \<Rightarrow> string \<Rightarrow> string \<Rightarrow> int \<Rightarrow> string \<Rightarrow> string \<Rightarrow> gotime \<Rightarrow> redis_cmd list" where
  "device_record client tenant dev tx amount account tok now =
     (if \<not> client \<or> dev = '''' \<or> tenant = '''' then []
      else (let score = of_int64 (unix_milli now); m = itoa now @ ''_'' @ tx; day = float_millis (now - 25 * hour) in
        windowed_add (key_of tenant ''vel:dev:1m'' dev) score m (float_millis (now - 2 * minute)) (5 * minute) @
        windowed_add (key_of tenant ''vel:dev:1h'' dev) score m (float_millis (now - 2 * hour)) (3 * hour) @
        windowed_add (key_of tenant ''vel:dev:24h'' dev) score (m @ '':'' @ itoa amount) day (26 * hour) @
        (if account = '''' then [] else windowed_add (key_of tenant ''dev:acc24'' dev) score account day (26 * hour)) @
        (case sanitize_payment_token tok of None \<Rightarrow> []
          | Some t \<Rightarrow> windowed_add (key_of tenant ''dev:tok24'' dev) score (hash_payment_token tenant t) day (26 * hour)) @
        [SetKey (key_of tenant ''dev:known'' dev) ''1'' (90 * 24 * hour)]))"

subsection \<open>Accounts and devices\<close>

datatype multi_account_signal = MaNormal | MaLowSignal | MaSuspicious | MaHighSignal

fun multi_account_string :: "multi_account_signal \<Rightarrow> string" where
  "multi_account_string MaNormal = ''NORMAL''" | "multi_account_string MaLowSignal = ''LOW_SIGNAL''"
| "multi_account_string MaSuspicious = ''SUSPICIOUS''" | "multi_account_string MaHighSignal = ''HIGH_SIGNAL''"

record graph_features =
  gf_device_unique_accounts_1h :: int
  gf_device_unique_accounts_24h :: int
  gf_device_account_switches_1h :: int
  gf_device_account_switches_24h :: int
  gf_device_new_account_on_known_device :: int
  gf_multi_account_signal :: multi_account_signal
  gf_account_unique_devices_1h :: int
  gf_account_unique_devices_24h :: int
  gf_account_new_device_1h :: int
  gf_account_device_switches_24h :: int
  gf_device_account_seen_before :: int
  gf_device_account_age_days :: f64
  gf_device_account_tx_count :: int
  gf_is_degraded :: bool
  gf_degrade_reason :: string

definition plain_graph_features :: "bool \<Rightarrow> string \<Rightarrow> graph_features" where
  "plain_graph_features degraded reason = \<lparr>gf_device_unique_accounts_1h = 0, gf_device_unique_accounts_24h = 0,
     gf_device_account_switches_1h = 0, gf_device_account_switches_24h = 0, gf_device_new_account_on_known_device = 0,
     gf_multi_account_signal = MaNormal, gf_account_unique_devices_1h = 0, gf_account_unique_devices_24h = 0,
     gf_account_new_device_1h = 0, gf_account_device_switches_24h = 0, gf_device_account_seen_before = 0,
     gf_device_account_age_days = Fin 0, gf_device_account_tx_count = 0, gf_is_degraded = degraded, gf_degrade_reason = reason\<rparr>"

definition graph_unavailable :: string where "graph_unavailable = ''ACCOUNT_DEVICE_GRAPH_UNAVAILABLE''"

text \<open>\<open>strconv.ParseInt\<close> with its error ignored: 0 for what is no number, the nearest bound for one out of range.\<close>

definition parse_int64_or_bound :: "string \<Rightarrow> int" where
  "parse_int64_or_bound s =
     (let t = drop_sign s; n = foldl (\<lambda>a c. a * 10 + digit_value c) 0 t; i = (if has_prefix s ''-'' then - n else n) in
      if t = '''' \<or> \<not> list_all is_digit t then 0 else max (- (2 ^ 63)) (min (2 ^ 63 - 1) i))"

text \<open>The account of an element \<open>millis_transaction:account\<close> is what follows its first colon.\<close>

definition switch_item :: "string \<Rightarrow> (int \<times> string) option" where
  "switch_item item =
     (case str_index (CHR '':'') item of None \<Rightarrow> None
      | Some i \<Rightarrow> (let meta = take i item in
          Some ((case str_index (CHR ''_'') meta of None \<Rightarrow> 0
              | Some j \<Rightarrow> parse_int64_or_bound (take j meta)), drop (Suc i) item)))"

text \<open>The last account and the switches in an hour and in a day.\<close>

definition count_switch :: "int \<Rightarrow> string \<Rightarrow> string \<times> int \<times> int \<Rightarrow> string \<times> int \<times> int" where
  "count_switch hour_ago item = (\<lambda>(prev, n1h, n24h).
     (case switch_item item of None \<Rightarrow> (prev, n1h, n24h)
      | Some (ms, acc) \<Rightarrow>
          if prev \<noteq> '''' \<and> acc \<noteq> prev then (acc, if hour_ago \<le> ms then n1h + 1 else n1h, n24h + 1) else (acc, n1h, n24h)))"

definition account_switches :: "gotime \<Rightarrow> string list \<Rightarrow> int \<times> int" where
  "account_switches now items = snd (fold (count_switch (unix_milli (now - hour))) items ('''', 0, 0))"

definition classify_accounts :: "int \<Rightarrow> int \<Rightarrow> int \<Rightarrow> multi_account_signal" where
  "classify_accounts accounts24h switches1h devices24h =
     (if 10 \<le> accounts24h \<or> 5 \<le> switches1h then MaHighSignal
      else if 5 \<le> accounts24h \<or> 3 \<le> switches1h then MaSuspicious
      else if 2 \<le> accounts24h \<or> 2 \<le> devices24h then MaLowSignal
      else MaNormal)"

record graph_answer =
  ga_device_accounts_1h :: int
  ga_device_accounts_24h :: int
  ga_sequence :: "string list"
  ga_device_known :: int
  ga_account_devices_1h :: int
  ga_account_devices_24h :: int
  ga_relation_known :: int

definition graph_query :: "string \<Rightarrow> string \<Rightarrow> string \<Rightarrow> gotime \<Rightarrow> redis_cmd list" where
  "graph_query tenant dev account now =
     (let ago = (\<lambda>d. itoa (unix_milli (now - d)));
          pruned = (\<lambda>key d. [ZRemRangeByScore key ''-inf'' (ago d), ZCard key]) in
      pruned (key_of tenant ''dev:acc1h'' dev) hour @ pruned (key_of tenant ''dev:acc24'' dev) (24 * hour) @
      [ZRangeByScore (key_of tenant ''dev:acc_seq'' dev) (ago (24 * hour)) (itoa (unix_milli now)),
       Exists (key_of tenant ''dev:known'' dev)] @
      (case sanitize_account_id account of None \<Rightarrow> []
        | Some acc \<Rightarrow> pruned (key_of tenant ''acc:dev1h'' acc) hour @ pruned (key_of tenant ''acc:dev24'' acc) (24 * hour) @
            [Exists (key_of tenant ''dev_acc:known'' (dev @ '':'' @ acc))]))"

definition get_graph_features :: "bool \<Rightarrow> string \<Rightarrow> string \<Rightarrow> string \<Rightarrow> gotime \<Rightarrow> graph_answer option \<Rightarrow> graph_features \<times> bool" where
  "get_graph_features client tenant dev account now answer =
     (if \<not> client \<or> dev = '''' \<or> tenant = '''' then (plain_graph_features True graph_unavailable, False)
      else (case answer of None \<Rightarrow> (plain_graph_features True graph_unavailable, True)
        | Some a \<Rightarrow>
            (let has = sanitize_account_id account \<noteq> None; (s1, s24) = account_switches now (ga_sequence a);
                 d1 = (if has then ga_account_devices_1h a else 0); d24 = (if has then ga_account_devices_24h a else 0);
                 seen = (if has \<and> 0 < ga_relation_known a then 1 else 0) in
             (\<lparr>gf_device_unique_accounts_1h = ga_device_accounts_1h a, gf_device_unique_accounts_24h = ga_device_accounts_24h a,
               gf_device_account_switches_1h = s1, gf_device_account_switches_24h = s24,
               gf_device_new_account_on_known_device = (if has \<and> 0 < ga_device_known a \<and> seen = 0 then 1 else 0),
               gf_multi_account_signal = classify_accounts (ga_device_accounts_24h a) s1 d24,
               gf_account_unique_devices_1h = d1, gf_account_unique_devices_24h = d24,
               gf_account_new_device_1h = (if has \<and> d1 = 0 then 1 else 0), gf_account_device_switches_24h = 0,
               gf_device_account_seen_before = (seen :: int),
               gf_device_account_age_days = Fin 0, gf_device_account_tx_count = 0, gf_is_degraded = False, gf_degrade_reason = ''''\<rparr>, False))))"

definition switch_member :: "gotime \<Rightarrow> string \<Rightarrow> string \<Rightarrow> string" where
  "switch_member now tx account = itoa (unix_milli now) @ ''_'' @ tx @ '':'' @ account"

definition graph_record :: "bool \<Rightarrow> string \<Rightarrow> string \<Rightarrow> string \<Rightarrow> string \<Rightarrow> gotime \<Rightarrow> redis_cmd list" where
  "graph_record client tenant dev account tx now =
     (if \<not> client \<or> dev = '''' \<or> tenant = '''' then []
      else (case sanitize_account_id account of None \<Rightarrow> []
        | Some acc \<Rightarrow>
            (let score = of_int64 (unix_milli now); two = float_millis (now - 2 * hour); day = float_millis (now - 25 * hour) in
             windowed_add (key_of tenant ''dev:acc1h'' dev) score acc two (3 * hour) @
             windowed_add (key_of tenant ''dev:acc24'' dev) score acc day (26 * hour) @
             windowed_add (key_of tenant ''acc:dev1h'' acc) score dev two (3 * hour) @
             windowed_add (key_of tenant ''acc:dev24'' acc) score dev day (26 * hour) @
             windowed_add (key_of tenant ''dev:acc_seq'' dev) score (switch_member now tx acc) day (26 * hour) @
             [SetKey (key_of tenant ''dev_acc:known'' (dev @ '':'' @ acc)) ''1'' (90 * 24 * hour)])))"

subsection \<open>Payment tokens and devices\<close>

datatype card_testing_signal = CtNormal | CtLowSignal | CtSuspicious | CtHighSignal

fun card_testing_string :: "card_testing_signal \<Rightarrow> string" where
  "card_testing_string CtNormal = ''NORMAL''" | "card_testing_string CtLowSignal = ''LOW_SIGNAL''"
| "card_testing_string CtSuspicious = ''SUSPICIOUS''" | "card_testing_string CtHighSignal = ''HIGH_SIGNAL''"

datatype fan_out_signal = FoNormal | FoSuspicious | FoHighSignal

fun fan_out_string :: "fan_out_signal \<Rightarrow> string" where
  "fan_out_string FoNormal = ''NORMAL''" | "fan_out_string FoSuspicious = ''SUSPICIOUS''"
| "fan_out_string FoHighSignal = ''HIGH_SIGNAL''"

record card_testing_thresholds =
  ct_low_unique_tokens_5m :: int
  ct_suspicious_unique_tokens_5m :: int
  ct_suspicious_unique_tokens_1h :: int
  ct_high_unique_tokens_5m :: int
  ct_high_unique_tokens_1h :: int
  ct_high_tx_across_tokens_1h :: int

definition global_card_testing_thresholds :: card_testing_thresholds where
  "global_card_testing_thresholds = \<lparr>ct_low_unique_tokens_5m = 3, ct_suspicious_unique_tokens_5m = 5,
     ct_suspicious_unique_tokens_1h = 8, ct_high_unique_tokens_5m = 10, ct_high_unique_tokens_1h = 15,
     ct_high_tx_across_tokens_1h = 20\<rparr>"

record token_features =
  pf_device_unique_tokens_5m :: int
  pf_device_unique_tokens_1h :: int
  pf_device_unique_tokens_24h :: int
  pf_device_token_tx_count_5m :: int
  pf_device_token_tx_count_1h :: int
  pf_device_token_tx_count_24h :: int
  pf_device_token_amount_sum_24h :: int
  pf_card_testing_signal :: card_testing_signal
  pf_token_unique_devices_1h :: int
  pf_token_unique_devices_24h :: int
  pf_token_tx_count_1h :: int
  pf_token_tx_count_24h :: int
  pf_token_fan_out_signal :: fan_out_signal
  pf_device_token_seen_before :: int
  pf_device_token_tx_count :: int
  pf_is_degraded :: bool
  pf_degrade_reason :: string

definition plain_token_features :: "bool \<Rightarrow> string \<Rightarrow> token_features" where
  "plain_token_features degraded reason = \<lparr>pf_device_unique_tokens_5m = 0, pf_device_unique_tokens_1h = 0,
     pf_device_unique_tokens_24h = 0, pf_device_token_tx_count_5m = 0, pf_device_token_tx_count_1h = 0,
     pf_device_token_tx_count_24h = 0, pf_device_token_amount_sum_24h = 0, pf_card_testing_signal = CtNormal,
     pf_token_unique_devices_1h = 0, pf_token_unique_devices_24h = 0, pf_token_tx_count_1h = 0, pf_token_tx_count_24h = 0,
     pf_token_fan_out_signal = FoNormal, pf_device_token_seen_before = 0, pf_device_token_tx_count = 0,
     pf_is_degraded = degraded, pf_degrade_reason = reason\<rparr>"

definition token_unavailable :: string where "token_unavailable = ''PAYMENT_TOKEN_FEATURE_STORE_UNAVAILABLE''"

definition classify_card_testing :: "card_testing_thresholds \<Rightarrow> int \<Rightarrow> int \<Rightarrow> int \<Rightarrow> card_testing_signal" where
  "classify_card_testing t tokens5m tokens1h tx1h =
     (if ct_high_unique_tokens_5m t \<le> tokens5m \<or> ct_high_unique_tokens_1h t \<le> tokens1h \<or> ct_high_tx_across_tokens_1h t \<le> tx1h
      then CtHighSignal
      else if ct_suspicious_unique_tokens_5m t \<le> tokens5m \<or> ct_suspicious_unique_tokens_1h t \<le> tokens1h then CtSuspicious
      else if ct_low_unique_tokens_5m t \<le> tokens5m then CtLowSignal
      else CtNormal)"

definition classify_fan_out :: "int \<Rightarrow> int \<Rightarrow> fan_out_signal" where
  "classify_fan_out devices1h devices24h =
     (if 5 \<le> devices1h \<or> 10 \<le> devices24h then FoHighSignal
      else if 3 \<le> devices1h \<or> 5 \<le> devices24h then FoSuspicious
      else FoNormal)"

text \<open>Only positive amounts are added.\<close>

definition amount_of_element :: "string \<Rightarrow> int" where
  "amount_of_element m = max 0 (member_amount m)"

record token_answer =
  ta_device_tokens_5m :: int
  ta_device_tokens_1h :: int
  ta_device_tokens_24h :: int
  ta_device_tx_5m :: int
  ta_device_tx_1h :: int
  ta_device_tx_24h :: int
  ta_device_amounts :: "string list"
  ta_token_devices_1h :: int
  ta_token_devices_24h :: int
  ta_token_tx_1h :: int
  ta_token_tx_24h :: int
  ta_relation_known :: int

definition token_query :: "string \<Rightarrow> string \<Rightarrow> string \<Rightarrow> gotime \<Rightarrow> redis_cmd list" where
  "token_query tenant dev tok now =
     (let ago = (\<lambda>d. itoa (unix_milli (now - d)));
          pruned = (\<lambda>key d. [ZRemRangeByScore key ''-inf'' (ago d), ZCard key]); amounts = key_of tenant ''dev:tok_amt24h'' dev in
      pruned (key_of tenant ''dev:tok5m'' dev) (5 * minute) @ pruned (key_of tenant ''dev:tok1h'' dev) hour @
      pruned (key_of tenant ''dev:tok24'' dev) (24 * hour) @ pruned (key_of tenant ''dev:tok_tx5m'' dev) (5 * minute) @
      pruned (key_of tenant ''dev:tok_tx1h'' dev) hour @ pruned (key_of tenant ''dev:tok_tx24h'' dev) (24 * hour) @
      [ZRemRangeByScore amounts ''-inf'' (ago (24 * hour)), ZRangeByScore amounts (ago (24 * hour)) (itoa (unix_milli now))] @
      (case sanitize_payment_token tok of None \<Rightarrow> []
        | Some t \<Rightarrow> (let ident = hash_payment_token tenant t in
            pruned (key_of tenant ''tok:dev1h'' ident) hour @ pruned (key_of tenant ''tok:dev24'' ident) (24 * hour) @
            pruned (key_of tenant ''tok:tx1h'' ident) hour @ pruned (key_of tenant ''tok:tx24h'' ident) (24 * hour) @
            [Exists (key_of tenant ''dev_tok:known'' (dev @ '':'' @ ident))])))"

definition get_token_features :: "bool \<Rightarrow> string \<Rightarrow> string \<Rightarrow> string \<Rightarrow> token_answer option \<Rightarrow> token_features \<times> bool" where
  "get_token_features client tenant dev tok answer =
     (if \<not> client \<or> dev = '''' \<or> tenant = '''' then (plain_token_features True token_unavailable, False)
      else (case answer of None \<Rightarrow> (plain_token_features True token_unavailable, True)
        | Some a \<Rightarrow>
            (let has = sanitize_payment_token tok \<noteq> None; d1 = (if has then ta_token_devices_1h a else 0);
                 d24 = (if has then ta_token_devices_24h a else 0) in
             (\<lparr>pf_device_unique_tokens_5m = ta_device_tokens_5m a, pf_device_unique_tokens_1h = ta_device_tokens_1h a,
               pf_device_unique_tokens_24h = ta_device_tokens_24h a, pf_device_token_tx_count_5m = ta_device_tx_5m a,
               pf_device_token_tx_count_1h = ta_device_tx_1h a, pf_device_token_tx_count_24h = ta_device_tx_24h a,
               pf_device_token_amount_sum_24h = foldl add64 0 (map amount_of_element (ta_device_amounts a)),
               pf_card_testing_signal = classify_card_testing global_card_testing_thresholds (ta_device_tokens_5m a)
                 (ta_device_tokens_1h a) (ta_device_tx_1h a),
               pf_token_unique_devices_1h = d1, pf_token_unique_devices_24h = d24,
               pf_token_tx_count_1h = (if has then ta_token_tx_1h a else 0), pf_token_tx_count_24h = (if has then ta_token_tx_24h a else 0),
               pf_token_fan_out_signal = classify_fan_out d1 d24,
               pf_device_token_seen_before = (if has \<and> 0 < ta_relation_known a then 1 else 0), pf_device_token_tx_count = 0,
               pf_is_degraded = False, pf_degrade_reason = ''''\<rparr>, False))))"

definition token_record :: "bool \<Rightarrow> string \<Rightarrow> string \<Rightarrow> string \<Rightarrow> string \<Rightarrow> int \<Rightarrow> gotime \<Rightarrow> redis_cmd list" where
  "token_record client tenant dev tok tx amount now =
     (if \<not> client \<or> dev = '''' \<or> tenant = '''' then []
      else (case sanitize_payment_token tok of None \<Rightarrow> []
        | Some t \<Rightarrow>
            (let ident = hash_payment_token tenant t; score = of_int64 (unix_milli now); ten = float_millis (now - 10 * minute);
                 two = float_millis (now - 2 * hour); day = float_millis (now - 25 * hour); m = itoa (unix_milli now) @ ''_'' @ tx in
             windowed_add (key_of tenant ''dev:tok5m'' dev) score ident ten (15 * minute) @
             windowed_add (key_of tenant ''dev:tok1h'' dev) score ident two (3 * hour) @
             windowed_add (key_of tenant ''dev:tok24'' dev) score ident day (26 * hour) @
             windowed_add (key_of tenant ''dev:tok_tx5m'' dev) score m ten (15 * minute) @
             windowed_add (key_of tenant ''dev:tok_tx1h'' dev) score m two (3 * hour) @
             windowed_add (key_of tenant ''dev:tok_tx24h'' dev) score m day (26 * hour) @
             windowed_add (key_of tenant ''dev:tok_amt24h'' dev) score (m @ '':'' @ itoa amount) day (26 * hour) @
             windowed_add (key_of tenant ''tok:dev1h'' ident) score dev two (3 * hour) @
             windowed_add (key_of tenant ''tok:dev24'' ident) score dev day (26 * hour) @
             windowed_add (key_of tenant ''tok:tx1h'' ident) score m two (3 * hour) @
             windowed_add (key_of tenant ''tok:tx24h'' ident) score m day (26 * hour) @
             [SetKey (key_of tenant ''dev_tok:known'' (dev @ '':'' @ ident)) ''1'' (90 * 24 * hour)])))"

subsection \<open>Switches of accounts\<close>

type_synonym graph_tx = "gotime \<times> string \<times> string"

fun switch_element :: "graph_tx \<Rightarrow> string" where "switch_element (t, tx, acc) = switch_member t tx acc"

text \<open>The reference: consecutive transactions of different accounts, the second one not before a cutoff.\<close>

fun changes :: "(gotime \<Rightarrow> bool) \<Rightarrow> (gotime \<times> string) list \<Rightarrow> int" where
  "changes since ((t, a) # (u, b) # xs) = (if a \<noteq> b \<and> since u then 1 else 0) + changes since ((u, b) # xs)"
| "changes since _ = 0"

definition within_hour :: "gotime \<Rightarrow> gotime \<Rightarrow> bool" where "within_hour now t \<longleftrightarrow> unix_milli (now - hour) \<le> unix_milli t"

text \<open>What the code takes for the account: everything after the first colon.\<close>

definition seen_account :: "string \<Rightarrow> string \<Rightarrow> string" where
  "seen_account tx acc = tl (dropWhile (\<lambda>c. c \<noteq> CHR '':'') (tx @ '':'' @ acc))"

fun seen_tx :: "graph_tx \<Rightarrow> gotime \<times> string" where "seen_tx (t, tx, acc) = (t, seen_account tx acc)"

lemma seen_account_plain: "CHR '':'' \<notin> set tx \<Longrightarrow> seen_account tx acc = acc"
  by (simp add: seen_account_def dropWhile_append)

lemma seen_account_colon: "CHR '':'' \<notin> set p \<Longrightarrow> seen_account (p @ '':'' @ q) acc = q @ '':'' @ acc"
  by (simp add: seen_account_def dropWhile_append)

lemma parse_or_bound: "parse_int64 s = Some i \<Longrightarrow> parse_int64_or_bound s = i"
  by (auto simp: parse_int64_def parse_int64_or_bound_def Let_def split: if_splits)

lemma split_at_first: "c \<in> set s \<Longrightarrow> takeWhile (\<lambda>d. d \<noteq> c) s @ c # tl (dropWhile (\<lambda>d. d \<noteq> c) s) = s"
  by (induction s) auto

lemma seen_account_Cons [simp]: "CHR '':'' \<notin> set p \<Longrightarrow> seen_account (p @ CHR '':'' # q) acc = q @ CHR '':'' # acc"
  using seen_account_colon [of p q acc] by simp

lemma switch_item_element:
  assumes "int64_ok (unix_milli t)"
  shows "switch_item (switch_member t tx acc) = Some (unix_milli t, seen_account tx acc)"
proof -
  let ?m = "itoa (unix_milli t) @ ''_''"
  define u where "u = takeWhile (\<lambda>c. c \<noteq> CHR '':'') (tx @ '':'' @ acc)"
  have rest: "tx @ '':'' @ acc = u @ CHR '':'' # seen_account tx acc"
    unfolding u_def seen_account_def by (rule split_at_first [symmetric]) simp
  have plain: "\<forall>d \<in> set (?m @ u). d \<noteq> CHR '':''"
    unfolding u_def using itoa_plain by (auto dest: set_takeWhileD)
  have "switch_member t tx acc = (?m @ u) @ CHR '':'' # seen_account tx acc"
    using rest by (simp add: switch_member_def)
  moreover have "str_index (CHR ''_'') (?m @ u) = Some (length (itoa (unix_milli t)))"
    using str_index_stop [of "itoa (unix_milli t)" "CHR ''_''" u] itoa_plain by simp
  ultimately show ?thesis
    using str_index_stop [OF plain] parse_or_bound [OF parse_itoa [OF assms]] by (simp add: switch_item_def Let_def)
qed

definition element_ok :: "graph_tx \<Rightarrow> bool" where
  "element_ok x \<longleftrightarrow> int64_ok (unix_milli (fst x)) \<and> snd (seen_tx x) \<noteq> ''''"

lemma count_switch_element:
  assumes "int64_ok (unix_milli t)"
  shows "count_switch (unix_milli (now - hour)) (switch_member t tx acc) (p, m, n) =
    (seen_account tx acc, if p \<noteq> '''' \<and> seen_account tx acc \<noteq> p \<and> within_hour now t then m + 1 else m,
     if p \<noteq> '''' \<and> seen_account tx acc \<noteq> p then n + 1 else n)"
  by (simp add: count_switch_def switch_item_element [OF assms] within_hour_def)

lemma count_switches:
  assumes "list_all element_ok txs" "p \<noteq> ''''"
  shows "snd (fold (count_switch (unix_milli (now - hour))) (map switch_element txs) (p, m, n)) =
    (m + changes (within_hour now) ((s, p) # map seen_tx txs), n + changes (\<lambda>_. True) ((s, p) # map seen_tx txs))"
  using assms
proof (induction txs arbitrary: p m n s)
  case (Cons x txs)
  obtain t tx acc where x: "x = (t, tx, acc)" by (cases x) auto
  have ok: "int64_ok (unix_milli t)" "seen_account tx acc \<noteq> ''''" using Cons.prems(1) by (simp_all add: x element_ok_def)
  then show ?case
    using Cons.IH [of "seen_account tx acc" _ _ t] Cons.prems by (simp add: x count_switch_element [OF ok(1)])
qed simp

lemma switches_are_changes:
  assumes "list_all element_ok txs"
  shows "account_switches now (map switch_element txs) =
    (changes (within_hour now) (map seen_tx txs), changes (\<lambda>_. True) (map seen_tx txs))"
proof (cases txs)
  case (Cons x xs)
  obtain t tx acc where x: "x = (t, tx, acc)" by (cases x) auto
  have ok: "int64_ok (unix_milli t)" "seen_account tx acc \<noteq> ''''" using assms by (simp_all add: Cons x element_ok_def)
  show ?thesis
    using count_switches [of xs "seen_account tx acc" now 0 0 t] assms
    by (simp add: account_switches_def Cons x count_switch_element [OF ok(1)] ok(2))
qed (simp add: account_switches_def)

fun tx_account :: "graph_tx \<Rightarrow> gotime \<times> string" where "tx_account (t, tx, acc) = (t, acc)"

text \<open>
  For transactions whose identifiers have no colon and whose accounts are not empty, the two counts of
  switches are the changes of account between consecutive transactions, of the last hour and of all.
\<close>

theorem switches_count_account_changes:
  assumes "list_all (\<lambda>(t, tx, acc). int64_ok (unix_milli t) \<and> CHR '':'' \<notin> set tx \<and> acc \<noteq> '''') txs"
  shows "account_switches now (map (\<lambda>(t, tx, acc). switch_member t tx acc) txs) =
    (changes (within_hour now) (map tx_account txs), changes (\<lambda>_. True) (map tx_account txs))"
proof -
  have seen: "seen_tx x = tx_account x \<and> element_ok x" if "x \<in> set txs" for x
    using that assms by (cases x) (auto simp: list_all_iff seen_account_plain element_ok_def)
  then have "map seen_tx txs = map tx_account txs" by simp
  moreover have "map (\<lambda>(t, tx, acc). switch_member t tx acc) txs = map switch_element txs" by auto
  ultimately show ?thesis using switches_are_changes [of txs now] seen by (simp add: list_all_iff cong: map_cong)
qed

lemma switches_count_account_changes_witness:
  "account_switches (2 * hour) (map (\<lambda>(t, tx, acc). switch_member t tx acc)
     [(minute, ''t1'', ''ann''), (hour, ''t2'', ''bob''), (2 * hour, ''t3'', ''ann'')]) = (2, 2)"
proof -
  have ok: "list_all (\<lambda>(t, tx, acc). int64_ok (unix_milli t) \<and> CHR '':'' \<notin> set tx \<and> acc \<noteq> '''')
    [(minute, ''t1'', ''ann''), (hour, ''t2'', ''bob''), (2 * hour, ''t3'', ''ann'')]"
    by (simp add: int64_ok_def unix_milli_def hour_def minute_def second_def millisecond_def)
  show ?thesis
    using switches_count_account_changes [OF ok, of "2 * hour"] by (simp add: within_hour_def unix_milli_def hour_def minute_def second_def millisecond_def)
qed

text \<open>
  The identifier of a transaction comes with the request and may have a colon.  Then the account starts
  after that colon, and every further transaction of one account with another such identifier is a switch.
\<close>

lemma changes_all:
  "distinct_adj (map snd xs) \<Longrightarrow> changes (\<lambda>_. True) xs = int (length xs - 1)"
  by (induction "\<lambda>_ :: gotime. True" xs rule: changes.induct) auto

lemma changes_recent: "list_all (since \<circ> fst) xs \<Longrightarrow> changes since xs = changes (\<lambda>_. True) xs"
  by (induction since xs rule: changes.induct) auto

theorem one_account_many_switches:
  assumes "list_all (\<lambda>(t, q). int64_ok (unix_milli t) \<and> within_hour now t) xs" "distinct_adj (map snd xs)" "CHR '':'' \<notin> set p"
  shows "account_switches now (map (\<lambda>(t, q). switch_member t (p @ '':'' @ q) acc) xs) = (int (length xs - 1), int (length xs - 1))"
proof -
  define txs where "txs = map (\<lambda>(t, q). (t, p @ '':'' @ q, acc)) xs"
  have seen: "map seen_tx txs = map (\<lambda>(t, q). (t, q @ '':'' @ acc)) xs"
    using assms(3) by (auto simp: txs_def seen_account_colon split: prod.splits)
  have ok: "list_all element_ok txs"
    using assms by (auto simp: txs_def list_all_iff seen_account_colon element_ok_def split: prod.splits)
  have "distinct_adj (map snd (map seen_tx txs))"
    using distinct_adj_mapI [OF assms(2), of "\<lambda>q. q @ '':'' @ acc"] by (simp add: seen comp_def case_prod_unfold inj_on_def)
  moreover have "list_all (within_hour now \<circ> fst) (map seen_tx txs)"
    using assms(1) by (auto simp: seen list_all_iff)
  moreover have "map (\<lambda>(t, q). switch_member t (p @ '':'' @ q) acc) xs = map switch_element txs" by (auto simp: txs_def)
  ultimately show ?thesis
    using switches_are_changes [OF ok, of now] by (simp add: changes_all changes_recent, simp add: txs_def)
qed

end
