(* ===== verification/Graph_Store.thy ===== *)
theory Graph_Store
  imports Go_Value
begin

text \<open>
  The graph of entities in memory, \<open>graph/graph_schema.go\<close> and the local store of \<open>graph/graph_adapter.go\<close>:
  nodes, edges, the lists of edges of every node, neighbours and the bounded traversal of three hops.
  A node or an edge that is stored is never changed in place, so the store holds values.
\<close>

subsection \<open>Schema\<close>

datatype node_type = NodeUser | NodeAccount | NodeCard | NodeDevice | NodeIPAddress | NodeEmail | NodePhone | NodeMerchant
  | NodeTransaction | NodeLocation

fun node_type_string :: "node_type \<Rightarrow> string" where
  "node_type_string NodeUser = ''USER''" | "node_type_string NodeAccount = ''ACCOUNT''" | "node_type_string NodeCard = ''CARD''"
| "node_type_string NodeDevice = ''DEVICE''" | "node_type_string NodeIPAddress = ''IP_ADDRESS''" | "node_type_string NodeEmail = ''EMAIL''"
| "node_type_string NodePhone = ''PHONE''" | "node_type_string NodeMerchant = ''MERCHANT''"
| "node_type_string NodeTransaction = ''TRANSACTION''" | "node_type_string NodeLocation = ''LOCATION''"

datatype edge_type = EdgeOwns | EdgeUsedBy | EdgeConnectedTo | EdgeTransferredTo | EdgeLoggedInFrom | EdgeSharesDevice | EdgeSharesIP
  | EdgeTransactedWith

fun edge_type_string :: "edge_type \<Rightarrow> string" where
  "edge_type_string EdgeOwns = ''OWNS''" | "edge_type_string EdgeUsedBy = ''USED_BY''" | "edge_type_string EdgeConnectedTo = ''CONNECTED_TO''"
| "edge_type_string EdgeTransferredTo = ''TRANSFERRED_TO''" | "edge_type_string EdgeLoggedInFrom = ''LOGGED_IN_FROM''"
| "edge_type_string EdgeSharesDevice = ''SHARES_DEVICE''" | "edge_type_string EdgeSharesIP = ''SHARES_IP''"
| "edge_type_string EdgeTransactedWith = ''TRANSACTED_WITH''"

text \<open>A time is \<open>None\<close> when it is the zero time.\<close>

record graph_node =
  gn_id :: string
  gn_type :: node_type
  gn_risk_score :: f64
  gn_known_bad :: bool
  gn_created_at :: "gotime option"
  gn_updated_at :: "gotime option"

record graph_edge =
  ge_id :: string
  ge_source :: string
  ge_target :: string
  ge_type :: edge_type
  ge_weight :: f64
  ge_confidence :: f64
  ge_created_at :: "gotime option"
  ge_updated_at :: "gotime option"

record graph_evidence =
  gv_start_node_id :: string
  gv_as_of :: gotime
  gv_window :: duration
  gv_visited_nodes :: nat
  gv_fraud_nodes :: nat
  gv_max_depth :: nat
  gv_fraud_ring :: bool
  gv_traversed_edges :: nat
  gv_reachable :: "string list"

record graph_store =
  gs_nodes :: "string \<rightharpoonup> graph_node"
  gs_edges :: "string \<rightharpoonup> graph_edge"
  gs_out :: "string \<Rightarrow> string list"
  gs_in :: "string \<Rightarrow> string list"

definition new_graph_store :: graph_store where
  "new_graph_store = \<lparr>gs_nodes = Map.empty, gs_edges = Map.empty, gs_out = (\<lambda>_. []), gs_in = (\<lambda>_. [])\<rparr>"

definition default_window :: duration where "default_window = 72 * hour"
definition default_max_neighbors :: nat where "default_max_neighbors = 50"
definition max_total_nodes :: nat where "max_total_nodes = 500"

subsection \<open>Operations\<close>

definition add_node :: "gotime \<Rightarrow> graph_node \<Rightarrow> graph_store \<Rightarrow> bool \<times> graph_store" where
  "add_node now n s =
     (if gn_id n = '''' then (False, s)
      else (True, s\<lparr>gs_nodes := (gs_nodes s)(gn_id n \<mapsto>
        n\<lparr>gn_created_at := (if gn_created_at n = None then Some now else gn_created_at n), gn_updated_at := Some now\<rparr>)\<rparr>))"

definition add_edge :: "gotime \<Rightarrow> graph_edge \<Rightarrow> graph_store \<Rightarrow> bool \<times> graph_store" where
  "add_edge now e s =
     (if ge_id e = '''' \<or> ge_source e = '''' \<or> ge_target e = '''' then (False, s)
      else (True, s\<lparr>gs_edges := (gs_edges s)(ge_id e \<mapsto>
          e\<lparr>ge_created_at := (if ge_created_at e = None then Some now else ge_created_at e), ge_updated_at := Some now,
            ge_confidence := (if fle (ge_confidence e) (Fin 0) then Fin 1 else ge_confidence e)\<rparr>),
        gs_out := (gs_out s)(ge_source e := gs_out s (ge_source e) @ [ge_id e]),
        gs_in := (gs_in s)(ge_target e := gs_in s (ge_target e) @ [ge_id e])\<rparr>))"

text \<open>The fallback ranges over the map of nodes; the order is an argument.\<close>

definition resolve_node_id :: "string list \<Rightarrow> graph_store \<Rightarrow> string \<Rightarrow> string" where
  "resolve_node_id order s i =
     (if gs_nodes s i \<noteq> None then i
      else case_option i id (find (\<lambda>n. has_suffix n ('':'' @ i) \<or> n = i) (filter (\<lambda>n. gs_nodes s n \<noteq> None) order)))"

definition get_node :: "string list \<Rightarrow> graph_store \<Rightarrow> string \<Rightarrow> graph_node option" where
  "get_node order s i = gs_nodes s (resolve_node_id order s i)"

definition get_edge :: "graph_store \<Rightarrow> string \<Rightarrow> graph_edge option" where "get_edge s i = gs_edges s i"

definition get_outgoing_edges :: "string list \<Rightarrow> graph_store \<Rightarrow> string \<Rightarrow> graph_edge list" where
  "get_outgoing_edges order s i = List.map_filter (gs_edges s) (gs_out s (resolve_node_id order s i))"

definition get_all_nodes :: "string list \<Rightarrow> graph_store \<Rightarrow> graph_node list" where
  "get_all_nodes order s = List.map_filter (gs_nodes s) order"

definition get_all_edges :: "string list \<Rightarrow> graph_store \<Rightarrow> graph_edge list" where
  "get_all_edges order s = List.map_filter (gs_edges s) order"

text \<open>The other ends of the usable edges, each once, and those of them that are nodes.\<close>

fun ends :: "(graph_edge \<Rightarrow> bool) \<Rightarrow> (graph_edge \<Rightarrow> string) \<Rightarrow> graph_store \<Rightarrow> string list \<Rightarrow> string list \<Rightarrow> string list" where
  "ends usable other s [] seen = seen"
| "ends usable other s (i # ids) seen =
     (case gs_edges s i of None \<Rightarrow> ends usable other s ids seen
      | Some e \<Rightarrow> ends usable other s ids (if usable e \<and> other e \<notin> set seen then seen @ [other e] else seen))"

definition neighbors :: "(graph_edge \<Rightarrow> bool) \<Rightarrow> graph_store \<Rightarrow> string \<Rightarrow> graph_node list" where
  "neighbors usable s i =
     List.map_filter (gs_nodes s) (ends usable ge_source s (gs_in s i) (ends usable ge_target s (gs_out s i) []))"

definition of_type :: "edge_type option \<Rightarrow> graph_edge \<Rightarrow> bool" where
  "of_type ty e \<longleftrightarrow> (case ty of None \<Rightarrow> True | Some t \<Rightarrow> ge_type e = t)"

definition in_window :: "gotime \<Rightarrow> gotime \<Rightarrow> graph_edge \<Rightarrow> bool" where
  "in_window cutoff as_of e \<longleftrightarrow> (case ge_created_at e of None \<Rightarrow> False | Some t \<Rightarrow> cutoff \<le> t \<and> t \<le> as_of)"

definition query_neighbors :: "string list \<Rightarrow> graph_store \<Rightarrow> string \<Rightarrow> edge_type option \<Rightarrow> graph_node list" where
  "query_neighbors order s i ty = neighbors (of_type ty) s (resolve_node_id order s i)"

definition window_or_default :: "duration \<Rightarrow> duration" where "window_or_default w = (if w \<le> 0 then default_window else w)"

definition query_neighbors_temporal ::
  "string list \<Rightarrow> graph_store \<Rightarrow> string \<Rightarrow> edge_type option \<Rightarrow> gotime \<Rightarrow> duration \<Rightarrow> graph_node list" where
  "query_neighbors_temporal order s i ty as_of w =
     neighbors (\<lambda>e. of_type ty e \<and> in_window (as_of - window_or_default w) as_of e) s (resolve_node_id order s i)"

subsection \<open>Traversal\<close>

record traversal =
  bt_reached :: "string list"
  bt_edges :: "string list"
  bt_depth :: "string \<Rightarrow> nat"
  bt_queue :: "string list"
  bt_fraud :: nat
  bt_max_depth :: nat

definition fraudulent :: "graph_store \<Rightarrow> string \<Rightarrow> bool" where
  "fraudulent s i \<longleftrightarrow> (case gs_nodes s i of None \<Rightarrow> False | Some n \<Rightarrow> gn_known_bad n \<or> fle (to_f64 (80 / 100)) (gn_risk_score n))"

definition visit_node :: "graph_store \<Rightarrow> nat \<Rightarrow> string \<Rightarrow> traversal \<Rightarrow> traversal" where
  "visit_node s d v b =
     b\<lparr>bt_reached := bt_reached b @ [v], bt_depth := (bt_depth b)(v := d), bt_max_depth := max (bt_max_depth b) d,
       bt_fraud := (if fraudulent s v then bt_fraud b + 1 else bt_fraud b), bt_queue := bt_queue b @ [v]\<rparr>"

text \<open>The loop over the edges of one node at some depth; the number counts its new neighbours.\<close>

fun expand ::
  "graph_store \<Rightarrow> (graph_edge \<Rightarrow> bool) \<Rightarrow> (graph_edge \<Rightarrow> string) \<Rightarrow> nat \<Rightarrow> nat \<Rightarrow> string list \<Rightarrow> nat \<times> traversal \<Rightarrow> nat \<times> traversal" where
  "expand s usable other d cap [] (n, b) = (n, b)"
| "expand s usable other d cap (i # ids) (n, b) =
     (if cap \<le> n \<or> max_total_nodes \<le> length (bt_reached b) then (n, b)
      else (case gs_edges s i of None \<Rightarrow> expand s usable other d cap ids (n, b)
        | Some e \<Rightarrow>
            if \<not> usable e then expand s usable other d cap ids (n, b)
            else (let b1 = b\<lparr>bt_edges := List.insert i (bt_edges b)\<rparr> in
              if other e \<in> set (bt_reached b) then expand s usable other d cap ids (n, b1)
              else expand s usable other d cap ids (n + 1, visit_node s (d + 1) (other e) b1))))"

definition expand_node :: "graph_store \<Rightarrow> (graph_edge \<Rightarrow> bool) \<Rightarrow> nat \<Rightarrow> string \<Rightarrow> traversal \<Rightarrow> traversal" where
  "expand_node s usable cap i b =
     (if 3 \<le> bt_depth b i then b
      else snd (expand s usable ge_source (bt_depth b i) cap (gs_in s i)
        (expand s usable ge_target (bt_depth b i) cap (gs_out s i) (0, b))))"

text \<open>What is visited and not in the queue never shrinks, and is bounded: the loop ends.\<close>

definition work :: "traversal \<Rightarrow> nat" where
  "work b = (max_total_nodes - length (bt_reached b)) + length (bt_queue b)"

lemma visit_node_work:
  "length (bt_reached b) < max_total_nodes \<Longrightarrow> work (visit_node s d v b) = work b"
  by (simp add: work_def visit_node_def)

lemma expand_work: "work (snd (expand s usable other d cap ids (n, b))) = work b"
proof (induction s usable other d cap "ids" "(n, b)" arbitrary: n b rule: expand.induct)
  case (2 s usable other d cap i "ids" n b)
  then show ?case
    by (auto simp: Let_def visit_node_work work_def visit_node_def split: option.split)
qed simp

lemma expand_node_work: "work (expand_node s usable cap i b) = work b"
  by (simp add: expand_node_def) (metis expand_work prod.collapse)

function traverse :: "graph_store \<Rightarrow> (graph_edge \<Rightarrow> bool) \<Rightarrow> nat \<Rightarrow> traversal \<Rightarrow> traversal" where
  "traverse s usable cap b =
     (case bt_queue b of [] \<Rightarrow> b
      | i # q \<Rightarrow> traverse s usable cap (expand_node s usable cap i (b\<lparr>bt_queue := q\<rparr>)))"
  by pat_completeness auto
termination
  by (relation "measure (\<lambda>(s, usable, cap, b). work b)") (auto simp: expand_node_work, simp add: work_def)

declare traverse.simps [simp del]

definition start_traversal :: "graph_store \<Rightarrow> string \<Rightarrow> traversal" where
  "start_traversal s i = \<lparr>bt_reached = [i], bt_edges = [], bt_depth = (\<lambda>_. 0), bt_queue = [i],
     bt_fraud = (if fraudulent s i then 1 else 0), bt_max_depth = 0\<rparr>"

definition traverse_3hop_temporal :: "string list \<Rightarrow> graph_store \<Rightarrow> string \<Rightarrow> gotime \<Rightarrow> duration \<Rightarrow> nat \<Rightarrow> graph_evidence" where
  "traverse_3hop_temporal order s i0 as_of w0 cap0 =
     (let i = resolve_node_id order s i0; w = window_or_default w0; cap = (if cap0 = 0 then default_max_neighbors else cap0) in
      if gs_nodes s i = None then
        \<lparr>gv_start_node_id = i, gv_as_of = as_of, gv_window = w, gv_visited_nodes = 0, gv_fraud_nodes = 0, gv_max_depth = 0,
         gv_fraud_ring = False, gv_traversed_edges = 0, gv_reachable = []\<rparr>
      else (let b = traverse s (in_window (as_of - w) as_of) cap (start_traversal s i) in
        \<lparr>gv_start_node_id = i, gv_as_of = as_of, gv_window = w, gv_visited_nodes = length (bt_reached b), gv_fraud_nodes = bt_fraud b,
         gv_max_depth = bt_max_depth b, gv_fraud_ring = (3 \<le> bt_fraud b), gv_traversed_edges = length (bt_edges b),
         gv_reachable = bt_reached b\<rparr>))"

definition traverse_3hop :: "string list \<Rightarrow> graph_store \<Rightarrow> string \<Rightarrow> gotime \<Rightarrow> graph_evidence" where
  "traverse_3hop order s i now = traverse_3hop_temporal order s i now default_window default_max_neighbors"

subsection \<open>What the traversal reaches\<close>

definition linked :: "graph_store \<Rightarrow> (graph_edge \<Rightarrow> bool) \<Rightarrow> string \<Rightarrow> string \<Rightarrow> bool" where
  "linked s usable u v \<longleftrightarrow> (\<exists>i e. gs_edges s i = Some e \<and> usable e \<and> (i \<in> set (gs_out s u) \<and> v = ge_target e \<or> i \<in> set (gs_in s u) \<and> v = ge_source e))"

inductive hops :: "graph_store \<Rightarrow> (graph_edge \<Rightarrow> bool) \<Rightarrow> string \<Rightarrow> nat \<Rightarrow> string \<Rightarrow> bool" for s usable i where
  hops_start: "hops s usable i 0 i"
| hops_step: "hops s usable i n u \<Longrightarrow> linked s usable u v \<Longrightarrow> hops s usable i (Suc n) v"

definition node_ok :: "graph_store \<Rightarrow> (graph_edge \<Rightarrow> bool) \<Rightarrow> string \<Rightarrow> traversal \<Rightarrow> string \<Rightarrow> bool" where
  "node_ok s usable i b v \<longleftrightarrow> bt_depth b v \<le> 3 \<and> bt_depth b v \<le> bt_max_depth b \<and> hops s usable i (bt_depth b v) v"

definition traversal_ok :: "graph_store \<Rightarrow> (graph_edge \<Rightarrow> bool) \<Rightarrow> string \<Rightarrow> traversal \<Rightarrow> bool" where
  "traversal_ok s usable i b \<longleftrightarrow> distinct (bt_reached b) \<and> i \<in> set (bt_reached b) \<and> list_all (node_ok s usable i b) (bt_reached b) \<and>
     set (bt_queue b) \<subseteq> set (bt_reached b) \<and> bt_max_depth b \<le> 3 \<and> length (bt_reached b) \<le> max_total_nodes \<and>
     bt_fraud b = length (filter (fraudulent s) (bt_reached b))"

lemma start_traversal_ok: "traversal_ok s usable i (start_traversal s i)"
  by (simp add: traversal_ok_def start_traversal_def node_ok_def hops_start max_total_nodes_def)

lemma traversal_ok_edges [simp]: "traversal_ok s usable i (b\<lparr>bt_edges := es\<rparr>) = traversal_ok s usable i b"
  by (simp add: traversal_ok_def node_ok_def cong: list.pred_cong)

lemma visit_node_ok:
  assumes "traversal_ok s usable i b" "v \<notin> set (bt_reached b)" "length (bt_reached b) < max_total_nodes" "d < 3" "hops s usable i (d + 1) v"
  shows "traversal_ok s usable i (visit_node s (d + 1) v b)"
proof -
  have "node_ok s usable i (visit_node s (d + 1) v b) u" if "u \<in> set (bt_reached b)" for u
  proof -
    have "node_ok s usable i b u" "u \<noteq> v" using that assms(1, 2) by (auto simp: traversal_ok_def list_all_iff)
    then show ?thesis by (auto simp: node_ok_def visit_node_def)
  qed
  moreover have "node_ok s usable i (visit_node s (d + 1) v b) v" using assms(4, 5) by (simp add: node_ok_def visit_node_def)
  ultimately show ?thesis
    using assms by (auto simp: traversal_ok_def visit_node_def list_all_iff)
qed

lemma visit_node_keeps: "u \<in> set (bt_reached b) \<Longrightarrow> v \<notin> set (bt_reached b) \<Longrightarrow> bt_depth (visit_node s d v b) u = bt_depth b u"
  by (auto simp: visit_node_def)

text \<open>One loop over edges of a node whose other ends are linked to it.\<close>

definition lead_on :: "graph_store \<Rightarrow> (graph_edge \<Rightarrow> bool) \<Rightarrow> (graph_edge \<Rightarrow> string) \<Rightarrow> string \<Rightarrow> string list \<Rightarrow> bool" where
  "lead_on s usable other u ids \<longleftrightarrow>
     list_all (\<lambda>k. case gs_edges s k of None \<Rightarrow> True | Some e \<Rightarrow> usable e \<longrightarrow> linked s usable u (other e)) ids"

lemma lead_on_own: "lead_on s usable ge_target u (gs_out s u)" "lead_on s usable ge_source u (gs_in s u)"
  by (auto simp: lead_on_def list_all_iff linked_def split: option.split)

lemma expand_ok:
  assumes "traversal_ok s usable i b" "u \<in> set (bt_reached b)" "bt_depth b u = d" "d < 3"
      and "lead_on s usable other u ids"
  shows "traversal_ok s usable i (snd (expand s usable other d cap ids (n, b))) \<and>
    u \<in> set (bt_reached (snd (expand s usable other d cap ids (n, b)))) \<and> bt_depth (snd (expand s usable other d cap ids (n, b))) u = d"
  using assms
proof (induction s usable other d cap ids "(n, b)" arbitrary: n b rule: expand.induct)
  case (2 s usable other d cap k ids n b)
  have rest: "lead_on s usable other u ids" using "2.prems"(5) by (simp add: lead_on_def)
  show ?case
  proof (cases "cap \<le> n \<or> max_total_nodes \<le> length (bt_reached b)")
    case False
    show ?thesis
    proof (cases "gs_edges s k")
      case None
      then show ?thesis using "2.hyps"(1) [OF False None "2.prems"(1-4) rest] False by simp
    next
      case (Some e)
      define b1 where "b1 = b\<lparr>bt_edges := List.insert k (bt_edges b)\<rparr>"
      have b1: "traversal_ok s usable i b1" "u \<in> set (bt_reached b1)" "bt_depth b1 u = d" "bt_reached b1 = bt_reached b"
        using "2.prems" by (simp_all add: b1_def)
      show ?thesis
      proof (cases "usable e \<and> other e \<notin> set (bt_reached b)")
        case True
        have "node_ok s usable i b1 u" using b1(1, 2) by (auto simp: traversal_ok_def list_all_iff)
        then have "hops s usable i (d + 1) (other e)"
          using hops_step [of s usable i d u "other e"] b1(3) "2.prems"(5) Some True by (simp add: node_ok_def lead_on_def)
        then have "traversal_ok s usable i (visit_node s (d + 1) (other e) b1)"
          using visit_node_ok [OF b1(1)] True False "2.prems"(4) b1(4) by simp
        moreover have "bt_depth (visit_node s (d + 1) (other e) b1) u = d" using visit_node_keeps [of u b1] True b1 by simp
        moreover have "u \<in> set (bt_reached (visit_node s (d + 1) (other e) b1))" using b1(2) by (simp add: visit_node_def)
        ultimately show ?thesis
          using "2.hyps"(4) [OF False Some _ b1_def] True "2.prems"(4) rest False Some by (simp add: b1_def Let_def)
      next
        case nothing: False
        then show ?thesis
          using "2.hyps"(2) [OF False Some] "2.hyps"(3) [OF False Some _ b1_def] "2.prems"(1-4) rest b1 False Some by (auto simp: b1_def Let_def)
      qed
    qed
  qed (use 2 in simp)
qed simp

lemma expand_node_ok:
  assumes "traversal_ok s usable i b" "u \<in> set (bt_reached b)"
  shows "traversal_ok s usable i (expand_node s usable cap u b)"
proof (cases "3 \<le> bt_depth b u")
  case False
  define d where "d = bt_depth b u"
  obtain n b1 where b1: "expand s usable ge_target d cap (gs_out s u) (0, b) = (n, b1)" by fastforce
  have "traversal_ok s usable i b1 \<and> u \<in> set (bt_reached b1) \<and> bt_depth b1 u = d"
    using expand_ok [OF assms, of d ge_target "gs_out s u" cap 0] False b1 lead_on_own by (simp add: d_def)
  then show ?thesis
    using expand_ok [of s usable i b1 u d ge_source "gs_in s u" cap n] False b1 lead_on_own by (simp add: d_def expand_node_def)
qed (use assms in \<open>simp add: expand_node_def\<close>)

lemma traverse_ok: "traversal_ok s usable i b \<Longrightarrow> traversal_ok s usable i (traverse s usable cap b) \<and> bt_queue (traverse s usable cap b) = []"
proof (induction s usable cap b rule: traverse.induct)
  case (1 s usable cap b)
  show ?case
  proof (cases "bt_queue b")
    case (Cons u q)
    have "traversal_ok s usable i (b\<lparr>bt_queue := q\<rparr>)" "u \<in> set (bt_reached b)"
      using "1.prems" Cons by (auto simp: traversal_ok_def node_ok_def list_all_iff)
    then have "traversal_ok s usable i (expand_node s usable cap u (b\<lparr>bt_queue := q\<rparr>))"
      using expand_node_ok by simp
    then show ?thesis using "1.IH" Cons by (simp add: traverse.simps [of s usable cap b])
  qed (use 1 in \<open>simp add: traverse.simps [of s usable cap b]\<close>)
qed

lemma resolve_existing: "gs_nodes s i \<noteq> None \<Longrightarrow> resolve_node_id order s i = i"
  by (simp add: resolve_node_id_def)

lemma traversal_evidence:
  assumes "gs_nodes s i \<noteq> None"
  shows "\<exists>b. traversal_ok s (in_window (as_of - window_or_default w) as_of) i b \<and>
    traverse_3hop_temporal order s i as_of w cap = \<lparr>gv_start_node_id = i, gv_as_of = as_of, gv_window = window_or_default w,
      gv_visited_nodes = length (bt_reached b), gv_fraud_nodes = bt_fraud b, gv_max_depth = bt_max_depth b,
      gv_fraud_ring = (3 \<le> bt_fraud b), gv_traversed_edges = length (bt_edges b), gv_reachable = bt_reached b\<rparr>"
proof -
  let ?b = "traverse s (in_window (as_of - window_or_default w) as_of) (if cap = 0 then default_max_neighbors else cap) (start_traversal s i)"
  have "traversal_ok s (in_window (as_of - window_or_default w) as_of) i ?b" using traverse_ok start_traversal_ok by blast
  then show ?thesis
    by (intro exI [of _ ?b]) (simp add: traverse_3hop_temporal_def resolve_existing [OF assms] assms Let_def)
qed

text \<open>
  The traversal always ends.  It visits at most 500 nodes, each once and each linked to the start by at most
  three usable edges, and it counts exactly the fraudulent ones among them.
\<close>

theorem traversal_stays_in_three_hops:
  assumes "gs_nodes s i \<noteq> None"
  shows "let g = traverse_3hop_temporal order s i as_of w cap; cutoff = as_of - window_or_default w in
    distinct (gv_reachable g) \<and> i \<in> set (gv_reachable g) \<and> gv_visited_nodes g = length (gv_reachable g) \<and> gv_visited_nodes g \<le> 500 \<and>
    gv_max_depth g \<le> 3 \<and> list_all (\<lambda>v. \<exists>n \<le> 3. hops s (in_window cutoff as_of) i n v) (gv_reachable g) \<and>
    gv_fraud_nodes g = length (filter (fraudulent s) (gv_reachable g)) \<and> (gv_fraud_ring g \<longleftrightarrow> 3 \<le> gv_fraud_nodes g)"
  using traversal_evidence [OF assms, of as_of w order cap]
  by (auto simp: Let_def traversal_ok_def node_ok_def max_total_nodes_def list_all_iff)

lemma traversal_stays_in_three_hops_witness:
  "let s = snd (add_node 0 \<lparr>gn_id = ''t:account:a'', gn_type = NodeAccount, gn_risk_score = Fin 0, gn_known_bad = False,
        gn_created_at = None, gn_updated_at = None\<rparr> new_graph_store);
       g = traverse_3hop_temporal [] s ''t:account:a'' 0 0 0; cutoff = 0 - window_or_default 0 in
    distinct (gv_reachable g) \<and> ''t:account:a'' \<in> set (gv_reachable g) \<and> gv_visited_nodes g = length (gv_reachable g) \<and> gv_visited_nodes g \<le> 500 \<and>
    gv_max_depth g \<le> 3 \<and> list_all (\<lambda>v. \<exists>n \<le> 3. hops s (in_window cutoff 0) ''t:account:a'' n v) (gv_reachable g) \<and>
    gv_fraud_nodes g = length (filter (fraudulent s) (gv_reachable g)) \<and> (gv_fraud_ring g \<longleftrightarrow> 3 \<le> gv_fraud_nodes g)"
  unfolding Let_def by (rule traversal_stays_in_three_hops [unfolded Let_def]) (simp add: add_node_def)

end
