(* ===== verification/Ip_Address.thy ===== *)
theory Ip_Address
  imports Go_Value
begin

text \<open>
  The part of Go's packages \<open>net\<close> and \<open>net/netip\<close> that the threat engine uses: \<open>net.ParseIP\<close>, \<open>net.ParseCIDR\<close>
  and \<open>IPNet.Contains\<close>.  An address is the number of its 128 bits; an IPv4 address is the mapped one,
  \<open>::ffff:a.b.c.d\<close>, as in the 16-byte form of \<open>net.IP\<close>.
\<close>

subsection \<open>Parsing\<close>

definition hex_char :: "char \<Rightarrow> bool" where
  "hex_char c \<longleftrightarrow> is_digit c \<or> (97 \<le> (of_char c :: int) \<and> (of_char c :: int) \<le> 102) \<or> (65 \<le> (of_char c :: int) \<and> (of_char c :: int) \<le> 70)"

definition hex_char_value :: "char \<Rightarrow> int" where
  "hex_char_value c = (if is_digit c then of_char c - 48 else if 97 \<le> (of_char c :: int) then of_char c - 87 else of_char c - 55)"

definition hex_number :: "string \<Rightarrow> int" where "hex_number s = foldl (\<lambda>a c. a * 16 + hex_char_value c) 0 s"

definition dec_number :: "string \<Rightarrow> int" where "dec_number s = foldl (\<lambda>a c. a * 10 + digit_value c) 0 s"

definition octet_ok :: "string \<Rightarrow> bool" where
  "octet_ok p \<longleftrightarrow> p \<noteq> '''' \<and> list_all is_digit p \<and> (length p = 1 \<or> hd p \<noteq> CHR ''0'') \<and> dec_number p \<le> 255"

definition parse_ipv4 :: "string \<Rightarrow> int option" where
  "parse_ipv4 s =
     (let ps = split_on (CHR ''.'') s in
      if length ps = 4 \<and> list_all octet_ok ps then Some (foldl (\<lambda>a p. a * 256 + dec_number p) 0 ps) else None)"

text \<open>
  The loop of \<open>netip.parseIPv6\<close>: words that still fit, text left, words found, position of the ellipsis.
\<close>

fun ipv6_loop :: "nat \<Rightarrow> string \<Rightarrow> int list \<Rightarrow> nat option \<Rightarrow> (int list \<times> nat option \<times> string) option" where
  "ipv6_loop 0 s ws el = Some (ws, el, s)"
| "ipv6_loop (Suc n) s ws el =
     (let h = takeWhile hex_char s; r = drop (length h) s; ws' = ws @ [hex_number h] in
      if h = '''' \<or> 4 < length h then None
      else if r = '''' then Some (ws', el, '''')
      else if hd r = CHR ''.'' then
        (if (el = None \<and> length ws \<noteq> 6) \<or> 6 < length ws then None
         else map_option (\<lambda>v. (ws @ [v div 65536, v mod 65536], el, '''')) (parse_ipv4 s))
      else if hd r \<noteq> CHR '':'' \<or> tl r = '''' then None
      else if hd (tl r) \<noteq> CHR '':'' then ipv6_loop n (tl r) ws' el
      else if el \<noteq> None then None
      else if tl (tl r) = '''' then Some (ws', Some (length ws'), '''')
      else ipv6_loop n (tl (tl r)) ws' (Some (length ws')))"

definition ipv6_words :: "int list \<times> nat option \<times> string \<Rightarrow> int list option" where
  "ipv6_words = (\<lambda>(ws, el, rest).
     if rest \<noteq> '''' then None
     else if length ws < 8 then map_option (\<lambda>e. take e ws @ replicate (8 - length ws) 0 @ drop e ws) el
     else if el = None then Some ws else None)"

text \<open>An address with a zone is no address for \<open>net.ParseIP\<close>.\<close>

definition parse_ipv6 :: "string \<Rightarrow> int option" where
  "parse_ipv6 s =
     (if CHR ''%'' \<in> set s then None
      else if s = ''::'' then Some 0
      else map_option (foldl (\<lambda>a w. a * 65536 + w) 0)
        (Option.bind (if has_prefix s ''::'' then ipv6_loop 8 (drop 2 s) [] (Some 0) else ipv6_loop 8 s [] None) ipv6_words))"

datatype ip_addr = IPv4 int | IPv6 int

definition parse_addr :: "string \<Rightarrow> ip_addr option" where
  "parse_addr s =
     (case find (\<lambda>c. c = CHR ''.'' \<or> c = CHR '':'' \<or> c = CHR ''%'') s of
        None \<Rightarrow> None
      | Some c \<Rightarrow>
          if c = CHR ''.'' then map_option IPv4 (parse_ipv4 s)
          else if c = CHR '':'' then map_option IPv6 (parse_ipv6 s)
          else None)"

definition mapped :: "int \<Rightarrow> int" where "mapped v = 65535 * 2 ^ 32 + v"

fun addr_16 :: "ip_addr \<Rightarrow> int" where "addr_16 (IPv4 v) = mapped v" | "addr_16 (IPv6 n) = n"

definition parse_ip :: "string \<Rightarrow> int option" where "parse_ip s = map_option addr_16 (parse_addr s)"

text \<open>\<open>IP.To4\<close>.\<close>

definition to4 :: "int \<Rightarrow> int option" where "to4 a = (if a div 2 ^ 32 = 65535 then Some (a mod 2 ^ 32) else None)"

subsection \<open>Networks\<close>

text \<open>A network: whether it is one of IPv4, its masked number and the length of the prefix.\<close>

record ip_net =
  net_v4 :: bool
  net_number :: int
  net_prefix :: nat

definition mask_number :: "nat \<Rightarrow> nat \<Rightarrow> int \<Rightarrow> int" where "mask_number bits p n = n div 2 ^ (bits - p) * 2 ^ (bits - p)"

definition parse_cidr :: "string \<Rightarrow> ip_net option" where
  "parse_cidr s =
     (let a = takeWhile (\<lambda>c. c \<noteq> CHR ''/'') s; m = drop (Suc (length a)) s in
      if CHR ''/'' \<notin> set s then None
      else (case parse_addr a of None \<Rightarrow> None
        | Some addr \<Rightarrow>
            (let bits = (case addr of IPv4 _ \<Rightarrow> 32 | IPv6 _ \<Rightarrow> 128); p = nat (dec_number m) in
             if m = '''' \<or> \<not> list_all is_digit m \<or> bits < p then None
             else Some (case addr of
                 IPv4 v \<Rightarrow> \<lparr>net_v4 = True, net_number = mask_number bits p v, net_prefix = p\<rparr>
               | IPv6 n \<Rightarrow> \<lparr>net_v4 = False, net_number = mask_number bits p n, net_prefix = p\<rparr>))))"

definition net_contains :: "ip_net \<Rightarrow> int \<Rightarrow> bool" where
  "net_contains n a =
     (case to4 a of
        Some v \<Rightarrow> net_v4 n \<and> mask_number 32 (net_prefix n) v = net_number n
      | None \<Rightarrow> \<not> net_v4 n \<and> mask_number 128 (net_prefix n) a = net_number n)"

definition ipv4_text :: "int \<Rightarrow> string" where
  "ipv4_text v = itoa (v div 2 ^ 24) @ ''.'' @ itoa (v div 2 ^ 16 mod 256) @ ''.'' @ itoa (v div 2 ^ 8 mod 256) @ ''.'' @ itoa (v mod 256)"

text \<open>\<open>IPNet.String\<close> of the networks of IPv4.\<close>

definition net_text :: "ip_net \<Rightarrow> string" where
  "net_text n = ipv4_text (net_number n) @ ''/'' @ itoa (int (net_prefix n))"

definition is_loopback :: "int \<Rightarrow> bool" where
  "is_loopback a = (case to4 a of Some v \<Rightarrow> v div 2 ^ 24 = 127 | None \<Rightarrow> a = 1)"

definition is_private :: "int \<Rightarrow> bool" where
  "is_private a =
     (case to4 a of
        Some v \<Rightarrow> v div 2 ^ 24 = 10 \<or> v div 2 ^ 20 = 172 * 16 + 1 \<or> v div 2 ^ 16 = 192 * 256 + 168
      | None \<Rightarrow> a div 2 ^ 121 = 126)"

lemma parse_examples:
  "parse_ip ''203.0.113.88'' = Some (mapped (203 * 2 ^ 24 + 113 * 256 + 88))"
  "parse_ip ''::ffff:203.0.113.88'' = parse_ip ''203.0.113.88''"
  "parse_ip ''2001:db8::1'' = Some (0x20010db8 * 2 ^ 96 + 1)"
  "parse_ip ''1.2.3'' = None" "parse_ip ''1.2.3.04'' = None" "parse_ip ''fe80::1%eth0'' = None" "parse_ip ''1:2:3:4:5:6:7:8::'' = None"
  "parse_ip ''::'' = Some 0" "parse_ip ''::1'' = Some 1"
  by code_simp+

text \<open>The mapped spelling of an IPv4 address is the same address.\<close>

lemma div_mod_digit: "0 \<le> v \<Longrightarrow> v < m \<Longrightarrow> (h * m + v) div m = h \<and> (h * m + v) mod m = (v :: int)"
  by simp

lemma to4_mapped: "0 \<le> v \<Longrightarrow> v < 2 ^ 32 \<Longrightarrow> to4 (mapped v) = Some v"
  using div_mod_digit [of v "2 ^ 32" 65535] by (simp only: to4_def mapped_def if_True refl)

end
