(* ===== verification/Threat_Engine.thy ===== *)
theory Threat_Engine
  imports Ip_Address Go_Sqrt Go_Calendar Retraining_Trigger
begin

text \<open>
  Threat intelligence, \<open>graph/threat_intelligence.go\<close>: blocklists of addresses and networks, signatures of
  devices, domains of mail, locations of networks and the speed implied by two locations.  Sine, cosine
  and arc tangent are parameters.
\<close>

subsection \<open>State\<close>

record geo_point =
  gp_lat :: f64
  gp_lon :: f64

record ip_location =
  il_point :: geo_point
  il_country_code :: string
  il_city :: string
  il_asn :: string
  il_is_proxy :: bool
  il_is_datacenter :: bool

record threat_report =
  tr_risk_score :: f64
  tr_is_malicious_ip :: bool
  tr_is_compromised_dev :: bool
  tr_is_proxy_datacenter :: bool
  tr_is_impossible_trip :: bool
  tr_geo_distance_km :: f64
  tr_implied_speed_kmh :: f64
  tr_origin_country :: string
  tr_origin_city :: string
  tr_asn :: string
  tr_location :: "ip_location option"
  tr_matches :: "string list"

record threat_engine =
  te_malicious_ips :: "string \<rightharpoonup> f64"
  te_malicious_cidrs :: "ip_net list"
  te_compromised_devices :: "string \<rightharpoonup> f64"
  te_risky_domains :: "string \<rightharpoonup> f64"
  te_known_geo_ips :: "string \<rightharpoonup> ip_location"
  te_known_geo_subnets :: "(ip_net \<times> ip_location) list"

definition point :: "rat \<Rightarrow> rat \<Rightarrow> geo_point" where "point lat lon = \<lparr>gp_lat = to_f64 lat, gp_lon = to_f64 lon\<rparr>"

definition location :: "geo_point \<Rightarrow> string \<Rightarrow> string \<Rightarrow> string \<Rightarrow> bool \<Rightarrow> ip_location" where
  "location p country city asn suspect = \<lparr>il_point = p, il_country_code = country, il_city = city, il_asn = asn,
     il_is_proxy = suspect, il_is_datacenter = suspect\<rparr>"

definition bengaluru :: geo_point where "bengaluru = point (129716 / 10000) (775946 / 10000)"

definition baseline_cidrs :: "string list" where
  "baseline_cidrs = [''198.51.100.0/24'', ''203.0.113.0/24'', ''185.220.101.0/24'']"

definition register_geo_subnet :: "string \<Rightarrow> ip_location \<Rightarrow> threat_engine \<Rightarrow> threat_engine" where
  "register_geo_subnet cidr info t =
     (case parse_cidr cidr of None \<Rightarrow> t
      | Some n \<Rightarrow> t\<lparr>te_known_geo_subnets := te_known_geo_subnets t @ [(n, info)]\<rparr>)"

definition baseline_subnets :: "(string \<times> ip_location) list" where
  "baseline_subnets =
     [(''198.51.100.0/24'', location (point (346841 / 10000) (330379 / 10000)) ''CY'' ''Limassol'' ''AS13335 (Datacenter / Proxy)'' True),
      (''203.0.113.0/24'', location (point (515074 / 10000) (- 1278 / 10000)) ''GB'' ''London'' ''AS9009 (Bulletproof)'' True),
      (''106.51.0.0/16'', location bengaluru ''IN'' ''Bengaluru'' ''AS55836 (Jio Fiber Residential)'' False),
      (''122.160.0.0/16'', location (point (286139 / 10000) (772090 / 10000)) ''IN'' ''New Delhi'' ''AS24560 (Airtel Broadband)'' False),
      (''12.0.0.0/8'', location (point (377749 / 10000) (- 1224194 / 10000)) ''US'' ''San Francisco'' ''AS7018 (AT&T Services)'' False)]"

definition new_threat_engine :: threat_engine where
  "new_threat_engine =
     fold (\<lambda>(cidr, info). register_geo_subnet cidr info) baseline_subnets
       \<lparr>te_malicious_ips = [''198.51.100.44'' \<mapsto> to_f64 (95 / 100), ''203.0.113.88'' \<mapsto> to_f64 (99 / 100), ''203.0.113.195'' \<mapsto> to_f64 (92 / 100)],
        te_malicious_cidrs = List.map_filter parse_cidr baseline_cidrs,
        te_compromised_devices = [''dev_emul_root_89a'' \<mapsto> to_f64 (90 / 100), ''dev_emulator_compromised'' \<mapsto> to_f64 (95 / 100),
          ''dev_mule_cluster_99'' \<mapsto> to_f64 (92 / 100), ''dev_emulator_linux_9f8a'' \<mapsto> to_f64 (90 / 100)],
        te_risky_domains = [''temp-mail.org'' \<mapsto> to_f64 (85 / 100), ''disposable-inbox.com'' \<mapsto> to_f64 (90 / 100),
          ''guerrillamail.com'' \<mapsto> to_f64 (88 / 100), ''10minutemail.com'' \<mapsto> to_f64 (85 / 100)],
        te_known_geo_ips = Map.empty, te_known_geo_subnets = []\<rparr>"

definition add_malicious_ip :: "string \<Rightarrow> f64 \<Rightarrow> threat_engine \<Rightarrow> threat_engine" where
  "add_malicious_ip ip score t = t\<lparr>te_malicious_ips := (te_malicious_ips t)(ip \<mapsto> score)\<rparr>"

subsection \<open>Locations\<close>

definition subnet_location :: "threat_engine \<Rightarrow> int \<Rightarrow> ip_location option" where
  "subnet_location t a = map_option snd (find (\<lambda>(n, _). net_contains n a) (te_known_geo_subnets t))"

definition private_location :: ip_location where
  "private_location = location bengaluru ''IN'' ''Local/Private'' ''AS0 (Private Network)'' False"

definition unknown_location :: ip_location where
  "unknown_location = location (point 0 0) ''UNKNOWN'' ''Unknown'' ''AS0 (Unknown)'' False"

definition no_location :: ip_location where
  "no_location = location (point 0 0) '''' '''' '''' False"

definition resolve_location :: "threat_engine \<Rightarrow> string \<Rightarrow> ip_location \<times> bool" where
  "resolve_location t ip =
     (case parse_ip (trim_space ip) of
        None \<Rightarrow> (no_location, False)
      | Some a \<Rightarrow>
          (case te_known_geo_ips t ip of
             Some info \<Rightarrow> (info, True)
           | None \<Rightarrow>
               (case subnet_location t a of
                  Some info \<Rightarrow> (info, True)
                | None \<Rightarrow> if is_private a \<or> is_loopback a then (private_location, True) else (unknown_location, False))))"

text \<open>The functions of the package \<open>math\<close> that are parameters.\<close>

record go_math =
  m_sin :: "f64 \<Rightarrow> f64"
  m_cos :: "f64 \<Rightarrow> f64"
  m_atan2 :: "f64 \<Rightarrow> f64 \<Rightarrow> f64"

text \<open>\<open>math.Pi / 180.0\<close> is a constant expression, rounded once.\<close>

definition radian :: f64 where
  "radian = to_f64 (314159265358979323846264338327950288419716939937510582097494459 / (180 * 10 ^ 62))"

definition haversine :: "go_math \<Rightarrow> geo_point \<Rightarrow> geo_point \<Rightarrow> f64" where
  "haversine m p q =
     (if feq (gp_lat p) (gp_lat q) \<and> feq (gp_lon p) (gp_lon q) then Fin 0
      else if feq (gp_lat p) (Fin 0) \<and> feq (gp_lon p) (Fin 0) \<or> feq (gp_lat q) (Fin 0) \<and> feq (gp_lon q) (Fin 0) then Fin 0
      else
        (let dlat = fmul (fsub (gp_lat q) (gp_lat p)) radian; dlon = fmul (fsub (gp_lon q) (gp_lon p)) radian;
             l1 = fmul (gp_lat p) radian; l2 = fmul (gp_lat q) radian; half = (\<lambda>x. m_sin m (fdiv x (Fin 2)));
             a = fadd (fmul (half dlat) (half dlat)) (fmul (fmul (fmul (m_cos m l1) (m_cos m l2)) (half dlon)) (half dlon));
             c = fmul (Fin 2) (m_atan2 m (fsqrt a) (fsqrt (fsub (Fin 1) a))) in
         fmul (Fin 6371) c))"

definition dur_hours :: "duration \<Rightarrow> f64" where
  "dur_hours d = fadd (of_int64 (go_div d hour)) (fdiv (of_int64 (go_mod d hour)) (Fin 3600000000000))"

definition implied_speed :: "go_math \<Rightarrow> geo_point \<Rightarrow> geo_point \<Rightarrow> duration \<Rightarrow> f64 \<times> f64" where
  "implied_speed m p q elapsed =
     (let dist = haversine m p q in
      if fle dist (Fin 0) \<or> elapsed \<le> 0 then (dist, Fin 0)
      else if fle (dur_hours elapsed) (Fin 0) then (dist, Fin 99999)
      else (dist, fdiv dist (dur_hours elapsed)))"

subsection \<open>Evaluation\<close>

definition empty_report :: threat_report where
  "empty_report = \<lparr>tr_risk_score = Fin 0, tr_is_malicious_ip = False, tr_is_compromised_dev = False, tr_is_proxy_datacenter = False,
     tr_is_impossible_trip = False, tr_geo_distance_km = Fin 0, tr_implied_speed_kmh = Fin 0, tr_origin_country = '''',
     tr_origin_city = '''', tr_asn = '''', tr_location = None, tr_matches = []\<rparr>"

definition raise_risk :: "string \<Rightarrow> f64 \<Rightarrow> threat_report \<Rightarrow> threat_report" where
  "raise_risk msg score r = r\<lparr>tr_matches := tr_matches r @ [msg], tr_risk_score := fmax (tr_risk_score r) score\<rparr>"

definition locate :: "string \<Rightarrow> ip_location option \<Rightarrow> threat_report \<Rightarrow> threat_report" where
  "locate ip loc r =
     (case loc of None \<Rightarrow> r
      | Some info \<Rightarrow>
          (let r1 = r\<lparr>tr_location := Some info, tr_origin_country := il_country_code info, tr_origin_city := il_city info,
                 tr_asn := il_asn info\<rparr> in
           if il_is_proxy info \<or> il_is_datacenter info then
             raise_risk (''Source IP '' @ ip @ '' belongs to commercial proxy/datacenter ASN ('' @ il_asn info @ '')'')
               (to_f64 (35 / 100)) (r1\<lparr>tr_is_proxy_datacenter := True\<rparr>)
           else r1))"

definition match_address :: "threat_engine \<Rightarrow> string \<Rightarrow> threat_report \<Rightarrow> threat_report" where
  "match_address t ip r =
     (case te_malicious_ips t ip of None \<Rightarrow> r
      | Some score \<Rightarrow> raise_risk (''IP '' @ ip @ '' flagged on known threat blocklist (score: '' @ fmt_fixed 2 score @ '')'') score
          (r\<lparr>tr_is_malicious_ip := True\<rparr>))"

definition match_network :: "threat_engine \<Rightarrow> string \<Rightarrow> int option \<Rightarrow> threat_report \<Rightarrow> threat_report" where
  "match_network t ip parsed r =
     (case parsed of None \<Rightarrow> r
      | Some a \<Rightarrow> (case find (\<lambda>n. net_contains n a) (te_malicious_cidrs t) of None \<Rightarrow> r
          | Some n \<Rightarrow> raise_risk (''IP '' @ ip @ '' matches malicious CIDR block '' @ net_text n) (to_f64 (85 / 100))
              (r\<lparr>tr_is_malicious_ip := True\<rparr>)))"

definition emulator_words :: "string list" where
  "emulator_words = [''emulator'', ''mule'', ''rootkit'', ''genymotion'', ''bluestacks'', ''nox'']"

definition match_device :: "threat_engine \<Rightarrow> string \<Rightarrow> threat_report \<Rightarrow> threat_report" where
  "match_device t dev r =
     (case te_compromised_devices t dev of
        Some score \<Rightarrow> raise_risk (''Device fingerprint '' @ dev @ '' matches known rootkit/emulator IOC (score: '' @ fmt_fixed 2 score @ '')'')
          score (r\<lparr>tr_is_compromised_dev := True\<rparr>)
      | None \<Rightarrow> if list_ex (str_contains (to_lower dev)) emulator_words then
            raise_risk (''Device fingerprint '' @ dev @ '' contains virtualized emulator IOC'') (Fin (3 / 4)) (r\<lparr>tr_is_compromised_dev := True\<rparr>)
          else r)"

definition match_domain :: "threat_engine \<Rightarrow> string \<Rightarrow> threat_report \<Rightarrow> threat_report" where
  "match_domain t mail r =
     (if mail = '''' then r
      else (case te_risky_domains t mail of None \<Rightarrow> r
        | Some score \<Rightarrow> raise_risk (''Email domain '' @ mail @ '' is a temporary disposable provider'') (fmul score (Fin (1 / 2))) r))"

definition hundredths :: "f64 \<Rightarrow> f64" where "hundredths x = fdiv (fround (fmul x (Fin 100))) (Fin 100)"

text \<open>The previous location with its time, and the current time; \<open>None\<close> is a zero time.\<close>

definition match_travel ::
  "go_math \<Rightarrow> ip_location option \<Rightarrow> geo_point option \<Rightarrow> gotime option \<Rightarrow> gotime option \<Rightarrow> threat_report \<Rightarrow> threat_report" where
  "match_travel m loc prev prev_time now_time r =
     (case (loc, prev, prev_time, now_time) of
        (Some info, Some p, Some t0, Some t1) \<Rightarrow>
          (let elapsed = t1 - t0; (dist, speed) = implied_speed m p (il_point info) elapsed;
               r1 = r\<lparr>tr_geo_distance_km := hundredths dist, tr_implied_speed_kmh := hundredths speed\<rparr> in
           if elapsed \<le> 0 then r
           else if flt (Fin 300) dist \<and> flt (Fin 900) speed then
             raise_risk (''Impossible travel velocity: '' @ fmt_fixed 1 dist @ '' km traversed in '' @ fmt_fixed 1 (dur_minutes elapsed) @
               '' minutes (implied speed: '' @ fmt_fixed 1 speed @ '' km/h > 900 km/h ceiling)'') (to_f64 (88 / 100))
               (r1\<lparr>tr_is_impossible_trip := True\<rparr>)
           else r1)
      | _ \<Rightarrow> r)"

definition evaluate_threat_context ::
  "go_math \<Rightarrow> threat_engine \<Rightarrow> string \<Rightarrow> string \<Rightarrow> string \<Rightarrow> geo_point option \<Rightarrow> gotime option \<Rightarrow> gotime option \<Rightarrow> threat_report" where
  "evaluate_threat_context m t ip dev mail prev prev_time now_time =
     (let parsed = parse_ip (trim_space ip); loc = Option.bind parsed (subnet_location t) in
      match_travel m loc prev prev_time now_time
        (match_domain t mail (match_device t dev (match_network t ip parsed (match_address t ip (locate ip loc empty_report))))))"

definition check_threat :: "go_math \<Rightarrow> threat_engine \<Rightarrow> string \<Rightarrow> string \<Rightarrow> string \<Rightarrow> f64 \<times> string list" where
  "check_threat m t ip dev mail =
     (let r = evaluate_threat_context m t ip dev mail None None None in (tr_risk_score r, tr_matches r))"

subsection \<open>The baseline\<close>

definition v4_net :: "int \<Rightarrow> nat \<Rightarrow> ip_net" where "v4_net n p = \<lparr>net_v4 = True, net_number = n, net_prefix = p\<rparr>"

lemma baseline_networks:
  "parse_cidr ''198.51.100.0/24'' = Some (v4_net 3325256704 24)" "parse_cidr ''203.0.113.0/24'' = Some (v4_net 3405803776 24)"
  "parse_cidr ''185.220.101.0/24'' = Some (v4_net 3118228736 24)" "parse_cidr ''106.51.0.0/16'' = Some (v4_net 1781727232 16)"
  "parse_cidr ''122.160.0.0/16'' = Some (v4_net 2057306112 16)" "parse_cidr ''12.0.0.0/8'' = Some (v4_net 201326592 8)"
  by code_simp+

lemma register_geo_subnet_fields [simp]:
  "te_malicious_ips (register_geo_subnet c i t) = te_malicious_ips t" "te_malicious_cidrs (register_geo_subnet c i t) = te_malicious_cidrs t"
  "te_known_geo_subnets (register_geo_subnet c i t) =
     te_known_geo_subnets t @ (case parse_cidr c of None \<Rightarrow> [] | Some n \<Rightarrow> [(n, i)])"
  by (simp_all add: register_geo_subnet_def split: option.split)

lemma new_engine_addresses: "te_malicious_ips new_threat_engine ip \<noteq> None \<longleftrightarrow> ip \<in> {''198.51.100.44'', ''203.0.113.88'', ''203.0.113.195''}"
  by (simp add: new_threat_engine_def baseline_subnets_def)

lemma new_engine_networks: "te_malicious_cidrs new_threat_engine = [v4_net 3325256704 24, v4_net 3405803776 24, v4_net 3118228736 24]"
  by (simp add: new_threat_engine_def baseline_subnets_def baseline_cidrs_def baseline_networks)

lemma new_engine_subnets:
  "te_known_geo_subnets new_threat_engine =
     zip [v4_net 3325256704 24, v4_net 3405803776 24, v4_net 1781727232 16, v4_net 2057306112 16, v4_net 201326592 8] (map snd baseline_subnets)"
  by (simp add: new_threat_engine_def baseline_subnets_def baseline_networks)

subsection \<open>What each step changes\<close>

lemma raise_risk_flags [simp]:
  "tr_is_malicious_ip (raise_risk msg s r) = tr_is_malicious_ip r" "tr_is_impossible_trip (raise_risk msg s r) = tr_is_impossible_trip r"
  "tr_is_compromised_dev (raise_risk msg s r) = tr_is_compromised_dev r"
  "tr_is_proxy_datacenter (raise_risk msg s r) = tr_is_proxy_datacenter r" "tr_risk_score (raise_risk msg s r) = fmax (tr_risk_score r) s"
  by (simp_all add: raise_risk_def)

lemma malicious_steps [simp]:
  "tr_is_malicious_ip (locate ip loc r) = tr_is_malicious_ip r"
  "tr_is_malicious_ip (match_address t ip r) \<longleftrightarrow> te_malicious_ips t ip \<noteq> None \<or> tr_is_malicious_ip r"
  "tr_is_malicious_ip (match_device t dev r) = tr_is_malicious_ip r"
  "tr_is_malicious_ip (match_domain t mail r) = tr_is_malicious_ip r"
  "tr_is_malicious_ip (match_travel m loc p t0 t1 r) = tr_is_malicious_ip r"
  by (auto simp: locate_def match_address_def match_device_def match_domain_def match_travel_def Let_def split: option.split prod.split)

lemma find_Some_ex: "find P xs \<noteq> None \<longleftrightarrow> (\<exists>x \<in> set xs. P x)"
  by (induction xs) auto

lemma malicious_network:
  "tr_is_malicious_ip (match_network t ip parsed r) \<longleftrightarrow>
     tr_is_malicious_ip r \<or> (\<exists>a. parsed = Some a \<and> (\<exists>n \<in> set (te_malicious_cidrs t). net_contains n a))"
proof (cases parsed)
  case (Some a)
  then show ?thesis
    using find_Some_ex [of "\<lambda>n. net_contains n a" "te_malicious_cidrs t"] by (auto simp: match_network_def split: option.split)
qed (simp add: match_network_def)

lemma malicious_iff:
  "tr_is_malicious_ip (evaluate_threat_context m t ip dev mail p t0 t1) \<longleftrightarrow> te_malicious_ips t ip \<noteq> None \<or>
     (\<exists>a. parse_ip (trim_space ip) = Some a \<and> (\<exists>n \<in> set (te_malicious_cidrs t). net_contains n a))"
  by (simp add: evaluate_threat_context_def Let_def malicious_network empty_report_def)

text \<open>
  An address that an operator adds to the blocklist is matched by its text.  The same address in another
  spelling, mapped to IPv6 or with a blank, is not malicious unless a blocked network contains it.
\<close>

theorem blocklist_matches_spelling:
  assumes "parse_ip (trim_space ip') = Some a" "parse_ip (trim_space ip) = Some a" "ip' \<noteq> ip" "te_malicious_ips t ip' = None"
      and "list_all (\<lambda>n. \<not> net_contains n a) (te_malicious_cidrs t)"
  shows "tr_is_malicious_ip (evaluate_threat_context m (add_malicious_ip ip score t) ip dev mail p t0 t1) \<and>
    \<not> tr_is_malicious_ip (evaluate_threat_context m (add_malicious_ip ip score t) ip' dev mail p t0 t1)"
  using assms by (simp add: malicious_iff add_malicious_ip_def list_all_iff)

lemma blocklist_matches_spelling_witness:
  "tr_is_malicious_ip (evaluate_threat_context m (add_malicious_ip ''8.8.8.8'' (Fin 1) new_threat_engine) ''8.8.8.8'' dev mail p t0 t1) \<and>
   \<not> tr_is_malicious_ip
       (evaluate_threat_context m (add_malicious_ip ''8.8.8.8'' (Fin 1) new_threat_engine) ''::ffff:8.8.8.8'' dev mail p t0 t1)"
proof -
  have parsed: "parse_ip (trim_space ''::ffff:8.8.8.8'') = Some (mapped 134744072)" "parse_ip (trim_space ''8.8.8.8'') = Some (mapped 134744072)"
    by code_simp+
  have "te_malicious_ips new_threat_engine ''::ffff:8.8.8.8'' = None" using new_engine_addresses [of "''::ffff:8.8.8.8''"] by simp
  moreover have "list_all (\<lambda>n. \<not> net_contains n (mapped 134744072)) (te_malicious_cidrs new_threat_engine)"
    unfolding new_engine_networks by code_simp
  ultimately show ?thesis using blocklist_matches_spelling [OF parsed] by simp
qed

subsection \<open>Impossible travel\<close>

lemma twelve_minutes: "\<exists>h. dur_hours (12 * minute) = Fin h \<and> 0 < h \<and> h \<le> 1 / 4"
proof -
  have "case dur_hours (12 * minute) of Fin h \<Rightarrow> 0 < h \<and> h \<le> 1 / 4 | _ \<Rightarrow> False" by code_simp
  then show ?thesis by (simp split: f64.splits)
qed

lemma far_in_twelve_minutes:
  assumes "flt (Fin 300) (haversine m p q)"
  shows "\<exists>v. implied_speed m p q (12 * minute) = (haversine m p q, v) \<and> flt (Fin 900) v"
proof -
  obtain h where h: "dur_hours (12 * minute) = Fin h" "0 < h" "h \<le> 1 / 4" using twelve_minutes by blast
  have "flt (Fin 900) (fdiv (haversine m p q) (Fin h))"
  proof (cases "haversine m p q")
    case (Fin d)
    then have "1200 \<le> d / h" using assms h(2, 3) by (simp add: field_simps)
    then have "fle (Fin 1200) (to_f64 (d / h))" using to_f64_mono [of 1200 "d / h"] to_f64_of_int [of 1200] by simp
    then show ?thesis using Fin h(2) by (cases "to_f64 (d / h)") auto
  qed (use assms h in \<open>auto simp: inf_of_sign_def\<close>)
  moreover have "\<not> fle (haversine m p q) (Fin 0)" using assms by (cases "haversine m p q") auto
  ultimately show ?thesis using h by (simp add: implied_speed_def Let_def minute_def second_def)
qed

text \<open>
  The orchestrator passes one place, Bengaluru, as the previous location of every customer, twelve minutes
  ago.  So every request from a located network more than 300 km away from there is an impossible trip.
\<close>

theorem everyone_travels_from_bengaluru:
  assumes "parse_ip (trim_space ip) = Some a" "subnet_location t a = Some info" "flt (Fin 300) (haversine m bengaluru (il_point info))"
  shows "tr_is_impossible_trip (evaluate_threat_context m t ip dev mail (Some bengaluru) (Some (now - 12 * minute)) (Some now))"
  using far_in_twelve_minutes [OF assms(3)] assms
  by (auto simp: evaluate_threat_context_def match_travel_def Let_def minute_def second_def)

text \<open>Rough values of the three functions for the angles between Bengaluru and New Delhi.\<close>

definition rough_math :: go_math where
  "rough_math = \<lparr>m_sin = (\<lambda>_. Fin (1 / 8)), m_cos = (\<lambda>_. Fin 1), m_atan2 = (\<lambda>_ _. Fin (1 / 8))\<rparr>"

lemma rough_distance:
  "gp_lat p \<noteq> gp_lat q \<Longrightarrow> is_fin (gp_lat p) \<Longrightarrow> is_fin (gp_lat q) \<Longrightarrow> gp_lat p \<noteq> Fin 0 \<Longrightarrow> gp_lat q \<noteq> Fin 0 \<Longrightarrow>
     haversine rough_math p q = fmul (Fin 6371) (fmul (Fin 2) (Fin (1 / 8)))"
  by (cases "gp_lat p"; cases "gp_lat q") (simp_all add: haversine_def rough_math_def Let_def)

lemma everyone_travels_from_bengaluru_witness:
  "tr_is_impossible_trip (evaluate_threat_context rough_math new_threat_engine ''122.160.7.9'' dev mail (Some bengaluru)
     (Some (now - 12 * minute)) (Some now))"
proof -
  have a: "parse_ip (trim_space ''122.160.7.9'') = Some (mapped 2057307913)" by code_simp
  have b: "subnet_location new_threat_engine (mapped 2057307913) =
    Some (location (point (286139 / 10000) (772090 / 10000)) ''IN'' ''New Delhi'' ''AS24560 (Airtel Broadband)'' False)"
    by (simp add: subnet_location_def new_engine_subnets baseline_subnets_def net_contains_def v4_net_def mask_number_def to4_def mapped_def)
  have lat: "gp_lat bengaluru \<noteq> gp_lat (point (286139 / 10000) (772090 / 10000))" "is_fin (gp_lat bengaluru)"
    "is_fin (gp_lat (point (286139 / 10000) (772090 / 10000)))" "gp_lat bengaluru \<noteq> Fin 0" "gp_lat (point (286139 / 10000) (772090 / 10000)) \<noteq> Fin 0"
    by code_simp+
  have "flt (Fin 300) (fmul (Fin 6371) (fmul (Fin 2) (Fin (1 / 8))))" by code_simp
  then have "flt (Fin 300) (haversine rough_math bengaluru (point (286139 / 10000) (772090 / 10000)))" by (simp only: rough_distance [OF lat])
  then show ?thesis by (intro everyone_travels_from_bengaluru [OF a b]) (simp add: location_def)
qed

end
