(* ===== verification/Graph_Engine.thy ===== *)
theory Graph_Engine
  imports Graph_Store Threat_Engine
begin

text \<open>
  The graph engine, \<open>graph/graph_engine.go\<close> and the handler \<open>graph/handler.go\<close>: identifiers of nodes, the nodes
  and edges of a transaction, the evidence of an entity, and the export of a graph for the console.
\<close>

subsection \<open>Identifiers\<close>

definition default_graph_tenant :: string where "default_graph_tenant = ''default''"

definition tenant_or_default :: "string \<Rightarrow> string" where "tenant_or_default t = (if t = '''' then default_graph_tenant else t)"

definition format_node_id :: "string \<Rightarrow> node_type \<Rightarrow> string \<Rightarrow> string" where
  "format_node_id tenant ty raw =
     (if raw = '''' then '''' else tenant_or_default tenant @ '':'' @ to_lower (node_type_string ty) @ '':'' @ raw)"

definition parse_node_id :: "string \<Rightarrow> string \<times> string \<times> string" where
  "parse_node_id i =
     (let t = takeWhile (\<lambda>c. c \<noteq> CHR '':'') i; r = drop (Suc (length t)) i; ty = takeWhile (\<lambda>c. c \<noteq> CHR '':'') r in
      if CHR '':'' \<in> set i \<and> CHR '':'' \<in> set r then (t, to_upper ty, drop (Suc (length ty)) r)
      else (default_graph_tenant, node_type_string NodeAccount, i))"

definition raw_id :: "string \<Rightarrow> string" where "raw_id i = snd (snd (parse_node_id i))"

subsection \<open>Ingestion\<close>

record transaction_links =
  tl_txn :: string
  tl_user :: string
  tl_account :: string
  tl_card :: string
  tl_device :: string
  tl_ip :: string
  tl_merchant :: string
  tl_amount :: f64
  tl_fraud :: bool

definition fresh_node :: "gotime \<Rightarrow> string \<Rightarrow> node_type \<Rightarrow> bool \<Rightarrow> string \<Rightarrow> graph_node" where
  "fresh_node now tenant ty bad raw = \<lparr>gn_id = format_node_id tenant ty raw, gn_type = ty, gn_risk_score = Fin 0, gn_known_bad = bad,
     gn_created_at = Some now, gn_updated_at = None\<rparr>"

definition link_nodes :: "gotime \<Rightarrow> string \<Rightarrow> transaction_links \<Rightarrow> graph_node list" where
  "link_nodes now tenant l =
     [fresh_node now tenant NodeTransaction (tl_fraud l) (tl_txn l), fresh_node now tenant NodeUser (tl_fraud l) (tl_user l),
      fresh_node now tenant NodeAccount (tl_fraud l) (tl_account l), fresh_node now tenant NodeCard (tl_fraud l) (tl_card l),
      fresh_node now tenant NodeDevice (tl_fraud l) (tl_device l), fresh_node now tenant NodeIPAddress (tl_fraud l) (tl_ip l),
      fresh_node now tenant NodeMerchant False (tl_merchant l)]"

definition fresh_edge :: "gotime \<Rightarrow> edge_type \<Rightarrow> f64 \<Rightarrow> string \<Rightarrow> string \<Rightarrow> graph_edge" where
  "fresh_edge now ty weight u v = \<lparr>ge_id = ''e_'' @ u @ ''_'' @ v, ge_source = u, ge_target = v, ge_type = ty, ge_weight = weight,
     ge_confidence = Fin 1, ge_created_at = Some now, ge_updated_at = None\<rparr>"

definition link_edges :: "gotime \<Rightarrow> string \<Rightarrow> transaction_links \<Rightarrow> graph_edge list" where
  "link_edges now tenant l =
     (let u = format_node_id tenant NodeUser (tl_user l); acc = format_node_id tenant NodeAccount (tl_account l);
          card = format_node_id tenant NodeCard (tl_card l); dev = format_node_id tenant NodeDevice (tl_device l);
          ip = format_node_id tenant NodeIPAddress (tl_ip l); txn = format_node_id tenant NodeTransaction (tl_txn l);
          merch = format_node_id tenant NodeMerchant (tl_merchant l) in
      [fresh_edge now EdgeOwns (Fin 1) u acc, fresh_edge now EdgeConnectedTo (Fin 1) acc card, fresh_edge now EdgeUsedBy (Fin 1) u dev,
       fresh_edge now EdgeUsedBy (Fin 1) acc dev, fresh_edge now EdgeLoggedInFrom (Fin 1) u ip,
       fresh_edge now EdgeTransactedWith (tl_amount l) txn merch, fresh_edge now EdgeTransactedWith (tl_amount l) acc txn])"

definition put_node :: "gotime \<Rightarrow> graph_node \<Rightarrow> graph_store \<Rightarrow> graph_store" where
  "put_node now n s = (if gn_id n \<noteq> '''' \<and> \<not> has_suffix (gn_id n) '':'' then snd (add_node now n s) else s)"

definition put_edge :: "gotime \<Rightarrow> graph_edge \<Rightarrow> graph_store \<Rightarrow> graph_store" where
  "put_edge now e s = (if \<not> has_suffix (ge_source e) '':'' \<and> \<not> has_suffix (ge_target e) '':'' then snd (add_edge now e s) else s)"

definition ingest_links :: "gotime \<Rightarrow> string \<Rightarrow> transaction_links \<Rightarrow> graph_store \<Rightarrow> graph_store" where
  "ingest_links now tenant0 l s =
     (let tenant = tenant_or_default tenant0 in
      fold (put_edge now) (link_edges now tenant l) (fold (put_node now) (link_nodes now tenant l) s))"

subsection \<open>Evidence\<close>

record entity_evidence =
  ev_start_node_id :: string
  ev_visited_nodes :: int
  ev_traversed_edges :: int
  ev_max_depth :: int
  ev_connected_accounts :: int
  ev_shared_devices :: int
  ev_fraud_nodes :: int
  ev_fraud_ring :: bool
  ev_degree_centrality :: int
  ev_risk_contribution :: f64
  ev_matches :: "string list"

definition no_evidence :: "string \<Rightarrow> entity_evidence" where
  "no_evidence start = \<lparr>ev_start_node_id = start, ev_visited_nodes = 0, ev_traversed_edges = 0, ev_max_depth = 0,
     ev_connected_accounts = 0, ev_shared_devices = 0, ev_fraud_nodes = 0, ev_fraud_ring = False, ev_degree_centrality = 0,
     ev_risk_contribution = Fin 0, ev_matches = []\<rparr>"

definition count_others :: "string list \<Rightarrow> graph_store \<Rightarrow> node_type \<Rightarrow> string \<Rightarrow> string list \<Rightarrow> int" where
  "count_others order s ty own ids =
     int (length (filter (\<lambda>i. case get_node order s i of None \<Rightarrow> False | Some n \<Rightarrow> gn_type n = ty \<and> raw_id (gn_id n) \<noteq> own) ids))"

definition graph_risk :: "int \<Rightarrow> int \<Rightarrow> int \<Rightarrow> bool \<Rightarrow> string list \<times> f64" where
  "graph_risk fraud accounts degree ring =
     (let step = (\<lambda>cond msg score (ms, risk). if cond then (ms @ [msg], fmax risk score) else (ms, risk));
          (ms, risk) =
            step ring ''Cyclic or multi-way syndication pattern detected in 3-hop graph cluster'' (to_f64 (90 / 100))
              (step (6 \<le> degree \<and> 2 \<le> accounts)
                (''Elevated graph centrality degree ('' @ itoa degree @ '' >= 6) indicates synthetic hub or mule clustering'') (to_f64 (55 / 100))
                (step (3 \<le> accounts)
                  (''Entity linked across '' @ itoa accounts @ '' distinct accounts via shared hardware/network graph edges'')
                  (fadd (to_f64 (40 / 100)) (fmul (of_int64 accounts) (to_f64 (4 / 100))))
                  (step (0 < fraud)
                    (''Graph traversal intersects '' @ itoa fraud @ '' confirmed fraudulent entities in 3-hop neighborhood'') (to_f64 (85 / 100))
                    ([], Fin 0)))) in
      (ms, hundredths (if flt (to_f64 (95 / 100)) risk then to_f64 (95 / 100) else risk)))"

definition start_entity :: "string \<Rightarrow> string \<Rightarrow> string \<Rightarrow> string \<Rightarrow> string" where
  "start_entity tenant account dev ip =
     (if account \<noteq> '''' then format_node_id tenant NodeAccount account
      else if dev \<noteq> '''' then format_node_id tenant NodeDevice dev
      else format_node_id tenant NodeIPAddress ip)"

definition evaluate_entity :: "string list \<Rightarrow> gotime \<Rightarrow> string \<Rightarrow> string \<Rightarrow> string \<Rightarrow> string \<Rightarrow> graph_store \<Rightarrow> entity_evidence" where
  "evaluate_entity order now tenant0 account dev ip s =
     (let tenant = tenant_or_default tenant0; start = start_entity tenant account dev ip in
      if start = '''' \<or> has_suffix start '':'' then no_evidence ''''
      else (let g = traverse_3hop_temporal order s start now (72 * hour) 50;
                accounts = count_others order s NodeAccount account (gv_reachable g);
                devices = count_others order s NodeDevice dev (gv_reachable g);
                degree = accounts * 2 + devices * 2 + int (gv_traversed_edges g div 4);
                (ms, risk) = graph_risk (int (gv_fraud_nodes g)) accounts degree (gv_fraud_ring g) in
        \<lparr>ev_start_node_id = start, ev_visited_nodes = int (gv_visited_nodes g), ev_traversed_edges = int (gv_traversed_edges g),
         ev_max_depth = int (gv_max_depth g), ev_connected_accounts = accounts, ev_shared_devices = devices,
         ev_fraud_nodes = int (gv_fraud_nodes g), ev_fraud_ring = gv_fraud_ring g, ev_degree_centrality = degree,
         ev_risk_contribution = risk, ev_matches = ms\<rparr>))"

subsection \<open>The demonstration graph\<close>

definition demo_links :: "transaction_links list" where
  "demo_links =
     [\<lparr>tl_txn = ''txn_88419'', tl_user = ''usr_1001'', tl_account = ''acc_victim_01'', tl_card = ''tok_card_99'', tl_device = ''dev_emul_01'',
       tl_ip = ''185.220.101.5'', tl_merchant = ''merch_crypto_99'', tl_amount = Fin 82000, tl_fraud = True\<rparr>,
      \<lparr>tl_txn = ''txn_88420'', tl_user = ''usr_1002'', tl_account = ''acc_mule_02'', tl_card = ''tok_card_99'', tl_device = ''dev_emul_01'',
       tl_ip = ''185.220.101.5'', tl_merchant = ''merch_payout_hub'', tl_amount = Fin 45000, tl_fraud = True\<rparr>,
      \<lparr>tl_txn = ''txn_88421'', tl_user = ''usr_1003'', tl_account = ''acc_mule_03'', tl_card = ''tok_card_88'', tl_device = ''dev_emul_02'',
       tl_ip = ''185.220.101.6'', tl_merchant = ''merch_payout_hub'', tl_amount = Fin 92000, tl_fraud = True\<rparr>,
      \<lparr>tl_txn = ''txn_88422'', tl_user = ''usr_1004'', tl_account = ''PA-77120'', tl_card = ''tok_card_77'', tl_device = ''dev_emul_02'',
       tl_ip = ''198.51.100.44'', tl_merchant = ''merch_payout_hub'', tl_amount = Fin 145000, tl_fraud = True\<rparr>]"

definition mule_edge :: "gotime \<Rightarrow> string \<Rightarrow> string \<Rightarrow> f64 \<Rightarrow> graph_edge" where
  "mule_edge now i account amount = \<lparr>ge_id = i, ge_source = format_node_id default_graph_tenant NodeAccount account,
     ge_target = format_node_id default_graph_tenant NodeAccount ''PA-77120'', ge_type = EdgeTransferredTo, ge_weight = amount,
     ge_confidence = Fin 1, ge_created_at = Some now, ge_updated_at = None\<rparr>"

definition seed_demo_graph :: "gotime \<Rightarrow> graph_store \<Rightarrow> graph_store" where
  "seed_demo_graph now s =
     snd (add_edge now (mule_edge now ''e_mule_2_depot'' ''acc_mule_03'' (Fin 92000))
       (snd (add_edge now (mule_edge now ''e_mule_1_depot'' ''acc_mule_02'' (Fin 45000))
         (fold (ingest_links now default_graph_tenant) demo_links s))))"

definition ingest_transaction_links :: "gotime \<Rightarrow> transaction_links \<Rightarrow> graph_store \<Rightarrow> graph_store" where
  "ingest_transaction_links now l s = ingest_links now default_graph_tenant l s"

definition evaluate_entity_graph :: "string list \<Rightarrow> gotime \<Rightarrow> string \<Rightarrow> string \<Rightarrow> string \<Rightarrow> graph_store \<Rightarrow> entity_evidence" where
  "evaluate_entity_graph order now account dev ip s = evaluate_entity order now default_graph_tenant account dev ip s"

subsection \<open>Export for the console\<close>

record console_entity =
  ce_id :: string
  ce_type :: string
  ce_label :: string
  ce_risk :: string
  ce_x :: f64
  ce_y :: f64
  ce_hop :: nat
  ce_first_seen :: string
  ce_last_seen :: string
  ce_attributes :: "(string \<times> string) list"
  ce_signals :: "string list"

record console_relationship =
  cr_source :: string
  cr_target :: string
  cr_label :: string
  cr_on_decision_path :: bool

record console_graph =
  cg_root_id :: string
  cg_decision_id :: string
  cg_source :: string
  cg_entities :: "console_entity list"
  cg_relationships :: "console_relationship list"

definition tenant_of :: "string \<Rightarrow> string" where "tenant_of i = fst (parse_node_id i)"

definition shown_node :: "string \<Rightarrow> graph_node \<Rightarrow> bool" where
  "shown_node tenant n \<longleftrightarrow> tenant_of (gn_id n) = tenant \<or> tenant = ''all''"

definition shown_edge :: "string \<Rightarrow> graph_edge \<Rightarrow> bool" where
  "shown_edge tenant e \<longleftrightarrow> tenant_of (ge_source e) = tenant \<and> tenant_of (ge_target e) = tenant \<or> tenant = ''all''"

definition export_root :: "string \<Rightarrow> string \<Rightarrow> graph_node list \<Rightarrow> string" where
  "export_root tenant start nodes =
     (if start \<noteq> '''' then (if CHR '':'' \<in> set start then start else format_node_id tenant NodeAccount start)
      else (case find (\<lambda>n. raw_id (gn_id n) = ''PA-77120'' \<or> raw_id (gn_id n) = ''acc_victim_01'' \<or> gn_known_bad n) nodes of
          Some n \<Rightarrow> gn_id n
        | None \<Rightarrow> (case nodes of [] \<Rightarrow> '''' | n # _ \<Rightarrow> gn_id n)))"

definition other_end :: "string \<Rightarrow> graph_edge \<Rightarrow> string" where
  "other_end i e = (if ge_source e = i then ge_target e else if ge_target e = i then ge_source e else '''')"

definition hop_edge :: "string \<Rightarrow> nat \<Rightarrow> graph_edge \<Rightarrow> (string \<rightharpoonup> nat) \<times> string list \<Rightarrow> (string \<rightharpoonup> nat) \<times> string list" where
  "hop_edge i h e = (\<lambda>(hop, q). let v = other_end i e in
     if v = '''' \<or> hop v \<noteq> None then (hop, q) else (hop(v \<mapsto> h + 1), if h + 1 < 3 then q @ [v] else q))"

text \<open>The ends of edges that have no distance yet, and the queue, bound the loop.\<close>

definition end_ids :: "graph_edge list \<Rightarrow> string list" where "end_ids es = map ge_source es @ map ge_target es"

definition hop_work :: "graph_edge list \<Rightarrow> (string \<rightharpoonup> nat) \<Rightarrow> string list \<Rightarrow> nat" where
  "hop_work es hop q = card {v \<in> set (end_ids es). hop v = None} + length q"

lemma hop_edge_work:
  assumes "e \<in> set es"
  shows "hop_work es (fst (hop_edge i h e (hop, q))) (snd (hop_edge i h e (hop, q))) \<le> hop_work es hop q"
proof (cases "other_end i e = '''' \<or> hop (other_end i e) \<noteq> None")
  case False
  define v where "v = other_end i e"
  have v: "v \<in> set (end_ids es)" "hop v = None"
    using False assms by (auto simp: v_def other_end_def end_ids_def split: if_splits)
  define A where "A = {u \<in> set (end_ids es). hop u = None}"
  have "{u \<in> set (end_ids es). (hop(v \<mapsto> h + 1)) u = None} = A - {v}" by (auto simp: A_def)
  moreover have "Suc (card (A - {v})) = card A" using v by (intro card_Suc_Diff1) (auto simp: A_def)
  ultimately have "Suc (card {u \<in> set (end_ids es). (hop(v \<mapsto> h + 1)) u = None}) = card {u \<in> set (end_ids es). hop u = None}"
    by (simp only: A_def [symmetric])
  then show ?thesis using False by (simp add: hop_edge_def hop_work_def Let_def v_def)
qed (auto simp: hop_edge_def Let_def)

lemma hop_edges_work:
  "set fs \<subseteq> set es \<Longrightarrow> hop_work es (fst (fold (hop_edge i h) fs (hop, q))) (snd (fold (hop_edge i h) fs (hop, q))) \<le> hop_work es hop q"
proof (induction fs arbitrary: hop q)
  case (Cons f fs)
  obtain hop1 q1 where f: "hop_edge i h f (hop, q) = (hop1, q1)" by fastforce
  have "hop_work es hop1 q1 \<le> hop_work es hop q" using hop_edge_work [of f es i h hop q] Cons.prems f by simp
  moreover have "hop_work es (fst (fold (hop_edge i h) fs (hop1, q1))) (snd (fold (hop_edge i h) fs (hop1, q1))) \<le> hop_work es hop1 q1"
    using Cons.IH Cons.prems by simp
  ultimately show ?case by (simp add: f)
qed simp

function hop_distances :: "graph_edge list \<Rightarrow> (string \<rightharpoonup> nat) \<Rightarrow> string list \<Rightarrow> (string \<rightharpoonup> nat)" where
  "hop_distances es hop [] = hop"
| "hop_distances es hop (i # q) =
     (let (hop', q') = fold (hop_edge i (case_option 0 id (hop i))) es (hop, q) in hop_distances es hop' q')"
  by pat_completeness auto
termination
proof (relation "measure (\<lambda>(es, hop, q). hop_work es hop q)", simp, clarify)
  fix es hop i q x hop' q'
  assume step: "(hop', q') = fold (hop_edge i (case_option 0 id (hop i))) es (hop, q)"
  have "hop_work es hop' q' \<le> hop_work es hop q" using hop_edges_work [of es es i _ hop q] by (metis step fst_conv snd_conv subset_refl)
  then show "((es, hop', q'), es, hop, i # q) \<in> measure (\<lambda>(es, hop, q). hop_work es hop q)" by (simp add: hop_work_def)
qed

definition hop_of :: "(string \<rightharpoonup> nat) \<Rightarrow> string \<Rightarrow> nat" where "hop_of hop i = case_option 3 id (hop i)"

definition go_pi :: f64 where
  "go_pi = to_f64 (314159265358979323846264338327950288419716939937510582097494459 / 10 ^ 62)"

definition tenths :: "f64 \<Rightarrow> f64" where "tenths x = fdiv (fround (fmul x (Fin 10))) (Fin 10)"

definition radius :: "nat \<Rightarrow> f64" where "radius h = (if h = 1 then Fin 20 else if h = 2 then Fin 34 else Fin 44)"

text \<open>The root is in the middle; the nodes of a hop share a circle.\<close>

definition coordinates :: "go_math \<Rightarrow> string \<Rightarrow> (string \<rightharpoonup> nat) \<Rightarrow> string list \<Rightarrow> string \<Rightarrow> f64 \<times> f64" where
  "coordinates m rt hop ids i =
     (let h = hop_of hop i; peers = filter (\<lambda>j. hop_of hop j = h) ids; k = length (takeWhile (\<lambda>j. j \<noteq> i) peers);
          angle = fmul (fmul (fdiv (of_int64 (int k)) (of_int64 (int (length peers)))) (Fin 2)) go_pi in
      if 1 \<le> h \<and> h \<le> 3 then
        (tenths (fadd (Fin 50) (fmul (radius h) (m_cos m angle))),
         tenths (fadd (Fin 50) (fmul (fmul (radius h) (m_sin m angle)) (to_f64 (88 / 100)))))
      else if i = rt then (Fin 50, Fin 50) else (Fin 0, Fin 0))"

definition console_type :: "node_type \<Rightarrow> string" where
  "console_type ty = (case ty of NodeUser \<Rightarrow> ''CUSTOMER'' | NodeDevice \<Rightarrow> ''DEVICE'' | NodeIPAddress \<Rightarrow> ''IP''
     | NodeTransaction \<Rightarrow> ''TRANSACTION'' | _ \<Rightarrow> ''ACCOUNT'')"

definition console_risk :: "nat \<Rightarrow> graph_node \<Rightarrow> string" where
  "console_risk h n =
     (if gn_known_bad n \<or> fle (to_f64 (80 / 100)) (gn_risk_score n) then ''CONFIRMED_FRAUD''
      else if fle (Fin (1 / 2)) (gn_risk_score n) then ''SUSPECT'' else if h = 1 then ''WATCH'' else ''CLEAN'')"

definition mask_ip :: "string \<Rightarrow> string" where
  "mask_ip ip = (case split_on (CHR ''.'') ip of [a, b, _, _] \<Rightarrow> a @ ''.'' @ b @ ''.***.***'' | _ \<Rightarrow> ip)"

definition console_node :: "go_math \<Rightarrow> gotime \<Rightarrow> string \<Rightarrow> (string \<rightharpoonup> nat) \<Rightarrow> string list \<Rightarrow> graph_node \<Rightarrow> console_entity" where
  "console_node m now rt hop ids n =
     (let h = hop_of hop (gn_id n); raw = raw_id (gn_id n); (x, y) = coordinates m rt hop ids (gn_id n) in
      \<lparr>ce_id = raw, ce_type = console_type (gn_type n), ce_label = (if gn_type n = NodeIPAddress then mask_ip raw else raw),
       ce_risk = console_risk h n, ce_x = x, ce_y = y, ce_hop = h,
       ce_first_seen = rfc3339 (case gn_created_at n of None \<Rightarrow> -62135596800 * second | Some t \<Rightarrow> t), ce_last_seen = rfc3339 now,
       ce_attributes = [(''Type'', node_type_string (gn_type n)), (''Risk Score'', fmt_fixed 2 (gn_risk_score n))],
       ce_signals = [''Live Graph BFS'']\<rparr>)"

definition console_edge :: "graph_edge \<Rightarrow> console_relationship" where
  "console_edge e = \<lparr>cr_source = raw_id (ge_source e), cr_target = raw_id (ge_target e), cr_label = edge_type_string (ge_type e),
     cr_on_decision_path = fle (to_f64 (80 / 100)) (ge_confidence e)\<rparr>"

text \<open>
  The orders in which Go ranges over the maps of nodes and edges are arguments.  An empty graph is first
  filled with the demonstration graph.
\<close>

definition export_tenant_graph ::
  "go_math \<Rightarrow> string list \<Rightarrow> string list \<Rightarrow> gotime \<Rightarrow> string \<Rightarrow> string \<Rightarrow> string \<Rightarrow> graph_store \<Rightarrow> console_graph \<times> graph_store" where
  "export_tenant_graph m node_order edge_order now tenant0 decision start s0 =
     (let s = (if get_all_nodes node_order s0 = [] then seed_demo_graph now s0 else s0); tenant = tenant_or_default tenant0;
          nodes = filter (shown_node tenant) (get_all_nodes node_order s); es = filter (shown_edge tenant) (get_all_edges edge_order s);
          rt = export_root tenant start nodes; hop = hop_distances es [rt \<mapsto> 0] [rt]; ids = map gn_id nodes in
      if nodes = [] then
        (\<lparr>cg_root_id = ''root'', cg_decision_id = decision, cg_source = ''live_graph_engine'', cg_entities = [], cg_relationships = []\<rparr>, s)
      else
        (\<lparr>cg_root_id = raw_id rt, cg_decision_id = decision, cg_source = ''live_graph_engine'',
          cg_entities = map (console_node m now rt hop ids) nodes, cg_relationships = map console_edge es\<rparr>, s))"

text \<open>\<open>GET /v1/graph\<close> takes the tenant from the header, not from the tenant of the request's context.\<close>

definition graph_handler ::
  "go_math \<Rightarrow> string list \<Rightarrow> string list \<Rightarrow> gotime \<Rightarrow> string \<Rightarrow> string \<Rightarrow> string \<Rightarrow> string \<Rightarrow> string \<Rightarrow> graph_store
     \<Rightarrow> console_graph \<times> graph_store" where
  "graph_handler m node_order edge_order now tenant_header decision rt account dev s =
     export_tenant_graph m node_order edge_order now (tenant_or_default tenant_header) decision
       (if rt \<noteq> '''' then rt else if account \<noteq> '''' then account else dev) s"

subsection \<open>Identifiers are read back\<close>

lemma type_words [simp]: "to_upper (to_lower (node_type_string ty)) = node_type_string ty"
  by (induct ty) code_simp+

lemma type_words_plain: "CHR '':'' \<notin> set (to_lower (node_type_string ty))"
  by (induct ty) code_simp+

lemma take_before_colon: "CHR '':'' \<notin> set x \<Longrightarrow> takeWhile (\<lambda>c. c \<noteq> CHR '':'') (x @ CHR '':'' # y) = x"
  by (induction x) auto

text \<open>
  C40: The identifier of an entity yields its tenant, type and raw identifier again when the tenant has no colon;
  the raw identifier may have any.
\<close>

theorem parse_format_node_id:
  assumes "CHR '':'' \<notin> set t" "t \<noteq> ''''" "raw \<noteq> ''''"
  shows "parse_node_id (format_node_id t ty raw) = (t, node_type_string ty, raw)"
  using assms by (simp add: parse_node_id_def format_node_id_def tenant_or_default_def Let_def take_before_colon type_words_plain)

lemma parse_format_node_id_witness:
  "parse_node_id (format_node_id ''acme'' NodeIPAddress ''2001:db8::1'') = (''acme'', node_type_string NodeIPAddress, ''2001:db8::1'')"
  by (rule parse_format_node_id) simp_all

subsection \<open>Marks of fraud\<close>

definition innocent :: "graph_node \<Rightarrow> bool" where "innocent n \<longleftrightarrow> \<not> gn_known_bad n \<and> gn_risk_score n = Fin 0"

lemma innocent_not_fraudulent: "gs_nodes s i = Some n \<Longrightarrow> innocent n \<Longrightarrow> \<not> fraudulent s i"
proof -
  have "\<not> fle (to_f64 (80 / 100)) (Fin 0)" by code_simp
  then show "gs_nodes s i = Some n \<Longrightarrow> innocent n \<Longrightarrow> \<not> fraudulent s i" by (simp add: fraudulent_def innocent_def)
qed

lemma put_edge_nodes [simp]: "gs_nodes (put_edge now e s) = gs_nodes s"
  by (simp add: put_edge_def add_edge_def)

lemma put_edges_nodes [simp]: "gs_nodes (fold (put_edge now) es s) = gs_nodes s"
  by (induction es arbitrary: s) simp_all

definition storable :: "string \<Rightarrow> bool" where "storable i \<longleftrightarrow> i \<noteq> '''' \<and> \<not> has_suffix i '':''"

lemma put_node_at:
  "gs_nodes (put_node now n s) i = (if i = gn_id n \<and> storable i then
     Some (n\<lparr>gn_created_at := (if gn_created_at n = None then Some now else gn_created_at n), gn_updated_at := Some now\<rparr>) else gs_nodes s i)"
  by (auto simp: put_node_def add_node_def storable_def)

lemma innocent_times [simp]: "innocent (n\<lparr>gn_created_at := a\<rparr>) = innocent n" "innocent (n\<lparr>gn_updated_at := a\<rparr>) = innocent n"
  by (simp_all add: innocent_def)

lemma put_nodes_innocent:
  assumes "list_all innocent ns" "i \<in> gn_id ` set ns" "storable i"
  shows "\<exists>m. gs_nodes (fold (put_node now) ns s) i = Some m \<and> innocent m"
  using assms by (induction ns arbitrary: s rule: rev_induct) (auto simp: put_node_at)

lemma link_nodes_innocent: "\<not> tl_fraud l \<Longrightarrow> list_all innocent (link_nodes now t l)"
  by (simp add: link_nodes_def fresh_node_def innocent_def)

text \<open>
  The orchestrator adds every request to the graph before it evaluates the graph, and never as fraud.  The
  nodes of the request replace the nodes of the same identifiers, so its own account, device, card and
  address are unmarked even when they were marked as fraudulent.
\<close>

theorem own_request_clears_fraud_mark:
  assumes "\<not> tl_fraud l"
  shows "list_all (\<lambda>i. storable i \<longrightarrow> \<not> fraudulent (ingest_links now t l s) i) (map gn_id (link_nodes now (tenant_or_default t) l))"
  unfolding list_all_iff
proof (intro ballI impI)
  fix i
  assume i: "i \<in> set (map gn_id (link_nodes now (tenant_or_default t) l))" "storable i"
  obtain m where "gs_nodes (ingest_links now t l s) i = Some m" "innocent m"
    using put_nodes_innocent [OF link_nodes_innocent [OF assms], of i now "tenant_or_default t" now s] i
    by (auto simp: ingest_links_def Let_def)
  then show "\<not> fraudulent (ingest_links now t l s) i" by (rule innocent_not_fraudulent)
qed

subsection \<open>What ingestion reaches\<close>

inductive ingested :: "(string \<Rightarrow> transaction_links \<Rightarrow> bool) \<Rightarrow> graph_store \<Rightarrow> bool" for P where
  ingested_new: "ingested P new_graph_store"
| ingested_links: "ingested P s \<Longrightarrow> P t l \<Longrightarrow> ingested P (ingest_links now t l s)"

definition all_innocent :: "graph_store \<Rightarrow> bool" where
  "all_innocent s \<longleftrightarrow> (\<forall>i n. gs_nodes s i = Some n \<longrightarrow> innocent n)"

lemma put_nodes_keep_innocent: "all_innocent s \<Longrightarrow> list_all innocent ns \<Longrightarrow> all_innocent (fold (put_node now) ns s)"
proof (induction ns arbitrary: s)
  case (Cons n ns)
  have "all_innocent (put_node now n s)"
    using Cons.prems by (auto simp: all_innocent_def put_node_at)
  then show ?case using Cons by simp
qed simp

lemma ingested_innocent: "ingested (\<lambda>t l. \<not> tl_fraud l) s \<Longrightarrow> all_innocent s"
proof (induction rule: ingested.induct)
  case (ingested_links s t l now)
  then have "all_innocent (fold (put_node now) (link_nodes now (tenant_or_default t) l) s)"
    by (intro put_nodes_keep_innocent link_nodes_innocent)
  then show ?case by (simp add: ingest_links_def Let_def all_innocent_def)
qed (simp add: all_innocent_def new_graph_store_def)

lemma no_fraud_counted:
  assumes "all_innocent s"
  shows "gv_fraud_nodes (traverse_3hop_temporal order s i as_of w cap) = 0"
proof (cases "gs_nodes s (resolve_node_id order s i) = None")
  case False
  have "\<not> fraudulent s v" for v
    using assms innocent_not_fraudulent by (cases "gs_nodes s v") (auto simp: all_innocent_def fraudulent_def)
  then show ?thesis
    using False traverse_ok [OF start_traversal_ok] by (simp add: traverse_3hop_temporal_def Let_def traversal_ok_def)
qed (simp add: traverse_3hop_temporal_def Let_def)


subsection \<open>Tenants stay apart\<close>

text \<open>The tenant of an identifier of a node is what precedes its first colon; of an edge, without the letter \<open>e\<close>.\<close>

definition id_tenant :: "string \<Rightarrow> string" where "id_tenant i = takeWhile (\<lambda>c. c \<noteq> CHR '':'') i"

definition edge_tenant :: "string \<Rightarrow> string" where "edge_tenant i = drop 2 (id_tenant i)"

definition edge_apart :: "string \<Rightarrow> graph_edge \<Rightarrow> bool" where
  "edge_apart i e \<longleftrightarrow> id_tenant (ge_source e) = edge_tenant i \<and> id_tenant (ge_target e) = edge_tenant i"

definition tenants_apart :: "graph_store \<Rightarrow> bool" where
  "tenants_apart s \<longleftrightarrow> (\<forall>u. list_all (\<lambda>i. edge_tenant i = id_tenant u) (gs_out s u) \<and> list_all (\<lambda>i. edge_tenant i = id_tenant u) (gs_in s u)) \<and>
     (\<forall>i e. gs_edges s i = Some e \<longrightarrow> edge_apart i e)"

lemma tenants_apart_out: "tenants_apart s \<Longrightarrow> i \<in> set (gs_out s u) \<or> i \<in> set (gs_in s u) \<Longrightarrow> edge_tenant i = id_tenant u"
  by (auto simp: tenants_apart_def list_all_iff)

lemma tenants_apart_edge: "tenants_apart s \<Longrightarrow> gs_edges s i = Some e \<Longrightarrow> edge_apart i e"
  by (simp add: tenants_apart_def)

lemma linked_same_tenant: "tenants_apart s \<Longrightarrow> linked s usable u v \<Longrightarrow> id_tenant v = id_tenant u"
  unfolding linked_def by (metis tenants_apart_out tenants_apart_edge edge_apart_def)

lemma hops_same_tenant: "hops s usable i n v \<Longrightarrow> tenants_apart s \<Longrightarrow> id_tenant v = id_tenant i"
  by (induction rule: hops.induct) (auto dest: linked_same_tenant)

lemma id_tenant_format: "CHR '':'' \<notin> set t \<Longrightarrow> t \<noteq> '''' \<Longrightarrow> raw \<noteq> '''' \<Longrightarrow> id_tenant (format_node_id t ty raw) = t"
  by (simp add: id_tenant_def format_node_id_def tenant_or_default_def take_before_colon)

lemma id_tenant_split: "CHR '':'' \<in> set u \<Longrightarrow> \<exists>r. u = id_tenant u @ CHR '':'' # r \<and> CHR '':'' \<notin> set (id_tenant u)"
proof (induction u)
  case (Cons c u)
  show ?case
  proof (cases "c = CHR '':''")
    case False
    then obtain r where "u = id_tenant u @ CHR '':'' # r" "CHR '':'' \<notin> set (id_tenant u)" using Cons by auto
    moreover have "id_tenant (c # u) = c # id_tenant u" using False by (simp add: id_tenant_def)
    ultimately show ?thesis using False by (intro exI [of _ r]) simp
  qed (simp add: id_tenant_def)
qed simp

text \<open>Between two formatted identifiers of one tenant, an edge belongs to this tenant.\<close>

lemma fresh_edge_apart:
  assumes "id_tenant u = t" "id_tenant v = t" "CHR '':'' \<in> set u"
  shows "edge_apart (ge_id (fresh_edge now ty w u v)) (fresh_edge now ty w u v)"
proof -
  obtain r where "u = t @ '':'' @ r" "CHR '':'' \<notin> set t"
    using id_tenant_split [OF assms(3)] assms(1) by auto
  then have "edge_tenant (''e_'' @ u @ ''_'' @ v) = t" by (simp add: edge_tenant_def id_tenant_def take_before_colon)
  then show ?thesis using assms by (simp add: edge_apart_def fresh_edge_def)
qed

lemma put_edge_apart:
  assumes "tenants_apart s" "ge_source e \<noteq> '''' \<Longrightarrow> ge_target e \<noteq> '''' \<Longrightarrow> edge_apart (ge_id e) e"
  shows "tenants_apart (put_edge now e s)"
proof (cases "put_edge now e s = s")
  case False
  then have e: "ge_source e \<noteq> ''''" "ge_target e \<noteq> ''''" "put_edge now e s = snd (add_edge now e s)" "ge_id e \<noteq> ''''"
    by (auto simp: put_edge_def add_edge_def split: if_splits)
  have apart: "id_tenant (ge_source e) = edge_tenant (ge_id e)" "id_tenant (ge_target e) = edge_tenant (ge_id e)"
    using assms(2) [OF e(1, 2)] by (simp_all add: edge_apart_def)
  have ends: "gs_out (put_edge now e s) u = gs_out s u @ (if u = ge_source e then [ge_id e] else [])"
    "gs_in (put_edge now e s) u = gs_in s u @ (if u = ge_target e then [ge_id e] else [])" for u
    using e by (simp_all add: add_edge_def)
  have "edge_apart i f" if "gs_edges (put_edge now e s) i = Some f" for i f
  proof (cases "i = ge_id e")
    case True
    then show ?thesis using that e apart by (auto simp: add_edge_def edge_apart_def)
  next
    case False
    then have "gs_edges s i = Some f" using that e by (simp add: add_edge_def)
    then show ?thesis by (rule tenants_apart_edge [OF assms(1)])
  qed
  moreover have "list_all (\<lambda>i. edge_tenant i = id_tenant u) (gs_out s u)" "list_all (\<lambda>i. edge_tenant i = id_tenant u) (gs_in s u)" for u
    using tenants_apart_out [OF assms(1)] by (simp_all add: list_all_iff)
  ultimately show ?thesis using apart by (simp add: tenants_apart_def ends)
qed (use assms(1) in simp)

lemma put_edges_apart:
  "tenants_apart s \<Longrightarrow> (\<And>e. e \<in> set es \<Longrightarrow> ge_source e \<noteq> '''' \<Longrightarrow> ge_target e \<noteq> '''' \<Longrightarrow> edge_apart (ge_id e) e) \<Longrightarrow>
     tenants_apart (fold (put_edge now) es s)"
  by (induction es arbitrary: s) (auto intro: put_edge_apart)

lemma put_node_apart: "tenants_apart s \<Longrightarrow> tenants_apart (put_node now n s)"
  by (simp add: tenants_apart_def put_node_def add_node_def)

lemma put_nodes_apart: "tenants_apart s \<Longrightarrow> tenants_apart (fold (put_node now) ns s)"
  by (induction ns arbitrary: s) (simp_all add: put_node_apart)

lemma format_nonempty: "format_node_id t ty raw \<noteq> '''' \<Longrightarrow> CHR '':'' \<notin> set t \<Longrightarrow> t \<noteq> '''' \<Longrightarrow>
    id_tenant (format_node_id t ty raw) = t \<and> CHR '':'' \<in> set (format_node_id t ty raw)"
  using id_tenant_format [of t raw ty] by (cases "raw = ''''") (auto simp: format_node_id_def)

lemma link_edges_apart:
  assumes "CHR '':'' \<notin> set t" "t \<noteq> ''''" "e \<in> set (link_edges now t l)" "ge_source e \<noteq> ''''" "ge_target e \<noteq> ''''"
  shows "edge_apart (ge_id e) e"
proof -
  obtain ty w a x b y where e: "e = fresh_edge now ty w (format_node_id t a x) (format_node_id t b y)"
    using assms(3) by (auto simp: link_edges_def Let_def)
  then have ends: "format_node_id t a x \<noteq> ''''" "format_node_id t b y \<noteq> ''''" using assms(4, 5) by (simp_all add: fresh_edge_def)
  show ?thesis
    unfolding e by (rule fresh_edge_apart) (use format_nonempty [OF ends(1) assms(1, 2)] format_nonempty [OF ends(2) assms(1, 2)] in auto)
qed

lemma ingested_apart: "ingested (\<lambda>t l. CHR '':'' \<notin> set t) s \<Longrightarrow> tenants_apart s"
proof (induction rule: ingested.induct)
  case (ingested_links s t l now)
  have "CHR '':'' \<notin> set (tenant_or_default t)" "tenant_or_default t \<noteq> ''''"
    using ingested_links.hyps by (simp_all add: tenant_or_default_def default_graph_tenant_def)
  then show ?case
    unfolding ingest_links_def Let_def
    by (intro put_edges_apart put_nodes_apart ingested_links.IH) (rule link_edges_apart)
qed (simp add: tenants_apart_def new_graph_store_def)


subsection \<open>The header of the console\<close>

lemma export_ids:
  assumes "get_all_nodes order s \<noteq> []"
  shows "map ce_id (cg_entities (fst (export_tenant_graph m order eorder now t decision start s))) =
    map (raw_id \<circ> gn_id) (filter (shown_node (tenant_or_default t)) (get_all_nodes order s))"
proof -
  have "ce_id (console_node m now rt hop ids n) = raw_id (gn_id n)" for rt hop ids n
    by (simp add: console_node_def Let_def split: prod.split)
  then have "map ce_id (map (console_node m now rt hop ids) ns) = map (raw_id \<circ> gn_id) ns" for rt hop ids ns by simp
  then show ?thesis using assms by (simp add: export_tenant_graph_def Let_def del: map_map)
qed

text \<open>
  C39: The tenant of the export is the header of the request.  The value \<open>all\<close> is no tenant but every tenant: the
  response has the nodes of all of them.  Any other value shows the nodes of that tenant alone.
\<close>

theorem header_all_exports_every_tenant:
  assumes "get_all_nodes order s \<noteq> []"
  shows "map ce_id (cg_entities (fst (graph_handler m order eorder now ''all'' decision rt account dev s))) =
      map (raw_id \<circ> gn_id) (get_all_nodes order s) \<and>
    (t \<noteq> ''all'' \<and> t \<noteq> '''' \<longrightarrow>
      map ce_id (cg_entities (fst (graph_handler m order eorder now t decision rt account dev s))) =
        map (raw_id \<circ> gn_id) (filter (\<lambda>n. tenant_of (gn_id n) = t) (get_all_nodes order s)))"
  using export_ids [OF assms] by (simp add: graph_handler_def tenant_or_default_def shown_node_def cong: filter_cong)

subsection \<open>Examples\<close>

definition sample_links :: "string \<Rightarrow> string \<Rightarrow> bool \<Rightarrow> transaction_links" where
  "sample_links txn account fraud = \<lparr>tl_txn = txn, tl_user = account, tl_account = account, tl_card = ''tok'', tl_device = ''dev'',
     tl_ip = ''10.0.0.1'', tl_merchant = ''merch_default'', tl_amount = Fin 5, tl_fraud = fraud\<rparr>"

definition two_tenants :: graph_store where
  "two_tenants = ingest_links 9 ''globex'' (sample_links ''t2'' ''bob'' False) (ingest_links 5 ''acme'' (sample_links ''t1'' ''ann'' False) new_graph_store)"

lemma two_tenants_ingested: "(\<And>t l. t = ''acme'' \<or> t = ''globex'' \<Longrightarrow> \<not> tl_fraud l \<Longrightarrow> P t l) \<Longrightarrow> ingested P two_tenants"
  unfolding two_tenants_def by (intro ingested.intros) (simp_all add: sample_links_def)

lemma put_nodes_keep: "gs_nodes s i \<noteq> None \<Longrightarrow> gs_nodes (fold (put_node now) ns s) i \<noteq> None"
  by (induction ns arbitrary: s) (simp_all add: put_node_at)

lemma ann_is_a_node: "gs_nodes two_tenants ''acme:account:ann'' \<noteq> None"
proof -
  have "''acme:account:ann'' \<in> gn_id ` set (link_nodes 5 (tenant_or_default ''acme'') (sample_links ''t1'' ''ann'' False))"
    "storable ''acme:account:ann''"
    by code_simp+
  moreover have "\<not> tl_fraud (sample_links ''t1'' ''ann'' False)" by (simp add: sample_links_def)
  ultimately have "gs_nodes (ingest_links 5 ''acme'' (sample_links ''t1'' ''ann'' False) new_graph_store) ''acme:account:ann'' \<noteq> None"
    using put_nodes_innocent [OF link_nodes_innocent] unfolding ingest_links_def Let_def by fastforce
  then show ?thesis
    using put_nodes_keep unfolding two_tenants_def ingest_links_def [of 9] Let_def by fastforce
qed



lemma own_request_clears_fraud_mark_witness:
  "fraudulent (ingest_links 5 ''acme'' (sample_links ''t1'' ''ann'' True) new_graph_store) ''acme:account:ann'' \<and>
   \<not> fraudulent (ingest_links 6 ''acme'' (sample_links ''t2'' ''ann'' False)
       (ingest_links 5 ''acme'' (sample_links ''t1'' ''ann'' True) new_graph_store)) ''acme:account:ann''"
proof -
  have before: "fraudulent (ingest_links 5 ''acme'' (sample_links ''t1'' ''ann'' True) new_graph_store) ''acme:account:ann''" by code_simp
  have "\<not> tl_fraud (sample_links ''t2'' ''ann'' False)" by (simp add: sample_links_def)
  note cleared = own_request_clears_fraud_mark [OF this, of 6 "''acme''"]
  have "''acme:account:ann'' \<in> set (map gn_id (link_nodes 6 (tenant_or_default ''acme'') (sample_links ''t2'' ''ann'' False)))"
    "storable ''acme:account:ann''"
    by code_simp+
  then show ?thesis using before cleared unfolding list_all_iff by blast
qed

definition ann_and_bob :: graph_store where
  "ann_and_bob = put_node 9 (fresh_node 9 ''globex'' NodeAccount False ''bob'') (put_node 5 (fresh_node 5 ''acme'' NodeAccount False ''ann'') new_graph_store)"

lemma header_all_exports_every_tenant_witness:
  "map ce_id (cg_entities (fst (graph_handler rough_math [''acme:account:ann'', ''globex:account:bob''] [] 9 ''all'' '''' '''' '''' '''' ann_and_bob))) =
     [''ann'', ''bob'']"
proof -
  have nodes: "map (raw_id \<circ> gn_id) (get_all_nodes [''acme:account:ann'', ''globex:account:bob''] ann_and_bob) = [''ann'', ''bob'']"
    by code_simp
  then have "get_all_nodes [''acme:account:ann'', ''globex:account:bob''] ann_and_bob \<noteq> []" by auto
  from header_all_exports_every_tenant [OF this] show ?thesis using nodes by simp
qed

end
