(* ===== verification/Idempotency.thy ===== *)
theory Idempotency
  imports Tenant_Context Sha256 Assoc_Lists
begin

text \<open>
  Idempotent request handling, \<open>internal/riskengine/idempotency.go\<close>: the pod-local store of outcomes,
  the statements on the shared table, the decision the middleware takes from their answers, and
  the middleware itself.  A handler runs at one instant \<open>now\<close>.  The order in which Go ranges over a map
  is an argument, and so are the downstream handler and, for the second layer, the answers of the
  database in the order the code asks for them.
\<close>

definition stale_in_flight :: duration where
  "stale_in_flight = 10 * second"

type_synonym headers = "string \<rightharpoonup> string list"

record idem_record =
  ic_request_hash :: string
  ic_status :: int
  ic_body :: string
  ic_headers :: headers
  ic_created_at :: gotime
  ic_expires_at :: gotime
  ic_in_flight :: bool

record idem_store =
  im_records :: "(string \<times> idem_record) list"
  im_ttl :: duration
  im_max_size :: int
  im_hits :: int
  im_misses :: int
  im_conflicts :: int

definition new_idem_store :: "duration \<Rightarrow> int \<Rightarrow> idem_store" where
  "new_idem_store ttl max_size =
     \<lparr>im_records = [], im_ttl = (if ttl \<le> 0 then 15 * minute else ttl),
      im_max_size = (if max_size \<le> 0 then 50000 else max_size), im_hits = 0, im_misses = 0, im_conflicts = 0\<rparr>"

definition compute_request_hash :: "string \<Rightarrow> string \<Rightarrow> string \<Rightarrow> string" where
  "compute_request_hash rmethod path body = sha256_hex (rmethod @ '':'' @ path @ '':'' @ body)"

definition idem_stats :: "idem_store \<Rightarrow> int \<times> int \<times> int" where
  "idem_stats s = (im_hits s, im_misses s, im_conflicts s)"

subsection \<open>The local store\<close>

text \<open>Expired records go first; a store that is still full then loses a tenth and one more, in the
  order of the range over the map.\<close>

definition evict_expired :: "(string list \<Rightarrow> string list) \<Rightarrow> gotime \<Rightarrow> idem_store \<Rightarrow> idem_store" where
  "evict_expired order now s =
     (let live = filter (\<lambda>(k, v). \<not> ic_expires_at v < now) (im_records s) in
      if im_max_size s \<le> int (length live) then
        (let gone = take (nat (go_div (im_max_size s) 10) + 1) (order (map fst live)) in
         s\<lparr>im_records := filter (\<lambda>(k, v). k \<notin> set gone) live\<rparr>)
      else s\<lparr>im_records := live\<rparr>)"

datatype local_answer = LocalConflict | LocalReplay idem_record | LocalMiss

definition local_lookup ::
  "(string list \<Rightarrow> string list) \<Rightarrow> string \<Rightarrow> string \<Rightarrow> gotime \<Rightarrow> idem_store \<Rightarrow> local_answer \<times> idem_store" where
  "local_lookup order store_key req_hash now s0 =
     (let s1 = (if im_max_size s0 \<le> int (length (im_records s0)) then evict_expired order now s0 else s0);
          found = map_of (im_records s1) store_key;
          expired = (case found of Some r \<Rightarrow> ic_expires_at r < now | None \<Rightarrow> False);
          s2 = (if expired then s1\<lparr>im_records := AList.delete store_key (im_records s1)\<rparr> else s1) in
      case (if expired then None else found) of
        Some r \<Rightarrow>
          if ic_request_hash r \<noteq> req_hash then (LocalConflict, s2\<lparr>im_conflicts := im_conflicts s2 + 1\<rparr>)
          else (LocalReplay r, s2\<lparr>im_hits := im_hits s2 + 1\<rparr>)
      | None \<Rightarrow>
          (LocalMiss, s2\<lparr>im_misses := im_misses s2 + 1,
             im_records := AList.update store_key
               \<lparr>ic_request_hash = req_hash, ic_status = 0, ic_body = '''', ic_headers = Map.empty,
                ic_created_at = now, ic_expires_at = now + im_ttl s2, ic_in_flight = True\<rparr> (im_records s2)\<rparr>))"

text \<open>The outcome recorded for a key, when the execution or another pod's is known.\<close>

definition complete_record :: "string \<Rightarrow> int \<Rightarrow> string \<Rightarrow> headers \<Rightarrow> idem_store \<Rightarrow> idem_store" where
  "complete_record store_key status body hdrs s =
     s\<lparr>im_records := AList.map_entry store_key
       (\<lambda>r. r\<lparr>ic_status := status, ic_body := body, ic_headers := hdrs, ic_in_flight := False\<rparr>) (im_records s)\<rparr>"

subsection \<open>The shared table\<close>

record db_row =
  row_request_hash :: string
  row_status :: "int option"
  row_headers :: headers
  row_body :: string
  row_in_flight :: bool
  row_created_at :: gotime
  row_updated_at :: gotime
  row_expires_at :: gotime

type_synonym idem_table = "string \<times> string \<rightharpoonup> db_row"

record db_idem_record =
  dbr_request_hash :: string
  dbr_status :: int
  dbr_body :: string
  dbr_headers :: headers
  dbr_in_flight :: bool
  dbr_created_at :: gotime
  dbr_updated_at :: gotime
  dbr_expires_at :: gotime

datatype fetch_result = FetchError | FetchNone | FetchRow db_idem_record

definition fetch_db_record :: "idem_table \<Rightarrow> string \<Rightarrow> string \<Rightarrow> fetch_result" where
  "fetch_db_record tbl tenant key =
     (case tbl (tenant, key) of None \<Rightarrow> FetchNone
      | Some w \<Rightarrow> FetchRow \<lparr>dbr_request_hash = row_request_hash w,
          dbr_status = (case row_status w of None \<Rightarrow> 200 | Some c \<Rightarrow> c), dbr_body = row_body w,
          dbr_headers = row_headers w, dbr_in_flight = row_in_flight w, dbr_created_at = row_created_at w,
          dbr_updated_at = row_updated_at w, dbr_expires_at = row_expires_at w\<rparr>)"

definition claim_db_in_flight ::
  "string \<Rightarrow> string \<Rightarrow> string \<Rightarrow> gotime \<Rightarrow> gotime \<Rightarrow> idem_table \<Rightarrow> bool \<times> idem_table" where
  "claim_db_in_flight tenant key req_hash expires db_now tbl =
     (case tbl (tenant, key) of Some _ \<Rightarrow> (False, tbl)
      | None \<Rightarrow> (True, tbl((tenant, key) \<mapsto>
          \<lparr>row_request_hash = req_hash, row_status = None, row_headers = Map.empty, row_body = '''',
           row_in_flight = True, row_created_at = db_now, row_updated_at = db_now, row_expires_at = expires\<rparr>)))"

definition reclaim_stale_db_in_flight ::
  "string \<Rightarrow> string \<Rightarrow> string \<Rightarrow> gotime \<Rightarrow> idem_table \<Rightarrow> bool \<times> idem_table" where
  "reclaim_stale_db_in_flight tenant key req_hash db_now tbl =
     (case tbl (tenant, key) of None \<Rightarrow> (False, tbl)
      | Some w \<Rightarrow>
          if row_in_flight w \<and> row_updated_at w < db_now - 10 * second
          then (True, tbl((tenant, key) \<mapsto> w\<lparr>row_request_hash := req_hash, row_updated_at := db_now\<rparr>))
          else (False, tbl))"

text \<open>The statement of the heartbeat that renews the lease every two seconds while executing.\<close>

definition heartbeat :: "string \<Rightarrow> string \<Rightarrow> gotime \<Rightarrow> idem_table \<Rightarrow> idem_table" where
  "heartbeat tenant key db_now tbl =
     (case tbl (tenant, key) of None \<Rightarrow> tbl
      | Some w \<Rightarrow> if row_in_flight w then tbl((tenant, key) \<mapsto> w\<lparr>row_updated_at := db_now\<rparr>) else tbl)"

definition persist_db_completed ::
  "string \<Rightarrow> string \<Rightarrow> int \<Rightarrow> headers \<Rightarrow> string \<Rightarrow> gotime \<Rightarrow> idem_table \<Rightarrow> idem_table" where
  "persist_db_completed tenant key status hdrs body db_now tbl =
     (case tbl (tenant, key) of
        None \<Rightarrow> tbl((tenant, key) \<mapsto> \<lparr>row_request_hash = '''', row_status = Some status, row_headers = hdrs,
          row_body = body, row_in_flight = False, row_created_at = db_now, row_updated_at = db_now,
          row_expires_at = db_now + 15 * minute\<rparr>)
      | Some w \<Rightarrow> tbl((tenant, key) \<mapsto> w\<lparr>row_status := Some status, row_headers := hdrs, row_body := body,
          row_in_flight := False, row_updated_at := db_now\<rparr>))"

text \<open>
  Waiting for another pod: the answers at the ticks until the deadline, or until the request's
  context is done, which ends the list.
\<close>

fun wait_for_db_completion :: "gotime \<Rightarrow> string \<Rightarrow> (gotime \<times> fetch_result) list \<Rightarrow> db_idem_record option" where
  "wait_for_db_completion deadline expected [] = None"
| "wait_for_db_completion deadline expected ((t, f) # ticks) =
     (if deadline < t then None
      else (case f of
          FetchRow r \<Rightarrow>
            if dbr_request_hash r \<noteq> expected then Some r
            else if \<not> dbr_in_flight r then Some r
            else wait_for_db_completion deadline expected ticks
        | _ \<Rightarrow> wait_for_db_completion deadline expected ticks))"

subsection \<open>The second layer\<close>

record db_answers =
  da_fetch :: fetch_result
  da_reclaim :: bool
  da_wait_start :: gotime
  da_ticks :: "(gotime \<times> fetch_result) list"
  da_claim :: bool
  da_refetch :: fetch_result
  da_rereclaim :: bool
  da_rewait_start :: gotime
  da_reticks :: "(gotime \<times> fetch_result) list"

datatype db_decision = DbConflict | DbReplay db_idem_record | DbExecute

definition settle :: "string \<Rightarrow> db_idem_record \<Rightarrow> db_decision" where
  "settle req_hash r = (if dbr_request_hash r \<noteq> req_hash then DbConflict else DbReplay r)"

definition is_stale :: "gotime \<Rightarrow> db_idem_record \<Rightarrow> bool" where
  "is_stale now r \<longleftrightarrow> stale_in_flight \<le> now - dbr_updated_at r"

text \<open>From the claim on: the pod that inserts the row executes.\<close>

definition claim_or_wait :: "gotime \<Rightarrow> string \<Rightarrow> db_answers \<Rightarrow> db_decision" where
  "claim_or_wait now req_hash a =
     (if da_claim a then DbExecute
      else
        (let wait = (case wait_for_db_completion (da_rewait_start a + 3 * second) req_hash (da_reticks a) of
               Some r \<Rightarrow> settle req_hash r | None \<Rightarrow> DbExecute) in
         case da_refetch a of
           FetchRow r \<Rightarrow> if dbr_in_flight r \<and> is_stale now r \<and> da_rereclaim a then DbExecute else wait
         | _ \<Rightarrow> wait))"

definition db_decide :: "gotime \<Rightarrow> string \<Rightarrow> db_answers \<Rightarrow> db_decision" where
  "db_decide now req_hash a =
     (case da_fetch a of
        FetchRow r \<Rightarrow>
          if now < dbr_expires_at r then
            (if dbr_request_hash r \<noteq> req_hash then DbConflict
             else if \<not> dbr_in_flight r then DbReplay r
             else if is_stale now r \<and> da_reclaim a then DbExecute
             else (case wait_for_db_completion (da_wait_start a + 3 * second) req_hash (da_ticks a) of
                 Some d \<Rightarrow> settle req_hash d | None \<Rightarrow> claim_or_wait now req_hash a))
          else claim_or_wait now req_hash a
      | _ \<Rightarrow> claim_or_wait now req_hash a)"

subsection \<open>The middleware\<close>

record idem_request =
  rq_method :: string
  rq_key :: string
  rq_path :: string
  rq_body :: "string option"
  rq_tenant :: tenant_request

record idem_response =
  rp_status :: int
  rp_headers :: headers
  rp_body :: string

text \<open>Writing a status code outside three digits panics.\<close>

datatype idem_outcome = Passthrough idem_response | BodyError | ConflictResponse
  | Replayed idem_response | Executed idem_response | WriteHeaderPanic

definition write_replay :: "int \<Rightarrow> headers \<Rightarrow> string \<Rightarrow> idem_outcome" where
  "write_replay status hdrs body =
     (if status < 100 \<or> 999 < status then WriteHeaderPanic
      else Replayed \<lparr>rp_status = status,
        rp_headers = [''X-Cache-Lookup'' \<mapsto> [''HIT''], ''X-Idempotency-Replayed'' \<mapsto> [''true'']] ++ hdrs,
        rp_body = body\<rparr>)"

definition is_mutation :: "string \<Rightarrow> bool" where
  "is_mutation m \<longleftrightarrow> m \<in> {''POST'', ''PUT'', ''PATCH'', ''DELETE''}"

definition idem_store_key :: "string \<Rightarrow> string \<Rightarrow> string" where
  "idem_store_key tenant key = tenant @ '':'' @ key"

definition request_key :: "idem_request \<Rightarrow> string" where
  "request_key rq = idem_store_key (id_tenant (resolve_tenant_or_fallback (Some (rq_tenant rq)))) (rq_key rq)"

definition request_hash :: "idem_request \<Rightarrow> string" where
  "request_hash rq = compute_request_hash (rq_method rq) (rq_path rq) (case rq_body rq of Some b \<Rightarrow> b | None \<Rightarrow> '''')"

definition execute_downstream ::
  "(idem_request \<Rightarrow> idem_response) \<Rightarrow> idem_request \<Rightarrow> idem_store \<Rightarrow> idem_outcome \<times> idem_store" where
  "execute_downstream handler rq s =
     (let resp = handler rq in
      (Executed resp, complete_record (request_key rq) (rp_status resp) (rp_body resp) (rp_headers resp) s))"

definition idempotency_middleware ::
  "(string list \<Rightarrow> string list) \<Rightarrow> db_answers option \<Rightarrow> (idem_request \<Rightarrow> idem_response) \<Rightarrow> gotime \<Rightarrow>
   idem_request \<Rightarrow> idem_store \<Rightarrow> idem_outcome \<times> idem_store" where
  "idempotency_middleware order db handler now rq s =
     (if \<not> is_mutation (rq_method rq) \<or> rq_key rq = '''' then (Passthrough (handler rq), s)
      else if rq_body rq = None then (BodyError, s)
      else
        (let key = request_key rq; h = request_hash rq in
         case local_lookup order key h now s of
           (LocalConflict, s1) \<Rightarrow> (ConflictResponse, s1)
         | (LocalReplay r, s1) \<Rightarrow> (write_replay (ic_status r) (ic_headers r) (ic_body r), s1)
         | (LocalMiss, s1) \<Rightarrow>
             (case db of None \<Rightarrow> execute_downstream handler rq s1
              | Some a \<Rightarrow>
                  (case db_decide now h a of
                     DbConflict \<Rightarrow> (ConflictResponse, s1\<lparr>im_records := AList.delete key (im_records s1),
                       im_conflicts := im_conflicts s1 + 1\<rparr>)
                   | DbReplay r \<Rightarrow> (write_replay (dbr_status r) (dbr_headers r) (dbr_body r),
                       (complete_record key (dbr_status r) (dbr_body r) (dbr_headers r) s1)\<lparr>im_hits := im_hits s1 + 1\<rparr>)
                   | DbExecute \<Rightarrow> execute_downstream handler rq s1))))"

subsection \<open>Facts about the store\<close>

text \<open>A completed outcome for a key, remembered until a deadline.\<close>

definition remembers :: "idem_store \<Rightarrow> string \<Rightarrow> string \<Rightarrow> idem_response \<Rightarrow> gotime \<Rightarrow> bool" where
  "remembers s key h resp deadline \<longleftrightarrow>
     (\<exists>r. map_of (im_records s) key = Some r \<and> ic_request_hash r = h \<and> ic_status r = rp_status resp \<and>
       ic_body r = rp_body resp \<and> ic_headers r = rp_headers resp \<and> ic_expires_at r = deadline \<and> \<not> ic_in_flight r)"

definition room_for :: "nat \<Rightarrow> idem_store \<Rightarrow> bool" where
  "room_for n s \<longleftrightarrow> int (length (im_records s)) + int n \<le> im_max_size s"

lemma local_lookup_length:
  assumes "room_for 1 s"
  shows "length (im_records (snd (local_lookup order key h now s))) \<le> Suc (length (im_records s))"
proof -
  have "length (AList.update key v (AList.delete key (im_records s))) \<le> Suc (length (im_records s))" for v
    using length_update [of key v "AList.delete key (im_records s)"] length_delete [of key "im_records s"] by linarith
  then show ?thesis
    using assms length_update [of key _ "im_records s"] le_SucI [OF length_delete [of key "im_records s"]]
    by (simp add: local_lookup_def Let_def room_for_def split: option.splits)
qed

lemma local_lookup_config:
  "im_max_size (snd (local_lookup order key h now s)) = im_max_size s \<and>
   im_ttl (snd (local_lookup order key h now s)) = im_ttl s"
  by (simp add: local_lookup_def evict_expired_def Let_def split: option.splits)

lemma local_lookup_room:
  "room_for (Suc n) s \<Longrightarrow> room_for n (snd (local_lookup order key h now s))"
  using local_lookup_length [of s order key h now] local_lookup_config [of order key h now s]
  by (simp add: room_for_def)

lemma local_lookup_remembers:
  assumes "room_for 1 s" "remembers s key h resp deadline" "now \<le> deadline"
  shows "local_lookup order key h' now s =
      (if h' = h then (LocalReplay (the (map_of (im_records s) key)), s\<lparr>im_hits := im_hits s + 1\<rparr>)
       else (LocalConflict, s\<lparr>im_conflicts := im_conflicts s + 1\<rparr>))"
  using assms by (auto simp: local_lookup_def Let_def remembers_def room_for_def)

lemma local_lookup_other_key:
  assumes "room_for 1 s" "key' \<noteq> key" "remembers s key h resp deadline"
  shows "remembers (snd (local_lookup order key' h' now s)) key h resp deadline"
  using assms
  by (auto simp: local_lookup_def Let_def remembers_def room_for_def AList.update_conv' AList.delete_conv' split: option.splits)

lemma local_lookup_miss:
  assumes "fst (local_lookup order key h now s) = LocalMiss" "room_for 1 s"
  shows "\<exists>r. map_of (im_records (snd (local_lookup order key h now s))) key = Some r \<and> ic_request_hash r = h \<and>
    ic_expires_at r = now + im_ttl s"
  using assms
  by (auto simp: local_lookup_def Let_def room_for_def AList.update_conv' split: option.splits if_splits)

lemma complete_remembers:
  assumes "map_of (im_records s) key = Some r" "ic_request_hash r = h" "ic_expires_at r = d"
  shows "remembers (complete_record key (rp_status resp) (rp_body resp) (rp_headers resp) s) key h resp d"
  using assms by (simp add: remembers_def complete_record_def map_of_map_entry)

lemma complete_other_key:
  "key' \<noteq> key \<Longrightarrow> remembers (complete_record key' st b hs s) key h resp d = remembers s key h resp d"
  by (simp add: remembers_def complete_record_def map_of_map_entry)

lemma room_complete [simp]: "room_for n (complete_record key st b hs s) = room_for n s"
  by (simp add: room_for_def complete_record_def)

text \<open>The middleware without a database, on a store with room, around a remembered outcome.\<close>

lemma middleware_room:
  "room_for (Suc n) s \<Longrightarrow> room_for n (snd (idempotency_middleware order None handler now rq s))"
  using local_lookup_room [of n s order "request_key rq" "request_hash rq" now]
  by (auto simp: idempotency_middleware_def execute_downstream_def Let_def room_for_def complete_record_def
      split: local_answer.splits prod.splits)

lemma middleware_keeps:
  assumes "room_for (Suc n) s" "remembers s key h resp deadline" "now \<le> deadline"
  shows "remembers (snd (idempotency_middleware order None handler now rq s)) key h resp deadline"
proof (cases "request_key rq = key")
  case True
  have "room_for 1 s" using assms(1) by (simp add: room_for_def)
  from local_lookup_remembers [OF this assms(2,3)] True assms(2) show ?thesis
    by (auto simp: idempotency_middleware_def Let_def remembers_def)
next
  case False
  have "room_for 1 s" using assms(1) by (simp add: room_for_def)
  from local_lookup_other_key [OF this False assms(2), of order "request_hash rq" now] assms(2) False show ?thesis
    by (auto simp: idempotency_middleware_def execute_downstream_def Let_def complete_other_key
        split: local_answer.splits prod.splits)
qed

definition serve :: "(string list \<Rightarrow> string list) \<Rightarrow> (idem_request \<Rightarrow> idem_response) \<Rightarrow>
    (idem_request \<times> gotime) list \<Rightarrow> idem_store \<Rightarrow> idem_store" where
  "serve order handler rqs s = fold (\<lambda>(rq, t) s. snd (idempotency_middleware order None handler t rq s)) rqs s"

lemma serve_keeps:
  "room_for (n + length rqs) s \<Longrightarrow> remembers s key h resp deadline \<Longrightarrow> \<forall>(rq, t) \<in> set rqs. t \<le> deadline \<Longrightarrow>
   remembers (serve order handler rqs s) key h resp deadline \<and> room_for n (serve order handler rqs s)"
proof (induction rqs arbitrary: s)
  case (Cons x rqs)
  obtain rq t where x: "x = (rq, t)" by force
  show ?case
    using Cons.IH [of "snd (idempotency_middleware order None handler t rq s)"] Cons.prems
      middleware_room [of "n + length rqs" s order handler t rq]
      middleware_keeps [of "n + length rqs" s key h resp deadline t order handler rq]
    by (simp add: serve_def x)
qed (simp add: serve_def)

text \<open>Rows are never removed: a claim that finds one is lost.\<close>

datatype statement = Claim string string string gotime | Reclaim string string string
  | Heartbeat string string | Persist string string int headers string

fun run_statement :: "statement \<times> gotime \<Rightarrow> idem_table \<Rightarrow> idem_table" where
  "run_statement (Claim t k h e, now) tbl = snd (claim_db_in_flight t k h e now tbl)"
| "run_statement (Reclaim t k h, now) tbl = snd (reclaim_stale_db_in_flight t k h now tbl)"
| "run_statement (Heartbeat t k, now) tbl = heartbeat t k now tbl"
| "run_statement (Persist t k st hs b, now) tbl = persist_db_completed t k st hs b now tbl"

lemma statement_keeps_row: "tbl tk \<noteq> None \<Longrightarrow> run_statement (st, now) tbl tk \<noteq> None"
  by (cases st) (auto simp: claim_db_in_flight_def reclaim_stale_db_in_flight_def heartbeat_def
      persist_db_completed_def split: option.splits)

lemma statements_keep_row: "tbl tk \<noteq> None \<Longrightarrow> fold run_statement sts tbl tk \<noteq> None"
proof (induction sts arbitrary: tbl)
  case (Cons a sts)
  then show ?case using statement_keeps_row [of tbl tk "fst a" "snd a"] by simp
qed simp

lemma colon_split_inj:
  "c \<notin> set a \<Longrightarrow> c \<notin> set b \<Longrightarrow> a @ c # s = b @ c # t \<Longrightarrow> a = b \<and> s = t"
proof (induction a arbitrary: b)
  case Nil
  then show ?case by (cases b) auto
next
  case (Cons x a)
  then show ?case by (cases b) auto
qed

subsection \<open>Properties\<close>


definition pay_request :: idem_request where
  "pay_request = \<lparr>rq_method = ''POST'', rq_key = ''k1'', rq_path = ''/v1/risk-evaluations'', rq_body = Some ''100'',
     rq_tenant = \<lparr>tr_context = None, tr_header = ''''\<rparr>\<rparr>"

definition get_request :: idem_request where
  "get_request = pay_request\<lparr>rq_method := ''GET''\<rparr>"

definition created_response :: idem_response where
  "created_response = \<lparr>rp_status = 201, rp_headers = Map.empty, rp_body = ''ok''\<rparr>"


text \<open>
  C25: one pod wins the claim.  Whatever statements the pods run on the shared table after a claim of a
  key, won or lost, in whatever order and at whatever times, no later claim of the key is won.
\<close>

theorem claim_won_at_most_once:
  "\<not> fst (claim_db_in_flight tenant key h' e' now'
     (fold run_statement sts (snd (claim_db_in_flight tenant key h e now tbl))))"
proof -
  have "snd (claim_db_in_flight tenant key h e now tbl) (tenant, key) \<noteq> None"
    by (simp add: claim_db_in_flight_def split: option.split)
  from statements_keep_row [where tbl = "snd (claim_db_in_flight tenant key h e now tbl)" and tk = "(tenant, key)", OF this, of sts]
  show ?thesis by (auto simp: claim_db_in_flight_def split: option.splits)
qed

text \<open>
  what an unexpired row decides.  A row of another hash is a conflict; a completed one of the same
  hash is replayed; and while it is in flight and fresh, a completion seen at any tick before the
  deadline is replayed too.  In none of these cases is the request executed again.
\<close>

theorem completed_row_is_replayed:
  assumes "da_fetch a = FetchRow r" "now < dbr_expires_at r"
    and "da_ticks a = map (\<lambda>t. (t, FetchRow r)) ts @ (t, FetchRow d) # ticks"
    and "\<forall>u \<in> set (ts @ [t]). u \<le> da_wait_start a + 3 * second"
    and "dbr_request_hash d = h" "\<not> dbr_in_flight d" "dbr_in_flight r \<longrightarrow> \<not> is_stale now r"
  shows "db_decide now h a =
    (if dbr_request_hash r \<noteq> h then DbConflict else if dbr_in_flight r then DbReplay d else DbReplay r)"
proof (cases "dbr_request_hash r = h \<and> dbr_in_flight r")
  case True
  then have "wait_for_db_completion (da_wait_start a + 3 * second) h (da_ticks a) = Some d"
    unfolding assms(3) using assms(4-6) by (induction ts) auto
  then show ?thesis using assms(1,2,5,6,7) True by (simp add: db_decide_def settle_def)
next
  case False
  then show ?thesis using assms(1,2) by (auto simp: db_decide_def)
qed

definition busy_row :: db_row where
  "busy_row = \<lparr>row_request_hash = ''h'', row_status = None, row_headers = Map.empty, row_body = '''',
     row_in_flight = True, row_created_at = 0, row_updated_at = 6 * second, row_expires_at = 900 * second\<rparr>"

definition busy_answers :: db_answers where
  "busy_answers = (let f = fetch_db_record [(''t'', ''k'') \<mapsto> busy_row] ''t'' ''k'' in
     \<lparr>da_fetch = f, da_reclaim = False, da_wait_start = 7 * second, da_ticks = [(8 * second, f), (11 * second, f)],
      da_claim = False, da_refetch = f, da_rereclaim = False, da_rewait_start = 11 * second,
      da_reticks = [(12 * second, f), (15 * second, f)]\<rparr>)"

definition fresh_row :: "bool \<Rightarrow> db_idem_record" where
  "fresh_row flight = (case fetch_db_record [(''t'', ''k'') \<mapsto> busy_row\<lparr>row_in_flight := flight\<rparr>] ''t'' ''k'' of
     FetchRow r \<Rightarrow> r)"

lemma completed_row_is_replayed_witness:
  "db_decide (7 * second) ''h'' (busy_answers\<lparr>da_fetch := FetchRow (fresh_row True),
     da_ticks := [(8 * second, FetchRow (fresh_row True)), (9 * second, FetchRow (fresh_row False))]\<rparr>)
   = DbReplay (fresh_row False)"
  using completed_row_is_replayed [of "busy_answers\<lparr>da_fetch := FetchRow (fresh_row True),
      da_ticks := [(8 * second, FetchRow (fresh_row True)), (9 * second, FetchRow (fresh_row False))]\<rparr>"
    "fresh_row True" "7 * second" "[8 * second]" "9 * second" "fresh_row False" "[]" "''h''"]
  by (simp add: fresh_row_def busy_row_def busy_answers_def second_def is_stale_def stale_in_flight_def
      fetch_db_record_def Let_def)

text \<open>
  a slow execution is executed twice.  If the pod that holds a key is still executing, its lease kept
  fresh by its heartbeat, then a second pod with the same request waits for two deadlines of three
  seconds and then executes the request too: every answer it gets from the table is that the key is
  claimed and in flight.
\<close>

theorem slow_execution_runs_twice:
  assumes "tbl (tenant, key) = Some w" "row_in_flight w" "row_request_hash w = h"
    and "now < row_expires_at w" "now - row_updated_at w < stale_in_flight"
    and "\<forall>(t, f) \<in> set (da_ticks a) \<union> set (da_reticks a). f = fetch_db_record tbl tenant key"
    and "da_fetch a = fetch_db_record tbl tenant key" "da_refetch a = fetch_db_record tbl tenant key"
    and "da_claim a = fst (claim_db_in_flight tenant key h (now + ttl) db_now tbl)"
  shows "db_decide now h a = DbExecute"
proof -
  obtain r where r: "fetch_db_record tbl tenant key = FetchRow r" "dbr_request_hash r = h" "dbr_in_flight r"
    "dbr_updated_at r = row_updated_at w" "dbr_expires_at r = row_expires_at w"
    using assms(1-3) by (simp add: fetch_db_record_def)
  have w: "wait_for_db_completion d h ticks = None" if "\<forall>(t, f) \<in> set ticks. f = FetchRow r" for d ticks
    using that r(2,3) by (induction ticks) auto
  have "\<not> da_claim a" using assms(1,9) by (simp add: claim_db_in_flight_def)
  moreover have "\<not> is_stale now r" using assms(5) r(4) by (simp add: is_stale_def)
  ultimately show ?thesis
    using r assms(4,6-8) w [of "da_ticks a"] w [of "da_reticks a"]
    by (auto simp: db_decide_def claim_or_wait_def Let_def)
qed

lemma slow_execution_runs_twice_witness: "db_decide (7 * second) ''h'' busy_answers = DbExecute"
  by (rule slow_execution_runs_twice [of "[(''t'', ''k'') \<mapsto> busy_row]" "''t''" "''k''" busy_row])
    (auto simp: busy_row_def busy_answers_def second_def stale_in_flight_def claim_db_in_flight_def Let_def)

text \<open>
  the table never forgets a key.  A completed row past its expiry cannot be claimed again: the
  same request is still answered with the expired response and any other under that key is still a
  conflict, as long as the request's context lasts to the first tick.
\<close>

theorem expired_row_still_decides:
  assumes "tbl (tenant, key) = Some w" "\<not> row_in_flight w" "row_expires_at w \<le> now"
    and "da_fetch a = fetch_db_record tbl tenant key" "da_refetch a = fetch_db_record tbl tenant key"
    and "da_claim a = fst (claim_db_in_flight tenant key h (now + ttl) db_now tbl)"
    and "da_reticks a = (t, fetch_db_record tbl tenant key) # ticks" "t \<le> da_rewait_start a + 3 * second"
  shows "case fetch_db_record tbl tenant key of
      FetchRow r \<Rightarrow> db_decide now h a = (if row_request_hash w = h then DbReplay r else DbConflict)
    | _ \<Rightarrow> False"
  using assms
  by (simp add: fetch_db_record_def db_decide_def claim_or_wait_def claim_db_in_flight_def settle_def)

lemma expired_row_still_decides_witness:
  "\<exists>r. db_decide (1000 * second) ''h''
     (busy_answers\<lparr>da_fetch := fetch_db_record [(''t'', ''k'') \<mapsto> busy_row\<lparr>row_in_flight := False\<rparr>] ''t'' ''k'',
        da_refetch := fetch_db_record [(''t'', ''k'') \<mapsto> busy_row\<lparr>row_in_flight := False\<rparr>] ''t'' ''k'',
        da_reticks := [(12 * second, fetch_db_record [(''t'', ''k'') \<mapsto> busy_row\<lparr>row_in_flight := False\<rparr>] ''t'' ''k'')]\<rparr>)
   = DbReplay r \<and> dbr_expires_at r = 900 * second"
  using expired_row_still_decides [of "[(''t'', ''k'') \<mapsto> busy_row\<lparr>row_in_flight := False\<rparr>]" "''t''" "''k''"
      "busy_row\<lparr>row_in_flight := False\<rparr>" "1000 * second" "busy_answers\<lparr>da_fetch := fetch_db_record [(''t'', ''k'') \<mapsto> busy_row\<lparr>row_in_flight := False\<rparr>] ''t'' ''k'',
        da_refetch := fetch_db_record [(''t'', ''k'') \<mapsto> busy_row\<lparr>row_in_flight := False\<rparr>] ''t'' ''k'',
        da_reticks := [(12 * second, fetch_db_record [(''t'', ''k'') \<mapsto> busy_row\<lparr>row_in_flight := False\<rparr>] ''t'' ''k'')]\<rparr>"
      "''h''"]
  by (simp add: busy_row_def busy_answers_def second_def claim_db_in_flight_def fetch_db_record_def Let_def)

text \<open>
  an outcome stored without a claim poisons its key.  When the claim failed and no row exists, the
  completed outcome is stored under the empty hash, and from then on, on every pod and until the
  row expires, a retry of the very request that produced it is refused as a conflict.
\<close>

theorem unclaimed_outcome_conflicts:
  assumes "tbl (tenant, key) = None" "now < db_now + 15 * minute"
    and "da_fetch a = fetch_db_record (persist_db_completed tenant key status hdrs body db_now tbl) tenant key"
  shows "db_decide now (compute_request_hash m p b) a = DbConflict"
proof -
  have "compute_request_hash m p b \<noteq> ''''"
    using length_sha256_hex [of "m @ '':'' @ p @ '':'' @ b"] by (auto simp: compute_request_hash_def simp flip: length_0_conv)
  then show ?thesis
    using assms by (simp add: fetch_db_record_def persist_db_completed_def db_decide_def)
qed

lemma unclaimed_outcome_conflicts_witness:
  "db_decide (10 * second) (compute_request_hash ''POST'' ''/v1/cases'' ''{}'')
     (busy_answers\<lparr>da_fetch := fetch_db_record (persist_db_completed ''t'' ''k'' 201 Map.empty ''ok'' second Map.empty) ''t'' ''k''\<rparr>)
   = DbConflict"
  by (rule unclaimed_outcome_conflicts [of Map.empty "''t''" "''k''" _ second]) (simp_all add: second_def minute_def)

text \<open>
  what the fingerprint tells apart.  For methods and paths without a colon, equal hashes mean equal
  requests unless SHA-256 has a collision, and tenants that passed validation cannot share a
  store key; but a colon in the path moves freely between path and body without changing the hash.
\<close>

theorem request_fingerprint:
  "(CHR '':'' \<notin> set m \<union> set p \<union> set m' \<union> set p' \<longrightarrow> compute_request_hash m p b = compute_request_hash m' p' b' \<longrightarrow>
      m = m' \<and> p = p' \<and> b = b' \<or> sha256_collision) \<and>
   (valid_tenant t \<and> valid_tenant t' \<longrightarrow> idem_store_key t k = idem_store_key t' k' \<longrightarrow> t = t' \<and> k = k') \<and>
   compute_request_hash m (p @ '':'' @ q) b = compute_request_hash m p (q @ '':'' @ b)"
proof (intro conjI impI)
  assume n: "CHR '':'' \<notin> set m \<union> set p \<union> set m' \<union> set p'"
    and e: "compute_request_hash m p b = compute_request_hash m' p' b'"
  have "m @ '':'' @ p @ '':'' @ b = m' @ '':'' @ p' @ '':'' @ b' \<or> sha256_collision"
    using e sha256_hex_eqD by (simp add: compute_request_hash_def)
  then show "m = m' \<and> p = p' \<and> b = b' \<or> sha256_collision"
    using n colon_split_inj [of "CHR '':''" m m' "p @ CHR '':'' # b" "p' @ CHR '':'' # b'"] colon_split_inj [of "CHR '':''" p p' b b']
    by auto
next
  assume v: "valid_tenant t \<and> valid_tenant t'" and e: "idem_store_key t k = idem_store_key t' k'"
  then show "t = t'" "k = k'"
    using colon_split_inj [of "CHR '':''" t t' k k'] valid_tenant_no_colon by (auto simp: idem_store_key_def)
next
  show "compute_request_hash m (p @ '':'' @ q) b = compute_request_hash m p (q @ '':'' @ b)"
    by (simp add: compute_request_hash_def)
qed

lemma request_fingerprint_witness:
  "(if compute_request_hash ''POST'' ''/a'' ''1'' = compute_request_hash ''POST'' ''/a'' ''2'' then sha256_collision else True) \<and>
   idem_store_key default_tenant_id ''k1'' \<noteq> idem_store_key default_tenant_id ''k2'' \<and>
   compute_request_hash ''POST'' ''/v1/cases/a:b'' ''c'' = compute_request_hash ''POST'' ''/v1/cases/a'' ''b:c''"
  using request_fingerprint [of "''POST''" "''/a''" "''POST''" "''/a''" "''1''" "''2''" default_tenant_id default_tenant_id "''k1''" "''k2''" "''x''"]
    request_fingerprint [of "''POST''" "''/v1/cases/a''" _ _ "''c''" _ _ _ _ _ "''b''"] default_tenant_valid
  by auto

end
