(* ===== verification/Incident_Engine.thy ===== *)
theory Incident_Engine
  imports Alert_Manager SLO_Engine Retraining_Lifecycle
begin

text \<open>
  Incidents, \<open>internal/riskengine/incident_engine.go\<close>: conditions of the system raise incidents, repeated
  conditions update the open one and escalate it, restored conditions resolve it.  The map of incidents
  and the list of incidents share their entries, so entries live in a store and both hold references.
  A critical incident is handed to the remediation callback, in a goroutine of its own.
\<close>

subsection \<open>Types\<close>

datatype incident_state = IncOpen | IncAcknowledged | IncResolved

datatype incident_category = CatSloBreach | CatBreakerTrip | CatCriticalDrift | CatRetrainingFailure
  | CatDependencyOutage | CatCanaryRollback | CatModelFailure | CatSecurityViolation

fun category_string :: "incident_category \<Rightarrow> string" where
  "category_string CatSloBreach = ''SLO_BREACH''"
| "category_string CatBreakerTrip = ''CIRCUIT_BREAKER_TRIP''"
| "category_string CatCriticalDrift = ''CRITICAL_DRIFT''"
| "category_string CatRetrainingFailure = ''RETRAINING_FAILURE''"
| "category_string CatDependencyOutage = ''DEPENDENCY_OUTAGE''"
| "category_string CatCanaryRollback = ''CANARY_ROLLBACK''"
| "category_string CatModelFailure = ''MODEL_FAILURE''"
| "category_string CatSecurityViolation = ''SECURITY_VIOLATION''"

record incident =
  in_incident_id :: string
  in_severity :: severity
  in_category :: incident_category
  in_status :: incident_state
  in_reason :: string
  in_subsystem :: string
  in_model_version :: string
  in_correlation_id :: string
  in_occurrence_count :: int
  in_first_seen :: gotime
  in_last_seen :: gotime
  in_resolved_at :: "gotime option"
  in_acknowledged_by :: string
  in_resolved_by :: string

datatype health_status = HsHealthy | HsDegraded | HsUnhealthy | HsUnknown

record component_health =
  ch_name :: string
  ch_status :: health_status
  ch_message :: string
  ch_latency_ms :: f64
  ch_last_checked :: gotime
  ch_consecutive_failures :: int
  ch_critical :: bool

text \<open>The callback is a flag; what it was called with is kept.\<close>

record incident_engine =
  ie_incidents :: "string \<rightharpoonup> nat"
  ie_list :: "nat list"
  ie_max_history :: nat
  ie_store :: "nat \<rightharpoonup> incident"
  ie_next :: nat
  ie_alerts :: "alert_manager option"
  ie_remediate :: bool
  ie_remediations :: "incident list"

definition new_incident_engine :: "alert_manager option \<Rightarrow> incident_engine" where
  "new_incident_engine am = \<lparr>ie_incidents = Map.empty, ie_list = [], ie_max_history = 500, ie_store = Map.empty, ie_next = 0,
     ie_alerts = am, ie_remediate = False, ie_remediations = []\<rparr>"

definition set_remediation :: "incident_engine \<Rightarrow> incident_engine" where
  "set_remediation e = e\<lparr>ie_remediate := True\<rparr>"

subsection \<open>Raising and resolving\<close>

definition remediate :: "incident \<Rightarrow> incident_engine \<Rightarrow> incident_engine" where
  "remediate i e =
     (if in_severity i = SevCritical \<and> ie_remediate e then e\<lparr>ie_remediations := ie_remediations e @ [i]\<rparr> else e)"

definition escalate :: "severity \<Rightarrow> gotime \<Rightarrow> incident \<Rightarrow> incident" where
  "escalate sev now i =
     (let i1 = (if in_severity i = SevWarning \<and> 3 \<le> in_occurrence_count i then i\<lparr>in_severity := SevHigh\<rparr> else i);
          i2 = (if in_severity i1 = SevHigh \<and> 10 * minute \<le> time_sub now (in_first_seen i1) then i1\<lparr>in_severity := SevCritical\<rparr> else i1) in
      if sev = SevCritical \<and> in_severity i2 \<noteq> SevCritical then i2\<lparr>in_severity := SevCritical\<rparr> else i2)"

definition repeat_incident :: "severity \<Rightarrow> string \<Rightarrow> gotime \<Rightarrow> incident \<Rightarrow> incident" where
  "repeat_incident sev reason now i =
     escalate sev now (i\<lparr>in_last_seen := now, in_occurrence_count := in_occurrence_count i + 1, in_reason := reason\<rparr>)"

definition incident_id :: "gotime \<Rightarrow> nat \<Rightarrow> string" where
  "incident_id now n = ''inc_'' @ itoa (now div second) @ ''_'' @ itoa (int n)"

definition fresh_incident ::
  "string \<Rightarrow> severity \<Rightarrow> incident_category \<Rightarrow> string \<Rightarrow> string \<Rightarrow> string \<Rightarrow> string \<Rightarrow> gotime \<Rightarrow> incident" where
  "fresh_incident iid sev cat reason subsystem model req now =
     \<lparr>in_incident_id = iid, in_severity = sev, in_category = cat, in_status = IncOpen, in_reason = reason, in_subsystem = subsystem,
      in_model_version = model, in_correlation_id = req, in_occurrence_count = 1, in_first_seen = now, in_last_seen = now,
      in_resolved_at = None, in_acknowledged_by = '''', in_resolved_by = ''''\<rparr>"

definition alert_of :: "incident \<Rightarrow> alert" where
  "alert_of i = \<lparr>al_alert_id = ''alt_'' @ in_incident_id i, al_timestamp = in_first_seen i, al_severity = in_severity i,
     al_title = ''['' @ severity_string (in_severity i) @ ''] Incident on '' @ in_subsystem i, al_message = in_reason i,
     al_incident_id = in_incident_id i, al_subsystem = in_subsystem i, al_correlation_id = in_correlation_id i\<rparr>"

text \<open>The unresolved incident of a key.\<close>

definition open_incident :: "string \<Rightarrow> incident_engine \<Rightarrow> (nat \<times> incident) option" where
  "open_incident key e =
     (case ie_incidents e key of None \<Rightarrow> None
      | Some r \<Rightarrow> (case ie_store e r of None \<Rightarrow> None
          | Some i \<Rightarrow> if in_status i = IncResolved then None else Some (r, i)))"

definition add_incident :: "string \<Rightarrow> incident \<Rightarrow> incident_engine \<Rightarrow> incident_engine" where
  "add_incident key i e =
     (let xs = ie_list e @ [ie_next e];
          e1 = e\<lparr>ie_store := (ie_store e)(ie_next e \<mapsto> i), ie_incidents := (ie_incidents e)(key \<mapsto> ie_next e),
                 ie_list := (if ie_max_history e < length xs then drop (length xs - ie_max_history e) xs else xs),
                 ie_next := Suc (ie_next e), ie_alerts := map_option (am_emit (alert_of i)) (ie_alerts e)\<rparr> in
      remediate i e1)"

definition raise_or_update ::
  "string \<Rightarrow> severity \<Rightarrow> incident_category \<Rightarrow> string \<Rightarrow> string \<Rightarrow> string \<Rightarrow> string \<Rightarrow> gotime \<Rightarrow> incident_engine \<Rightarrow> incident_engine" where
  "raise_or_update key sev cat reason subsystem model req now e =
     (case open_incident key e of
        Some (r, i) \<Rightarrow>
          (let i' = repeat_incident sev reason now i in remediate i' (e\<lparr>ie_store := (ie_store e)(r \<mapsto> i')\<rparr>))
      | None \<Rightarrow>
          add_incident key (fresh_incident (incident_id now (Suc (length (ie_list e)))) sev cat reason subsystem model req now) e)"

definition resolve_if_open :: "string \<Rightarrow> string \<Rightarrow> gotime \<Rightarrow> incident_engine \<Rightarrow> incident_engine" where
  "resolve_if_open key actor now e =
     (case open_incident key e of
        None \<Rightarrow> e
      | Some (r, i) \<Rightarrow> e\<lparr>ie_store := (ie_store e)(r \<mapsto> i\<lparr>in_status := IncResolved, in_resolved_at := Some now, in_resolved_by := actor\<rparr>)\<rparr>)"

subsection \<open>Evaluation\<close>

definition incident_key :: "incident_category \<Rightarrow> string \<Rightarrow> string" where
  "incident_key cat name = category_string cat @ '':'' @ name"

definition automated :: string where "automated = ''AUTOMATED_ENGINE''"
definition msg_unhealthy_component :: "string \<Rightarrow> string \<Rightarrow> string" where
  "msg_unhealthy_component n m = ''Critical component '' @ n @ '' is UNHEALTHY: '' @ m"
definition msg_degraded_component :: "string \<Rightarrow> string \<Rightarrow> string" where
  "msg_degraded_component n m = ''Component '' @ n @ '' is DEGRADED: '' @ m"
definition msg_breaker_tripped :: "cb_state \<Rightarrow> string" where
  "msg_breaker_tripped st = ''Circuit breaker tripped into '' @ cb_state_string st @ '' state''"
definition msg_critical_drift :: string where
  "msg_critical_drift = ''Critical feature drift detected exceeding safety threshold''"
definition msg_retraining_failed :: string where
  "msg_retraining_failed = ''Retraining candidate generation or validation job failed''"
definition msg_slo_breached :: "slo_metric \<Rightarrow> string" where
  "msg_slo_breached m = ''SLO '' @ quoted (sm_name m) @ '' BREACHED: Current '' @ fmt_fixed 4 (sm_current_value m) @
     '' vs Target '' @ fmt_fixed 4 (sm_target m) @ '' (Burn Rate: '' @ fmt_fixed 2 (sm_burn_rate m) @ ''x)''"
definition msg_slo_warning :: "slo_metric \<Rightarrow> string" where
  "msg_slo_warning m = ''SLO '' @ quoted (sm_name m) @ '' in WARNING: Current '' @ fmt_fixed 4 (sm_current_value m) @
     '' vs Target '' @ fmt_fixed 4 (sm_target m)"

definition evaluate_component :: "string \<Rightarrow> gotime \<Rightarrow> string \<times> component_health \<Rightarrow> incident_engine \<Rightarrow> incident_engine" where
  "evaluate_component model now = (\<lambda>(name, c).
     (let key = incident_key CatDependencyOutage name in
      case ch_status c of
        HsUnhealthy \<Rightarrow> raise_or_update key SevCritical CatDependencyOutage (msg_unhealthy_component name (ch_message c)) name model '''' now
      | HsDegraded \<Rightarrow> raise_or_update key SevWarning CatDependencyOutage (msg_degraded_component name (ch_message c)) name model '''' now
      | HsHealthy \<Rightarrow> resolve_if_open key automated now
      | HsUnknown \<Rightarrow> (\<lambda>e. e)))"

definition evaluate_breaker :: "cb_state \<Rightarrow> string \<Rightarrow> gotime \<Rightarrow> incident_engine \<Rightarrow> incident_engine" where
  "evaluate_breaker st model now =
     (let key = incident_key CatBreakerTrip ''canary_router'' in
      if st = CB_Failed \<or> st = CB_RolledBack
      then raise_or_update key SevCritical CatBreakerTrip (msg_breaker_tripped st) ''canary_router'' model '''' now
      else if st = CB_Healthy then resolve_if_open key automated now else (\<lambda>e. e))"

definition evaluate_drift_state :: "drift_status \<Rightarrow> string \<Rightarrow> gotime \<Rightarrow> incident_engine \<Rightarrow> incident_engine" where
  "evaluate_drift_state st model now =
     (let key = incident_key CatCriticalDrift ''drift_detector'' in
      if st = DsCritical then raise_or_update key SevHigh CatCriticalDrift msg_critical_drift ''drift_detector'' model '''' now
      else if st = DsHealthy then resolve_if_open key automated now else (\<lambda>e. e))"

definition evaluate_retraining :: "job_state \<Rightarrow> string \<Rightarrow> gotime \<Rightarrow> incident_engine \<Rightarrow> incident_engine" where
  "evaluate_retraining st model now =
     (let key = incident_key CatRetrainingFailure ''retraining_coordinator'' in
      if st = JsFailed
      then raise_or_update key SevWarning CatRetrainingFailure msg_retraining_failed ''retraining_coordinator'' model '''' now
      else if st = JsPromoted \<or> st = JsIdle then resolve_if_open key automated now else (\<lambda>e. e))"

definition evaluate_slo :: "string \<Rightarrow> gotime \<Rightarrow> string \<times> slo_metric \<Rightarrow> incident_engine \<Rightarrow> incident_engine" where
  "evaluate_slo model now = (\<lambda>(slo, m).
     (let key = incident_key CatSloBreach slo in
      case sm_status m of
        SloBreached \<Rightarrow> raise_or_update key SevCritical CatSloBreach (msg_slo_breached m) ''slo_engine'' model '''' now
      | SloWarning \<Rightarrow> raise_or_update key SevWarning CatSloBreach (msg_slo_warning m) ''slo_engine'' model '''' now
      | SloHealthy \<Rightarrow> resolve_if_open key automated now
      | SloUnknown \<Rightarrow> (\<lambda>e. e)))"

definition list_incidents :: "incident_engine \<Rightarrow> incident list" where
  "list_incidents e = map (\<lambda>r. the (ie_store e r)) (rev (ie_list e))"

text \<open>The components and the measurements come in the order in which Go ranges over their maps.\<close>

definition ie_evaluate ::
  "(string \<times> component_health) list \<Rightarrow> (string \<times> slo_metric) list \<Rightarrow> cb_state \<Rightarrow> drift_status \<Rightarrow> job_state \<Rightarrow> string \<Rightarrow>
     gotime \<Rightarrow> incident_engine \<Rightarrow> incident list \<times> incident_engine" where
  "ie_evaluate components slos cb drift retrain model now e =
     (let e' = fold (evaluate_slo model now) slos
            (evaluate_retraining retrain model now (evaluate_drift_state drift model now (evaluate_breaker cb model now
              (fold (evaluate_component model now) components e)))) in
      (list_incidents e', e'))"

subsection \<open>Operators\<close>

definition find_incident :: "string \<Rightarrow> incident_engine \<Rightarrow> (nat \<times> incident) option" where
  "find_incident iid e =
     (case find (\<lambda>r. case ie_store e r of None \<Rightarrow> False | Some i \<Rightarrow> in_incident_id i = iid) (ie_list e) of
        None \<Rightarrow> None | Some r \<Rightarrow> map_option (Pair r) (ie_store e r))"

definition msg_already_resolved :: "string \<Rightarrow> string" where "msg_already_resolved i = ''incident '' @ i @ '' is already resolved''"
definition msg_unknown_incident :: "string \<Rightarrow> string" where "msg_unknown_incident i = ''incident '' @ i @ '' not found''"

definition acknowledge_incident :: "string \<Rightarrow> string \<Rightarrow> incident_engine \<Rightarrow> string option \<times> incident_engine" where
  "acknowledge_incident iid actor e =
     (case find_incident iid e of
        None \<Rightarrow> (Some (msg_unknown_incident iid), e)
      | Some (r, i) \<Rightarrow> if in_status i = IncResolved then (Some (msg_already_resolved iid), e)
          else (None, e\<lparr>ie_store := (ie_store e)(r \<mapsto> i\<lparr>in_status := IncAcknowledged, in_acknowledged_by := actor\<rparr>)\<rparr>))"

definition resolve_incident :: "string \<Rightarrow> string \<Rightarrow> gotime \<Rightarrow> incident_engine \<Rightarrow> string option \<times> incident_engine" where
  "resolve_incident iid actor now e =
     (case find_incident iid e of
        None \<Rightarrow> (Some (msg_unknown_incident iid), e)
      | Some (r, i) \<Rightarrow> (None, e\<lparr>ie_store := (ie_store e)(r \<mapsto>
          i\<lparr>in_status := IncResolved, in_resolved_at := Some now, in_resolved_by := actor\<rparr>)\<rparr>))"

subsection \<open>What happens to an incident\<close>

datatype incident_op =
    IncEvaluate "(string \<times> component_health) list" "(string \<times> slo_metric) list" cb_state drift_status job_state string gotime
  | IncAcknowledge string string
  | IncResolve string string gotime

fun incident_run :: "incident_op \<Rightarrow> incident_engine \<Rightarrow> incident_engine" where
  "incident_run (IncEvaluate cs ss cb d j model now) e = snd (ie_evaluate cs ss cb d j model now e)"
| "incident_run (IncAcknowledge iid actor) e = snd (acknowledge_incident iid actor e)"
| "incident_run (IncResolve iid actor now) e = snd (resolve_incident iid actor now e)"

definition evolves :: "incident \<Rightarrow> incident \<Rightarrow> bool" where
  "evolves i i' \<longleftrightarrow> in_incident_id i' = in_incident_id i \<and> in_category i' = in_category i \<and> in_first_seen i' = in_first_seen i \<and>
     in_severity i \<le> in_severity i' \<and> in_occurrence_count i \<le> in_occurrence_count i' \<and>
     (in_status i = IncResolved \<longrightarrow> in_status i' = IncResolved \<and> in_severity i' = in_severity i \<and>
        in_occurrence_count i' = in_occurrence_count i)"

definition fresh_refs :: "incident_engine \<Rightarrow> bool" where
  "fresh_refs e \<longleftrightarrow> (\<forall>r \<ge> ie_next e. ie_store e r = None)"

definition keeps_incidents :: "incident_engine \<Rightarrow> incident_engine \<Rightarrow> bool" where
  "keeps_incidents e e' \<longleftrightarrow> fresh_refs e' \<and> (\<forall>r i. ie_store e r = Some i \<longrightarrow> (\<exists>i'. ie_store e' r = Some i' \<and> evolves i i'))"

lemma evolves_refl [simp]: "evolves i i"
  by (simp add: evolves_def)

lemma evolves_trans: "evolves i j \<Longrightarrow> evolves j k \<Longrightarrow> evolves i k"
  by (auto simp: evolves_def)

lemma keeps_refl: "fresh_refs e \<Longrightarrow> keeps_incidents e e"
  by (simp add: keeps_incidents_def)

lemma keeps_trans: "keeps_incidents e e1 \<Longrightarrow> keeps_incidents e1 e2 \<Longrightarrow> keeps_incidents e e2"
  unfolding keeps_incidents_def by (meson evolves_trans)

lemma severity_top [simp]: "s \<le> SevCritical" "SevWarning \<le> SevHigh"
  by (cases s; simp add: less_eq_severity_def) (simp add: less_eq_severity_def)

lemma repeat_evolves: "in_status i \<noteq> IncResolved \<Longrightarrow> evolves i (repeat_incident sev reason now i)"
  by (simp add: evolves_def repeat_incident_def escalate_def Let_def)

lemma remediate_frames [simp]:
  "ie_store (remediate i e) = ie_store e" "ie_next (remediate i e) = ie_next e" "ie_incidents (remediate i e) = ie_incidents e"
  "ie_list (remediate i e) = ie_list e" "fresh_refs (remediate i e) = fresh_refs e" "ie_remediate (remediate i e) = ie_remediate e"
  by (simp_all add: remediate_def fresh_refs_def)

lemma open_incidentD: "open_incident key e = Some (r, i) \<Longrightarrow> ie_store e r = Some i \<and> in_status i \<noteq> IncResolved"
  by (auto simp: open_incident_def split: option.splits if_splits)

lemma change_keeps:
  assumes "fresh_refs e" "ie_store e r = Some i" "evolves i i'" "ie_store e' = (ie_store e)(r \<mapsto> i')" "ie_next e' = ie_next e"
  shows "keeps_incidents e e'"
  using assms by (fastforce simp: keeps_incidents_def fresh_refs_def)

lemma raise_keeps:
  assumes "fresh_refs e"
  shows "keeps_incidents e (raise_or_update key sev cat reason subsystem model req now e)"
proof (cases "open_incident key e")
  case None
  then show ?thesis
    using assms by (auto simp: raise_or_update_def add_incident_def keeps_incidents_def fresh_refs_def Let_def)
next
  case (Some p)
  obtain r i where p: "p = (r, i)" by (cases p)
  have i: "ie_store e r = Some i" "in_status i \<noteq> IncResolved" using open_incidentD Some p by auto
  show ?thesis
    by (rule change_keeps [OF assms i(1) repeat_evolves [OF i(2), of sev reason now]])
      (simp_all add: raise_or_update_def Some p Let_def)
qed

lemma resolve_keeps:
  assumes "fresh_refs e"
  shows "keeps_incidents e (resolve_if_open key actor now e)"
proof (cases "open_incident key e")
  case None
  then show ?thesis using assms by (simp add: resolve_if_open_def keeps_refl)
next
  case (Some p)
  obtain r i where p: "p = (r, i)" by (cases p)
  have i: "ie_store e r = Some i" "in_status i \<noteq> IncResolved" using open_incidentD Some p by auto
  show ?thesis
    by (rule change_keeps [OF assms i(1), of "i\<lparr>in_status := IncResolved, in_resolved_at := Some now, in_resolved_by := actor\<rparr>"])
      (simp_all add: resolve_if_open_def Some p evolves_def)
qed

lemmas evaluation_defs = evaluate_component_def evaluate_breaker_def evaluate_drift_state_def evaluate_retraining_def evaluate_slo_def

lemma part_keeps:
  assumes "fresh_refs e"
  shows "keeps_incidents e (evaluate_component model now x e)" "keeps_incidents e (evaluate_breaker cb model now e)"
    "keeps_incidents e (evaluate_drift_state d model now e)" "keeps_incidents e (evaluate_retraining j model now e)"
    "keeps_incidents e (evaluate_slo model now y e)"
  using assms by (auto simp: evaluation_defs raise_keeps resolve_keeps keeps_refl Let_def split: prod.splits health_status.splits slo_status.splits)

lemma keeps_fresh: "keeps_incidents e e' \<Longrightarrow> fresh_refs e'"
  by (simp add: keeps_incidents_def)

lemma fold_keeps: "(\<And>x e. fresh_refs e \<Longrightarrow> keeps_incidents e (f x e)) \<Longrightarrow> fresh_refs e \<Longrightarrow> keeps_incidents e (fold f xs e)"
proof (induction xs arbitrary: e)
  case (Cons x xs)
  have "keeps_incidents e (f x e)" by (rule Cons.prems(1) [OF Cons.prems(2)])
  then show ?case using Cons keeps_trans keeps_fresh by (metis fold_simps(2))
qed (simp add: keeps_refl)

lemma evaluate_keeps:
  assumes "fresh_refs e"
  shows "keeps_incidents e (snd (ie_evaluate cs ss cb d j model now e))"
proof -
  let ?e1 = "fold (evaluate_component model now) cs e"
  let ?e2 = "evaluate_breaker cb model now ?e1"
  let ?e3 = "evaluate_drift_state d model now ?e2"
  let ?e4 = "evaluate_retraining j model now ?e3"
  have 1: "keeps_incidents e ?e1" by (rule fold_keeps, erule part_keeps(1), rule assms)
  have 2: "keeps_incidents ?e1 ?e2" by (rule part_keeps [OF keeps_fresh [OF 1]])
  have 3: "keeps_incidents ?e2 ?e3" by (rule part_keeps [OF keeps_fresh [OF 2]])
  have 4: "keeps_incidents ?e3 ?e4" by (rule part_keeps [OF keeps_fresh [OF 3]])
  have 5: "keeps_incidents ?e4 (fold (evaluate_slo model now) ss ?e4)"
    by (rule fold_keeps, erule part_keeps(5), rule keeps_fresh [OF 4])
  show ?thesis using 1 2 3 4 5 by (simp add: ie_evaluate_def Let_def) (meson keeps_trans)
qed

lemma find_incidentD: "find_incident iid e = Some (r, i) \<Longrightarrow> ie_store e r = Some i"
  by (auto simp: find_incident_def split: option.splits)

lemma change_found:
  assumes "fresh_refs e" "find_incident iid e = Some (r, i)" "evolves i i'"
  shows "keeps_incidents e (e\<lparr>ie_store := (ie_store e)(r \<mapsto> i')\<rparr>)"
  using change_keeps [OF assms(1) find_incidentD [OF assms(2)] assms(3)] by simp

lemma incident_run_keeps:
  assumes "fresh_refs e"
  shows "keeps_incidents e (incident_run op e)"
proof (cases op)
  case (IncAcknowledge iid actor)
  then show ?thesis
    using assms change_found [OF assms]
    by (auto simp: acknowledge_incident_def keeps_refl evolves_def split: option.split)
next
  case (IncResolve iid actor now)
  then show ?thesis
    using assms change_found [OF assms]
    by (auto simp: resolve_incident_def keeps_refl evolves_def split: option.split)
qed (simp add: evaluate_keeps assms)

lemma runs_keep: "fresh_refs e \<Longrightarrow> keeps_incidents e (fold incident_run ops e)"
  by (rule fold_keeps) (simp_all add: incident_run_keeps)

lemma new_engine_fresh: "fresh_refs (new_incident_engine am)"
  by (simp add: fresh_refs_def new_incident_engine_def)


definition drift_alarm :: "gotime \<Rightarrow> incident_op" where
  "drift_alarm t = IncEvaluate [] [] CB_Healthy DsCritical JsIdle ''v2'' t"


subsection \<open>An ongoing condition\<close>

lemma escalate_keeps: "in_status (escalate sev now i) = in_status i" "in_occurrence_count (escalate sev now i) = in_occurrence_count i"
  by (simp_all add: escalate_def Let_def)

lemma raise_repeats:
  assumes "open_incident key e = Some (r, i)"
  shows "open_incident key (raise_or_update key sev cat w s m q t e) = Some (r, repeat_incident sev w t i)"
    "ie_list (raise_or_update key sev cat w s m q t e) = ie_list e"
    "ie_alerts (raise_or_update key sev cat w s m q t e) = ie_alerts e"
proof -
  have "in_status (repeat_incident sev w t i) \<noteq> IncResolved"
    using open_incidentD [OF assms] by (simp add: repeat_incident_def escalate_keeps)
  moreover have "ie_incidents e key = Some r"
    using assms by (auto simp: open_incident_def split: option.splits if_splits)
  ultimately show "open_incident key (raise_or_update key sev cat w s m q t e) = Some (r, repeat_incident sev w t i)"
    by (simp add: raise_or_update_def assms Let_def) (simp add: open_incident_def)
  show "ie_list (raise_or_update key sev cat w s m q t e) = ie_list e"
    "ie_alerts (raise_or_update key sev cat w s m q t e) = ie_alerts e"
    by (simp_all add: raise_or_update_def assms remediate_def Let_def)
qed

lemma raise_new:
  assumes "open_incident key e = None"
  shows "open_incident key (raise_or_update key sev cat w s m q t e) =
      Some (ie_next e, fresh_incident (incident_id t (Suc (length (ie_list e)))) sev cat w s m q t)"
    "ie_alerts (raise_or_update key sev cat w s m q t e) = map_option (am_emit (alert_of
      (fresh_incident (incident_id t (Suc (length (ie_list e)))) sev cat w s m q t))) (ie_alerts e)"
proof -
  let ?i = "fresh_incident (incident_id t (Suc (length (ie_list e)))) sev cat w s m q t"
  have r: "raise_or_update key sev cat w s m q t e = add_incident key ?i e" by (simp add: raise_or_update_def assms)
  have "in_status ?i \<noteq> IncResolved" by (simp add: fresh_incident_def)
  then show "open_incident key (raise_or_update key sev cat w s m q t e) = Some (ie_next e, ?i)"
    unfolding r by (simp add: add_incident_def open_incident_def Let_def)
  show "ie_alerts (raise_or_update key sev cat w s m q t e) = map_option (am_emit (alert_of ?i)) (ie_alerts e)"
    unfolding r by (simp add: add_incident_def remediate_def Let_def)
qed

lemma repeat_severity:
  "in_severity i \<le> in_severity (repeat_incident sev w t i)" "in_occurrence_count (repeat_incident sev w t i) = in_occurrence_count i + 1"
  "3 \<le> in_occurrence_count i + 1 \<Longrightarrow> SevWarning \<le> in_severity i \<Longrightarrow> SevHigh \<le> in_severity (repeat_incident sev w t i)"
  by (simp_all add: repeat_incident_def escalate_def Let_def) (cases "in_severity i"; simp add: less_eq_severity_def)+

text \<open>
  a condition that goes on alerts once and escalates.  However often it is raised again before it is
  resolved, there is one incident for it, with the count of its occurrences, and one alert; a warning
  that is seen a third time has become an incident of high severity.
\<close>

theorem ongoing_condition_alerts_once:
  assumes "open_incident key e = None" "SevWarning \<le> sev"
  shows "\<exists>r i. open_incident key (fold (\<lambda>(t, w). raise_or_update key sev cat w s m q t) ((t0, w0) # xs) e) = Some (r, i) \<and>
    in_occurrence_count i = int (length xs) + 1 \<and> (2 \<le> length xs \<longrightarrow> SevHigh \<le> in_severity i) \<and>
    ie_alerts (fold (\<lambda>(t, w). raise_or_update key sev cat w s m q t) ((t0, w0) # xs) e) = map_option (am_emit (alert_of
      (fresh_incident (incident_id t0 (Suc (length (ie_list e)))) sev cat w0 s m q t0))) (ie_alerts e)"
proof -
  let ?e1 = "raise_or_update key sev cat w0 s m q t0 e"
  have "\<exists>r i. open_incident key (fold (\<lambda>(t, w). raise_or_update key sev cat w s m q t) xs ?e1) = Some (r, i) \<and>
      in_occurrence_count i = int (length xs) + 1 \<and> sev \<le> in_severity i \<and> (2 \<le> length xs \<longrightarrow> SevHigh \<le> in_severity i) \<and>
      ie_alerts (fold (\<lambda>(t, w). raise_or_update key sev cat w s m q t) xs ?e1) = ie_alerts ?e1"
  proof (induction xs rule: rev_induct)
    case Nil
    then show ?case using raise_new(1) [OF assms(1)] by (simp add: fresh_incident_def)
  next
    case (snoc x xs)
    obtain t w where x: "x = (t, w)" by (cases x)
    from snoc obtain r i where i: "open_incident key (fold (\<lambda>(t, w). raise_or_update key sev cat w s m q t) xs ?e1) = Some (r, i)"
      "in_occurrence_count i = int (length xs) + 1" "sev \<le> in_severity i"
      "ie_alerts (fold (\<lambda>(t, w). raise_or_update key sev cat w s m q t) xs ?e1) = ie_alerts ?e1" by blast
    have "2 \<le> length (xs @ [x]) \<longrightarrow> SevHigh \<le> in_severity (repeat_incident sev w t i)"
      using repeat_severity(3) [where i = i and sev = sev and w = w and t = t] i(2,3) assms(2) by (auto dest: order.trans)
    then show ?case
      using raise_repeats [OF i(1), of sev cat w s m q t] i repeat_severity(1,2) [where i = i and sev = sev and w = w and t = t]
      by (auto simp: x intro: order.trans)
  qed
  then show ?thesis using raise_new(2) [OF assms(1)] by auto
qed

lemma ongoing_condition_alerts_once_witness:
  "\<exists>r i. open_incident ''k'' (fold (\<lambda>(t, w). raise_or_update ''k'' SevWarning CatSloBreach w ''slo_engine'' ''v2'' '''' t)
      [(0, ''a''), (1, ''b''), (2, ''c'')] (new_incident_engine None)) = Some (r, i) \<and>
    in_occurrence_count i = 3 \<and> SevHigh \<le> in_severity i"
  using ongoing_condition_alerts_once [of "''k''" "new_incident_engine None" SevWarning CatSloBreach "''slo_engine''" "''v2''" "''''" 0
      "''a''" "[(1, ''b''), (2, ''c'')]"]
  by (auto simp: open_incident_def new_incident_engine_def simp del: fold_simps)

subsection \<open>A critical incident freezes the models\<close>

text \<open>The callback that \<open>cmd/api/main.go\<close> installs.\<close>

definition auto_remediation :: "incident \<Rightarrow> gotime \<Rightarrow> coordinator \<Rightarrow> coordinator" where
  "auto_remediation inc now c =
     (if in_severity inc = SevCritical then set_model_frozen True ''AUTO_REMEDIATION'' (in_reason inc) now c else c)"

definition remediates :: "incident_engine \<Rightarrow> incident_engine \<Rightarrow> bool" where
  "remediates e e' \<longleftrightarrow> ie_remediate e' = ie_remediate e \<and> prefix (ie_remediations e) (ie_remediations e')"

lemma remediates_trans: "remediates e e1 \<Longrightarrow> remediates e1 e2 \<Longrightarrow> remediates e e2"
  by (auto simp: remediates_def)

lemma raise_remediates: "remediates e (raise_or_update key sev cat w s m q t e)"
  by (auto simp: remediates_def raise_or_update_def add_incident_def remediate_def Let_def split: option.split)

lemma resolve_remediates: "remediates e (resolve_if_open key actor t e)"
  by (auto simp: remediates_def resolve_if_open_def split: option.split)

lemma remediates_refl [simp]: "remediates e e"
  by (simp add: remediates_def)

lemma part_remediates:
  "remediates e (evaluate_component model now x e)" "remediates e (evaluate_breaker cb model now e)"
  "remediates e (evaluate_drift_state d model now e)" "remediates e (evaluate_retraining j model now e)"
  "remediates e (evaluate_slo model now y e)"
  by (auto simp: evaluation_defs raise_remediates resolve_remediates Let_def split: prod.splits health_status.splits slo_status.splits)

lemma fold_remediates: "(\<And>x e. remediates e (f x e)) \<Longrightarrow> remediates e (fold f xs e)"
  by (induction xs arbitrary: e) (auto intro: remediates_trans)

lemma critical_raise:
  assumes "ie_remediate e"
  obtains i where "ie_remediations (raise_or_update key SevCritical cat w s m q t e) = ie_remediations e @ [i]" "in_severity i = SevCritical"
proof (cases "open_incident key e")
  case None
  then show ?thesis
    using that assms by (simp add: raise_or_update_def add_incident_def remediate_def fresh_incident_def Let_def)
next
  case (Some p)
  obtain r i where p: "p = (r, i)" by (cases p)
  have "in_severity (repeat_incident SevCritical w t i) = SevCritical"
    by (simp add: repeat_incident_def escalate_def Let_def)
  then show ?thesis
    using that assms by (simp add: raise_or_update_def Some p remediate_def Let_def)
qed

text \<open>
  C18: a breached objective freezes the models.  Every evaluation that sees a breached objective hands a critical
  incident to the callback, which freezes the models; no interleaving of the lifecycle then promotes a
  candidate, until an operator lifts the freeze.
\<close>

theorem breached_objective_freezes_models:
  assumes "ie_remediate e" "(slo, m) \<in> set slos" "sm_status m = SloBreached"
    and "ie_evaluate cs slos cb d j model now e = (incs, e')" "\<forall>st \<in> set sts. \<not> lifts_block st"
  shows "\<exists>inc xs. ie_remediations e' = ie_remediations e @ xs \<and> inc \<in> set xs \<and> co_frozen (auto_remediation inc t c) \<and>
    production_pointer (ls_co (fold lifecycle_run sts \<lparr>ls_co = auto_remediation inc t c, ls_go = gs\<rparr>)) = production_pointer c"
proof -
  obtain as bs where slos: "slos = as @ (slo, m) # bs" using assms(2) by (meson split_list)
  let ?e4 = "evaluate_retraining j model now (evaluate_drift_state d model now (evaluate_breaker cb model now
      (fold (evaluate_component model now) cs e)))"
  let ?e5 = "fold (evaluate_slo model now) as ?e4"
  have r5: "remediates e ?e5"
  proof -
    have 1: "remediates e (fold (evaluate_component model now) cs e)" by (rule fold_remediates) (rule part_remediates)
    note 2 = remediates_trans [OF 1 part_remediates(2)]
    note 3 = remediates_trans [OF 2 part_remediates(3)]
    note 4 = remediates_trans [OF 3 part_remediates(4)]
    show ?thesis by (rule remediates_trans [OF 4]) (rule fold_remediates, rule part_remediates)
  qed
  then obtain ys where ys: "ie_remediations ?e5 = ie_remediations e @ ys" "ie_remediate ?e5"
    using assms(1) by (auto simp: remediates_def prefix_def)
  have eq: "evaluate_slo model now (slo, m) x =
      raise_or_update (incident_key CatSloBreach slo) SevCritical CatSloBreach (msg_slo_breached m) ''slo_engine'' model '''' now x" for x
    using assms(3) by (simp add: evaluate_slo_def Let_def)
  obtain inc where inc: "ie_remediations (evaluate_slo model now (slo, m) ?e5) = ie_remediations ?e5 @ [inc]" "in_severity inc = SevCritical"
    by (rule critical_raise [OF ys(2)]) (simp add: eq)
  have e': "e' = fold (evaluate_slo model now) bs (evaluate_slo model now (slo, m) ?e5)"
    using assms(4) by (simp add: ie_evaluate_def slos Let_def)
  have "remediates (evaluate_slo model now (slo, m) ?e5) e'"
    unfolding e' by (rule fold_remediates) (rule part_remediates)
  then obtain zs where "ie_remediations e' = ie_remediations e @ ys @ [inc] @ zs"
    using ys inc by (auto simp: remediates_def prefix_def)
  moreover have "blocked (auto_remediation inc t c)" "co_frozen (auto_remediation inc t c)"
    "production_pointer (auto_remediation inc t c) = production_pointer c"
    using inc by (simp_all add: auto_remediation_def blocked_def set_model_frozen_def log_toggle_def)
  ultimately show ?thesis
    using blocked_run [of "\<lparr>ls_co = auto_remediation inc t c, ls_go = gs\<rparr>" sts] assms(5)
    by (intro exI [of _ inc] exI [of _ "ys @ [inc] @ zs"]) simp
qed

definition breached_metric :: slo_metric where
  "breached_metric = \<lparr>sm_slo_id = ''slo_availability'', sm_name = ''Availability'', sm_current_value = Fin 0, sm_target = Fin 1, sm_status = SloBreached,
     sm_error_budget = Fin 0, sm_error_budget_remaining = Fin 0, sm_burn_rate = Fin 2, sm_measurement_window = ''1h'', sm_sample_count = 10,
     sm_violations_count = 10, sm_calculated_at = 0, sm_violations = []\<rparr>"

lemma breached_objective_freezes_models_witness:
  "\<exists>inc incs e'. ie_evaluate [] [(''slo_availability'', breached_metric)] CB_Healthy DsHealthy JsIdle ''v2'' 0
       (set_remediation (new_incident_engine None)) = (incs, e') \<and>
     inc \<in> set (ie_remediations e') \<and> co_frozen (auto_remediation inc 2000 (ls_co fresh_system)) \<and>
     production_pointer (ls_co (fold lifecycle_run [StManual ''op'' ''quarterly'' 2000, StApprove ''m'' ''op'' ''ok'' 4000]
       \<lparr>ls_co = auto_remediation inc 2000 (ls_co fresh_system), ls_go = []\<rparr>)) = Some ''fraud-xgb-25f-v3.0''"
proof -
  let ?e = "set_remediation (new_incident_engine None)"
  obtain incs e' where ev: "ie_evaluate [] [(''slo_availability'', breached_metric)] CB_Healthy DsHealthy JsIdle ''v2'' 0 ?e = (incs, e')"
    by (metis surj_pair)
  moreover have "production_pointer (ls_co fresh_system) = Some ''fraud-xgb-25f-v3.0''"
    by (simp add: fresh_system_def new_retraining_coordinator_def production_pointer_def new_model_registry_def)
  moreover have "ie_remediate ?e" "ie_remediations ?e = []" by (simp_all add: set_remediation_def new_incident_engine_def)
  ultimately show ?thesis
    using breached_objective_freezes_models [OF _ _ _ ev, of "''slo_availability''" breached_metric
        "[StManual ''op'' ''quarterly'' 2000, StApprove ''m'' ''op'' ''ok'' 4000]" 2000 "ls_co fresh_system" "[]"]
    by (auto simp: breached_metric_def simp del: fold_simps)
qed

end
