(* ===== verification/Ml_Features.thy ===== *)
theory Ml_Features
  imports Feature_Stores Device_Reputation Go_Calendar
begin

text \<open>
  The features of the models, \<open>riskengine/ml_features.go\<close>: the table of the 25 features of the contract
  v2.5 with their defaults and bounds, the vector built from the feature stores, and its projection to
  the 15 features of the contract v1.5.
\<close>

subsection \<open>The contract\<close>

record feature_definition =
  fd_index :: nat
  fd_name :: string
  fd_data_type :: string
  fd_default :: f64
  fd_min :: f64
  fd_max :: f64
  fd_source_store :: string
  fd_description :: string
  fd_point_in_time_safe :: bool

definition feature_def :: "nat \<Rightarrow> string \<Rightarrow> string \<Rightarrow> f64 \<Rightarrow> f64 \<Rightarrow> f64 \<Rightarrow> string \<Rightarrow> string \<Rightarrow> feature_definition" where
  "feature_def i name dtype d lo hi store descr = \<lparr>fd_index = i, fd_name = name, fd_data_type = dtype, fd_default = d, fd_min = lo,
     fd_max = hi, fd_source_store = store, fd_description = descr, fd_point_in_time_safe = True\<rparr>"

definition canonical_25 :: "feature_definition list" where
  "canonical_25 =
     [feature_def 0 ''amount'' ''float64'' (Fin 100) (to_f64 (1 / 100)) (Fin 1000000000)
        ''transaction_request'' ''Transaction monetary amount in base currency units'',
      feature_def 1 ''ip_velocity_1h'' ''float64'' (Fin 0) (Fin 0) (Fin 100000)
        ''redis:ip_velocity'' ''Count of prior transactions from the IP in the last 1 hour'',
      feature_def 2 ''ip_velocity_24h'' ''float64'' (Fin 0) (Fin 0) (Fin 500000)
        ''redis:ip_velocity'' ''Count of prior transactions from the IP in the last 24 hours'',
      feature_def 3 ''token_velocity_24h'' ''float64'' (Fin 0) (Fin 0) (Fin 100000)
        ''redis:token_velocity'' ''Count of prior transactions for payment token in last 24 hours'',
      feature_def 4 ''device_seen_before'' ''int64'' (Fin 0) (Fin 0) (Fin 1)
        ''redis:device_feature_store'' ''1 if device has recorded transactions prior to current, 0 if novel'',
      feature_def 5 ''transaction_hour'' ''int64'' (Fin 12) (Fin 0) (Fin 23)
        ''transaction_context'' ''UTC hour of day (0-23)'',
      feature_def 6 ''transaction_day'' ''int64'' (Fin 0) (Fin 0) (Fin 6)
        ''transaction_context'' ''UTC day of week (0=Monday to 6=Sunday)'',
      feature_def 7 ''product_cd_encoded'' ''int64'' (Fin 0) (Fin 0) (Fin 100)
        ''transaction_request'' ''Categorical product code mapping'',
      feature_def 8 ''card_type_encoded'' ''int64'' (Fin 0) (Fin 0) (Fin 100)
        ''transaction_request'' ''Categorical card network mapping'',
      feature_def 9 ''card_category_encoded'' ''int64'' (Fin 0) (Fin 0) (Fin 100)
        ''transaction_request'' ''Categorical card credit/debit classification'',
      feature_def 10 ''email_domain_risk'' ''float64'' (to_f64 (7 / 200)) (Fin 0) (Fin 1)
        ''transaction_request'' ''Historical fraud risk score of email domain'',
      feature_def 11 ''dist1_missing'' ''int64'' (Fin 1) (Fin 0) (Fin 1)
        ''transaction_request'' ''1 if distance to billing address is missing/unspecified, 0 otherwise'',
      feature_def 12 ''device_type_mobile'' ''int64'' (Fin 0) (Fin 0) (Fin 1)
        ''transaction_request'' ''1 if device is classified as mobile, 0 for desktop/other'',
      feature_def 13 ''device_info_missing'' ''int64'' (Fin 0) (Fin 0) (Fin 1)
        ''transaction_request'' ''1 if device metadata/fingerprint is missing, 0 if present'',
      feature_def 14 ''amount_to_mean_ratio'' ''float64'' (Fin 1) (Fin 0) (Fin 1000)
        ''redis:device_velocity'' ''Ratio of current transaction amount to rolling 24h historical mean'',
      feature_def 15 ''device_tx_count_5m'' ''int64'' (Fin 0) (Fin 0) (Fin 10000)
        ''redis:device_velocity (Phase 3.6)'' ''Point-in-time count of transactions on this device in the last 5 minutes'',
      feature_def 16 ''device_tx_count_1h'' ''int64'' (Fin 0) (Fin 0) (Fin 50000)
        ''redis:device_velocity (Phase 3.6)'' ''Point-in-time count of transactions on this device in the last 1 hour'',
      feature_def 17 ''device_amount_sum_24h'' ''float64'' (Fin 0) (Fin 0) (Fin 1000000000)
        ''redis:device_velocity (Phase 3.6)'' ''Point-in-time cumulative transaction amount on this device in 24 hours'',
      feature_def 18 ''tx_acceleration_5m_1h'' ''float64'' (Fin 0) (Fin 0) (Fin 1000)
        ''redis:device_velocity (Phase 3.6)'' ''Transaction velocity acceleration ratio (5m rate vs 1h rate)'',
      feature_def 19 ''device_amount_concentration_5m_1h'' ''float64'' (Fin 0) (Fin 0) (Fin 1)
        ''redis:device_velocity (Phase 3.6)'' ''Ratio of 5-minute transaction volume to 1-hour transaction volume in [0, 1]'',
      feature_def 20 ''device_unique_tokens_1h'' ''int64'' (Fin 0) (Fin 0) (Fin 1000)
        ''redis:payment_token (Phase 3.5)'' ''Count of distinct payment tokens observed on this device in the last 1 hour'',
      feature_def 21 ''token_unique_devices_1h'' ''int64'' (Fin 0) (Fin 0) (Fin 1000)
        ''redis:payment_token (Phase 3.5)'' ''Count of distinct devices observed using this payment token in the last 1 hour'',
      feature_def 22 ''device_reputation_score'' ''float64'' (Fin (1 / 2)) (Fin 0) (Fin 1)
        ''redis:device_reputation (Phase 3.7)'' ''Deterministic device trust/risk score in [0.0 (Trusted), 1.0 (High Risk)]'',
      feature_def 23 ''device_fraud_rate'' ''float64'' (Fin 0) (Fin 0) (Fin 1)
        ''redis:device_reputation (Phase 3.7)'' ''Historical confirmed fraud rate for this device in [0.0, 1.0]'',
      feature_def 24 ''device_dispute_rate'' ''float64'' (Fin 0) (Fin 0) (Fin 1)
        ''redis:device_reputation (Phase 3.7)'' ''Historical dispute/chargeback rate for this device in [0.0, 1.0]'']"

definition contract_v15 :: string where "contract_v15 = ''v1.5''"
definition contract_v25 :: string where "contract_v25 = ''v2.5''"

record feature_vector =
  mv_version :: string
  mv_features :: "(string \<times> f64) list"
  mv_feature_map :: "string \<rightharpoonup> f64"
  mv_is_degraded :: bool
  mv_degrade_reasons :: "string list"

definition sanitize_value :: "f64 \<Rightarrow> feature_definition \<Rightarrow> f64" where
  "sanitize_value v d =
     (if v = NaN then fd_default d else if v = PInf then fd_max d else if v = NInf then fd_min d
      else if flt v (fd_min d) then fd_min d else if flt (fd_max d) v then fd_max d else v)"

subsection \<open>Building the vector\<close>

definition no_device_features :: device_features where "no_device_features = plain_device_features False ''''"
definition no_token_features :: token_features where "no_token_features = plain_token_features False ''''"
definition no_velocity :: velocity_features where "no_velocity = plain_velocity False ''''"
definition no_reputation :: reputation_features where "no_reputation = neutral_reputation (Fin 0) (Fin 0) False ''''"
definition no_velocity_metrics :: velocity_metrics where
  "no_velocity_metrics = \<lparr>vm_txn_count_ip_1h = 0, vm_txn_count_token_24h = 0\<rparr>"

definition degrade_reasons :: "device_features \<Rightarrow> token_features \<Rightarrow> velocity_features \<Rightarrow> reputation_features \<Rightarrow> string list" where
  "degrade_reasons df tf vf rf =
     (if df_is_degraded df then [df_degrade_reason df] else []) @ (if pf_is_degraded tf then [pf_degrade_reason tf] else []) @
     (if vf_is_degraded vf then [vf_degrade_reason vf] else []) @ (if rf_is_degraded rf then [rf_degrade_reason rf] else [])"

definition amount_ratio :: "int \<Rightarrow> velocity_features \<Rightarrow> f64" where
  "amount_ratio amount vf =
     (if flt (Fin 0) (vf_avg_amount_24h vf) then fdiv (of_int64 amount) (vf_avg_amount_24h vf)
      else if 0 < vf_amount_sum_24h vf then fdiv (of_int64 amount) (fadd (of_int64 (vf_amount_sum_24h vf)) (Fin 1))
      else Fin 1)"

definition mobile_fingerprint :: "string \<Rightarrow> bool" where
  "mobile_fingerprint fp =
     (let f = to_lower fp in str_contains f ''ios'' \<or> str_contains f ''safari'' \<or> str_contains f ''android'' \<or> str_contains f ''mobile'')"

definition flag :: "bool \<Rightarrow> f64" where "flag b = (if b then Fin 1 else Fin 0)"

definition valid_identity :: "device_identity option \<Rightarrow> bool" where
  "valid_identity di = (case di of None \<Rightarrow> False | Some d \<Rightarrow> di_is_valid d)"

definition raw_values ::
  "int \<Rightarrow> device_identity option \<Rightarrow> device_features \<Rightarrow> token_features \<Rightarrow> velocity_features \<Rightarrow> reputation_features \<Rightarrow> velocity_metrics \<Rightarrow> gotime
     \<Rightarrow> (string \<times> f64) list" where
  "raw_values amount di df tf vf rf vm now =
     [(''amount'', of_int64 amount), (''ip_velocity_1h'', of_int64 (vm_txn_count_ip_1h vm)),
      (''ip_velocity_24h'', of_int64 (vm_txn_count_token_24h vm)), (''token_velocity_24h'', of_int64 (vm_txn_count_token_24h vm)),
      (''device_seen_before'', flag (valid_identity di \<and> 0 < df_seen_before df)),
      (''transaction_hour'', Fin (of_int (hour_of now))), (''transaction_day'', Fin (of_int (weekday_of now))),
      (''product_cd_encoded'', Fin 0), (''card_type_encoded'', Fin 0), (''card_category_encoded'', Fin 0),
      (''email_domain_risk'', to_f64 (35 / 1000)), (''dist1_missing'', Fin 1),
      (''device_type_mobile'', flag (case di of None \<Rightarrow> False | Some d \<Rightarrow> di_is_valid d \<and> mobile_fingerprint (di_canonical_fingerprint d))),
      (''device_info_missing'', flag (\<not> valid_identity di)), (''amount_to_mean_ratio'', amount_ratio amount vf),
      (''device_tx_count_5m'', of_int64 (vf_tx_count_5m vf)), (''device_tx_count_1h'', of_int64 (vf_tx_count_1h vf)),
      (''device_amount_sum_24h'', of_int64 (vf_amount_sum_24h vf)), (''tx_acceleration_5m_1h'', vf_tx_acceleration_5m_1h vf),
      (''device_amount_concentration_5m_1h'', vf_amount_concentration_5m_1h vf),
      (''device_unique_tokens_1h'', of_int64 (pf_device_unique_tokens_1h tf)),
      (''token_unique_devices_1h'', of_int64 (pf_token_unique_devices_1h tf)),
      (''device_reputation_score'', rf_reputation_score rf), (''device_fraud_rate'', rf_fraud_rate rf),
      (''device_dispute_rate'', rf_dispute_rate rf)]"

definition materialize :: "(string \<times> f64) list \<Rightarrow> feature_definition \<Rightarrow> string \<times> f64" where
  "materialize raw d =
     (fd_name d, sanitize_value (case map_of raw (fd_name d) of None \<Rightarrow> fd_default d | Some v \<Rightarrow> v) d)"

text \<open>A null argument stands for the empty features.\<close>

definition build_canonical_25 ::
  "int \<Rightarrow> device_identity option \<Rightarrow> device_features option \<Rightarrow> token_features option \<Rightarrow> velocity_features option
     \<Rightarrow> reputation_features option \<Rightarrow> velocity_metrics option \<Rightarrow> gotime \<Rightarrow> feature_vector" where
  "build_canonical_25 amount di df0 tf0 vf0 rf0 vm0 now =
     (let df = case_option no_device_features id df0; tf = case_option no_token_features id tf0;
          vf = case_option no_velocity id vf0; rf = case_option no_reputation id rf0; vm = case_option no_velocity_metrics id vm0;
          reasons = degrade_reasons df tf vf rf; fs = map (materialize (raw_values amount di df tf vf rf vm now)) canonical_25 in
      \<lparr>mv_version = contract_v25, mv_features = fs, mv_feature_map = map_of fs, mv_is_degraded = reasons \<noteq> [],
       mv_degrade_reasons = reasons\<rparr>)"

subsection \<open>The legacy projection\<close>

definition feature_or_default :: "feature_vector \<Rightarrow> feature_definition \<Rightarrow> f64" where
  "feature_or_default v d = (case mv_feature_map v (fd_name d) of None \<Rightarrow> fd_default d | Some x \<Rightarrow> x)"

definition extract_legacy_15 :: "feature_vector option \<Rightarrow> feature_vector" where
  "extract_legacy_15 v25 =
     (case v25 of
        None \<Rightarrow> \<lparr>mv_version = contract_v15, mv_features = [], mv_feature_map = Map.empty, mv_is_degraded = False, mv_degrade_reasons = []\<rparr>
      | Some v \<Rightarrow> (let fs = map (\<lambda>d. (fd_name d, feature_or_default v d)) (take 15 canonical_25) in
          \<lparr>mv_version = contract_v15, mv_features = fs, mv_feature_map = map_of fs, mv_is_degraded = mv_is_degraded v,
           mv_degrade_reasons = mv_degrade_reasons v\<rparr>))"

definition float_slice :: "nat \<Rightarrow> feature_vector option \<Rightarrow> f64 list" where
  "float_slice n v25 = map (\<lambda>d. case v25 of None \<Rightarrow> fd_default d | Some v \<Rightarrow> feature_or_default v d) (take n canonical_25)"

definition to_legacy_15_slice :: "feature_vector option \<Rightarrow> f64 list" where "to_legacy_15_slice = float_slice 15"
definition to_canonical_25_slice :: "feature_vector option \<Rightarrow> f64 list" where "to_canonical_25_slice = float_slice 25"

subsection \<open>Every vector has the type of the contract\<close>

definition in_bounds :: "feature_definition \<Rightarrow> f64 \<Rightarrow> bool" where
  "in_bounds d v \<longleftrightarrow> is_fin v \<and> fle (fd_min d) v \<and> fle v (fd_max d)"

definition definition_ok :: "feature_definition \<Rightarrow> bool" where
  "definition_ok d \<longleftrightarrow> is_fin (fd_min d) \<and> is_fin (fd_max d) \<and> in_bounds d (fd_default d) \<and> fle (fd_min d) (fd_max d)"

lemma sanitize_in_bounds:
  assumes "definition_ok d"
  shows "in_bounds d (sanitize_value v d)"
proof -
  obtain lo hi dv where "fd_min d = Fin lo" "fd_max d = Fin hi" "fd_default d = Fin dv" "lo \<le> hi" "lo \<le> dv" "dv \<le> hi"
    using assms by (cases "fd_min d"; cases "fd_max d"; cases "fd_default d") (auto simp: definition_ok_def in_bounds_def)
  then show ?thesis by (cases v) (auto simp: sanitize_value_def in_bounds_def)
qed

lemma canonical_25_ok: "list_all definition_ok canonical_25"
proof -
  obtain a where a: "to_f64 (1 / 100) = Fin a" "0 \<le> a" "a \<le> 1" using to_f64_unit [of "1 / 100"] by auto
  obtain b where b: "to_f64 (35 / 1000) = Fin b" "0 \<le> b" "b \<le> 1" using to_f64_unit [of "35 / 1000"] by auto
  show ?thesis
    unfolding canonical_25_def feature_def_def definition_ok_def in_bounds_def a(1) b(1) list.pred_inject
    using a b by simp
qed

definition canonical_names :: "string list" where "canonical_names = map fd_name canonical_25"

lemma canonical_names_distinct: "distinct canonical_names" "length canonical_names = 25"
  by (simp_all add: canonical_names_def canonical_25_def feature_def_def)

lemma built_features:
  "\<exists>raw. mv_features (build_canonical_25 amount di df tf vf rf vm now) = map (materialize raw) canonical_25"
  by (auto simp: build_canonical_25_def Let_def)

lemma map_of_named:
  assumes "distinct (map fd_name ds)" "d \<in> set ds"
  shows "map_of (map (\<lambda>d. (fd_name d, f d)) ds) (fd_name d) = Some (f d)"
  using assms by (induction ds) (auto simp: image_iff)

text \<open>
  C36: Whatever the stores answer, missing values, infinities and NaN included, the vector has one number for
  each feature of the contract, in the order of the contract and within its bounds, and the map holds the
  same values.
\<close>

theorem vector_has_contract_type:
  "let v = build_canonical_25 amount di df tf vf rf vm now in
   map fst (mv_features v) = canonical_names \<and> length (mv_features v) = 25 \<and>
   list_all2 in_bounds canonical_25 (map snd (mv_features v)) \<and> mv_feature_map v = map_of (mv_features v) \<and>
   dom (mv_feature_map v) = set canonical_names"
proof -
  obtain raw where raw: "mv_features (build_canonical_25 amount di df tf vf rf vm now) = map (materialize raw) canonical_25"
    using built_features by blast
  have "mv_feature_map (build_canonical_25 amount di df tf vf rf vm now) = map_of (mv_features (build_canonical_25 amount di df tf vf rf vm now))"
    by (simp add: build_canonical_25_def Let_def)
  moreover have "in_bounds d (snd (materialize raw d))" if "d \<in> set canonical_25" for d
    using that canonical_25_ok by (simp add: materialize_def sanitize_in_bounds list_all_iff)
  moreover have "map (fst \<circ> materialize raw) canonical_25 = canonical_names"
    by (simp add: canonical_names_def materialize_def)
  moreover have "length canonical_25 = 25" using canonical_names_distinct(2) by (simp add: canonical_names_def)
  ultimately show ?thesis
    by (simp add: raw list.rel_map list.rel_refl_strong dom_map_of_conv_image_fst image_comp canonical_names_def materialize_def comp_def)
qed

subsection \<open>The legacy model sees the first 15 features\<close>

lemma feature_or_default_built:
  assumes "mv_features v = map (materialize raw) canonical_25" "mv_feature_map v = map_of (mv_features v)" "d \<in> set canonical_25"
  shows "feature_or_default v d = snd (materialize raw d)"
proof -
  have "distinct (map fd_name canonical_25)" using canonical_names_distinct(1) by (simp add: canonical_names_def)
  then have "map_of (map (\<lambda>d. (fd_name d, snd (materialize raw d))) canonical_25) (fd_name d) = Some (snd (materialize raw d))"
    using assms(3) by (rule map_of_named)
  moreover have "map (\<lambda>d. (fd_name d, snd (materialize raw d))) canonical_25 = map (materialize raw) canonical_25"
    by (simp add: materialize_def)
  ultimately show ?thesis by (simp add: feature_or_default_def assms(1, 2))
qed

theorem legacy_is_projection:
  "let v = build_canonical_25 amount di df tf vf rf vm now in
   mv_features (extract_legacy_15 (Some v)) = take 15 (mv_features v) \<and>
   to_legacy_15_slice (Some v) = take 15 (map snd (mv_features v)) \<and> to_canonical_25_slice (Some v) = map snd (mv_features v)"
proof -
  define v where "v = build_canonical_25 amount di df tf vf rf vm now"
  obtain raw where raw: "mv_features v = map (materialize raw) canonical_25"
    using built_features unfolding v_def by blast
  have vmap: "mv_feature_map v = map_of (mv_features v)" by (simp add: v_def build_canonical_25_def Let_def)
  have at: "feature_or_default v d = snd (materialize raw d)" if "d \<in> set (take n canonical_25)" for d n
    using feature_or_default_built [OF raw vmap] that by (meson in_set_takeD)
  have "map (\<lambda>d. (fd_name d, feature_or_default v d)) (take 15 canonical_25) = map (materialize raw) (take 15 canonical_25)"
    using at [of _ 15] by (simp add: materialize_def)
  moreover have "float_slice n (Some v) = map (snd \<circ> materialize raw) (take n canonical_25)" for n
    using at [of _ n] by (simp add: float_slice_def)
  moreover have "take 25 canonical_25 = canonical_25" using canonical_names_distinct(2) by (simp add: canonical_names_def)
  ultimately show ?thesis
    unfolding v_def [symmetric] Let_def
    by (simp add: extract_legacy_15_def Let_def raw take_map to_legacy_15_slice_def to_canonical_25_slice_def)
qed

end
