(* ===== verification/Orphan_Cleaner.thy ===== *)
theory Orphan_Cleaner
  imports Retraining_Lifecycle Go_Duration
begin

text \<open>
  The cleaner of stuck jobs, \<open>internal/riskengine/orphan_cleaner.go\<close>.  The number of quarantined files the
  scanner removed is an argument (\<open>None\<close> without a scanner, or when it fails).
\<close>

record orphan_config =
  oc_scan_interval :: duration
  oc_job_max_duration :: duration
  oc_stale_candidate_ttl :: duration
  oc_quarantine_retention_ttl :: duration

record cleanup_result =
  cu_timestamp :: gotime
  cu_orphaned_jobs_fixed :: nat
  cu_stale_candidates_gc :: nat
  cu_quarantined_files_gc :: nat
  cu_details :: "string list"

definition default_orphan_config :: orphan_config where
  "default_orphan_config = \<lparr>oc_scan_interval = minute, oc_job_max_duration = 30 * minute, oc_stale_candidate_ttl = 24 * hour,
     oc_quarantine_retention_ttl = 7 * 24 * hour\<rparr>"

definition normalize_orphan_config :: "orphan_config \<Rightarrow> orphan_config" where
  "normalize_orphan_config cfg =
     \<lparr>oc_scan_interval = (if oc_scan_interval cfg \<le> 0 then minute else oc_scan_interval cfg),
      oc_job_max_duration = (if oc_job_max_duration cfg \<le> 0 then 30 * minute else oc_job_max_duration cfg),
      oc_stale_candidate_ttl = (if oc_stale_candidate_ttl cfg \<le> 0 then 24 * hour else oc_stale_candidate_ttl cfg),
      oc_quarantine_retention_ttl = (if oc_quarantine_retention_ttl cfg \<le> 0 then 7 * 24 * hour else oc_quarantine_retention_ttl cfg)\<rparr>"

definition msg_orphan_timeout :: "duration \<Rightarrow> gotime \<Rightarrow> string" where
  "msg_orphan_timeout limit t = ''ORPHAN_CLEANUP_TIMEOUT: Job exceeded max duration '' @ duration_string limit @
     '' (triggered '' @ rfc3339 t @ '')''"

definition msg_cleaned :: "nat \<Rightarrow> string" where
  "msg_cleaned n = ''Cleaned up '' @ itoa (int n) @ '' expired quarantine files''"

definition stuck_job :: "orphan_config \<Rightarrow> gotime \<Rightarrow> coordinator \<Rightarrow> retraining_job option" where
  "stuck_job cfg now c =
     (case deref_job (co_active_job c) c of
        None \<Rightarrow> None
      | Some j \<Rightarrow> if co_state c \<in> {JsTraining, JsValidating, JsShadowEvaluation} \<and>
          oc_job_max_duration cfg < time_sub now (rj_triggered_at j) then Some j else None)"

definition clean_job :: "orphan_config \<Rightarrow> gotime \<Rightarrow> coordinator \<Rightarrow> string option \<times> coordinator" where
  "clean_job cfg now c =
     (case stuck_job cfg now c of
        None \<Rightarrow> (None, c)
      | Some j \<Rightarrow>
          (let why = msg_orphan_timeout (oc_job_max_duration cfg) (rj_triggered_at j);
               j' = j\<lparr>rj_state := JsFailed, rj_completed_at := now, rj_error := why\<rparr>;
               c1 = (upd_job (co_active_job c) (\<lambda>_. j') c)\<lparr>co_state := JsFailed\<rparr> in
           (Some why, persist_state now (c1\<lparr>co_history := co_history c1 @ [j'], co_active_job := None\<rparr>))))"

definition clean_once :: "orphan_config \<Rightarrow> nat option \<Rightarrow> gotime \<Rightarrow> coordinator option \<Rightarrow> cleanup_result \<times> coordinator option" where
  "clean_once cfg cleaned now co =
     (let res = \<lparr>cu_timestamp = now, cu_orphaned_jobs_fixed = 0, cu_stale_candidates_gc = 0, cu_quarantined_files_gc = 0, cu_details = []\<rparr>;
          (res1, co1) = (case co of None \<Rightarrow> (res, None)
            | Some c \<Rightarrow> (case clean_job cfg now c of
                (None, c1) \<Rightarrow> (res, Some c1)
              | (Some why, c1) \<Rightarrow> (res\<lparr>cu_orphaned_jobs_fixed := 1, cu_details := [why]\<rparr>, Some c1))) in
      (case cleaned of
         Some n \<Rightarrow> if 0 < n then res1\<lparr>cu_quarantined_files_gc := n, cu_details := cu_details res1 @ [msg_cleaned n]\<rparr> else res1
       | None \<Rightarrow> res1, co1))"

subsection \<open>A cleaned job locks the trigger\<close>

definition trigger_locked :: "coordinator \<Rightarrow> bool" where
  "trigger_locked c \<longleftrightarrow> te_active_job_id (co_trigger c) \<noteq> '''' \<and> co_active_job c = None \<and> co_state c = JsFailed"

lemma locked_rejects:
  assumes "trigger_locked c"
  shows "\<exists>why. trigger_manual actor reason now c = Inl why" "on_drift_evaluated m now c = (None, c)"
proof -
  show "\<exists>why. trigger_manual actor reason now c = Inl why"
    using assms by (auto simp: trigger_manual_def can_trigger_manual_def trigger_locked_def Let_def split: option.split)
  have "suppressed_by m (breaker_state c) now (co_trigger c) \<noteq> None"
    using assms by (simp add: suppressed_by_def trigger_locked_def)
  then show "on_drift_evaluated m now c = (None, c)"
    by (auto simp: on_drift_evaluated_def evaluate_drift_def)
qed

lemma locked_frames [simp]:
  "trigger_locked (log_toggle ev what b a w now c) = trigger_locked c"
  "trigger_locked (c\<lparr>co_maintenance := b1\<rparr>) = trigger_locked c" "trigger_locked (c\<lparr>co_frozen := b1\<rparr>) = trigger_locked c"
  "trigger_locked (c\<lparr>co_retraining_paused := b1\<rparr>) = trigger_locked c" "trigger_locked (c\<lparr>co_canary_paused := b1\<rparr>) = trigger_locked c"
  "trigger_locked (c\<lparr>co_router := rt\<rparr>) = trigger_locked c"
  by (simp_all add: trigger_locked_def log_toggle_def)

lemma clean_job_facts:
  assumes "clean_job cfg now c = (Some why, c')"
  shows "co_active_job c' = None" "co_state c' = JsFailed" "co_trigger c' = co_trigger c"
proof -
  have u: "co_trigger (upd_job r f c) = co_trigger c" for r f by (simp add: upd_job_def split: option.split)
  have p: "co_active_job (persist_state now d) = co_active_job d" "co_state (persist_state now d) = co_state d"
    "co_trigger (persist_state now d) = co_trigger d" for d by (simp_all add: persist_state_def)
  show "co_active_job c' = None" "co_state c' = JsFailed" "co_trigger c' = co_trigger c"
    using assms by (auto simp: clean_job_def Let_def p u split: option.splits)
qed

text \<open>No step but one of a goroutine unlocks it.\<close>

fun goroutine_moves :: "lifecycle_step \<Rightarrow> bool" where
  "goroutine_moves (StGo i a now) = True" | "goroutine_moves _ = False"

lemma locked_step:
  assumes "trigger_locked (ls_co s)" "\<not> goroutine_moves st"
  shows "trigger_locked (ls_co (lifecycle_run st s))"
proof (cases st)
  case (StDrift m now)
  then show ?thesis using assms locked_rejects(2) by (simp add: spawn_def)
next
  case (StApprove cid actor reason now)
  then show ?thesis using assms by (simp add: approve_candidate_def trigger_locked_def spawn_def)
qed (use assms in \<open>simp_all add: spawn_def set_maintenance_mode_def set_model_frozen_def set_retraining_paused_def
    set_canary_paused_def\<close>)

lemma locked_run: "trigger_locked (ls_co s) \<Longrightarrow> \<forall>st \<in> set sts. \<not> goroutine_moves st \<Longrightarrow> trigger_locked (ls_co (fold lifecycle_run sts s))"
  by (induction sts arbitrary: s) (simp_all add: locked_step)


subsection \<open>Witness\<close>

text \<open>A job that has been in training since it was started.\<close>

definition no_answer :: training_answer where "no_answer = \<lparr>ta_started = Inl ''x'', ta_status = None\<rparr>"

definition training_steps :: "lifecycle_step list" where
  "training_steps = [StManual ''op'' ''quarterly'' 2000, StGo 0 no_answer 3000, StGo 0 no_answer 3001, StGo 0 no_answer 3002]"

definition first_system :: lifecycle_system where
  "first_system = initial_system default_retraining_config None False 1000"

definition training_coordinator :: coordinator where
  "training_coordinator = ls_co (fold lifecycle_run training_steps first_system)"

lemma training_system:
  "\<exists>j. co_state training_coordinator = JsTraining \<and>
     deref_job (co_active_job training_coordinator) training_coordinator = Some j \<and> rj_triggered_at j = 3000"
  by (simp add: training_coordinator_def training_steps_def first_system_def initial_system_def new_retraining_coordinator_def trigger_manual_def
      can_trigger_manual_def new_trigger_engine_def breaker_calm_def breaker_state_def validate_retraining_config_def
      default_retraining_config_def spawn_def right_def start_goroutine_def goroutine_step_def create_step_def
      create_and_start_job_def starts_allowed_def new_job_def triggered_job_def advance_def transition_job_state_def
      send_audit_def log_lifecycle_event_def persist_state_def increment_metric_def log_job_def deref_job_def upd_job_def upd_cand_def
      set_active_job_def Let_def)

text \<open>No goroutine ever panics, so every run is reachable.\<close>

lemma runs_are_reachable: "lifecycle_reachable (initial_system cfg router audited t) (fold lifecycle_run sts (initial_system cfg router audited t))"
proof (induction sts rule: rev_induct)
  case (snoc st sts)
  have "system_ok (fold lifecycle_run sts (initial_system cfg router audited t))" by (rule reachable_ok [OF snoc initial_ok])
  then have "\<not> panicked (fold lifecycle_run sts (initial_system cfg router audited t))"
    by (fastforce simp: system_ok_def panicked_def list_ex_iff)
  then show ?case using lr_step [OF snoc] by simp
qed (simp add: lr_start)


end
