(* ===== verification/Outbox.thy ===== *)
theory Outbox
  imports Go_Float "HOL-Library.Multiset"
begin

text \<open>
  The outbox, \<open>internal/riskengine/outbox.go\<close>: a bounded channel, the workers that dispatch its events
  with retries and exponential backoff, the dead letters, and the flush that closes it.  A step relation
  has one rule for each section of code between two points where another goroutine can run; what the
  dispatcher answers and the clock are free in the rules.  The counters are atomic and are updated with the
  section that precedes them.
\<close>

subsection \<open>Events and state\<close>

record outbox_event =
  oe_event_id :: string
  oe_event_type :: string
  oe_timestamp :: "gotime option"
  oe_correlation_id :: string
  oe_payload :: string
  oe_metadata :: "(string \<times> string) list"
  oe_retry_count :: int
  oe_max_retries :: int
  oe_initial_backoff :: duration

text \<open>A worker waits for an event, dispatches one for the n-th time, or sleeps until a moment after that.\<close>

datatype worker = WIdle | WTry outbox_event nat | WSleep outbox_event nat gotime | WExit

datatype flush_state = FlNone | FlClosing | FlWaiting | FlReturned bool

text \<open>
  \<open>ob_sending\<close> are the events whose \<open>Enqueue\<close> has passed its check and has not yet sent.  The last four
  fields are the history: what was accepted, delivered, given up after the last retry, and abandoned
  because of the cancellation.
\<close>

record outbox =
  ob_queue :: "outbox_event list"
  ob_max_queue_size :: nat
  ob_workers :: "worker list"
  ob_is_closed :: bool
  ob_queue_closed :: bool
  ob_cancelled :: bool
  ob_dead_letter_log :: "outbox_event list"
  ob_queued_count :: int
  ob_delivered_count :: int
  ob_failed_count :: int
  ob_dropped_count :: int
  ob_sending :: "outbox_event list"
  ob_flush :: flush_state
  ob_panicked :: bool
  ob_accepted :: "outbox_event list"
  ob_delivered :: "outbox_event list"
  ob_exhausted :: "outbox_event list"
  ob_abandoned :: "outbox_event list"

definition new_outbox :: "int \<Rightarrow> int \<Rightarrow> outbox" where
  "new_outbox workers max_queue_size =
     \<lparr>ob_queue = [], ob_max_queue_size = nat (if max_queue_size \<le> 0 then 10000 else max_queue_size),
      ob_workers = replicate (nat (if workers \<le> 0 then 4 else workers)) WIdle, ob_is_closed = False, ob_queue_closed = False,
      ob_cancelled = False, ob_dead_letter_log = [], ob_queued_count = 0, ob_delivered_count = 0, ob_failed_count = 0,
      ob_dropped_count = 0, ob_sending = [], ob_flush = FlNone, ob_panicked = False,
      ob_accepted = [], ob_delivered = [], ob_exhausted = [], ob_abandoned = []\<rparr>"

subsection \<open>Enqueueing\<close>

definition stamped :: "gotime \<Rightarrow> outbox_event \<Rightarrow> outbox_event" where
  "stamped now e = (if oe_timestamp e = None then e\<lparr>oe_timestamp := Some now\<rparr> else e)"

definition enqueue_check :: "outbox_event \<Rightarrow> gotime \<Rightarrow> outbox \<Rightarrow> outbox" where
  "enqueue_check e now ob = (if ob_is_closed ob then ob else ob\<lparr>ob_sending := ob_sending ob @ [stamped now e]\<rparr>)"

text \<open>The send does not block; on a closed channel it panics.\<close>

definition enqueue_send :: "nat \<Rightarrow> outbox \<Rightarrow> outbox" where
  "enqueue_send k ob =
     (let e = ob_sending ob ! k; ob1 = ob\<lparr>ob_sending := take k (ob_sending ob) @ drop (Suc k) (ob_sending ob)\<rparr> in
      if ob_queue_closed ob then ob1\<lparr>ob_panicked := True\<rparr>
      else if length (ob_queue ob) < ob_max_queue_size ob
      then ob1\<lparr>ob_queue := ob_queue ob @ [e], ob_queued_count := ob_queued_count ob + 1, ob_accepted := ob_accepted ob @ [e]\<rparr>
      else ob1\<lparr>ob_dropped_count := ob_dropped_count ob + 1\<rparr>)"

subsection \<open>The workers\<close>

definition with_retry_defaults :: "outbox_event \<Rightarrow> outbox_event" where
  "with_retry_defaults e =
     (let e1 = (if oe_max_retries e \<le> 0 then e\<lparr>oe_max_retries := 3\<rparr> else e) in
      if oe_initial_backoff e1 \<le> 0 then e1\<lparr>oe_initial_backoff := 20 * millisecond\<rparr> else e1)"

definition backoff :: "outbox_event \<Rightarrow> nat \<Rightarrow> duration" where
  "backoff e attempt = to_int64 (fmul (of_int64 (oe_initial_backoff e)) (to_f64 (2 ^ attempt)))"

definition set_worker :: "nat \<Rightarrow> worker \<Rightarrow> outbox \<Rightarrow> outbox" where
  "set_worker i w ob = ob\<lparr>ob_workers := (ob_workers ob)[i := w]\<rparr>"

definition take_event :: "nat \<Rightarrow> outbox \<Rightarrow> outbox" where
  "take_event i ob = set_worker i (WTry (with_retry_defaults (hd (ob_queue ob))) 0) (ob\<lparr>ob_queue := tl (ob_queue ob)\<rparr>)"

definition dead_letter :: "outbox_event \<Rightarrow> outbox \<Rightarrow> outbox" where
  "dead_letter e ob = ob\<lparr>ob_failed_count := ob_failed_count ob + 1, ob_exhausted := ob_exhausted ob @ [e],
     ob_dead_letter_log := (if length (ob_dead_letter_log ob) < 1000 then ob_dead_letter_log ob @ [e] else ob_dead_letter_log ob)\<rparr>"

definition abandon :: "outbox_event \<Rightarrow> outbox \<Rightarrow> outbox" where
  "abandon e ob = ob\<lparr>ob_abandoned := ob_abandoned ob @ [e]\<rparr>"

text \<open>One turn of the loop: the check of the context, the dispatch, and what follows from its answer.\<close>

definition dispatch_once :: "nat \<Rightarrow> outbox_event \<Rightarrow> nat \<Rightarrow> bool \<Rightarrow> gotime \<Rightarrow> outbox \<Rightarrow> outbox" where
  "dispatch_once i e attempt ok now ob =
     (if ob_cancelled ob then set_worker i WIdle (abandon e ob)
      else if ok then set_worker i WIdle (ob\<lparr>ob_delivered_count := ob_delivered_count ob + 1, ob_delivered := ob_delivered ob @ [e]\<rparr>)
      else if int attempt < oe_max_retries e then set_worker i (WSleep e attempt (now + backoff e attempt)) ob
      else set_worker i WIdle (dead_letter e ob))"

inductive worker_step :: "outbox \<Rightarrow> outbox \<Rightarrow> bool" where
  take: "i < length (ob_workers ob) \<Longrightarrow> ob_workers ob ! i = WIdle \<Longrightarrow> ob_queue ob \<noteq> [] \<Longrightarrow> worker_step ob (take_event i ob)"
| exit: "i < length (ob_workers ob) \<Longrightarrow> ob_workers ob ! i = WIdle \<Longrightarrow> ob_cancelled ob \<or> ob_queue ob = [] \<and> ob_queue_closed ob \<Longrightarrow>
    worker_step ob (set_worker i WExit ob)"
| dispatch: "i < length (ob_workers ob) \<Longrightarrow> ob_workers ob ! i = WTry e n \<Longrightarrow> worker_step ob (dispatch_once i e n ok now ob)"
| wake: "i < length (ob_workers ob) \<Longrightarrow> ob_workers ob ! i = WSleep e n until \<Longrightarrow> until \<le> now \<Longrightarrow>
    worker_step ob (set_worker i (WTry e (Suc n)) ob)"
| interrupted: "i < length (ob_workers ob) \<Longrightarrow> ob_workers ob ! i = WSleep e n until \<Longrightarrow> ob_cancelled ob \<Longrightarrow>
    worker_step ob (set_worker i WIdle (abandon e ob))"

subsection \<open>Closing\<close>

definition begin_flush :: "outbox \<Rightarrow> outbox" where
  "begin_flush ob = (if ob_is_closed ob then ob else ob\<lparr>ob_is_closed := True, ob_flush := FlClosing\<rparr>)"

definition close_queue :: "outbox \<Rightarrow> outbox" where
  "close_queue ob = ob\<lparr>ob_queue_closed := True, ob_flush := FlWaiting\<rparr>"

definition flush_returns :: "bool \<Rightarrow> outbox \<Rightarrow> outbox" where
  "flush_returns drained ob = ob\<lparr>ob_cancelled := True, ob_flush := FlReturned drained\<rparr>"

inductive outbox_step :: "outbox \<Rightarrow> outbox \<Rightarrow> bool" where
  check: "outbox_step ob (enqueue_check e now ob)"
| send: "k < length (ob_sending ob) \<Longrightarrow> outbox_step ob (enqueue_send k ob)"
| worker: "worker_step ob ob' \<Longrightarrow> outbox_step ob ob'"
| flush: "outbox_step ob (begin_flush ob)"
| close: "ob_flush ob = FlClosing \<Longrightarrow> outbox_step ob (close_queue ob)"
| drained: "ob_flush ob = FlWaiting \<Longrightarrow> \<forall>w \<in> set (ob_workers ob). w = WExit \<Longrightarrow> outbox_step ob (flush_returns True ob)"
| timeout: "ob_flush ob = FlWaiting \<Longrightarrow> outbox_step ob (flush_returns False ob)"

inductive_cases worker_stepE: "worker_step ob ob'"
inductive_cases outbox_stepE: "outbox_step ob ob'"

inductive outbox_reachable :: "int \<Rightarrow> int \<Rightarrow> outbox \<Rightarrow> bool" for workers max_queue_size where
  start: "outbox_reachable workers max_queue_size (new_outbox workers max_queue_size)"
| step: "outbox_reachable workers max_queue_size ob \<Longrightarrow> outbox_step ob ob' \<Longrightarrow> outbox_reachable workers max_queue_size ob'"

subsection \<open>No event is lost or duplicated\<close>

lemma sum_list_update_at:
  fixes f :: "'a \<Rightarrow> 'b::comm_monoid_add"
  shows "i < length xs \<Longrightarrow> sum_list (map f (xs[i := v])) + f (xs ! i) = sum_list (map f xs) + f v"
  by (induction xs arbitrary: i) (auto simp: add_ac split: nat.split)

fun worker_events :: "worker \<Rightarrow> outbox_event multiset" where
  "worker_events (WTry e n) = {#e#}" | "worker_events (WSleep e n t) = {#e#}" | "worker_events w = {#}"

definition events_in_work :: "outbox \<Rightarrow> outbox_event multiset" where
  "events_in_work ob = sum_list (map worker_events (ob_workers ob))"

definition outbox_ok :: "outbox \<Rightarrow> bool" where
  "outbox_ok ob \<longleftrightarrow>
     image_mset with_retry_defaults (mset (ob_accepted ob)) = mset (ob_delivered ob) + mset (ob_exhausted ob) + mset (ob_abandoned ob) +
       image_mset with_retry_defaults (mset (ob_queue ob)) + events_in_work ob \<and>
     ob_queued_count ob = int (length (ob_accepted ob)) \<and> ob_delivered_count ob = int (length (ob_delivered ob)) \<and>
     ob_failed_count ob = int (length (ob_exhausted ob)) \<and> ob_dead_letter_log ob = take 1000 (ob_exhausted ob) \<and>
     (\<not> ob_cancelled ob \<longrightarrow> ob_abandoned ob = []) \<and> (ob_panicked ob \<longrightarrow> ob_queue_closed ob) \<and>
     length (ob_queue ob) \<le> ob_max_queue_size ob"

lemma events_in_work_set:
  "i < length (ob_workers ob) \<Longrightarrow> events_in_work (set_worker i w ob) + worker_events (ob_workers ob ! i) = events_in_work ob + worker_events w"
  by (simp add: events_in_work_def set_worker_def sum_list_update_at)

lemma set_worker_frames [simp]:
  "ob_queue (set_worker i w ob) = ob_queue ob" "ob_accepted (set_worker i w ob) = ob_accepted ob"
  "ob_delivered (set_worker i w ob) = ob_delivered ob" "ob_exhausted (set_worker i w ob) = ob_exhausted ob"
  "ob_abandoned (set_worker i w ob) = ob_abandoned ob" "ob_cancelled (set_worker i w ob) = ob_cancelled ob"
  "ob_dead_letter_log (set_worker i w ob) = ob_dead_letter_log ob" "ob_panicked (set_worker i w ob) = ob_panicked ob"
  "ob_queue_closed (set_worker i w ob) = ob_queue_closed ob" "ob_queued_count (set_worker i w ob) = ob_queued_count ob"
  "ob_delivered_count (set_worker i w ob) = ob_delivered_count ob" "ob_failed_count (set_worker i w ob) = ob_failed_count ob"
  "ob_max_queue_size (set_worker i w ob) = ob_max_queue_size ob" "ob_workers (set_worker i w ob) = (ob_workers ob)[i := w]"
  by (simp_all add: set_worker_def)

lemma ok_set_worker:
  assumes "outbox_ok ob" "i < length (ob_workers ob)" "worker_events w = worker_events (ob_workers ob ! i)"
  shows "outbox_ok (set_worker i w ob)"
  using assms events_in_work_set [OF assms(2), of w] by (simp add: outbox_ok_def)

text \<open>A worker that holds an event lets go of it where the event is added to one of the histories.\<close>

lemma worker_lets_go:
  assumes "i < length (ob_workers ob)" "worker_events (ob_workers ob ! i) = {#e#}"
  shows "events_in_work ob = add_mset e (events_in_work (set_worker i WIdle ob))"
  using events_in_work_set [OF assms(1), of WIdle] assms(2) by simp

lemma ok_release:
  assumes "outbox_ok ob" "i < length (ob_workers ob)" "worker_events (ob_workers ob ! i) = {#e#}"
  shows "outbox_ok (set_worker i WIdle (ob\<lparr>ob_delivered_count := ob_delivered_count ob + 1, ob_delivered := ob_delivered ob @ [e]\<rparr>))"
    "ob_cancelled ob \<Longrightarrow> outbox_ok (set_worker i WIdle (abandon e ob))"
    "outbox_ok (set_worker i WIdle (dead_letter e ob))"
  using assms(1) worker_lets_go [OF assms(2,3)]
  by (simp_all add: outbox_ok_def abandon_def dead_letter_def events_in_work_def)

lemma ok_take:
  assumes "outbox_ok ob" "i < length (ob_workers ob)" "ob_workers ob ! i = WIdle" "ob_queue ob \<noteq> []"
  shows "outbox_ok (take_event i ob)"
proof -
  obtain e es where q: "ob_queue ob = e # es" using assms(4) by (cases "ob_queue ob") auto
  have "events_in_work (take_event i ob) = add_mset (with_retry_defaults e) (events_in_work ob)"
    using events_in_work_set [of i "ob\<lparr>ob_queue := es\<rparr>" "WTry (with_retry_defaults e) 0"] assms(2,3)
    by (simp add: take_event_def q events_in_work_def)
  then show ?thesis using assms(1) by (simp add: outbox_ok_def take_event_def q)
qed

lemma ok_worker_step: "worker_step ob ob' \<Longrightarrow> outbox_ok ob \<Longrightarrow> outbox_ok ob'"
proof (induction rule: worker_step.induct)
  case (dispatch i ob e n ok now)
  then show ?case
    using ok_release [where i = i and e = e] by (simp add: dispatch_once_def ok_set_worker)
qed (simp_all add: ok_take ok_set_worker ok_release)

lemma ok_send: "k < length (ob_sending ob) \<Longrightarrow> outbox_ok ob \<Longrightarrow> outbox_ok (enqueue_send k ob)"
  by (auto simp: outbox_ok_def enqueue_send_def events_in_work_def Let_def)

lemma ok_step: "outbox_step ob ob' \<Longrightarrow> outbox_ok ob \<Longrightarrow> outbox_ok ob'"
proof (induction rule: outbox_step.induct)
  case (send k ob)
  then show ?case by (rule ok_send)
next
  case (worker ob ob')
  then show ?case by (rule ok_worker_step)
qed (auto simp: outbox_ok_def enqueue_check_def begin_flush_def close_queue_def flush_returns_def events_in_work_def)

lemma sum_list_empty [simp]: "sum_list (replicate n {#}) = {#}"
  by (induction n) simp_all

lemma outbox_reachable_ok: "outbox_reachable workers cap ob \<Longrightarrow> outbox_ok ob"
  by (induction rule: outbox_reachable.induct)
    (simp_all add: ok_step, simp add: outbox_ok_def new_outbox_def events_in_work_def)

text \<open>
  C19: no event is lost or delivered twice.  In every reachable state each accepted event is exactly once
  in the queue, with a worker, delivered, given up after its last retry, or abandoned, and abandoned only
  after the flush has ended; the counters and the dead letters agree with that.
\<close>

theorem outbox_conserves_events:
  assumes "outbox_reachable workers cap ob"
  shows "image_mset with_retry_defaults (mset (ob_accepted ob)) = mset (ob_delivered ob) + mset (ob_exhausted ob) + mset (ob_abandoned ob) +
      image_mset with_retry_defaults (mset (ob_queue ob)) + events_in_work ob \<and>
    (\<not> ob_cancelled ob \<longrightarrow> ob_queued_count ob = ob_delivered_count ob + ob_failed_count ob + int (length (ob_queue ob)) +
       int (size (events_in_work ob))) \<and>
    ob_dead_letter_log ob = take 1000 (ob_exhausted ob) \<and> length (ob_queue ob) \<le> ob_max_queue_size ob"
proof -
  note ok = outbox_reachable_ok [OF assms]
  have "image_mset with_retry_defaults (mset (ob_accepted ob)) = mset (ob_delivered ob) + mset (ob_exhausted ob) + mset (ob_abandoned ob) +
      image_mset with_retry_defaults (mset (ob_queue ob)) + events_in_work ob"
    using ok by (simp add: outbox_ok_def)
  from arg_cong [OF this, of size]
  have "length (ob_accepted ob) = length (ob_delivered ob) + length (ob_exhausted ob) + length (ob_abandoned ob) +
      length (ob_queue ob) + size (events_in_work ob)"
    by simp
  then show ?thesis using ok by (simp add: outbox_ok_def)
qed

subsection \<open>The flush ends\<close>

text \<open>
  The work that is left: each attempt counts two steps, and a worker's last step is its exit.
\<close>

definition event_work :: "outbox_event \<Rightarrow> nat" where
  "event_work e = 2 * nat (oe_max_retries (with_retry_defaults e)) + 4"

fun worker_work :: "worker \<Rightarrow> nat" where
  "worker_work WIdle = 1"
| "worker_work (WTry e n) = 2 * (nat (oe_max_retries e) + 1 - n) + 2"
| "worker_work (WSleep e n t) = 2 * (nat (oe_max_retries e) - n) + 3"
| "worker_work WExit = 0"

definition work_left :: "outbox \<Rightarrow> nat" where
  "work_left ob = sum_list (map worker_work (ob_workers ob)) + sum_list (map event_work (ob_queue ob))"

lemma work_left_set:
  "i < length (ob_workers ob) \<Longrightarrow> work_left (set_worker i w ob) + worker_work (ob_workers ob ! i) = work_left ob + worker_work w"
  using sum_list_update_at [of i "ob_workers ob" worker_work w] by (simp add: work_left_def)

lemma work_left_histories [simp]:
  "work_left (ob\<lparr>ob_delivered_count := a, ob_delivered := b\<rparr>) = work_left ob" "work_left (abandon e ob) = work_left ob"
  "work_left (dead_letter e ob) = work_left ob"
  by (simp_all add: work_left_def abandon_def dead_letter_def)

lemma histories_keep_workers [simp]:
  "ob_workers (abandon e ob) = ob_workers ob" "ob_workers (dead_letter e ob) = ob_workers ob"
  by (simp_all add: abandon_def dead_letter_def)

lemma worker_step_works: "worker_step ob ob' \<Longrightarrow> work_left ob' < work_left ob"
proof (induction rule: worker_step.induct)
  case (take i ob)
  then obtain e es where q: "ob_queue ob = e # es" by (cases "ob_queue ob") auto
  show ?case
    using take work_left_set [of i "ob\<lparr>ob_queue := es\<rparr>" "WTry (with_retry_defaults e) 0"]
    by (simp add: take_event_def q work_left_def event_work_def)
next
  case (exit i ob)
  then show ?case using work_left_set [of i ob WExit] by simp
next
  case (dispatch i ob e n ok now)
  have idle: "work_left (set_worker i WIdle x) < work_left ob" if "ob_workers x = ob_workers ob" "work_left x = work_left ob" for x
    using work_left_set [of i x WIdle] dispatch that by simp
  have "work_left (set_worker i (WSleep e n t) ob) < work_left ob" if "int n < oe_max_retries e" for t
    using work_left_set [of i ob "WSleep e n t"] dispatch that by simp
  then show ?case by (auto simp: dispatch_once_def intro!: idle)
next
  case (wake i ob e n until now)
  then show ?case using work_left_set [of i ob "WTry e (Suc n)"] by simp
next
  case (interrupted i ob e n until)
  then show ?case using work_left_set [of i "abandon e ob" WIdle] by simp
qed

lemma worker_steps_bounded: "(worker_step ^^ n) ob ob' \<Longrightarrow> work_left ob' + n \<le> work_left ob"
proof (induction n arbitrary: ob')
  case (Suc n)
  then obtain ob1 where "(worker_step ^^ n) ob ob1" "worker_step ob1 ob'" by auto
  then show ?case using Suc.IH worker_step_works by fastforce
qed simp

lemma step_keeps_closed: "worker_step ob ob' \<Longrightarrow> ob_queue_closed ob' = ob_queue_closed ob \<and> ob_cancelled ob' = ob_cancelled ob \<and>
    length (ob_workers ob') = length (ob_workers ob)"
  by (induction rule: worker_step.induct) (auto simp: take_event_def dispatch_once_def abandon_def dead_letter_def)

lemma steps_keep_closed: "(worker_step ^^ n) ob ob' \<Longrightarrow> ob_queue_closed ob' = ob_queue_closed ob \<and> ob_cancelled ob' = ob_cancelled ob \<and>
    length (ob_workers ob') = length (ob_workers ob)"
proof (induction n arbitrary: ob')
  case (Suc n)
  then obtain ob1 where "(worker_step ^^ n) ob ob1" "worker_step ob1 ob'" by auto
  then show ?case using Suc.IH step_keeps_closed by metis
qed simp

lemma stuck_workers_exited:
  assumes "ob_queue_closed ob" "\<nexists>ob'. worker_step ob ob'" "w \<in> set (ob_workers ob)"
  shows "w = WExit"
proof -
  obtain i where i: "i < length (ob_workers ob)" "ob_workers ob ! i = w" using assms(3) by (meson in_set_conv_nth)
  show ?thesis
  proof (cases w)
    case WIdle
    then show ?thesis using assms(1,2) i worker_step.take worker_step.exit by metis
  next
    case (WTry e n)
    then show ?thesis using assms(2) i worker_step.dispatch by metis
  next
    case (WSleep e n until)
    then show ?thesis using assms(2) i worker_step.wake [of i ob e n until until] by auto
  qed
qed

text \<open>
  With the channel closed and the outbox not cancelled a worker only exits when the queue is empty.
\<close>

definition exits_justified :: "outbox \<Rightarrow> bool" where
  "exits_justified ob \<longleftrightarrow> ob_workers ob \<noteq> [] \<and> (\<not> ob_cancelled ob \<longrightarrow> WExit \<in> set (ob_workers ob) \<longrightarrow> ob_queue ob = [] \<and> ob_queue_closed ob)"

lemma set_update_exit: "WExit \<in> set (xs[i := w]) \<Longrightarrow> w = WExit \<or> WExit \<in> set xs"
  using set_update_subset_insert [of xs i w] by auto

lemma justified_worker_step: "worker_step ob ob' \<Longrightarrow> exits_justified ob \<Longrightarrow> exits_justified ob'"
  by (induction rule: worker_step.induct)
    (auto simp: exits_justified_def take_event_def dispatch_once_def abandon_def dead_letter_def set_worker_def dest!: set_update_exit)

lemma justified_step: "outbox_step ob ob' \<Longrightarrow> exits_justified ob \<Longrightarrow> exits_justified ob'"
proof (induction rule: outbox_step.induct)
  case (worker ob ob')
  then show ?case by (rule justified_worker_step)
qed (auto simp: exits_justified_def enqueue_check_def begin_flush_def close_queue_def flush_returns_def enqueue_send_def Let_def)

lemma reachable_justified: "outbox_reachable workers cap ob \<Longrightarrow> exits_justified ob"
  by (induction rule: outbox_reachable.induct)
    (simp_all add: justified_step, simp add: exits_justified_def new_outbox_def)

lemma exited_hold_nothing: "\<forall>w \<in> set ws. w = WExit \<Longrightarrow> sum_list (map worker_events ws) = {#}"
  by (induction ws) auto

lemma reachable_worker_steps:
  "outbox_reachable workers cap ob \<Longrightarrow> (worker_step ^^ n) ob ob' \<Longrightarrow> outbox_reachable workers cap ob'"
proof (induction n arbitrary: ob')
  case (Suc n)
  then obtain ob1 where "(worker_step ^^ n) ob ob1" "worker_step ob1 ob'" by auto
  then show ?case using Suc by (meson outbox_reachable.step outbox_step.worker)
qed simp

text \<open>
  C20: the flush ends, and with everything settled.  Once the channel is closed the workers take at most
  \<open>work_left\<close> steps, whatever the dispatcher answers and in whatever order they run; when none of them can go
  on, all have exited, and unless the timeout cancelled them the queue is empty and each accepted event was
  delivered or given up after its last retry.
\<close>

theorem flush_settles_everything:
  assumes "outbox_reachable workers cap ob" "ob_queue_closed ob" "(worker_step ^^ n) ob ob'"
  shows "n \<le> work_left ob \<and> ((\<nexists>ob''. worker_step ob' ob'') \<longrightarrow> (\<forall>w \<in> set (ob_workers ob'). w = WExit) \<and>
    (\<not> ob_cancelled ob' \<longrightarrow> ob_queue ob' = [] \<and>
       image_mset with_retry_defaults (mset (ob_accepted ob')) = mset (ob_delivered ob') + mset (ob_exhausted ob')))"
proof (intro conjI impI)
  show "n \<le> work_left ob" using worker_steps_bounded [OF assms(3)] by simp
  note r = reachable_worker_steps [OF assms(1,3)]
  assume stuck: "\<nexists>ob''. worker_step ob' ob''"
  have "ob_queue_closed ob'" using steps_keep_closed [OF assms(3)] assms(2) by simp
  note exit = stuck_workers_exited [OF this stuck]
  then show "\<forall>w \<in> set (ob_workers ob'). w = WExit" by blast
  have "ob_workers ob' \<noteq> []" using reachable_justified [OF r] by (simp add: exits_justified_def)
  then have "WExit \<in> set (ob_workers ob')" using exit by (metis list.set_intros(1) neq_Nil_conv)
  moreover assume "\<not> ob_cancelled ob'"
  ultimately show q: "ob_queue ob' = []" using reachable_justified [OF r] by (simp add: exits_justified_def)
  have "events_in_work ob' = {#}" unfolding events_in_work_def by (rule exited_hold_nothing) (blast intro: exit)
  then show "image_mset with_retry_defaults (mset (ob_accepted ob')) = mset (ob_delivered ob') + mset (ob_exhausted ob')"
    using outbox_reachable_ok [OF r] q \<open>\<not> ob_cancelled ob'\<close> by (simp add: outbox_ok_def)
qed

subsection \<open>Enqueueing while the outbox closes\<close>


subsection \<open>Witnesses\<close>

definition case_event :: outbox_event where
  "case_event = \<lparr>oe_event_id = ''evt_1'', oe_event_type = ''CASE'', oe_timestamp = None, oe_correlation_id = ''c'', oe_payload = ''p'',
     oe_metadata = [], oe_retry_count = 0, oe_max_retries = 0, oe_initial_backoff = 0\<rparr>"

definition one_queued :: outbox where
  "one_queued = enqueue_send 0 (enqueue_check case_event 5 (new_outbox 1 8))"

definition closed_with_one :: outbox where
  "closed_with_one = close_queue (begin_flush one_queued)"

lemma one_queued_reachable: "outbox_reachable 1 8 one_queued"
  unfolding one_queued_def
  by (rule outbox_reachable.step [OF outbox_reachable.step [OF outbox_reachable.start outbox_step.check] outbox_step.send])
    (simp add: enqueue_check_def new_outbox_def)

lemma closed_with_one_reachable: "outbox_reachable 1 8 closed_with_one"
  unfolding closed_with_one_def
  by (rule outbox_reachable.step [OF outbox_reachable.step [OF one_queued_reachable outbox_step.flush] outbox_step.close])
    (simp add: begin_flush_def one_queued_def enqueue_send_def enqueue_check_def new_outbox_def Let_def)

lemmas queued_defs = closed_with_one_def one_queued_def close_queue_def begin_flush_def enqueue_send_def enqueue_check_def new_outbox_def

lemma outbox_conserves_events_witness: "ob_queued_count one_queued = 1 \<and> ob_queued_count one_queued =
    ob_delivered_count one_queued + ob_failed_count one_queued + int (length (ob_queue one_queued)) + int (size (events_in_work one_queued))"
  using outbox_conserves_events [OF one_queued_reachable] by (simp add: queued_defs Let_def)


lemma flush_settles_everything_witness:
  "\<exists>ob'. (worker_step ^^ 3) closed_with_one ob' \<and> 3 \<le> work_left closed_with_one \<and> ob_queue ob' = [] \<and>
     image_mset with_retry_defaults (mset (ob_accepted ob')) = mset (ob_delivered ob') + mset (ob_exhausted ob')"
proof -
  let ?a = "take_event 0 closed_with_one"
  let ?b = "dispatch_once 0 (with_retry_defaults (stamped 5 case_event)) 0 True 6 ?a"
  let ?c = "set_worker 0 WExit ?b"
  have 1: "worker_step closed_with_one ?a" by (rule worker_step.take) (simp_all add: queued_defs Let_def)
  have 2: "worker_step ?a ?b" by (rule worker_step.dispatch) (simp_all add: take_event_def queued_defs Let_def)
  have 3: "worker_step ?b ?c" by (rule worker_step.exit) (simp_all add: dispatch_once_def take_event_def queued_defs Let_def)
  have run: "(worker_step ^^ 3) closed_with_one ?c" using 1 2 3 by (auto simp: numeral_3_eq_3)
  have "\<nexists>ob''. worker_step ?c ob''"
    by (auto elim!: worker_stepE simp: dispatch_once_def take_event_def queued_defs Let_def)
  moreover have "\<not> ob_cancelled ?c" "ob_queue_closed closed_with_one"
    by (simp_all add: dispatch_once_def take_event_def queued_defs Let_def)
  ultimately show ?thesis
    using flush_settles_everything [OF closed_with_one_reachable _ run] run by (intro exI [of _ ?c]) simp
qed

end
