(* ===== verification/Rules_AST.thy ===== *)
theory Rules_AST
  imports Go_Value
begin

text \<open>
  The rule language, \<open>internal/rules/ast.go\<close>: the syntax tree of a condition, its decoding from a
  parsed JSON document, the evaluation of a condition in a context, and the comparison operators
  on dynamic values with their numeric coercions.  An evaluation returns an error or a truth value.
\<close>

datatype ast = Node (ast_combinator: string) (ast_rules: "ast list") (ast_field: string)
  (ast_operator: string) (ast_value: val)

record rule_definition =
  rd_condition :: ast
  rd_action :: string
  rd_reason_code :: string
  rd_priority :: int

type_synonym ctx = "(string \<times> val) list"

datatype ast_error = UnsupportedCombinator string | MissingField | NumericOperands string
  | UnsupportedOperator string

subsection \<open>Coercions and comparisons\<close>

fun to_float64 :: "val \<Rightarrow> f64 option" where
  "to_float64 (VFloat x) = Some x"
| "to_float64 (VInt i) = Some (of_int64 i)"
| "to_float64 (VStr s) = parse_float s"
| "to_float64 _ = None"

definition are_equal :: "val \<Rightarrow> val \<Rightarrow> bool" where
  "are_equal a b =
     (if a = VNil \<and> b = VNil then True
      else if a = VNil \<or> b = VNil then False
      else (case (to_float64 a, to_float64 b) of
          (Some x, Some y) \<Rightarrow> feq x y
        | _ \<Rightarrow> fmt_v a = fmt_v b))"

definition is_contained_in :: "val \<Rightarrow> val \<Rightarrow> bool" where
  "is_contained_in actual expected =
     (case expected of VNil \<Rightarrow> False
      | VList vs \<Rightarrow> list_ex (are_equal actual) vs
      | _ \<Rightarrow> are_equal actual expected)"

definition contains_substring_or_item :: "val \<Rightarrow> val \<Rightarrow> bool" where
  "contains_substring_or_item actual expected =
     (if actual = VNil \<or> expected = VNil then False
      else (case actual of VStr s \<Rightarrow> str_contains s (fmt_v expected)
        | VList vs \<Rightarrow> list_ex (\<lambda>v. are_equal v expected) vs
        | _ \<Rightarrow> False))"

definition compare_numbers :: "string \<Rightarrow> (f64 \<Rightarrow> f64 \<Rightarrow> bool) \<Rightarrow> val \<Rightarrow> val \<Rightarrow> ast_error + bool" where
  "compare_numbers name test actual expected =
     (case (to_float64 actual, to_float64 expected) of
        (Some x, Some y) \<Rightarrow> Inr (test x y)
      | _ \<Rightarrow> Inl (NumericOperands name))"

definition evaluate_operator :: "val \<Rightarrow> string \<Rightarrow> val \<Rightarrow> ast_error + bool" where
  "evaluate_operator actual operator expected =
     (let op = to_upper (trim_space operator) in
      if op \<in> {''=='', ''EQ'', ''EQUALS''} then Inr (are_equal actual expected)
      else if op \<in> {''!='', ''NEQ'', ''NOT_EQUALS''} then Inr (\<not> are_equal actual expected)
      else if op \<in> {''>'', ''GT''} then compare_numbers ''>'' (\<lambda>x y. flt y x) actual expected
      else if op \<in> {''>='', ''GTE''} then compare_numbers ''>='' (\<lambda>x y. fle y x) actual expected
      else if op \<in> {''<'', ''LT''} then compare_numbers ''<'' flt actual expected
      else if op \<in> {''<='', ''LTE''} then compare_numbers ''<='' fle actual expected
      else if op = ''IN'' then Inr (is_contained_in actual expected)
      else if op = ''NOT_IN'' then Inr (\<not> is_contained_in actual expected)
      else if op = ''CONTAINS'' then Inr (contains_substring_or_item actual expected)
      else if op = ''NOT_CONTAINS'' then Inr (\<not> contains_substring_or_item actual expected)
      else if op = ''STARTS_WITH'' then Inr (has_prefix (fmt_v actual) (fmt_v expected))
      else if op = ''ENDS_WITH'' then Inr (has_suffix (fmt_v actual) (fmt_v expected))
      else Inl (UnsupportedOperator operator))"

subsection \<open>Fields\<close>

fun walk :: "val \<Rightarrow> string list \<Rightarrow> val option" where
  "walk v [] = Some v"
| "walk (VMap kvs) (p # ps) = (case map_of kvs p of None \<Rightarrow> None | Some v \<Rightarrow> walk v ps)"
| "walk _ (p # ps) = None"

definition resolve_field :: "ctx \<Rightarrow> string \<Rightarrow> val option" where
  "resolve_field ctx path =
     (case map_of ctx path of Some v \<Rightarrow> Some v
      | None \<Rightarrow> walk (VMap ctx) (split_on (CHR ''.'') path))"

subsection \<open>Evaluation\<close>

definition evaluate_leaf :: "ctx \<Rightarrow> string \<Rightarrow> string \<Rightarrow> val \<Rightarrow> ast_error + bool" where
  "evaluate_leaf ctx field operator value =
     (if field = '''' then Inl MissingField
      else (case resolve_field ctx field of
          None \<Rightarrow>
            if to_upper operator = ''=='' \<and> value = VNil then Inr True
            else if to_upper operator = ''!='' \<and> value \<noteq> VNil then Inr True
            else Inr False
        | Some actual \<Rightarrow> evaluate_operator actual operator value))"

fun evaluate :: "ctx \<Rightarrow> ast \<Rightarrow> ast_error + bool"
  and evaluate_and :: "ctx \<Rightarrow> ast list \<Rightarrow> ast_error + bool"
  and evaluate_or :: "ctx \<Rightarrow> ast list \<Rightarrow> ast_error + bool" where
  "evaluate ctx (Node comb rules field operator value) =
     (if comb \<noteq> '''' \<or> rules \<noteq> [] then
        (let c = (if to_upper comb = '''' then ''AND'' else to_upper comb) in
         if c = ''AND'' then evaluate_and ctx rules
         else if c = ''OR'' then evaluate_or ctx rules
         else if c = ''NOT'' then
           (case rules of [] \<Rightarrow> Inr True
            | r # _ \<Rightarrow> (case evaluate ctx r of Inl e \<Rightarrow> Inl e | Inr b \<Rightarrow> Inr (\<not> b)))
         else Inl (UnsupportedCombinator comb))
      else evaluate_leaf ctx field operator value)"
| "evaluate_and ctx [] = Inr True"
| "evaluate_and ctx (r # rs) = (case evaluate ctx r of Inl e \<Rightarrow> Inl e
     | Inr b \<Rightarrow> if \<not> b then Inr False else evaluate_and ctx rs)"
| "evaluate_or ctx [] = Inr False"
| "evaluate_or ctx (r # rs) = (case evaluate ctx r of Inl e \<Rightarrow> Inl e
     | Inr b \<Rightarrow> if b then Inr True else evaluate_or ctx rs)"

subsection \<open>Decoding\<close>

definition zero_ast :: ast where
  "zero_ast = Node '''' [] '''' '''' VNil"

fun decode_ast :: "json \<Rightarrow> ast \<Rightarrow> ast option"
  and decode_ast_fields :: "(string \<times> json) list \<Rightarrow> ast \<Rightarrow> ast option"
  and decode_asts :: "json list \<Rightarrow> ast list option" where
  "decode_ast (JObj kvs) old = decode_ast_fields kvs old"
| "decode_ast JNull old = Some old"
| "decode_ast _ old = None"
| "decode_ast_fields [] n = Some n"
| "decode_ast_fields ((k, j) # kvs) (Node c rs f opr v) =
     (let next = (if key_is k ''combinator'' then map_option (\<lambda>c'. Node c' rs f opr v) (json_string j c)
        else if key_is k ''rules'' then
          (case j of JArr js \<Rightarrow> map_option (\<lambda>rs'. Node c rs' f opr v) (decode_asts js)
           | JNull \<Rightarrow> Some (Node c [] f opr v) | _ \<Rightarrow> None)
        else if key_is k ''field'' then map_option (\<lambda>f'. Node c rs f' opr v) (json_string j f)
        else if key_is k ''operator'' then map_option (\<lambda>opr'. Node c rs f opr' v) (json_string j opr)
        else if key_is k ''value'' then map_option (\<lambda>v'. Node c rs f opr v') (json_val j)
        else Some (Node c rs f opr v)) in
      case next of None \<Rightarrow> None | Some n \<Rightarrow> decode_ast_fields kvs n)"
| "decode_asts [] = Some []"
| "decode_asts (j # js) = (case decode_ast j zero_ast of None \<Rightarrow> None
     | Some n \<Rightarrow> map_option (Cons n) (decode_asts js))"

definition zero_rule_definition :: rule_definition where
  "zero_rule_definition = \<lparr>rd_condition = zero_ast, rd_action = '''', rd_reason_code = '''', rd_priority = 0\<rparr>"

definition decode_rule_field :: "string \<times> json \<Rightarrow> rule_definition \<Rightarrow> rule_definition option" where
  "decode_rule_field = (\<lambda>(k, j) d.
     (if key_is k ''condition'' then map_option (\<lambda>n. d\<lparr>rd_condition := n\<rparr>) (decode_ast j (rd_condition d))
      else if key_is k ''action'' then map_option (\<lambda>s. d\<lparr>rd_action := s\<rparr>) (json_string j (rd_action d))
      else if key_is k ''reason_code'' then map_option (\<lambda>s. d\<lparr>rd_reason_code := s\<rparr>) (json_string j (rd_reason_code d))
      else if key_is k ''priority'' then map_option (\<lambda>i. d\<lparr>rd_priority := i\<rparr>) (json_int j (rd_priority d))
      else Some d))"

fun decode_rule_fields :: "(string \<times> json) list \<Rightarrow> rule_definition \<Rightarrow> rule_definition option" where
  "decode_rule_fields [] d = Some d"
| "decode_rule_fields (kj # kvs) d = (case decode_rule_field kj d of None \<Rightarrow> None
     | Some d' \<Rightarrow> decode_rule_fields kvs d')"

fun decode_rule_definition :: "json \<Rightarrow> rule_definition option" where
  "decode_rule_definition (JObj kvs) = decode_rule_fields kvs zero_rule_definition"
| "decode_rule_definition JNull = Some zero_rule_definition"
| "decode_rule_definition _ = None"

text \<open>
  The raw bytes of a definition enter as the parsed document, \<open>None\<close> when they are no JSON.
\<close>

definition parse_rule_definition :: "json option \<Rightarrow> rule_definition option" where
  "parse_rule_definition raw =
     (case raw of None \<Rightarrow> None
      | Some j \<Rightarrow> (case decode_rule_definition j of None \<Rightarrow> None
          | Some d \<Rightarrow>
              if ast_combinator (rd_condition d) = '''' \<and> ast_field (rd_condition d) = '''' \<and>
                 ast_rules (rd_condition d) = []
              then (case decode_ast j zero_ast of None \<Rightarrow> Some d
                | Some n \<Rightarrow> if ast_combinator n \<noteq> '''' \<or> ast_field n \<noteq> ''''
                           then Some (d\<lparr>rd_condition := n\<rparr>) else Some d)
              else Some d))"

subsection \<open>Facts about the evaluator\<close>

fun_cases walk_VMapE: "walk (VMap kvs) (p # ps) = Some v"

lemma find_Cons_outcome:
  "(case find P (r # rs) of None \<Rightarrow> a | Some s \<Rightarrow> f s) = (if P r then f r else (case find P rs of None \<Rightarrow> a | Some s \<Rightarrow> f s))"
  by simp

lemma evaluate_and_find:
  "evaluate_and ctx rs = (case find (\<lambda>r. evaluate ctx r \<noteq> Inr True) rs of None \<Rightarrow> Inr True
     | Some r \<Rightarrow> (case evaluate ctx r of Inl e \<Rightarrow> Inl e | Inr _ \<Rightarrow> Inr False))"
  by (induction rs) (auto split: sum.splits)

lemma evaluate_or_find:
  "evaluate_or ctx rs = (case find (\<lambda>r. evaluate ctx r \<noteq> Inr False) rs of None \<Rightarrow> Inr False
     | Some r \<Rightarrow> (case evaluate ctx r of Inl e \<Rightarrow> Inl e | Inr _ \<Rightarrow> Inr True))"
  by (induction rs) (auto split: sum.splits)

definition negated :: "ast_error + bool \<Rightarrow> ast_error + bool" where
  "negated r = (case r of Inl e \<Rightarrow> Inl e | Inr b \<Rightarrow> Inr (\<not> b))"

definition not_node :: "ast \<Rightarrow> ast" where
  "not_node r = Node ''NOT'' [r] '''' '''' VNil"

lemma to_upper_words [simp]: "to_upper ''AND'' = ''AND''" "to_upper ''OR'' = ''OR''" "to_upper ''NOT'' = ''NOT''"
  by code_simp+

lemma evaluate_not_node: "evaluate ctx (not_node r) = negated (evaluate ctx r)"
  by (simp add: not_node_def negated_def)

lemma evaluate_or_not_nodes: "evaluate_or ctx (map not_node rs) = negated (evaluate_and ctx rs)"
  by (induction rs) (auto simp: evaluate_not_node negated_def split: sum.splits)

lemma evaluate_and_not_nodes: "evaluate_and ctx (map not_node rs) = negated (evaluate_or ctx rs)"
  by (induction rs) (auto simp: evaluate_not_node negated_def split: sum.splits)

lemma feq_sym: "feq x y = feq y x"
  by (cases x; cases y) auto

lemma are_equal_sym: "are_equal a b = are_equal b a"
  by (auto simp: are_equal_def feq_sym split: option.splits)

lemma raw_operator_words:
  "to_upper ''=='' = ''==''" "to_upper ''!='' = ''!=''" "to_upper ''>'' = ''>''"
  "to_upper ''<'' = ''<''" "to_upper ''>='' = ''>=''" "to_upper ''<='' = ''<=''"
  "to_upper ''IN'' = ''IN''" "to_upper ''NOT_IN'' = ''NOT_IN''" "to_upper ''CONTAINS'' = ''CONTAINS''"
  "to_upper ''NOT_CONTAINS'' = ''NOT_CONTAINS''" "to_upper ''EQ'' = ''EQ''" "to_upper ''~'' = ''~''"
  by code_simp+

lemma trimmed_operator_words:
  "trim_space ''=='' = ''==''" "trim_space ''!='' = ''!=''" "trim_space ''>'' = ''>''"
  "trim_space ''<'' = ''<''" "trim_space ''>='' = ''>=''" "trim_space ''<='' = ''<=''"
  "trim_space ''IN'' = ''IN''" "trim_space ''NOT_IN'' = ''NOT_IN''" "trim_space ''CONTAINS'' = ''CONTAINS''"
  "trim_space ''NOT_CONTAINS'' = ''NOT_CONTAINS''" "trim_space ''EQ'' = ''EQ''" "trim_space ''~'' = ''~''"
  by (simp_all add: trim_plain plain_char_def)

lemma operator_words:
  "to_upper (trim_space ''=='') = ''==''" "to_upper (trim_space ''!='') = ''!=''" "to_upper (trim_space ''>'') = ''>''"
  "to_upper (trim_space ''<'') = ''<''" "to_upper (trim_space ''>='') = ''>=''" "to_upper (trim_space ''<='') = ''<=''"
  "to_upper (trim_space ''IN'') = ''IN''" "to_upper (trim_space ''NOT_IN'') = ''NOT_IN''" "to_upper (trim_space ''CONTAINS'') = ''CONTAINS''"
  "to_upper (trim_space ''NOT_CONTAINS'') = ''NOT_CONTAINS''" "to_upper (trim_space ''EQ'') = ''EQ''" "to_upper (trim_space ''~'') = ''~''"
  by (simp_all only: trimmed_operator_words raw_operator_words)

lemma spaced_operator_word: "to_upper (trim_space '' =='') = ''==''"
proof -
  have f: "find (has_prefix '' =='') space_runes = Some '' ''" by code_simp
  have "trim_left_with space_runes (Suc 2) '' =='' = trim_left_with space_runes 2 ''==''"
    by (simp only: trim_left_with.simps f) simp
  also have "\<dots> = ''==''"
  proof (rule trim_left_with_id)
    show "\<forall>r \<in> set space_runes. r \<noteq> [] \<and> hd r \<noteq> hd ''==''" by code_simp
  qed simp
  finally have "trim_left_with space_runes (Suc 2) '' =='' = ''==''" .
  moreover have "length '' =='' = Suc 2" by simp
  ultimately have "trim_left '' =='' = ''==''" by (simp only: trim_left_def)
  moreover have "trim_right ''=='' = ''==''"
  proof -
    have "trim_left_with (map rev space_runes) 2 ''=='' = ''==''"
    proof (rule trim_left_with_id)
      show "\<forall>r \<in> set (map rev space_runes). r \<noteq> [] \<and> hd r \<noteq> hd ''==''" by code_simp
    qed simp
    moreover have "length ''=='' = 2" "rev ''=='' = ''==''" by simp_all
    ultimately show ?thesis by (simp only: trim_right_def)
  qed
  ultimately show ?thesis by (simp add: trim_space_def to_upper_def upper_char_def)
qed

lemma ex1_three:
  assumes "a \<noteq> b" "a \<noteq> c" "b \<noteq> c"
    and "(T a \<and> \<not> T b \<and> \<not> T c) \<or> (\<not> T a \<and> T b \<and> \<not> T c) \<or> (\<not> T a \<and> \<not> T b \<and> T c)"
  shows "\<exists>!x. x \<in> {a, b, c} \<and> T x"
  using assms by auto

lemma trichotomy_f64:
  "x \<noteq> NaN \<Longrightarrow> y \<noteq> NaN \<Longrightarrow> (flt x y \<and> \<not> feq x y \<and> \<not> flt y x) \<or> (\<not> flt x y \<and> feq x y \<and> \<not> flt y x) \<or>
     (\<not> flt x y \<and> \<not> feq x y \<and> flt y x)"
  by (cases x; cases y) auto

subsection \<open>Properties\<close>

text \<open>
  what a conjunction and a disjunction compute, errors included.  The result is decided by the
  first child, from the left, that is not true (not false): its error, or false (true); no
  child behind it matters, whatever errors it would raise.
\<close>

theorem combinators_short_circuit:
  "evaluate ctx (Node ''AND'' rs f opr v) =
     (case find (\<lambda>r. evaluate ctx r \<noteq> Inr True) rs of None \<Rightarrow> Inr True
      | Some r \<Rightarrow> (case evaluate ctx r of Inl e \<Rightarrow> Inl e | Inr _ \<Rightarrow> Inr False)) \<and>
   evaluate ctx (Node ''OR'' rs f opr v) =
     (case find (\<lambda>r. evaluate ctx r \<noteq> Inr False) rs of None \<Rightarrow> Inr False
      | Some r \<Rightarrow> (case evaluate ctx r of Inl e \<Rightarrow> Inl e | Inr _ \<Rightarrow> Inr True))"
  by (simp only: evaluate.simps to_upper_words) (simp add: evaluate_and_find evaluate_or_find)

text \<open>
  De Morgan's laws hold for the evaluator with its errors and its order of evaluation, in every
  context; and a double negation is the condition itself.  A negation reads its first child only.
\<close>

theorem de_morgan:
  "evaluate ctx (not_node (Node ''AND'' rs f opr v)) = evaluate ctx (Node ''OR'' (map not_node rs) f' opr' v') \<and>
   evaluate ctx (not_node (Node ''OR'' rs f opr v)) = evaluate ctx (Node ''AND'' (map not_node rs) f' opr' v') \<and>
   evaluate ctx (not_node (not_node r)) = evaluate ctx r \<and>
   evaluate ctx (Node ''NOT'' (r # rs) f opr v) = evaluate ctx (not_node r)"
proof -
  have "negated (negated x) = x" for x by (cases x) (simp_all add: negated_def)
  then show ?thesis
    by (simp only: evaluate_not_node)
      (simp add: evaluate_or_not_nodes evaluate_and_not_nodes negated_def)
qed

text \<open>
  for a field that is present, the operators come in complementary pairs; for one that is absent,
  an operator and its complement are both false, apart from \<open>==\<close> and \<open>!=\<close>.
\<close>

theorem operator_pairs:
  assumes "f \<noteq> ''''"
  shows "(resolve_field ctx f \<noteq> None \<longrightarrow>
      evaluate_leaf ctx f ''!='' v = negated (evaluate_leaf ctx f ''=='' v) \<and>
      evaluate_leaf ctx f ''NOT_IN'' v = negated (evaluate_leaf ctx f ''IN'' v) \<and>
      evaluate_leaf ctx f ''NOT_CONTAINS'' v = negated (evaluate_leaf ctx f ''CONTAINS'' v)) \<and>
    (resolve_field ctx f = None \<longrightarrow>
      evaluate_leaf ctx f ''!='' v = negated (evaluate_leaf ctx f ''=='' v) \<and>
      (\<forall>opr \<in> {''IN'', ''NOT_IN'', ''CONTAINS'', ''NOT_CONTAINS''}. evaluate_leaf ctx f opr v = Inr False))"
  using assms
  by (auto simp: evaluate_leaf_def evaluate_operator_def negated_def operator_words raw_operator_words)

lemma operator_pairs_witness:
  "evaluate_leaf [(''country'', VStr ''IN'')] ''country'' ''NOT_IN'' (VList [VStr ''US'', VStr ''GB''])
     = negated (evaluate_leaf [(''country'', VStr ''IN'')] ''country'' ''IN'' (VList [VStr ''US'', VStr ''GB''])) \<and>
   evaluate_leaf [] ''country'' ''NOT_IN'' (VList [VStr ''US'']) = Inr False"
  using operator_pairs [of "''country''" "[(''country'', VStr ''IN'')]" "VList [VStr ''US'', VStr ''GB'']"]
    operator_pairs [of "''country''" "[]" "VList [VStr ''US'']"]
  by (simp add: resolve_field_def)

text \<open>
  between operands that read as numbers other than \<open>NaN\<close> exactly one of \<open><\<close>, \<open>==\<close> and \<open>>\<close> holds,
  and \<open><=\<close> and \<open>>=\<close> are the complements of \<open>>\<close> and \<open><\<close>; when an operand does not read as a number, the
  four order operators are errors.
\<close>

theorem numeric_comparison:
  assumes "a \<noteq> VNil" "b \<noteq> VNil" "to_float64 a \<noteq> Some NaN" "to_float64 b \<noteq> Some NaN"
  shows "if to_float64 a \<noteq> None \<and> to_float64 b \<noteq> None
    then (\<exists>!opr. opr \<in> {''<'', ''=='', ''>''} \<and> evaluate_operator a opr b = Inr True) \<and>
      evaluate_operator a ''<='' b = negated (evaluate_operator a ''>'' b) \<and>
      evaluate_operator a ''>='' b = negated (evaluate_operator a ''<'' b)
    else \<forall>opr \<in> {''<'', ''<='', ''>'', ''>=''}. \<exists>e. evaluate_operator a opr b = Inl e"
proof (cases "to_float64 a \<noteq> None \<and> to_float64 b \<noteq> None")
  case True
  then obtain x y where xy: "to_float64 a = Some x" "to_float64 b = Some y" by auto
  then have n: "x \<noteq> NaN" "y \<noteq> NaN" using assms by auto
  have e: "evaluate_operator a ''<'' b = Inr (flt x y)" "evaluate_operator a ''>'' b = Inr (flt y x)"
    "evaluate_operator a ''<='' b = Inr (fle x y)" "evaluate_operator a ''>='' b = Inr (fle y x)"
    "evaluate_operator a ''=='' b = Inr (feq x y)"
    using assms(1,2)
    by (simp_all add: evaluate_operator_def operator_words compare_numbers_def xy are_equal_def)
  have "negated (Inr (flt y x)) = Inr (fle x y)" "negated (Inr (flt x y)) = Inr (fle y x)"
    using not_flt n by (simp_all add: negated_def)
  moreover have "\<exists>!opr. opr \<in> {''<'', ''=='', ''>''} \<and> evaluate_operator a opr b = Inr True"
    by (rule ex1_three) (use trichotomy_f64 [OF n] in \<open>simp_all add: e\<close>)
  ultimately show ?thesis using True by (simp only: e if_True simp_thms)
next
  case False
  have c: "\<exists>e. compare_numbers name t a b = Inl e" for name t
    using False by (auto simp: compare_numbers_def split: option.splits)
  show ?thesis using False c by (auto simp: evaluate_operator_def operator_words)
qed

lemma numeric_comparison_witness:
  "\<exists>!opr. opr \<in> {''<'', ''=='', ''>''} \<and> evaluate_operator (VStr ''12.5'') opr (VInt 12) = Inr True"
proof -
  have p: "parse_float ''12.5'' = Some (Fin (25 / 2))" "of_int64 12 = Fin 12" by code_simp+
  show ?thesis
    using numeric_comparison [of "VStr ''12.5''" "VInt 12"] by (simp add: p)
qed

text \<open>
  equality is symmetric, but it is not equality of texts.  Strings that read as numbers compare as
  numbers, so identifiers that differ in leading zeros, in a hexadecimal or an exponent notation are
  equal; and a string that spells not-a-number differs from itself.
\<close>

theorem string_equality_is_numeric:
  "are_equal a b = are_equal b a \<and>
   are_equal (VStr ''0123'') (VStr ''123'') \<and> are_equal (VStr ''1e3'') (VStr ''0x3e8p0'') \<and>
   \<not> are_equal (VStr ''nan'') (VStr ''nan'') \<and> \<not> are_equal (VStr ''ab'') (VStr ''AB'')"
proof -
  have p: "parse_float ''0123'' = Some (Fin 123)" "parse_float ''123'' = Some (Fin 123)"
    "parse_float ''1e3'' = Some (Fin 1000)" "parse_float ''0x3e8p0'' = Some (Fin 1000)"
    "parse_float ''nan'' = Some NaN" "parse_float ''ab'' = None" "parse_float ''AB'' = None"
    by code_simp+
  show ?thesis using are_equal_sym by (simp add: are_equal_def p)
qed

text \<open>
  the aliases of an operator are not equivalent.  On an absent field \<open>==\<close> with a null value is
  true, but \<open>EQ\<close>, and \<open>==\<close> with surrounding space, are false, although on a present field the three
  agree on every value.
\<close>

theorem operator_aliases_diverge:
  "evaluate_leaf [] ''device'' ''=='' VNil = Inr True \<and>
   evaluate_leaf [] ''device'' ''EQ'' VNil = Inr False \<and>
   evaluate_leaf [] ''device'' '' =='' VNil = Inr False \<and>
   evaluate_operator a ''EQ'' b = evaluate_operator a ''=='' b \<and>
   evaluate_operator a '' =='' b = evaluate_operator a ''=='' b"
proof -
  have "resolve_field [] ''device'' = None" by code_simp
  moreover have "to_upper '' =='' = '' ==''" by code_simp
  ultimately show ?thesis
    by (simp add: evaluate_leaf_def raw_operator_words evaluate_operator_def operator_words
        spaced_operator_word)
qed

text \<open>
  decoding accepts definitions that can never be evaluated.  An object with no condition is a valid
  definition, with a condition whose evaluation is an error in every context; and so is one
  with an operator that does not exist.
\<close>

theorem definitions_accepted_without_condition:
  "(\<exists>d. parse_rule_definition (Some (JObj [(''action'', JStr ''DECLINE_RECOMMENDATION'')])) = Some d \<and>
     (\<forall>ctx. evaluate ctx (rd_condition d) = Inl MissingField)) \<and>
   (\<exists>d. parse_rule_definition (Some (JObj [(''field'', JStr ''x''), (''operator'', JStr ''~'')])) = Some d \<and>
     (\<forall>v. evaluate [(''x'', v)] (rd_condition d) = Inl (UnsupportedOperator ''~'')))"
proof -
  have "parse_rule_definition (Some (JObj [(''action'', JStr ''DECLINE_RECOMMENDATION'')])) =
      Some (zero_rule_definition\<lparr>rd_action := ''DECLINE_RECOMMENDATION''\<rparr>)"
    by code_simp
  moreover have "evaluate ctx zero_ast = Inl MissingField" for ctx
    by (simp add: zero_ast_def evaluate_leaf_def)
  moreover have "parse_rule_definition (Some (JObj [(''field'', JStr ''x''), (''operator'', JStr ''~'')])) =
      Some (zero_rule_definition\<lparr>rd_condition := Node '''' [] ''x'' ''~'' VNil\<rparr>)"
    by code_simp
  ultimately show ?thesis
    by (auto simp: zero_rule_definition_def evaluate_leaf_def resolve_field_def evaluate_operator_def
        operator_words)
qed

end
