(* ===== verification/Rules_Service.thy ===== *)
theory Rules_Service
  imports Rules_AST
begin

text \<open>
  The rule store and its maker-checker workflow, \<open>internal/rules/service.go\<close>.  The table \<open>rules\<close> is the
  list of its rows, with \<open>rule_id\<close> as the primary key; a statement that fails in the database is the
  argument of type \<open>string option\<close>.  Every operation that changes a rule reads the row first and
  writes it in a second statement, with no transaction around the two: they are two definitions,
  composed by the operation, and interleaved by the step relation at the end.
\<close>

datatype rule_status = Draft | PendingApproval | Shadow | Active | Archived | OtherStatus string

fun rule_status_string :: "rule_status \<Rightarrow> string" where
  "rule_status_string Draft = ''DRAFT''"
| "rule_status_string PendingApproval = ''PENDING_APPROVAL''"
| "rule_status_string Shadow = ''SHADOW''"
| "rule_status_string Active = ''ACTIVE''"
| "rule_status_string Archived = ''ARCHIVED''"
| "rule_status_string (OtherStatus s) = s"

text \<open>Raw JSON bytes: none at all, or bytes with the document they parse to, if any.\<close>

datatype raw_json = NoBytes | Bytes "json option"

fun parse_raw :: "raw_json \<Rightarrow> rule_definition option" where
  "parse_raw NoBytes = None"
| "parse_raw (Bytes j) = parse_rule_definition j"

record rule =
  r_id :: string
  r_tenant_id :: string
  r_name :: string
  r_description :: string
  r_dsl_ast :: raw_json
  r_status :: rule_status
  r_version :: int
  r_created_by :: string
  r_approved_by :: "string option"
  r_created_at :: gotime
  r_updated_at :: gotime

record create_rule_input =
  cri_tenant_id :: string
  cri_name :: string
  cri_description :: string
  cri_dsl_ast :: raw_json
  cri_created_by :: string

record update_rule_input =
  uri_name :: string
  uri_description :: string
  uri_dsl_ast :: raw_json
  uri_updated_by :: string

datatype rule_error = RuleNotFound | MakerCheckerViolation string | InvalidStatusChange string
  | InvalidDSL | DbFailure string string | NilPool

type_synonym rule_table = "rule list"

record rules_service =
  rs_db :: "rule_table option"
  rs_memory :: "string \<rightharpoonup> rule list"

definition new_rules_service :: "rule_table option \<Rightarrow> rules_service" where
  "new_rules_service db = \<lparr>rs_db = db, rs_memory = Map.empty\<rparr>"

definition add_memory_rule :: "rule \<Rightarrow> rules_service \<Rightarrow> rules_service" where
  "add_memory_rule r s = s\<lparr>rs_memory := (rs_memory s)(r_tenant_id r \<mapsto>
     (case rs_memory s (r_tenant_id r) of None \<Rightarrow> [] | Some rs \<Rightarrow> rs) @ [r])\<rparr>"

subsection \<open>Statements on the table\<close>

definition select_rule :: "rule_table \<Rightarrow> string \<Rightarrow> string \<Rightarrow> rule option" where
  "select_rule tbl tenant rid = find (\<lambda>r. r_tenant_id r = tenant \<and> r_id r = rid) tbl"

text \<open>\<open>UPDATE ... WHERE tenant_id AND rule_id RETURNING\<close>: the new row, if there is one.\<close>

definition update_row :: "(rule \<Rightarrow> rule) \<Rightarrow> string \<Rightarrow> string \<Rightarrow> rule_table \<Rightarrow> rule option \<times> rule_table" where
  "update_row f tenant rid tbl =
     (map_option f (select_rule tbl tenant rid),
      map (\<lambda>r. if r_tenant_id r = tenant \<and> r_id r = rid then f r else r) tbl)"

subsection \<open>Operations\<close>

definition default_tenant :: string where
  "default_tenant = ''00000000-0000-0000-0000-000000000001''"

definition create_rule ::
  "create_rule_input \<Rightarrow> string \<Rightarrow> gotime \<Rightarrow> string option \<Rightarrow> string option \<Rightarrow> rules_service \<Rightarrow>
   (rule_error + rule) \<times> rules_service" where
  "create_rule inp new_id now tenant_err insert_err s =
     (if parse_raw (cri_dsl_ast inp) = None then (Inl InvalidDSL, s)
      else
        (let tenant = (if cri_tenant_id inp = '''' then default_tenant else cri_tenant_id inp);
             maker = (if cri_created_by inp = '''' then ''system'' else cri_created_by inp) in
         case rs_db s of None \<Rightarrow> (Inl NilPool, s)
         | Some tbl \<Rightarrow>
             (case tenant_err of Some e \<Rightarrow> (Inl (DbFailure ''failed to ensure tenant'' e), s)
              | None \<Rightarrow>
                  (case insert_err of Some e \<Rightarrow> (Inl (DbFailure ''failed to create rule'' e), s)
                   | None \<Rightarrow>
                       if new_id \<in> r_id ` set tbl then (Inl (DbFailure ''failed to create rule'' ''duplicate key''), s)
                       else (let r = \<lparr>r_id = new_id, r_tenant_id = tenant, r_name = cri_name inp,
                                r_description = cri_description inp, r_dsl_ast = cri_dsl_ast inp,
                                r_status = Draft, r_version = 1, r_created_by = maker,
                                r_approved_by = None, r_created_at = now, r_updated_at = now\<rparr> in
                             (Inr r, s\<lparr>rs_db := Some (tbl @ [r])\<rparr>))))))"

definition get_rule :: "string option \<Rightarrow> string \<Rightarrow> string \<Rightarrow> rules_service \<Rightarrow> rule_error + rule" where
  "get_rule err tenant rid s =
     (case rs_db s of None \<Rightarrow> Inl NilPool
      | Some tbl \<Rightarrow> (case err of Some e \<Rightarrow> Inl (DbFailure ''failed to get rule'' e)
          | None \<Rightarrow> (case select_rule tbl tenant rid of None \<Rightarrow> Inl RuleNotFound | Some r \<Rightarrow> Inr r)))"

text \<open>\<open>ORDER BY updated_at DESC\<close>; the order of rows updated at one instant is left to the database,
  here the order of the table.\<close>

definition list_rules ::
  "string option \<Rightarrow> string \<Rightarrow> rule_status option \<Rightarrow> rules_service \<Rightarrow> rule_error + rule list" where
  "list_rules err tenant status s =
     (let keep = (case status of None \<Rightarrow> (\<lambda>r. True)
        | Some st \<Rightarrow> if rule_status_string st = '''' then (\<lambda>r. True) else (\<lambda>r. r_status r = st)) in
      case rs_db s of
        None \<Rightarrow> Inr (case rs_memory s tenant of None \<Rightarrow> [] | Some rs \<Rightarrow> filter keep rs)
      | Some tbl \<Rightarrow>
          (case err of Some e \<Rightarrow> Inl (DbFailure ''failed to query rules'' e)
           | None \<Rightarrow> Inr (sort_key (\<lambda>r. - r_updated_at r) (filter (\<lambda>r. r_tenant_id r = tenant \<and> keep r) tbl))))"

text \<open>\<open>UpdateRule\<close> after its read: the document to write; and its write.\<close>

definition update_decide :: "rule \<Rightarrow> update_rule_input \<Rightarrow> rule_error + raw_json \<times> rule_status \<times> int" where
  "update_decide current inp =
     (let new_status = (if r_status current \<noteq> Draft then Draft else r_status current) in
      if uri_dsl_ast inp \<noteq> NoBytes then
        (if parse_raw (uri_dsl_ast inp) = None then Inl InvalidDSL
         else Inr (uri_dsl_ast inp, new_status, r_version current + 1))
      else Inr (r_dsl_ast current, new_status, r_version current + 1))"

definition update_write ::
  "string \<Rightarrow> string \<Rightarrow> update_rule_input \<Rightarrow> raw_json \<times> rule_status \<times> int \<Rightarrow> gotime \<Rightarrow> rule_table \<Rightarrow>
   rule option \<times> rule_table" where
  "update_write tenant rid inp d now =
     update_row (\<lambda>r. r\<lparr>r_name := uri_name inp, r_description := uri_description inp,
       r_dsl_ast := fst d, r_status := fst (snd d), r_version := snd (snd d), r_updated_at := now\<rparr>) tenant rid"

definition update_rule ::
  "string \<Rightarrow> string \<Rightarrow> update_rule_input \<Rightarrow> gotime \<Rightarrow> string option \<Rightarrow> string option \<Rightarrow> rules_service \<Rightarrow>
   (rule_error + rule) \<times> rules_service" where
  "update_rule tenant rid inp now get_err upd_err s =
     (case get_rule get_err tenant rid s of Inl e \<Rightarrow> (Inl e, s)
      | Inr current \<Rightarrow>
          (case update_decide current inp of Inl e \<Rightarrow> (Inl e, s)
           | Inr d \<Rightarrow>
               (case upd_err of Some e \<Rightarrow> (Inl (DbFailure ''failed to update rule'' e), s)
                | None \<Rightarrow>
                    (let (row, tbl) = update_write tenant rid inp d now (the (rs_db s)) in
                     case row of None \<Rightarrow> (Inl (DbFailure ''failed to update rule'' ''no rows''), s)
                     | Some r \<Rightarrow> (Inr r, s\<lparr>rs_db := Some tbl\<rparr>)))))"

text \<open>\<open>TransitionStatus\<close> after its read: the approver to write, or the refusal; and its write.\<close>

definition transition_decide :: "rule \<Rightarrow> rule_status \<Rightarrow> string \<Rightarrow> rule_error + string option" where
  "transition_decide current target actor =
     (case target of
        PendingApproval \<Rightarrow>
          if r_status current \<noteq> Draft then Inl (InvalidStatusChange (rule_status_string (r_status current)))
          else Inr None
      | Draft \<Rightarrow> Inr None
      | Archived \<Rightarrow> Inr (r_approved_by current)
      | OtherStatus t \<Rightarrow> Inl (InvalidStatusChange t)
      | _ \<Rightarrow>
          if r_status current \<noteq> PendingApproval \<and> r_status current \<noteq> Shadow
          then Inl (InvalidStatusChange (rule_status_string (r_status current)))
          else if actor = '''' then Inl (MakerCheckerViolation ''approver actor ID is required for rule approval'')
          else if r_created_by current \<noteq> '''' \<and> actor = r_created_by current then Inl (MakerCheckerViolation '''')
          else Inr (Some actor))"

definition transition_write ::
  "string \<Rightarrow> string \<Rightarrow> rule_status \<Rightarrow> string option \<Rightarrow> gotime \<Rightarrow> rule_table \<Rightarrow> rule option \<times> rule_table" where
  "transition_write tenant rid target approved now =
     update_row (\<lambda>r. r\<lparr>r_status := target, r_approved_by := approved, r_updated_at := now\<rparr>) tenant rid"

definition transition_status ::
  "string \<Rightarrow> string \<Rightarrow> rule_status \<Rightarrow> string \<Rightarrow> gotime \<Rightarrow> string option \<Rightarrow> string option \<Rightarrow> rules_service \<Rightarrow>
   (rule_error + rule) \<times> rules_service" where
  "transition_status tenant rid target actor now get_err upd_err s =
     (case get_rule get_err tenant rid s of Inl e \<Rightarrow> (Inl e, s)
      | Inr current \<Rightarrow>
          (case transition_decide current target actor of Inl e \<Rightarrow> (Inl e, s)
           | Inr approved \<Rightarrow>
               (case upd_err of Some e \<Rightarrow> (Inl (DbFailure ''failed to transition rule status'' e), s)
                | None \<Rightarrow>
                    (let (row, tbl) = transition_write tenant rid target approved now (the (rs_db s)) in
                     case row of None \<Rightarrow> (Inl (DbFailure ''failed to transition rule status'' ''no rows''), s)
                     | Some r \<Rightarrow> (Inr r, s\<lparr>rs_db := Some tbl\<rparr>)))))"

subsection \<open>Concurrent requests\<close>

text \<open>
  A request between its read and its write, and the steps of a store that serves any number of them.
\<close>

datatype request =
    UpdateReq string string update_rule_input "raw_json \<times> rule_status \<times> int"
  | TransitionReq string string rule_status "string option"

type_synonym store_state = "rule_table \<times> request list"

fun finish_request :: "request \<Rightarrow> gotime \<Rightarrow> rule_table \<Rightarrow> rule_table" where
  "finish_request (UpdateReq tenant rid inp d) now tbl = snd (update_write tenant rid inp d now tbl)"
| "finish_request (TransitionReq tenant rid target approved) now tbl =
     snd (transition_write tenant rid target approved now tbl)"

inductive store_step :: "store_state \<Rightarrow> store_state \<Rightarrow> bool" where
  step_create: "create_rule inp new_id now None None \<lparr>rs_db = Some tbl, rs_memory = Map.empty\<rparr> =
      (Inr r, \<lparr>rs_db = Some tbl', rs_memory = Map.empty\<rparr>) \<Longrightarrow> store_step (tbl, ps) (tbl', ps)"
| step_update_read: "select_rule tbl tenant rid = Some r \<Longrightarrow> update_decide r inp = Inr d \<Longrightarrow>
      store_step (tbl, ps) (tbl, UpdateReq tenant rid inp d # ps)"
| step_transition_read: "select_rule tbl tenant rid = Some r \<Longrightarrow> transition_decide r target actor = Inr approved \<Longrightarrow>
      store_step (tbl, ps) (tbl, TransitionReq tenant rid target approved # ps)"
| step_write: "store_step (tbl, ps @ p # qs) (finish_request p now tbl, ps @ qs)"
| step_drop: "store_step (tbl, ps @ p # qs) (tbl, ps @ qs)"

inductive store_reachable :: "store_state \<Rightarrow> bool" where
  reach_init: "store_reachable ([], [])"
| reach_step: "store_reachable st \<Longrightarrow> store_step st st' \<Longrightarrow> store_reachable st'"

inductive_cases store_stepE: "store_step st st'"

subsection \<open>Facts about the table\<close>

definition preserves_key :: "(rule \<Rightarrow> rule) \<Rightarrow> bool" where
  "preserves_key f \<longleftrightarrow> (\<forall>r. r_id (f r) = r_id r \<and> r_tenant_id (f r) = r_tenant_id r \<and> r_created_by (f r) = r_created_by r)"

lemma preserves_key_writes [simp]:
  "preserves_key (\<lambda>r. r\<lparr>r_name := n, r_description := d, r_dsl_ast := j, r_status := st, r_version := v, r_updated_at := t\<rparr>)"
  "preserves_key (\<lambda>r. r\<lparr>r_status := st, r_approved_by := a, r_updated_at := t\<rparr>)"
  by (simp_all add: preserves_key_def)

lemma select_rule_SomeD:
  "select_rule tbl tenant rid = Some r \<Longrightarrow> r \<in> set tbl \<and> r_tenant_id r = tenant \<and> r_id r = rid"
  by (auto simp: select_rule_def find_Some_iff)

lemma select_update_row:
  "preserves_key f \<Longrightarrow> select_rule (snd (update_row f tenant rid tbl)) tenant rid = map_option f (select_rule tbl tenant rid)"
  by (induction tbl) (auto simp: select_rule_def update_row_def preserves_key_def)

lemma update_row_other_tenants:
  "filter (\<lambda>r. r_tenant_id r \<noteq> tenant) (snd (update_row f tenant rid tbl)) =
   filter (\<lambda>r. r_tenant_id r \<noteq> tenant) tbl" if "preserves_key f"
  using that by (induction tbl) (auto simp: update_row_def preserves_key_def)

lemma update_row_ids: "preserves_key f \<Longrightarrow> map r_id (snd (update_row f tenant rid tbl)) = map r_id tbl"
  by (induction tbl) (auto simp: update_row_def preserves_key_def)

lemma in_update_rowE:
  assumes "r' \<in> set (snd (update_row f tenant rid tbl))"
  obtains r where "r \<in> set tbl" "r' = (if r_tenant_id r = tenant \<and> r_id r = rid then f r else r)"
  using assms by (auto simp: update_row_def)

lemma update_decide_draft: "update_decide r inp = Inr (j, st, v) \<Longrightarrow> st = Draft \<and> v = r_version r + 1"
  by (auto simp: update_decide_def Let_def split: if_splits)

lemma transition_decide_approved:
  assumes "transition_decide r target actor = Inr approved" "target \<in> {Active, Shadow}"
  shows "approved = Some actor \<and> actor \<noteq> '''' \<and> (r_created_by r = '''' \<or> actor \<noteq> r_created_by r) \<and>
    r_status r \<in> {PendingApproval, Shadow}"
  using assms by (auto simp: transition_decide_def split: if_splits)

lemma create_rule_InrD:
  assumes "create_rule inp new_id now None None \<lparr>rs_db = Some tbl, rs_memory = m\<rparr> = (Inr r, \<lparr>rs_db = Some tbl', rs_memory = m'\<rparr>)"
  shows "tbl' = tbl @ [r] \<and> r_id r \<notin> r_id ` set tbl \<and> r_status r = Draft \<and> r_created_by r \<noteq> '''' \<and>
    r_approved_by r = None"
  using assms by (auto simp: create_rule_def Let_def split: if_splits)

text \<open>The invariant of the store: approved rows have a second pair of eyes, and so do pending approvals.\<close>

definition approved_row :: "rule \<Rightarrow> bool" where
  "approved_row r \<longleftrightarrow> (r_status r \<in> {Active, Shadow} \<longrightarrow>
     (\<exists>a. r_approved_by r = Some a \<and> a \<noteq> '''' \<and> a \<noteq> r_created_by r))"

fun request_ok :: "rule_table \<Rightarrow> request \<Rightarrow> bool" where
  "request_ok tbl (UpdateReq tenant rid inp d) = (fst (snd d) = Draft)"
| "request_ok tbl (TransitionReq tenant rid target approved) =
     (\<exists>r \<in> set tbl. r_tenant_id r = tenant \<and> r_id r = rid \<and>
       (target \<in> {Active, Shadow} \<longrightarrow> (\<exists>a. approved = Some a \<and> a \<noteq> '''' \<and> a \<noteq> r_created_by r)))"

definition store_inv :: "store_state \<Rightarrow> bool" where
  "store_inv st \<longleftrightarrow> distinct (map r_id (fst st)) \<and> (\<forall>r \<in> set (fst st). r_created_by r \<noteq> '''' \<and> approved_row r) \<and>
     (\<forall>p \<in> set (snd st). request_ok (fst st) p)"

lemma request_ok_update_row:
  assumes "request_ok tbl p" "preserves_key f" shows "request_ok (snd (update_row f tenant rid tbl)) p"
proof (cases p)
  case (TransitionReq t i target approved)
  with assms(1) obtain r where r: "r \<in> set tbl" "r_tenant_id r = t" "r_id r = i"
    "target \<in> {Active, Shadow} \<longrightarrow> (\<exists>a. approved = Some a \<and> a \<noteq> '''' \<and> a \<noteq> r_created_by r)" by auto
  let ?r = "if r_tenant_id r = tenant \<and> r_id r = rid then f r else r"
  have "?r \<in> set (snd (update_row f tenant rid tbl))" using r(1) by (auto simp: update_row_def)
  moreover have "r_tenant_id ?r = t" "r_id ?r = i" "r_created_by ?r = r_created_by r"
    using assms(2) r by (auto simp: preserves_key_def)
  ultimately show ?thesis using r(4) TransitionReq by (auto intro!: bexI [of _ ?r])
qed (use assms in simp)

lemma distinct_ids_unique:
  "distinct (map r_id tbl) \<Longrightarrow> r \<in> set tbl \<Longrightarrow> r' \<in> set tbl \<Longrightarrow> r_id r = r_id r' \<Longrightarrow> r = r'"
  by (simp add: distinct_map inj_on_def)

lemma finish_request_inv:
  assumes inv: "store_inv (tbl, ps)" and ok: "request_ok tbl p"
  shows "distinct (map r_id (finish_request p now tbl)) \<and>
    (\<forall>r \<in> set (finish_request p now tbl). r_created_by r \<noteq> '''' \<and> approved_row r) \<and>
    (\<forall>q \<in> set ps. request_ok (finish_request p now tbl) q)"
proof (cases p)
  case (UpdateReq tenant rid inp d)
  then have "fst (snd d) = Draft" using ok by simp
  then show ?thesis
    using inv
    by (auto simp: UpdateReq update_write_def update_row_ids store_inv_def approved_row_def
        intro: request_ok_update_row elim!: in_update_rowE split: if_splits)
next
  case (TransitionReq tenant rid target approved)
  then obtain r0 where r0: "r0 \<in> set tbl" "r_tenant_id r0 = tenant" "r_id r0 = rid"
    "target \<in> {Active, Shadow} \<longrightarrow> (\<exists>a. approved = Some a \<and> a \<noteq> '''' \<and> a \<noteq> r_created_by r0)"
    using ok by auto
  have "approved_row r' \<and> r_created_by r' \<noteq> ''''"
    if "r' \<in> set (finish_request p now tbl)" for r'
  proof -
    from that obtain r where r: "r \<in> set tbl" and r': "r' = (if r_tenant_id r = tenant \<and> r_id r = rid
        then r\<lparr>r_status := target, r_approved_by := approved, r_updated_at := now\<rparr> else r)"
      by (auto simp: TransitionReq transition_write_def elim!: in_update_rowE)
    have "r_id r = rid \<Longrightarrow> r = r0" using inv r r0 distinct_ids_unique [of tbl r r0] by (simp add: store_inv_def)
    with r' r r0(4) inv show ?thesis by (auto simp: approved_row_def store_inv_def)
  qed
  then show ?thesis
    using inv by (auto simp: TransitionReq transition_write_def update_row_ids store_inv_def intro: request_ok_update_row)
qed

lemma store_step_inv: "store_step st st' \<Longrightarrow> store_inv st \<Longrightarrow> store_inv st'"
proof (induction rule: store_step.induct)
  case (step_create inp new_id now tbl r tbl' ps)
  have c: "tbl' = tbl @ [r]" "r_id r \<notin> r_id ` set tbl" "r_status r = Draft" "r_created_by r \<noteq> ''''"
    using create_rule_InrD [OF step_create.hyps] by simp_all
  have "request_ok tbl p \<Longrightarrow> request_ok (tbl @ [r]) p" for p by (cases p) auto
  with c step_create.prems show ?case by (auto simp: store_inv_def approved_row_def)
next
  case (step_update_read tbl tenant rid r inp d ps)
  then show ?case using update_decide_draft [of r inp "fst d" "fst (snd d)" "snd (snd d)"]
    by (simp add: store_inv_def)
next
  case (step_transition_read tbl tenant rid r target actor approved ps)
  have r: "r \<in> set tbl" "r_tenant_id r = tenant" "r_id r = rid"
    using select_rule_SomeD [OF step_transition_read.hyps(1)] by simp_all
  have "r_created_by r \<noteq> ''''" using r(1) step_transition_read.prems by (simp add: store_inv_def)
  then have "request_ok tbl (TransitionReq tenant rid target approved)"
    using r transition_decide_approved [OF step_transition_read.hyps(2)] by auto
  then show ?case using step_transition_read.prems by (simp add: store_inv_def)
next
  case (step_write tbl ps p qs now)
  then show ?case
    using finish_request_inv [of tbl "ps @ p # qs" p now] by (auto simp: store_inv_def)
qed (auto simp: store_inv_def)

lemma store_reachable_inv: "store_reachable st \<Longrightarrow> store_inv st"
proof (induction rule: store_reachable.induct)
  case (reach_step st st')
  then show ?case using store_step_inv by blast
qed (simp add: store_inv_def)

subsection \<open>Properties\<close>

text \<open>
  C2: maker-checker under concurrency.  In every state that any interleaving of creations, edits and
  transitions can reach, with the read and the write of each request as separate steps, a rule
  that is active or in shadow carries an approver who is named and is not the rule's creator.
\<close>

theorem maker_checker_all_interleavings:
  assumes "store_reachable (tbl, ps)" "r \<in> set tbl" "r_status r \<in> {Active, Shadow}"
  shows "\<exists>a. r_approved_by r = Some a \<and> a \<noteq> '''' \<and> a \<noteq> r_created_by r"
  using store_reachable_inv [OF assms(1)] assms(2,3) by (auto simp: store_inv_def approved_row_def)

definition demo_dsl :: "string \<Rightarrow> raw_json" where
  "demo_dsl f = Bytes (Some (JObj [(''field'', JStr f), (''operator'', JStr ''==''), (''value'', JStr ''x'')]))"

definition demo_rule :: "string \<Rightarrow> rule_status \<Rightarrow> int \<Rightarrow> string option \<Rightarrow> gotime \<Rightarrow> rule" where
  "demo_rule f st v appr t = \<lparr>r_id = ''r1'', r_tenant_id = ''t1'', r_name = ''n'', r_description = '''',
     r_dsl_ast = demo_dsl f, r_status = st, r_version = v, r_created_by = ''alice'', r_approved_by = appr,
     r_created_at = 1, r_updated_at = t\<rparr>"

definition demo_update :: update_rule_input where
  "demo_update = \<lparr>uri_name = ''n'', uri_description = '''', uri_dsl_ast = demo_dsl ''other'', uri_updated_by = ''mallory''\<rparr>"

lemma demo_parses: "parse_raw (demo_dsl ''amount'') \<noteq> None" "parse_raw (demo_dsl ''other'') \<noteq> None"
  by code_simp+

lemma demo_created: "store_reachable ([demo_rule ''amount'' Draft 1 None 1], [])"
proof (rule reach_step [OF reach_init])
  show "store_step ([], []) ([demo_rule ''amount'' Draft 1 None 1], [])"
    using demo_parses(1)
    by (intro step_create [where inp = "\<lparr>cri_tenant_id = ''t1'', cri_name = ''n'', cri_description = '''',
        cri_dsl_ast = demo_dsl ''amount'', cri_created_by = ''alice''\<rparr>" and new_id = "''r1''" and now = 1
        and r = "demo_rule ''amount'' Draft 1 None 1"])
      (simp add: create_rule_def demo_rule_def Let_def)
qed

text \<open>One request run to its end.\<close>

lemma reach_write:
  "store_reachable (tbl, p # qs) \<Longrightarrow> finish_request p now tbl = tbl' \<Longrightarrow> store_reachable (tbl', qs)"
  using reach_step step_write [of tbl "[]" p qs now] by auto

lemma demo_submitted: "store_reachable ([demo_rule ''amount'' PendingApproval 1 None 2], [])"
proof -
  have "store_reachable ([demo_rule ''amount'' Draft 1 None 1], [TransitionReq ''t1'' ''r1'' PendingApproval None])"
    by (rule reach_step [OF demo_created], rule step_transition_read [where r = "demo_rule ''amount'' Draft 1 None 1"])
      (simp_all add: select_rule_def demo_rule_def transition_decide_def)
  then show ?thesis
    by (rule reach_write [where now = 2]) (simp_all add: transition_write_def update_row_def demo_rule_def)
qed

lemma demo_approval_read:
  "store_reachable ([demo_rule ''amount'' PendingApproval 1 None 2], [TransitionReq ''t1'' ''r1'' Active (Some ''bob'')])"
  by (rule reach_step [OF demo_submitted], rule step_transition_read [where r = "demo_rule ''amount'' PendingApproval 1 None 2"
        and actor = "''bob''"])
    (simp_all add: select_rule_def demo_rule_def transition_decide_def)

lemma demo_active: "store_reachable ([demo_rule ''amount'' Active 1 (Some ''bob'') 3], [])"
  by (rule reach_write [OF demo_approval_read, where now = 3])
    (simp_all add: transition_write_def update_row_def demo_rule_def)

lemma maker_checker_all_interleavings_witness:
  "\<exists>a. r_approved_by (demo_rule ''amount'' Active 1 (Some ''bob'') 3) = Some a \<and> a \<noteq> '''' \<and> a \<noteq> ''alice''"
  using maker_checker_all_interleavings [OF demo_active, of "demo_rule ''amount'' Active 1 (Some ''bob'') 3"]
  by (simp add: demo_rule_def)


text \<open>
  an editor can approve his own edit.  The creator is checked, the editor is not recorded: whoever
  is not the creator may edit any rule, submit it and approve it, and the three operations
  succeed one after the other and leave his content active, approved by himself.
\<close>

theorem editor_approves_own_edit:
  assumes "rs_db s = Some tbl" "select_rule tbl tenant rid = Some r"
    and "parse_raw (uri_dsl_ast inp) \<noteq> None"
    and "editor = uri_updated_by inp" "editor \<noteq> ''''" "editor \<noteq> r_created_by r"
    and "update_rule tenant rid inp t1 None None s = (x1, s1)"
    and "transition_status tenant rid PendingApproval editor t2 None None s1 = (x2, s2)"
    and "transition_status tenant rid Active editor t3 None None s2 = (x3, s3)"
  shows "\<exists>r'. x3 = Inr r' \<and> r_status r' = Active \<and> r_dsl_ast r' = uri_dsl_ast inp \<and>
    r_approved_by r' = Some editor \<and> get_rule None tenant rid s3 = Inr r'"
proof -
  have nb: "uri_dsl_ast inp \<noteq> NoBytes" using assms(3) by auto
  define d where "d = (uri_dsl_ast inp, if r_status r \<noteq> Draft then Draft else r_status r, r_version r + 1)"
  have ud: "update_decide r inp = Inr d" using assms(3) nb by (simp add: update_decide_def d_def Let_def)
  define t1bl where "t1bl = snd (update_write tenant rid inp d t1 tbl)"
  have s1: "s1 = s\<lparr>rs_db := Some t1bl\<rparr>"
    using assms(1,2,7) ud
    by (simp add: update_rule_def get_rule_def update_write_def update_row_def t1bl_def)
  obtain r1 where r1: "select_rule t1bl tenant rid = Some r1" "r_status r1 = Draft" "r_dsl_ast r1 = uri_dsl_ast inp"
    "r_created_by r1 = r_created_by r"
    using select_update_row [OF preserves_key_writes(1)] assms(2)
    by (auto simp: t1bl_def update_write_def d_def)
  define t2bl where "t2bl = snd (transition_write tenant rid PendingApproval None t2 t1bl)"
  have s2: "s2 = s\<lparr>rs_db := Some t2bl\<rparr>"
    using assms(8) r1
    by (simp add: s1 transition_status_def get_rule_def transition_decide_def transition_write_def update_row_def t2bl_def)
  obtain r2 where r2: "select_rule t2bl tenant rid = Some r2" "r_status r2 = PendingApproval"
    "r_dsl_ast r2 = uri_dsl_ast inp" "r_created_by r2 = r_created_by r"
    using select_update_row [OF preserves_key_writes(2)] r1 by (auto simp: t2bl_def transition_write_def)
  have "transition_decide r2 Active editor = Inr (Some editor)"
    using r2 assms(5,6) by (simp add: transition_decide_def)
  then show ?thesis
    using assms(9) r2 select_update_row [OF preserves_key_writes(2), where tbl = t2bl and tenant = tenant and rid = rid]
    by (auto simp: s2 transition_status_def get_rule_def transition_write_def update_row_def)
qed

definition demo_service :: rules_service where
  "demo_service = \<lparr>rs_db = Some [demo_rule ''amount'' Active 1 (Some ''bob'') 3], rs_memory = Map.empty\<rparr>"

lemma editor_approves_own_edit_witness:
  "\<exists>x1 s1 x2 s2 r'. update_rule ''t1'' ''r1'' demo_update 4 None None demo_service = (x1, s1) \<and>
     transition_status ''t1'' ''r1'' PendingApproval ''mallory'' 5 None None s1 = (x2, s2) \<and>
     fst (transition_status ''t1'' ''r1'' Active ''mallory'' 6 None None s2) = Inr r' \<and>
     r_approved_by r' = Some ''mallory''"
proof -
  obtain x1 s1 where 1: "update_rule ''t1'' ''r1'' demo_update 4 None None demo_service = (x1, s1)" by force
  obtain x2 s2 where 2: "transition_status ''t1'' ''r1'' PendingApproval ''mallory'' 5 None None s1 = (x2, s2)" by force
  obtain x3 s3 where 3: "transition_status ''t1'' ''r1'' Active ''mallory'' 6 None None s2 = (x3, s3)" by force
  have "\<exists>r'. x3 = Inr r' \<and> r_status r' = Active \<and> r_dsl_ast r' = uri_dsl_ast demo_update \<and>
    r_approved_by r' = Some ''mallory'' \<and> get_rule None ''t1'' ''r1'' s3 = Inr r'"
    by (rule editor_approves_own_edit [where r = "demo_rule ''amount'' Active 1 (Some ''bob'') 3"
        and tbl = "[demo_rule ''amount'' Active 1 (Some ''bob'') 3]", OF _ _ _ _ _ _ 1 2 3])
      (use demo_parses(2) in \<open>simp_all add: demo_service_def select_rule_def demo_rule_def demo_update_def\<close>)
  then show ?thesis using 1 2 3 by auto
qed

text \<open>
  when a transition succeeds, and what it does.  With a working database it succeeds exactly from a
  draft to pending approval, from pending approval or shadow to shadow or active by a named
  actor other than the creator, and from any status to draft or archived; the row then has the target
  status and the approver the transition calls for, and no other tenant's row changes.
\<close>

theorem transition_status_functional:
  assumes "rs_db s = Some tbl" "select_rule tbl tenant rid = Some r"
    and "transition_status tenant rid target actor now None None s = (res, s')"
  shows "((\<exists>r'. res = Inr r') \<longleftrightarrow>
      (case target of PendingApproval \<Rightarrow> r_status r = Draft
       | Active \<Rightarrow> r_status r \<in> {PendingApproval, Shadow} \<and> actor \<noteq> '''' \<and> (r_created_by r = '''' \<or> actor \<noteq> r_created_by r)
       | Shadow \<Rightarrow> r_status r \<in> {PendingApproval, Shadow} \<and> actor \<noteq> '''' \<and> (r_created_by r = '''' \<or> actor \<noteq> r_created_by r)
       | Draft \<Rightarrow> True | Archived \<Rightarrow> True | OtherStatus _ \<Rightarrow> False)) \<and>
    (case res of
      Inl e \<Rightarrow> s' = s
    | Inr r' \<Rightarrow> get_rule None tenant rid s' = Inr r' \<and>
        r' = r\<lparr>r_status := target, r_updated_at := now,
          r_approved_by := (if target \<in> {Active, Shadow} then Some actor
            else if target = Archived then r_approved_by r else None)\<rparr> \<and>
        filter (\<lambda>q. r_tenant_id q \<noteq> tenant) (the (rs_db s')) = filter (\<lambda>q. r_tenant_id q \<noteq> tenant) tbl)"
proof (rule conjI)
  have other: "filter (\<lambda>q. r_tenant_id q \<noteq> tenant) (snd (transition_write tenant rid target a now tbl))
      = filter (\<lambda>q. r_tenant_id q \<noteq> tenant) tbl" for a
    by (simp add: transition_write_def update_row_other_tenants)
  have sel: "select_rule (snd (transition_write tenant rid target a now tbl)) tenant rid
      = Some (r\<lparr>r_status := target, r_approved_by := a, r_updated_at := now\<rparr>)" for a
    using assms(2) by (simp add: transition_write_def select_update_row)
  have fst: "fst (transition_write tenant rid target a now tbl)
      = Some (r\<lparr>r_status := target, r_approved_by := a, r_updated_at := now\<rparr>)" for a
    using assms(2) by (simp add: transition_write_def update_row_def)
  have run: "(res, s') = (case transition_decide r target actor of Inl e \<Rightarrow> (Inl e, s)
      | Inr a \<Rightarrow> (Inr (r\<lparr>r_status := target, r_approved_by := a, r_updated_at := now\<rparr>),
          s\<lparr>rs_db := Some (snd (transition_write tenant rid target a now tbl))\<rparr>))"
  proof (cases "transition_decide r target actor")
    case (Inr a)
    with assms fst [of a] show ?thesis
      by (cases "transition_write tenant rid target a now tbl") (simp add: transition_status_def get_rule_def)
  qed (use assms in \<open>simp add: transition_status_def get_rule_def\<close>)
  show "(\<exists>r'. res = Inr r') \<longleftrightarrow>
      (case target of PendingApproval \<Rightarrow> r_status r = Draft
       | Active \<Rightarrow> r_status r \<in> {PendingApproval, Shadow} \<and> actor \<noteq> '''' \<and> (r_created_by r = '''' \<or> actor \<noteq> r_created_by r)
       | Shadow \<Rightarrow> r_status r \<in> {PendingApproval, Shadow} \<and> actor \<noteq> '''' \<and> (r_created_by r = '''' \<or> actor \<noteq> r_created_by r)
       | Draft \<Rightarrow> True | Archived \<Rightarrow> True | OtherStatus _ \<Rightarrow> False)"
    using run by (cases target) (auto simp: transition_decide_def split: if_splits)
  have d: "transition_decide r target actor = Inr a \<Longrightarrow>
      a = (if target \<in> {Active, Shadow} then Some actor else if target = Archived then r_approved_by r else None)" for a
    by (cases target) (auto simp: transition_decide_def split: if_splits)
  show "case res of
      Inl e \<Rightarrow> s' = s
    | Inr r' \<Rightarrow> get_rule None tenant rid s' = Inr r' \<and>
        r' = r\<lparr>r_status := target, r_updated_at := now,
          r_approved_by := (if target \<in> {Active, Shadow} then Some actor
            else if target = Archived then r_approved_by r else None)\<rparr> \<and>
        filter (\<lambda>q. r_tenant_id q \<noteq> tenant) (the (rs_db s')) = filter (\<lambda>q. r_tenant_id q \<noteq> tenant) tbl"
  proof (cases "transition_decide r target actor")
    case (Inr a)
    then have "res = Inr (r\<lparr>r_status := target, r_approved_by := a, r_updated_at := now\<rparr>)"
      "s' = s\<lparr>rs_db := Some (snd (transition_write tenant rid target a now tbl))\<rparr>"
      using run by simp_all
    moreover have "r\<lparr>r_status := target, r_approved_by := a, r_updated_at := now\<rparr> =
        r\<lparr>r_status := target, r_updated_at := now, r_approved_by := (if target \<in> {Active, Shadow} then Some actor
            else if target = Archived then r_approved_by r else None)\<rparr>"
      using d [OF Inr] by simp
    ultimately show ?thesis using other [of a] sel [of a] by (simp add: get_rule_def)
  next
    case (Inl e)
    then show ?thesis using run by simp
  qed
qed

lemma transition_status_functional_witness:
  "\<exists>r' s'. transition_status ''t1'' ''r1'' Archived ''mallory'' 5 None None demo_service = (Inr r', s') \<and>
     r_status r' = Archived \<and> get_rule None ''t1'' ''r1'' s' = Inr r'"
proof -
  obtain tbl r where t: "rs_db demo_service = Some tbl" "select_rule tbl ''t1'' ''r1'' = Some r"
    by (simp add: demo_service_def select_rule_def demo_rule_def)
  obtain x s' where x: "transition_status ''t1'' ''r1'' Archived ''mallory'' 5 None None demo_service = (x, s')" by force
  from transition_status_functional [OF t x] have "(\<exists>r'. x = Inr r')" and
    "case x of Inl e \<Rightarrow> True | Inr r' \<Rightarrow> get_rule None ''t1'' ''r1'' s' = Inr r' \<and> r_status r' = Archived"
    by (auto split: sum.splits)
  then show ?thesis using x by auto
qed

end
