(* ===== verification/Security_Audit.thy ===== *)
theory Security_Audit
  imports Bounded_History
begin

text \<open>
  The security audit log, \<open>internal/riskengine/audit_trail.go\<close>: events are stamped,
  their metadata sanitised, kept in a bounded buffer and handed to the outbox.  A \<open>nil\<close>
  metadata map is \<open>None\<close>; the zero timestamp is \<open>None\<close>; the JSON payload of the
  outbox event is represented by the event it encodes.
\<close>

record security_event =
  se_event_id :: string
  se_timestamp :: "gotime option"
  se_actor :: string
  se_role :: string
  se_action :: string
  se_resource :: string
  se_result :: string
  se_correlation_id :: string
  se_reason :: string
  se_client_ip :: string
  se_metadata :: "(string \<rightharpoonup> string) option"

record audit_outbox_event =
  aoe_event_id :: string
  aoe_event_type :: string
  aoe_timestamp :: "gotime option"
  aoe_correlation_id :: string
  aoe_payload :: security_event

record audit_logger =
  al_recent :: "security_event list"
  al_max_retention :: nat
  al_outbox :: "audit_outbox_event list option"

definition new_audit_logger :: "int \<Rightarrow> bool \<Rightarrow> audit_logger" where
  "new_audit_logger max_retention has_outbox =
     \<lparr>al_recent = [], al_max_retention = (if max_retention \<le> 0 then 1000 else nat max_retention),
      al_outbox = (if has_outbox then Some [] else None)\<rparr>"

definition sensitive_substrings :: "string list" where
  "sensitive_substrings = [''key'', ''secret'', ''password'', ''token'', ''cvv'', ''pan'', ''card'', ''auth'']"

definition is_sensitive :: "string \<Rightarrow> bool" where
  "is_sensitive k \<longleftrightarrow> (\<exists>s \<in> set sensitive_substrings. str_contains (to_lower k) s)"

definition redacted :: string where "redacted = ''[REDACTED]''"

definition sanitize_metadata :: "(string \<rightharpoonup> string) option \<Rightarrow> (string \<rightharpoonup> string)" where
  "sanitize_metadata mo = (case mo of None \<Rightarrow> Map.empty
     | Some m \<Rightarrow> (\<lambda>k. case m k of None \<Rightarrow> None
         | Some v \<Rightarrow> Some (if is_sensitive k then redacted else v)))"

text \<open>Stamping, naming and sanitising one event at the time \<open>now\<close>.\<close>

definition prepare_event :: "security_event \<times> gotime \<Rightarrow> security_event" where
  "prepare_event = (\<lambda>(e, now).
     (let ts = (case se_timestamp e of None \<Rightarrow> now | Some t \<Rightarrow> t);
          eid = (if se_event_id e = '''' then ''audit_'' @ itoa ts @ ''_'' @ se_action e
                 else se_event_id e)
      in e\<lparr>se_timestamp := Some ts, se_event_id := eid,
           se_metadata := Some (sanitize_metadata (se_metadata e))\<rparr>))"

definition outbox_of :: "security_event \<Rightarrow> audit_outbox_event" where
  "outbox_of e = \<lparr>aoe_event_id = se_event_id e, aoe_event_type = ''SECURITY_AUDIT_EVENT'',
     aoe_timestamp = se_timestamp e, aoe_correlation_id = se_correlation_id e, aoe_payload = e\<rparr>"

definition log_event :: "security_event \<times> gotime \<Rightarrow> audit_logger \<Rightarrow> audit_logger" where
  "log_event et l =
     (let e = prepare_event et;
          kept = (if al_max_retention l \<le> length (al_recent l) then tl (al_recent l) else al_recent l)
      in l\<lparr>al_recent := kept @ [e],
           al_outbox := map_option (\<lambda>q. q @ [outbox_of e]) (al_outbox l)\<rparr>)"

definition get_recent_events :: "audit_logger \<Rightarrow> int \<Rightarrow> security_event list" where
  "get_recent_events l limit =
     (let n = length (al_recent l);
          k = (if limit \<le> 0 \<or> int n < limit then n else nat limit)
      in drop (n - k) (al_recent l))"

definition logger_ok :: "audit_logger \<Rightarrow> bool" where
  "logger_ok l \<longleftrightarrow> 0 < al_max_retention l \<and> length (al_recent l) \<le> al_max_retention l"

lemma logger_ok_new: "logger_ok (new_audit_logger n b)"
  by (simp add: logger_ok_def new_audit_logger_def)

interpretation audit_log: bounded_history log_event prepare_event al_recent al_max_retention logger_ok
proof
  fix s e assume ok: "logger_ok s"
  show "al_recent (log_event e s) = last_n (al_max_retention s) (al_recent s @ [prepare_event e])"
  proof (cases "length (al_recent s) = al_max_retention s")
    case True
    with ok show ?thesis
      by (cases "al_recent s") (auto simp: log_event_def last_n_def logger_ok_def Let_def)
  next
    case False
    with ok show ?thesis
      by (simp add: log_event_def last_n_def logger_ok_def Let_def)
  qed
  show "al_max_retention (log_event e s) = al_max_retention s"
    by (simp add: log_event_def Let_def)
  show "logger_ok (log_event e s)"
    using ok by (auto simp: log_event_def logger_ok_def Let_def)
  show "0 < al_max_retention s \<and> length (al_recent s) \<le> al_max_retention s"
    using ok by (simp add: logger_ok_def)
qed

lemma sanitize_sensitive:
  "sanitize_metadata m k = Some v \<Longrightarrow> is_sensitive k \<Longrightarrow> v = redacted"
  by (auto simp: sanitize_metadata_def split: option.splits)

lemma prepare_metadata [simp]:
  "se_metadata (prepare_event (e, now)) = Some (sanitize_metadata (se_metadata e))"
  by (simp add: prepare_event_def Let_def)

subsection \<open>Properties\<close>


definition example_event :: security_event where
  "example_event = \<lparr>se_event_id = '''', se_timestamp = None, se_actor = ''ops'', se_role = ''ADMIN'',
     se_action = ''AUTH_FAILURE'', se_resource = ''/v1'', se_result = ''DENIED'',
     se_correlation_id = ''c1'', se_reason = '''', se_client_ip = '''',
     se_metadata = Some [''API_Key'' \<mapsto> ''sk_live'', ''path'' \<mapsto> ''/v1'']\<rparr>"


text \<open>The buffer never holds more than its retention and always the newest events, in the
  order they were logged: after any run it is the last part of the prepared events.\<close>

theorem audit_log_keeps_newest:
  "al_recent (fold log_event es (new_audit_logger n b)) =
     last_n (al_max_retention (new_audit_logger n b)) (map prepare_event es)"
  using audit_log.items_pushes [OF logger_ok_new, of es n b]
  by (simp add: new_audit_logger_def)

end
