(* ===== verification/Tenant_Crypto.thy ===== *)
theory Tenant_Crypto
  imports Base64 Sha256 Tenant_Context
begin

unbundle bit_operations_syntax

text \<open>
  Encryption of personal data, \<open>internal/utils/crypto.go\<close>, and the keys of the tenants with their shredding,
  \<open>internal/utils/kms.go\<close>.  The Galois/Counter mode of \<open>crypto/cipher\<close> is defined over any block cipher:
  what the program relies on does not depend on AES.  Keys are slices that the store and its callers share,
  so they live on a heap.
\<close>

subsection \<open>Galois/Counter mode\<close>

type_synonym block_cipher = "bytes \<Rightarrow> 128 word \<Rightarrow> 128 word"

definition to_block :: "bytes \<Rightarrow> 128 word" where
  "to_block bs = foldl (\<lambda>w b. push_bit 8 w OR ucast b) 0 bs"

definition of_block :: "128 word \<Rightarrow> bytes" where
  "of_block w = map (\<lambda>i. ucast (drop_bit (8 * (15 - i)) w)) [0..<16]"

text \<open>Multiplication modulo the field polynomial, bits counted from the most significant one.\<close>

fun gf_steps :: "nat \<Rightarrow> 128 word \<Rightarrow> 128 word \<Rightarrow> 128 word \<Rightarrow> 128 word" where
  "gf_steps 0 x v z = z"
| "gf_steps (Suc n) x v z =
     gf_steps n x (if bit v 0 then drop_bit 1 v XOR push_bit 120 225 else drop_bit 1 v) (if bit x n then z XOR v else z)"

definition gf_mul :: "128 word \<Rightarrow> 128 word \<Rightarrow> 128 word" where
  "gf_mul x y = gf_steps 128 x y 0"

definition ghash :: "128 word \<Rightarrow> 128 word list \<Rightarrow> 128 word" where
  "ghash h bs = foldl (\<lambda>y b. gf_mul (y XOR b) h) 0 bs"

fun padded_blocks :: "nat \<Rightarrow> bytes \<Rightarrow> 128 word list" where
  "padded_blocks 0 bs = []"
| "padded_blocks (Suc n) bs = to_block (take 16 bs @ replicate (16 - length bs) 0) # padded_blocks n (drop 16 bs)"

definition counter_block :: "bytes \<Rightarrow> nat \<Rightarrow> 128 word" where
  "counter_block nonce i = to_block (nonce @ be_bytes 4 (int i))"

definition keystream :: "block_cipher \<Rightarrow> bytes \<Rightarrow> bytes \<Rightarrow> nat \<Rightarrow> bytes" where
  "keystream E key nonce n = concat (map (\<lambda>i. of_block (E key (counter_block nonce (i + 2)))) [0..<(n + 15) div 16])"

definition xor_stream :: "block_cipher \<Rightarrow> bytes \<Rightarrow> bytes \<Rightarrow> bytes \<Rightarrow> bytes" where
  "xor_stream E key nonce bs = map2 (\<lambda>a b. a XOR b) bs (keystream E key nonce (length bs))"

definition gcm_tag :: "block_cipher \<Rightarrow> bytes \<Rightarrow> bytes \<Rightarrow> bytes \<Rightarrow> bytes" where
  "gcm_tag E key nonce ct =
     of_block (E key (counter_block nonce 1) XOR
       ghash (E key 0) (padded_blocks ((length ct + 15) div 16) ct @ [word_of_int (8 * int (length ct) mod 2 ^ 64)]))"

definition gcm_seal :: "block_cipher \<Rightarrow> bytes \<Rightarrow> bytes \<Rightarrow> bytes \<Rightarrow> bytes" where
  "gcm_seal E key nonce plaintext = (let ct = xor_stream E key nonce plaintext in ct @ gcm_tag E key nonce ct)"

definition gcm_open :: "block_cipher \<Rightarrow> bytes \<Rightarrow> bytes \<Rightarrow> bytes \<Rightarrow> bytes option" where
  "gcm_open E key nonce sealed =
     (if length sealed < 16 then None
      else (let ct = take (length sealed - 16) sealed; tag = drop (length sealed - 16) sealed in
        if tag = gcm_tag E key nonce ct then Some (xor_stream E key nonce ct) else None))"

lemma length_of_block [simp]: "length (of_block w) = 16"
  by (simp add: of_block_def)

lemma length_keystream: "length (keystream E key nonce n) = 16 * ((n + 15) div 16)"
  by (simp add: keystream_def length_concat comp_def sum_list_triv)

lemma length_xor_stream [simp]: "length (xor_stream E key nonce bs) = length bs"
  by (simp add: xor_stream_def length_keystream)

lemma map2_xor_twice: "length bs \<le> length ks \<Longrightarrow> map2 (\<lambda>a b. a XOR b) (map2 (\<lambda>a b. a XOR b) bs ks) ks = (bs :: bytes)"
proof (induction bs ks rule: list_induct2')
  case (4 x xs y ys)
  then show ?case by (simp add: xor.assoc)
qed simp_all

lemma xor_stream_twice: "xor_stream E key nonce (xor_stream E key nonce bs) = bs"
proof -
  have "length bs \<le> length (keystream E key nonce (length bs))" by (simp add: length_keystream)
  moreover have "length (map2 (\<lambda>a b. a XOR b) bs (keystream E key nonce (length bs))) = length bs"
    by (simp add: length_keystream)
  ultimately show ?thesis by (simp only: xor_stream_def map2_xor_twice)
qed

lemma gcm_open_seal: "gcm_open E key nonce (gcm_seal E key nonce p) = Some p"
  by (simp add: gcm_open_def gcm_seal_def Let_def gcm_tag_def xor_stream_twice)

subsection \<open>Encryption\<close>

datatype crypto_error = InvalidKeySize | NonceUnavailable | BadBase64 | CiphertextTooShort | DecryptionFailed

definition key_size_ok :: "bytes \<Rightarrow> bool" where
  "key_size_ok key \<longleftrightarrow> length key = 16 \<or> length key = 24 \<or> length key = 32"

text \<open>The nonce is what the random source returns, \<open>None\<close> when it fails.\<close>

definition encrypt :: "block_cipher \<Rightarrow> bytes option \<Rightarrow> bytes \<Rightarrow> bytes \<Rightarrow> crypto_error + string" where
  "encrypt E random plaintext key =
     (if \<not> key_size_ok key then Inl InvalidKeySize
      else (case random of None \<Rightarrow> Inl NonceUnavailable
        | Some nonce \<Rightarrow> Inr (b64_encode std_alphabet (nonce @ gcm_seal E key nonce plaintext))))"

definition encrypt_string :: "block_cipher \<Rightarrow> bytes option \<Rightarrow> string \<Rightarrow> bytes \<Rightarrow> crypto_error + string" where
  "encrypt_string E random s key = encrypt E random (to_bytes s) key"

definition nonce_size :: nat where "nonce_size = 12"

definition decrypt :: "block_cipher \<Rightarrow> string \<Rightarrow> bytes \<Rightarrow> crypto_error + bytes" where
  "decrypt E encoded key =
     (if \<not> key_size_ok key then Inl InvalidKeySize
      else (case b64_decode std_alphabet encoded of None \<Rightarrow> Inl BadBase64
        | Some data \<Rightarrow>
            if length data < nonce_size then Inl CiphertextTooShort
            else (case gcm_open E key (take nonce_size data) (drop nonce_size data) of
              None \<Rightarrow> Inl DecryptionFailed | Some plaintext \<Rightarrow> Inr plaintext)))"

text \<open>\<open>string(plaintext)\<close>, the bytes read as a string.\<close>

definition from_bytes :: "bytes \<Rightarrow> string" where "from_bytes bs = map (\<lambda>b. char_of (unat b)) bs"

definition decrypt_string :: "block_cipher \<Rightarrow> string \<Rightarrow> bytes \<Rightarrow> crypto_error + string" where
  "decrypt_string E encoded key = (case decrypt E encoded key of Inl e \<Rightarrow> Inl e | Inr p \<Rightarrow> Inr (from_bytes p))"

lemma char_of_byte: "char_of (unat (of_char c :: 8 word)) = c"
proof -
  have "(of_char c :: nat) < 256" by simp
  moreover have "(of_char c :: 8 word) = of_nat (of_char c)" by (simp add: of_nat_of_char)
  ultimately have "unat (of_char c :: 8 word) = of_char c" by (simp add: unat_of_nat)
  then show ?thesis by simp
qed

lemma from_to_bytes [simp]: "from_bytes (to_bytes s) = s"
  by (simp add: from_bytes_def to_bytes_def comp_def char_of_byte)

lemma encrypted_decrypts:
  "key_size_ok key \<Longrightarrow> length nonce = nonce_size \<Longrightarrow>
     \<exists>c. encrypt_string E (Some nonce) s key = Inr c \<and> decrypt_string E c key = Inr s"
  by (simp add: encrypt_string_def encrypt_def decrypt_string_def decrypt_def b64_std.decode_encode gcm_open_seal)



subsection \<open>The keys of the tenants\<close>

datatype kms_error = TenantKeyShredded

record kms =
  km_master_secret :: bytes
  km_tenant_keys :: "string \<rightharpoonup> nat"
  km_shredded :: "string set"
  km_heap :: "nat \<rightharpoonup> bytes"
  km_next :: nat

definition default_master_secret :: string where
  "default_master_secret = ''kms_master_secret_key_risk_engine_32bytes!''"

definition new_mock_kms :: "string \<Rightarrow> kms" where
  "new_mock_kms env = \<lparr>km_master_secret = to_bytes (if env = '''' then default_master_secret else env),
     km_tenant_keys = Map.empty, km_shredded = {}, km_heap = Map.empty, km_next = 0\<rparr>"

definition derive_key :: "bytes \<Rightarrow> string \<Rightarrow> bytes" where
  "derive_key master tenant = hmac_sha256 master (to_bytes tenant)"

text \<open>The result is the slice that the store keeps, as a reference.\<close>

definition get_tenant_key :: "string \<Rightarrow> kms \<Rightarrow> (kms_error + nat) \<times> kms" where
  "get_tenant_key tenant0 k =
     (let tenant = (if tenant0 = '''' then default_tenant_id else tenant0) in
      if tenant \<in> km_shredded k then (Inl TenantKeyShredded, k)
      else (case km_tenant_keys k tenant of
          Some r \<Rightarrow> (Inr r, k)
        | None \<Rightarrow> (Inr (km_next k), k\<lparr>km_heap := (km_heap k)(km_next k \<mapsto> derive_key (km_master_secret k) tenant),
            km_tenant_keys := (km_tenant_keys k)(tenant \<mapsto> km_next k), km_next := Suc (km_next k)\<rparr>)))"

definition shred_tenant_key :: "string \<Rightarrow> kms \<Rightarrow> kms" where
  "shred_tenant_key tenant k =
     (let k1 = (case km_tenant_keys k tenant of None \<Rightarrow> k
          | Some r \<Rightarrow> k\<lparr>km_heap := (km_heap k)(r := map_option (map (\<lambda>b. 0)) (km_heap k r)),
              km_tenant_keys := (km_tenant_keys k)(tenant := None)\<rparr>) in
      k1\<lparr>km_shredded := insert tenant (km_shredded k1)\<rparr>)"

definition is_tenant_shredded :: "string \<Rightarrow> kms \<Rightarrow> bool" where
  "is_tenant_shredded tenant k = (tenant \<in> km_shredded k)"

text \<open>What a caller reads through the slice it was given.\<close>

definition key_bytes :: "nat \<Rightarrow> kms \<Rightarrow> bytes" where "key_bytes r k = the (km_heap k r)"

datatype kms_op = KmsGet string | KmsShred string

fun kms_run :: "kms_op \<Rightarrow> kms \<Rightarrow> kms" where
  "kms_run (KmsGet t) k = snd (get_tenant_key t k)"
| "kms_run (KmsShred t) k = shred_tenant_key t k"

definition kms_ok :: "kms \<Rightarrow> bool" where
  "kms_ok k \<longleftrightarrow> (\<forall>t r. km_tenant_keys k t = Some r \<longrightarrow> km_heap k r = Some (derive_key (km_master_secret k) t) \<and> r < km_next k) \<and>
     (\<forall>t u r. km_tenant_keys k t = Some r \<and> km_tenant_keys k u = Some r \<longrightarrow> t = u) \<and>
     (\<forall>t \<in> km_shredded k. km_tenant_keys k t = None)"

lemma kms_run_ok: "kms_ok k \<Longrightarrow> kms_ok (kms_run op k)"
proof (induction op)
  case (KmsGet t)
  let ?t = "if t = '''' then default_tenant_id else t"
  show ?case
  proof (cases "?t \<in> km_shredded k \<or> km_tenant_keys k ?t \<noteq> None")
    case True
    then show ?thesis using KmsGet by (auto simp: get_tenant_key_def Let_def split: option.split if_splits)
  next
    case False
    let ?k = "kms_run (KmsGet t) k"
    have fields: "km_tenant_keys ?k = (km_tenant_keys k)(?t \<mapsto> km_next k)" "km_shredded ?k = km_shredded k"
      "km_next ?k = Suc (km_next k)" "km_master_secret ?k = km_master_secret k"
      "km_heap ?k = (km_heap k)(km_next k \<mapsto> derive_key (km_master_secret k) ?t)"
      using False by (simp_all add: get_tenant_key_def Let_def)
    have old: "km_heap k q = Some (derive_key (km_master_secret k) u) \<and> q < km_next k" if "km_tenant_keys k u = Some q" for u q
      using that KmsGet unfolding kms_ok_def by blast
    have cases: "u = ?t \<and> q = km_next k \<or> u \<noteq> ?t \<and> km_tenant_keys k u = Some q \<and> q < km_next k"
      if "km_tenant_keys ?k u = Some q" for u q using that old unfolding fields by (auto split: if_splits)
    show ?thesis
      unfolding kms_ok_def
    proof (intro conjI allI impI ballI)
      fix u q assume q: "km_tenant_keys ?k u = Some q"
      show "km_heap ?k q = Some (derive_key (km_master_secret ?k) u)" using cases [OF q] old unfolding fields by auto
      show "q < km_next ?k" using cases [OF q] unfolding fields by auto
    next
      fix u v q assume "km_tenant_keys ?k u = Some q \<and> km_tenant_keys ?k v = Some q"
      then have "u = ?t \<and> q = km_next k \<or> u \<noteq> ?t \<and> km_tenant_keys k u = Some q \<and> q < km_next k"
        "v = ?t \<and> q = km_next k \<or> v \<noteq> ?t \<and> km_tenant_keys k v = Some q \<and> q < km_next k" using cases by blast+
      then show "u = v" using KmsGet unfolding kms_ok_def by (metis less_irrefl)
    next
      fix u assume "u \<in> km_shredded ?k"
      then show "km_tenant_keys ?k u = None" using KmsGet False unfolding fields kms_ok_def by auto
    qed
  qed
next
  case (KmsShred t)
  show ?case
  proof (cases "km_tenant_keys k t")
    case None
    then show ?thesis using KmsShred by (simp add: kms_ok_def shred_tenant_key_def)
  next
    case (Some r)
    let ?k = "shred_tenant_key t k"
    have fields: "km_tenant_keys ?k = (km_tenant_keys k)(t := None)" "km_shredded ?k = insert t (km_shredded k)"
      "km_next ?k = km_next k" "km_master_secret ?k = km_master_secret k" "q \<noteq> r \<Longrightarrow> km_heap ?k q = km_heap k q" for q
      by (simp_all add: shred_tenant_key_def Some)
    have other: "km_tenant_keys k u = Some q \<and> q \<noteq> r" if "km_tenant_keys ?k u = Some q" for u q
    proof -
      have "u \<noteq> t" "km_tenant_keys k u = Some q" using that by (auto simp: fields split: if_splits)
      then show ?thesis using KmsShred Some unfolding kms_ok_def by metis
    qed
    show ?thesis
      unfolding kms_ok_def kms_run.simps
    proof (intro conjI allI impI ballI)
      fix u q assume q: "km_tenant_keys ?k u = Some q"
      show "km_heap ?k q = Some (derive_key (km_master_secret ?k) u)" "q < km_next ?k"
        using other [OF q] KmsShred unfolding kms_ok_def by (metis fields(4,5)) (metis fields(3) KmsShred kms_ok_def other q)
    next
      fix u v q assume "km_tenant_keys ?k u = Some q \<and> km_tenant_keys ?k v = Some q"
      then show "u = v" using other KmsShred unfolding kms_ok_def by metis
    next
      fix u assume "u \<in> km_shredded ?k"
      then show "km_tenant_keys ?k u = None" using KmsShred by (auto simp: fields kms_ok_def)
    qed
  qed
qed

lemma kms_run_master: "km_master_secret (kms_run op k) = km_master_secret k"
  by (cases op) (simp_all add: get_tenant_key_def shred_tenant_key_def Let_def split: option.split)

lemma kms_runs:
  "kms_ok (fold kms_run ops (new_mock_kms env)) \<and> km_master_secret (fold kms_run ops (new_mock_kms env)) = km_master_secret (new_mock_kms env)"
proof (induction ops rule: rev_induct)
  case Nil
  show ?case by (simp add: kms_ok_def new_mock_kms_def)
qed (simp_all add: kms_run_ok kms_run_master)

lemma key_of_tenant:
  assumes "kms_ok k" "get_tenant_key t k = (Inr r, k')"
  shows "key_bytes r k' = derive_key (km_master_secret k) (if t = '''' then default_tenant_id else t)"
  using assms by (auto simp: kms_ok_def get_tenant_key_def key_bytes_def Let_def split: option.splits if_splits)

lemma key_of_reached_tenant:
  assumes "get_tenant_key t (fold kms_run ops (new_mock_kms env)) = (Inr r, k)"
  shows "key_bytes r k = derive_key (km_master_secret (new_mock_kms env)) (if t = '''' then default_tenant_id else t)"
  using key_of_tenant [OF _ assms] kms_runs [of ops env] by simp

text \<open>A fresh store hands out the derived key of every tenant.\<close>

lemma fresh_store_key:
  "\<exists>r k. get_tenant_key t (new_mock_kms env) = (Inr r, k) \<and>
     key_bytes r k = derive_key (km_master_secret (new_mock_kms env)) (if t = '''' then default_tenant_id else t)"
  by (simp add: get_tenant_key_def new_mock_kms_def key_bytes_def Let_def)

lemma shredded_key_refused: "t \<noteq> '''' \<Longrightarrow> fst (get_tenant_key t (shred_tenant_key t k)) = Inl TenantKeyShredded"
  by (simp add: get_tenant_key_def shred_tenant_key_def Let_def split: option.split)

lemma shredding_the_empty_tenant: "default_tenant_id \<notin> km_shredded k \<Longrightarrow> fst (get_tenant_key '''' (shred_tenant_key '''' k)) \<noteq> Inl TenantKeyShredded"
  by (auto simp: get_tenant_key_def shred_tenant_key_def default_tenant_id_def Let_def split: option.split)



text \<open>
  a key that is in use when its tenant is shredded becomes the zero key.  The slice the caller holds is
  zeroed under it, and what the caller then encrypts decrypts under thirty-two zero bytes.
\<close>

theorem key_in_use_becomes_zero:
  assumes "t \<noteq> ''''" "get_tenant_key t (fold kms_run ops (new_mock_kms env)) = (Inr r, k)" "length nonce = nonce_size"
  shows "\<exists>c. encrypt_string E (Some nonce) s (key_bytes r (shred_tenant_key t k)) = Inr c \<and>
    decrypt_string E c (replicate 32 0) = Inr s"
proof -
  have held: "km_tenant_keys k t = Some r"
    using assms(1,2) by (auto simp: get_tenant_key_def Let_def split: if_splits option.splits)
  have "kms_ok k" using kms_run_ok [of "fold kms_run ops (new_mock_kms env)" "KmsGet t"] kms_runs [of ops env] assms(2) by simp
  then have "km_heap k r = Some (derive_key (km_master_secret k) t)" using held by (simp add: kms_ok_def)
  then have zero: "key_bytes r (shred_tenant_key t k) = replicate 32 0"
    using held by (simp add: shred_tenant_key_def key_bytes_def derive_key_def map_replicate_const)
  show ?thesis using encrypted_decrypts [of "replicate 32 0" nonce E s] assms(3) by (simp add: zero key_size_ok_def)
qed

lemma key_in_use_becomes_zero_witness:
  "\<exists>r k c. get_tenant_key ''acme'' (new_mock_kms ''s'') = (Inr r, k) \<and>
     encrypt_string (\<lambda>k b. b) (Some (replicate 12 7)) ''10.0.0.1'' (key_bytes r (shred_tenant_key ''acme'' k)) = Inr c \<and>
     decrypt_string (\<lambda>k b. b) c (replicate 32 0) = Inr ''10.0.0.1''"
proof -
  obtain r k where k: "get_tenant_key ''acme'' (fold kms_run [] (new_mock_kms ''s'')) = (Inr r, k)"
    using fresh_store_key [of "''acme''" "''s''"] by auto
  show ?thesis
    using key_in_use_becomes_zero [OF _ k, of "replicate 12 7" "\<lambda>k b. b" "''10.0.0.1''"] k by (auto simp: nonce_size_def)
qed

end
