(* ===== verification/Spec2Isabelle.thy ===== *)
theory Spec2Isabelle
  imports Alert_Manager Artifact_Verifier Assoc_Lists Base64 Bot_Detector Bot_Types Bounded_History
    Cadence_Analyzer Canary_Router Candidate_Gates Circuit_Breaker Coordinated_Detector Cost_Policy
    Decision_Audit Device_Identity Device_Reputation Device_Velocity Disaster_Recovery Distributed_Lock
    Error_Budget_Policy Feature_Stores Go_Calendar Go_Duration Go_Float Go_Sqrt Go_Value Graph_Engine Graph_Store
    Hash_Chain Idempotency Incident_Engine Ip_Address Latency_Reservoir Layered_Limiter Lease_Lock Ml_Features
    Model_Registry Orphan_Cleaner Outbox Prelude Rate_Limiter Recovery_Manager Replay_Protector
    Retraining_Coordinator Retraining_Lifecycle Retraining_Trigger Retraining_Types Ring_Buffer Rollout Rules_AST
    Rules_Service SLO_Engine Security_Audit Sha256 Tenant_Context Tenant_Crypto Threat_Engine Token_Bucket
begin

text \<open>
  Verification of the decision platform's backend (Go, \<open>src/backend\<close>).

  The program scores payment transactions for risk.  A request passes the tenant middleware, the rate
  limiters and the idempotency layer, is checked for automation, scored by a production model or, for
  a share of the traffic, by a candidate model behind a canary router with a circuit breaker, decided
  by rules and by a cost model, and recorded in a ledger chained by hashes.  Around it stand the
  registry of models with the provenance of their artifacts, the distributed lock of the background
  jobs and the security log.  All Go files named here are under \<open>src/backend/internal\<close>.

  Shared theories.
  \<^item> \<open>Prelude\<close>: times and durations as integers of nanoseconds, strings as lists of bytes, Go's
    \<open>strings\<close>, \<open>strconv\<close> and \<open>hex\<close> functions the code uses, \<open>last_n\<close>, and \<open>Assoc_Lists\<close>: the maps whose
    entries are counted, expire or are ranged over.
  \<^item> \<open>Go_Float\<close> and \<open>Go_Sqrt\<close>: IEEE-754 binary64 with NaN, infinities and round to nearest, defined on
    rationals and executable; \<open>Go_Duration\<close>: conversions and texts of durations; \<open>Sha256\<close>: FIPS 180-4
    over 32-bit words; \<open>Go_Value\<close>: the values of decoded JSON and of the evaluation context.
  \<^item> \<open>Bounded_History\<close>, \<open>Ring_Buffer\<close>, \<open>Hash_Chain\<close>, \<open>Lease_Lock\<close>, \<open>Token_Bucket\<close>: locales with the contracts that several
    components share (buffers that keep the newest entries, a chain of hashes, a lock with leases, a
    bucket of tokens); each is interpreted on the definitions of the components that provide it.

  Components (theory, file, state).
  \<^item> \<open>Circuit_Breaker\<close> (\<open>riskengine/circuit_breaker.go\<close>): record \<open>circuit_breaker\<close>; when it trips, cooldown,
    reset.
  \<^item> \<open>Latency_Reservoir\<close> and \<open>Canary_Router\<close> (\<open>riskengine/canary_router.go\<close>): records \<open>reservoir\<close> and
    \<open>canary_router\<close>; percentiles, routing by the hash of the request, metrics, automatic rollback.
  \<^item> \<open>Cost_Policy\<close> (\<open>riskengine/cost_policy.go\<close>): the decision of least expected cost and its gates.
  \<^item> \<open>Artifact_Verifier\<close> (\<open>provenance.go\<close>, \<open>artifact_verifier.go\<close>) and \<open>Model_Registry\<close> (\<open>model_registry.go\<close>):
    the chain of provenance, the checks of an artifact, and the registry with its reconciliation.
  \<^item> \<open>Retraining_Types\<close>, \<open>Retraining_Trigger\<close>, \<open>Candidate_Gates\<close> and \<open>Retraining_Coordinator\<close> (files of the
    same names, \<open>offline_validator.go\<close>, \<open>dataset_validator.go\<close>): the lifecycle of a candidate.  The record
    \<open>coordinator\<close> holds jobs and candidates in a store, because goroutines share them by reference; a
    \<open>goroutine\<close> has a program counter, and \<open>goroutine_step\<close> is one section of code under a lock.
    \<open>Retraining_Lifecycle\<close> has the invariant of every interleaving and what a freeze prevents, \<open>Rollout\<close>
    the way of one candidate to production, \<open>Recovery_Manager\<close> and \<open>Disaster_Recovery\<close> the restart (the
    process runs the second one).  \<open>Orphan_Cleaner\<close> fails jobs that take too long.  \<open>Go_Calendar\<close> has the dates.
  \<^item> \<open>SLO_Engine\<close> (\<open>slo_engine.go\<close>, \<open>slo_types.go\<close>), \<open>Error_Budget_Policy\<close> (\<open>error_budget_policy.go\<close>),
    \<open>Incident_Engine\<close> (\<open>incident_engine.go\<close>) and \<open>Alert_Manager\<close> (\<open>alert_manager.go\<close>): what is measured of the
    traffic, and the two ways in which it freezes the models: the error budget, and the callback of
    critical incidents.  Incidents live in a store, because a map and a list share them by reference.
  \<^item> \<open>Decision_Audit\<close> (\<open>governance/decision_audit.go\<close>): the ledger as a list of records and its head hash.
  \<^item> \<open>Security_Audit\<close> (\<open>riskengine/audit_trail.go\<close>): the buffer of events and the redaction of metadata.
  \<^item> \<open>Rules_AST\<close> (\<open>rules/ast.go\<close>): rules as a datatype, their evaluation with its errors; \<open>Rules_Service\<close>
    (\<open>rules/service.go\<close>): the table of rules and the maker-checker workflow, each operation as the
    read and the write between which other requests run.
  \<^item> \<open>Distributed_Lock\<close> (\<open>riskengine/distributed_lock.go\<close>): the lock in memory and the lock on Redis.
  \<^item> \<open>Tenant_Context\<close> (\<open>tenant/tenant_context.go\<close>), \<open>Rate_Limiter\<close> (\<open>riskengine/rate_limiter.go\<close>) and
    \<open>Idempotency\<close> (\<open>riskengine/idempotency.go\<close>): the layers in front of the handlers.
  \<^item> \<open>Bot_Types\<close>, \<open>Layered_Limiter\<close>, \<open>Replay_Protector\<close>, \<open>Cadence_Analyzer\<close>, \<open>Coordinated_Detector\<close>,
    \<open>Bot_Detector\<close> (\<open>bot_defense\<close>): the detectors of automation and the engine that combines them.
  \<^item> \<open>Outbox\<close> (\<open>riskengine/outbox.go\<close>): channel, workers and flush, with every interleaving.
  \<^item> \<open>Base64\<close> and \<open>Tenant_Crypto\<close> (\<open>utils/crypto.go\<close>, \<open>utils/kms.go\<close>): the encryption of fields over any block
    cipher, and the tenants' keys, held by reference because shredding zeroes them in place.
  \<^item> \<open>Device_Identity\<close> (\<open>features/device.go\<close>), \<open>Device_Velocity\<close>, \<open>Device_Reputation\<close> (files of the same
    names) and \<open>Feature_Stores\<close> (\<open>velocity.go\<close>, \<open>account_device.go\<close>, \<open>payment_token.go\<close>): the identifier of a device
    and the features kept in Redis, as the commands sent and the use of their answers; \<open>Ml_Features\<close>
    (\<open>riskengine/ml_features.go\<close>): the vector for the model.
  \<^item> \<open>Ip_Address\<close> (Go's parser of addresses and networks) and \<open>Threat_Engine\<close> (\<open>graph/threat_intelligence.go\<close>):
    blocklists and impossible travel; \<open>Graph_Store\<close>, \<open>Graph_Engine\<close> (\<open>graph/graph_adapter.go\<close>,
    \<open>graph/graph_engine.go\<close>, \<open>graph/handler.go\<close>): nodes and edges by identifier, the traversal of three hops,
    and what it says of an entity.

  Conventions.  A struct is a record, an enumeration a datatype, an operation a function from the old
  state to its result and the new state; an operation that holds its object's lock from start to end
  is one step.  Readings of the clock, random tokens, the order in which Go ranges over a map, the
  file system and the answers of a database are arguments.  Errors are values of a sum or option type.
  Signed 64-bit counters are integers where the code only counts events up; conversions and products
  that can leave the range are written out at their width.

  What the lemmas show.  For every component: its functional behaviour on each branch, the invariant
  its operations keep, and its contract: tamper evidence of the ledger, separation of duties in every
  interleaving, at most one execution of a keyed request, mutual exclusion of the locks, the condition
  under which the breaker trips and that tripping stops the candidate, minimal cost of decisions,
  bounds on admitted requests, exact counts of the bot detectors, one active production model.  Where
  the code misses its intention a theorem states the behaviour it has.

  Bounds and fuel.  Recursions are structural or end by a measure; nothing runs on fuel except the
  conversion of numbers to and from text, whose fuel is the number of digits.  The binary64 model
  is exact; bounds on capacities below 2 to the 53rd power make token counts exact integers.
  A clock difference saturates at the range of a duration as in Go.
\<close>

text \<open>
  Not modelled.  HTTP handlers, wiring, SQL and ClickHouse statements beyond the ones named, language model
  clients and the demo data are input and output around the modelled logic; the graph algorithms
  that only tests call (search for paths, ring detector, simulator) are left out.
  Goroutines of one process are modelled where their steps interleave on shared tables (rule service,
  idempotency, locks, retraining lifecycle, outbox); elsewhere the lock that each operation holds makes it one step.
\<close>

end
